(* ===== verification/JS_Prelude.thy ===== *)
theory JS_Prelude
  imports Main "HOL-Library.List_Lexorder" "HOL-Library.Char_ord" "HOL-Library.Sublist"
begin

text \<open>
  What the console packages use of the JavaScript language and its standard library, shared
  by every component: strings and their methods, the values a \<open>throw\<close> carries, actions on an
  explicit world that may throw (what a promise or a synchronous call does), and a bounded
  buffer view of lists.

  A JavaScript string is a sequence of UTF-16 code units. Here it is a \<open>string\<close>, whose
  characters are the code units 0 to 255; white space and case folding are those of the
  standard on that range, in the root locale. An optional property or an \<open>undefined\<close> value is
  \<open>None\<close>.
\<close>

section \<open>Lemma collections\<close>

named_theorems js_eval \<open>definitions unfolded to evaluate string functions on literals\<close>
named_theorems act_simps \<open>evaluation of actions that may throw\<close>

section \<open>Strings\<close>

abbreviation quote :: char where "quote \<equiv> CHR 0x27"
abbreviation dquote :: char where "dquote \<equiv> CHR 0x22"
abbreviation backslash :: char where "backslash \<equiv> CHR 0x5C"
abbreviation newline :: char where "newline \<equiv> CHR 0x0A"

definition code_unit :: "char \<Rightarrow> nat" where [js_eval]:
  "code_unit c = of_char c"

text \<open>\<open>WhiteSpace\<close> and \<open>LineTerminator\<close> of the standard, below U+0100.\<close>

definition is_space :: "char \<Rightarrow> bool" where [js_eval]:
  "is_space c = (let n = code_unit c in 9 \<le> n \<and> n \<le> 13 \<or> n = 32 \<or> n = 160)"

definition trim :: "string \<Rightarrow> string" where [js_eval]:
  "trim s = rev (dropWhile is_space (rev (dropWhile is_space s)))"

definition lower_char :: "char \<Rightarrow> char" where [js_eval]:
  "lower_char c =
     (let n = code_unit c in
      if 65 \<le> n \<and> n \<le> 90 \<or> 192 \<le> n \<and> n \<le> 222 \<and> n \<noteq> 215 then char_of (n + 32) else c)"

definition to_lower :: "string \<Rightarrow> string" where [js_eval]:
  "to_lower s = map lower_char s"

text \<open>\<open>s.replaceAll(c, r)\<close> for a one-character pattern.\<close>

definition replace_all :: "char \<Rightarrow> string \<Rightarrow> string \<Rightarrow> string" where
  "replace_all c r s = concat (map (\<lambda>x. if x = c then r else [x]) s)"

fun join :: "string \<Rightarrow> string list \<Rightarrow> string" where
  "join sep [] = []"
| "join sep [x] = x"
| "join sep (x # y # xs) = x @ sep @ join sep (y # xs)"

fun index_of :: "'a list \<Rightarrow> 'a list \<Rightarrow> nat option" where
  "index_of [] p = (if p = [] then Some 0 else None)"
| "index_of (x # xs) p =
     (if prefix p (x # xs) then Some 0 else map_option Suc (index_of xs p))"

text \<open>The truth value of an optional string: neither \<open>undefined\<close> nor empty.\<close>

definition truthy :: "string option \<Rightarrow> bool" where
  "truthy v = (case v of None \<Rightarrow> False | Some s \<Rightarrow> s \<noteq> [])"

text \<open>\<open>{...(v ? {key: v} : {})}\<close>: a property present only for a truthy value.\<close>

definition keep_truthy :: "string option \<Rightarrow> string option" where
  "keep_truthy v = (if truthy v then v else None)"

text \<open>\<open>v?.trim() ?? ""\<close>\<close>

definition trim_or_empty :: "string option \<Rightarrow> string" where
  "trim_or_empty v = (case v of None \<Rightarrow> [] | Some s \<Rightarrow> trim s)"

lemma truthy_simps [simp]:
  "truthy None = False" "truthy (Some s) = (s \<noteq> [])"
  by (simp_all add: truthy_def)

lemma keep_truthy_simps [simp]:
  "keep_truthy None = None" "keep_truthy (Some []) = None"
  "keep_truthy (Some (c # s)) = Some (c # s)"
  by (simp_all add: keep_truthy_def)

lemma keep_truthy_Some: "keep_truthy v = Some s \<longleftrightarrow> v = Some s \<and> s \<noteq> []"
  by (cases v) (auto simp: keep_truthy_def)

lemma trim_or_empty_simps [simp]:
  "trim_or_empty None = []" "trim_or_empty (Some s) = trim s"
  by (simp_all add: trim_or_empty_def)

lemma trim_Nil [simp]: "trim [] = []"
  by (simp add: trim_def)

lemma dropWhile_idem: "dropWhile P (dropWhile P xs) = dropWhile P xs"
  by (induction xs) auto

lemma hd_dropWhile_rev:
  "xs = [] \<or> \<not> P (hd xs) \<Longrightarrow>
     rev (dropWhile P (rev xs)) = [] \<or> \<not> P (hd (rev (dropWhile P (rev xs))))"
  by (induction xs) (auto simp: dropWhile_append)

lemma dropWhile_stop: "xs = [] \<or> \<not> P (hd xs) \<Longrightarrow> dropWhile P xs = xs"
  by (cases xs) auto

lemma dropWhile_hd: "dropWhile P xs = [] \<or> \<not> P (hd (dropWhile P xs))"
  using hd_dropWhile by blast

lemma trim_idem [simp]: "trim (trim s) = trim s"
proof -
  have "trim s = [] \<or> \<not> is_space (hd (trim s))"
    unfolding trim_def by (rule hd_dropWhile_rev) (rule dropWhile_hd)
  then have "dropWhile is_space (trim s) = trim s"
    by (rule dropWhile_stop)
  then show ?thesis
    unfolding trim_def [of "trim s"] by (simp add: trim_def dropWhile_idem)
qed

lemma set_trim: "set (trim s) \<subseteq> set s"
  unfolding trim_def by (auto dest!: set_dropWhileD)

lemma trim_no_space: "(\<And>c. c \<in> set s \<Longrightarrow> \<not> is_space c) \<Longrightarrow> trim s = s"
proof -
  assume no: "\<And>c. c \<in> set s \<Longrightarrow> \<not> is_space c"
  then have "dropWhile is_space s = s" "dropWhile is_space (rev s) = rev s"
    by (metis dropWhile_stop hd_in_set, metis dropWhile_stop hd_in_set set_rev)
  then show ?thesis by (simp add: trim_def)
qed

lemma to_lower_Nil [simp]: "to_lower [] = []" "to_lower s = [] \<longleftrightarrow> s = []"
  by (simp_all add: to_lower_def)

lemma replace_all_simps [simp]:
  "replace_all c r [] = []"
  "replace_all c r (x # xs) = (if x = c then r else [x]) @ replace_all c r xs"
  by (simp_all add: replace_all_def)

lemma replace_all_append [simp]:
  "replace_all c r (xs @ ys) = replace_all c r xs @ replace_all c r ys"
  by (simp add: replace_all_def)

lemma replace_all_absent: "c \<notin> set s \<Longrightarrow> replace_all c r s = s"
  by (induction s) auto

lemma join_Cons: "xs \<noteq> [] \<Longrightarrow> join sep (x # xs) = x @ sep @ join sep xs"
  by (cases xs) auto

lemma index_of_Some:
  "index_of xs p = Some i \<Longrightarrow> xs = take i xs @ p @ drop (i + length p) xs"
proof (induction xs p arbitrary: i rule: index_of.induct)
  case (1 p)
  then show ?case by (simp split: if_splits)
next
  case (2 x xs p)
  then show ?case
    by (cases "prefix p (x # xs)") (auto elim!: prefixE)
qed

lemma index_of_le: "index_of xs p = Some i \<Longrightarrow> i + length p \<le> length xs"
proof (induction xs p arbitrary: i rule: index_of.induct)
  case (1 p)
  then show ?case by (simp split: if_splits)
next
  case (2 x xs p)
  then show ?case
    by (cases "prefix p (x # xs)") (auto dest: prefix_length_le)
qed

section \<open>Thrown values\<close>

text \<open>
  What a \<open>throw\<close> or a rejected promise may carry: an instance of \<open>Error\<close> with its name, another
  object with its \<open>name\<close> property if that is a string, or a primitive with its \<open>typeof\<close>. The
  classes of the program that extend \<open>Error\<close> have constructors of their own, over a type
  parameter for each.
\<close>

datatype ('op, 'sdk) thrown =
    OperationFailure 'op
  | SdkFailure 'sdk
  | ErrorNamed string
  | ObjectNamed "string option"
  | Primitive string

section \<open>Actions that may throw\<close>

text \<open>
  A call, synchronous or awaited, reads and changes a world and either returns or throws;
  changes made before the throw stay.
\<close>

type_synonym ('w, 'e, 'a) act = "'w \<Rightarrow> ('e + 'a) \<times> 'w"

definition act_return :: "'a \<Rightarrow> ('w, 'e, 'a) act" where [act_simps]:
  "act_return x = (\<lambda>w. (Inr x, w))"

definition act_throw :: "'e \<Rightarrow> ('w, 'e, 'a) act" where [act_simps]:
  "act_throw e = (\<lambda>w. (Inl e, w))"

definition act_bind :: "('w, 'e, 'a) act \<Rightarrow> ('a \<Rightarrow> ('w, 'e, 'b) act) \<Rightarrow> ('w, 'e, 'b) act" where [act_simps]:
  "act_bind m k = (\<lambda>w. case m w of (Inl e, w') \<Rightarrow> (Inl e, w') | (Inr x, w') \<Rightarrow> k x w')"

definition act_catch :: "('w, 'e, 'a) act \<Rightarrow> ('e \<Rightarrow> ('w, 'e, 'a) act) \<Rightarrow> ('w, 'e, 'a) act" where [act_simps]:
  "act_catch m h = (\<lambda>w. case m w of (Inl e, w') \<Rightarrow> h e w' | (Inr x, w') \<Rightarrow> (Inr x, w'))"

text \<open>An effect that cannot throw, and a value that may be an error.\<close>

definition act_effect :: "('w \<Rightarrow> 'a \<times> 'w) \<Rightarrow> ('w, 'e, 'a) act" where [act_simps]:
  "act_effect f = (\<lambda>w. case f w of (x, w') \<Rightarrow> (Inr x, w'))"

definition act_lift :: "'e + 'a \<Rightarrow> ('w, 'e, 'a) act" where [act_simps]:
  "act_lift r = (\<lambda>w. (r, w))"

lemma act_bind_return [simp]: "act_bind (act_return x) k = k x"
  by (simp add: act_simps)

lemma act_bind_assoc: "act_bind (act_bind m k) l = act_bind m (\<lambda>x. act_bind (k x) l)"
  by (rule ext) (simp add: act_simps split: prod.splits sum.splits)

lemma act_bind_Inr:
  "act_bind m k w = (Inr y, w') \<longleftrightarrow> (\<exists>x w1. m w = (Inr x, w1) \<and> k x w1 = (Inr y, w'))"
  by (auto simp: act_simps split: prod.splits sum.splits)

text \<open>The mapped list of \<open>xs.map(f)\<close> when \<open>f\<close> may throw: the first throw ends it.\<close>

fun map_throw :: "('a \<Rightarrow> 'e + 'b) \<Rightarrow> 'a list \<Rightarrow> 'e + 'b list" where
  "map_throw f [] = Inr []"
| "map_throw f (x # xs) =
     (case f x of Inl e \<Rightarrow> Inl e
      | Inr y \<Rightarrow> (case map_throw f xs of Inl e \<Rightarrow> Inl e | Inr ys \<Rightarrow> Inr (y # ys)))"

lemma map_throw_Inr:
  "map_throw f xs = Inr ys \<Longrightarrow> length ys = length xs \<and> list_all2 (\<lambda>x y. f x = Inr y) xs ys"
  by (induction xs arbitrary: ys) (auto split: sum.splits)

lemma map_throw_Inl:
  "map_throw f xs = Inl e \<Longrightarrow> \<exists>x \<in> set xs. f x = Inl e"
  by (induction xs) (auto split: sum.splits)

lemma map_throw_total:
  "(\<And>x. x \<in> set xs \<Longrightarrow> f x = Inr (g x)) \<Longrightarrow> map_throw f xs = Inr (map g xs)"
  by (induction xs) auto

section \<open>The last elements of a list\<close>

definition lastn :: "nat \<Rightarrow> 'a list \<Rightarrow> 'a list" where
  "lastn n xs = drop (length xs - n) xs"

lemma length_lastn [simp]: "length (lastn n xs) = min n (length xs)"
  by (simp add: lastn_def)

lemma lastn_short: "length xs \<le> n \<Longrightarrow> lastn n xs = xs"
  by (simp add: lastn_def)

lemma lastn_lastn_append: "lastn n (lastn n xs @ ys) = lastn n (xs @ ys)"
  by (cases "length xs \<le> n") (simp_all add: lastn_def add.commute)

lemma set_lastn: "set (lastn n xs) \<subseteq> set xs"
  by (simp add: lastn_def set_drop_subset)

end
