(* ===== verification/Gateway_Types.thy ===== *)
theory Gateway_Types
  imports JS_Prelude
begin

text \<open>
  The data of the gateway application: the records, closed enumerations and ports of
  \<open>application/gateway-types.ts\<close> and \<open>application/gateway-probes.ts\<close> of the package
  \<open>gateway-management-ui\<close>, and the probe envelope of \<open>domain-probes/src/domain-probe.ts\<close>.
  A union of string literals is a datatype with a function that gives each literal; page
  numbers, sizes and totals are integers.
\<close>

section \<open>Gateways and placements\<close>

record gateway_record =
  gr_active_sandboxes :: "int option"
  gr_cluster_id :: string
  gr_console_url :: "string option"
  gr_created_at :: "string option"
  gr_created_by :: "string option"
  gr_external_dns :: "string option"
  gr_id :: string
  gr_name :: string
  gr_namespace :: string
  gr_oidc_audience :: "string option"
  gr_oidc_client_id :: "string option"
  gr_oidc_issuer :: "string option"
  gr_phase :: "string option"
  gr_release_id :: string
  gr_status :: "string option"

record gateway_placement =
  pl_id :: string
  pl_name :: string
  pl_provider :: string
  pl_region :: "string option"
  pl_status :: "string option"

record placement_options =
  po_has_more :: bool
  po_items :: "gateway_placement list"

datatype sort_direction = Asc | Desc

fun sort_direction_str :: "sort_direction \<Rightarrow> string" where
  "sort_direction_str Asc = ''asc''"
| "sort_direction_str Desc = ''desc''"

datatype gateway_sort_field =
  SortCluster | SortCreated | SortEndpoint | SortName | SortOwner | SortStatus

fun gateway_sort_field_str :: "gateway_sort_field \<Rightarrow> string" where
  "gateway_sort_field_str SortCluster = ''cluster''"
| "gateway_sort_field_str SortCreated = ''created''"
| "gateway_sort_field_str SortEndpoint = ''endpoint''"
| "gateway_sort_field_str SortName = ''name''"
| "gateway_sort_field_str SortOwner = ''owner''"
| "gateway_sort_field_str SortStatus = ''status''"

record gateway_list_request =
  lr_page :: int
  lr_search :: string
  lr_size :: int
  lr_sort_direction :: sort_direction
  lr_sort_field :: gateway_sort_field

definition gatewayListPageSizes :: "int list" where
  "gatewayListPageSizes = [10, 20, 50, 100]"

definition defaultGatewayListRequest :: gateway_list_request where
  "defaultGatewayListRequest =
     \<lparr>lr_page = 1, lr_search = [], lr_size = gatewayListPageSizes ! 1,
      lr_sort_direction = Asc, lr_sort_field = SortName\<rparr>"

record 'a gateway_page =
  gp_items :: "'a list"
  gp_page :: int
  gp_size :: int
  gp_total :: int

text \<open>An abort signal is an object; the number stands for its identity.\<close>

record invocation_context =
  ic_correlation_id :: string
  ic_signal :: "nat option"

record provision_input =
  pi_cluster_id :: string
  pi_name :: string

section \<open>Service accounts\<close>

datatype account_role = RoleAdmin | RoleUser

fun account_role_str :: "account_role \<Rightarrow> string" where
  "account_role_str RoleAdmin = ''openshell-admin''"
| "account_role_str RoleUser = ''openshell-user''"

datatype account_status =
  StDegraded | StDeleting | StError | StExpired | StProvisioning | StReady | StRevoked | StRevoking

fun account_status_str :: "account_status \<Rightarrow> string" where
  "account_status_str StDegraded = ''degraded''"
| "account_status_str StDeleting = ''deleting''"
| "account_status_str StError = ''error''"
| "account_status_str StExpired = ''expired''"
| "account_status_str StProvisioning = ''provisioning''"
| "account_status_str StReady = ''ready''"
| "account_status_str StRevoked = ''revoked''"
| "account_status_str StRevoking = ''revoking''"

record account_record =
  ac_client_id :: string
  ac_created_at :: string
  ac_created_by :: string
  ac_description :: "string option"
  ac_expires_at :: string
  ac_gateway_id :: string
  ac_id :: string
  ac_last_error :: "string option"
  ac_name :: string
  ac_revoked_at :: "string option"
  ac_role :: account_role
  ac_status :: account_status
  ac_subject :: string
  ac_updated_at :: string

record account_connection =
  cn_token_lifetime :: int
  cn_audience :: string
  cn_client_id :: string
  cn_gateway_endpoint :: "string option"
  cn_gateway_name :: string
  cn_issuer :: string
  cn_token_endpoint :: string

record account_credential = account_connection +
  cr_client_secret :: string

record expiration_policy =
  ep_default_seconds :: int
  ep_maximum_seconds :: int
  ep_minimum_seconds :: int

record account_capabilities =
  cap_allowed_roles :: "account_role list"
  cap_can_create :: bool
  cap_can_manage_all :: bool
  cap_expiration_policy :: expiration_policy

record account_page =
  ap_capabilities :: account_capabilities
  ap_items :: "account_record list"
  ap_page :: int
  ap_size :: int
  ap_total :: int

record account_detail =
  ad_connection :: account_connection
  ad_account :: account_record

record account_create_result =
  acr_credential :: account_credential
  acr_account :: account_record

record account_create_input =
  aci_description :: "string option"
  aci_expires_at :: string
  aci_name :: string
  aci_role :: account_role

datatype account_sort_field =
  AccCreatedAt | AccExpiresAt | AccName | AccRole | AccStatus

fun account_sort_field_str :: "account_sort_field \<Rightarrow> string" where
  "account_sort_field_str AccCreatedAt = ''created_at''"
| "account_sort_field_str AccExpiresAt = ''expires_at''"
| "account_sort_field_str AccName = ''name''"
| "account_sort_field_str AccRole = ''role''"
| "account_sort_field_str AccStatus = ''status''"

record account_list_request =
  alr_order :: sort_direction
  alr_page :: int
  alr_search :: string
  alr_size :: int
  alr_sort :: account_sort_field
  alr_status :: "account_status option"

definition openShellGatewayServiceAccountPageSizes :: "int list" where
  "openShellGatewayServiceAccountPageSizes = [10, 20, 50, 100]"

definition defaultServiceAccountListRequest :: account_list_request where
  "defaultServiceAccountListRequest =
     \<lparr>alr_order = Desc, alr_page = 1, alr_search = [],
      alr_size = openShellGatewayServiceAccountPageSizes ! 1,
      alr_sort = AccCreatedAt, alr_status = None\<rparr>"

section \<open>Failures\<close>

datatype failure_kind = Cancelled | Conflict | Denied | NotFound | Unavailable | Unknown

datatype failure_code = ServiceAccountNameExists

record operation_error =
  oe_code :: "failure_code option"
  oe_kind :: failure_kind
  oe_operation_id :: "string option"

text \<open>An \<open>SDKError\<close> of the generated client: its own code, the HTTP status, the API's code.\<close>

record sdk_error =
  se_code :: string
  se_status :: int
  se_api_code :: "string option"

type_synonym js_error = "(operation_error, sdk_error) thrown"

section \<open>Ports\<close>

record ('w) control_plane =
  cp_create_account :: "string \<Rightarrow> account_create_input \<Rightarrow> invocation_context \<Rightarrow>
    ('w, js_error, account_create_result) act"
  cp_delete_account :: "string \<Rightarrow> string \<Rightarrow> invocation_context \<Rightarrow> ('w, js_error, unit) act"
  cp_find_placements :: "string \<Rightarrow> invocation_context \<Rightarrow> ('w, js_error, placement_options) act"
  cp_get_placement :: "string \<Rightarrow> invocation_context \<Rightarrow> ('w, js_error, gateway_placement) act"
  cp_get_placements :: "string list \<Rightarrow> invocation_context \<Rightarrow>
    ('w, js_error, gateway_placement list) act"
  cp_get_gateway :: "string \<Rightarrow> invocation_context \<Rightarrow> ('w, js_error, gateway_record) act"
  cp_get_account :: "string \<Rightarrow> string \<Rightarrow> invocation_context \<Rightarrow> ('w, js_error, account_detail) act"
  cp_list_gateways :: "gateway_list_request \<Rightarrow> invocation_context \<Rightarrow>
    ('w, js_error, gateway_record gateway_page) act"
  cp_list_accounts :: "string \<Rightarrow> account_list_request \<Rightarrow> invocation_context \<Rightarrow>
    ('w, js_error, account_page) act"
  cp_provision :: "provision_input \<Rightarrow> invocation_context \<Rightarrow> ('w, js_error, gateway_record) act"
  cp_remove :: "string \<Rightarrow> invocation_context \<Rightarrow> ('w, js_error, unit) act"
  cp_rename :: "string \<Rightarrow> string \<Rightarrow> invocation_context \<Rightarrow> ('w, js_error, gateway_record) act"
  cp_revoke_account :: "string \<Rightarrow> string \<Rightarrow> invocation_context \<Rightarrow>
    ('w, js_error, account_record) act"

text \<open>The driving port: the same operations with an optional abort signal.\<close>

record ('w) gateway_operations =
  go_create_account :: "string \<Rightarrow> account_create_input \<Rightarrow> nat option \<Rightarrow>
    ('w, js_error, account_create_result) act"
  go_delete_account :: "string \<Rightarrow> string \<Rightarrow> nat option \<Rightarrow> ('w, js_error, unit) act"
  go_find_placements :: "string \<Rightarrow> nat option \<Rightarrow> ('w, js_error, placement_options) act"
  go_get_placement :: "string \<Rightarrow> nat option \<Rightarrow> ('w, js_error, gateway_placement) act"
  go_get_placements :: "string list \<Rightarrow> nat option \<Rightarrow> ('w, js_error, gateway_placement list) act"
  go_get_gateway :: "string \<Rightarrow> nat option \<Rightarrow> ('w, js_error, gateway_record) act"
  go_get_account :: "string \<Rightarrow> string \<Rightarrow> nat option \<Rightarrow> ('w, js_error, account_detail) act"
  go_list_gateways :: "gateway_list_request \<Rightarrow> nat option \<Rightarrow>
    ('w, js_error, gateway_record gateway_page) act"
  go_list_accounts :: "string \<Rightarrow> account_list_request \<Rightarrow> nat option \<Rightarrow>
    ('w, js_error, account_page) act"
  go_provision :: "provision_input \<Rightarrow> nat option \<Rightarrow> ('w, js_error, gateway_record) act"
  go_remove :: "string \<Rightarrow> nat option \<Rightarrow> ('w, js_error, unit) act"
  go_rename :: "string \<Rightarrow> string \<Rightarrow> nat option \<Rightarrow> ('w, js_error, gateway_record) act"
  go_revoke_account :: "string \<Rightarrow> string \<Rightarrow> nat option \<Rightarrow> ('w, js_error, account_record) act"

record ('w) workflow_runtime =
  rt_createCorrelationId :: "'w \<Rightarrow> string \<times> 'w"
  rt_createTraceId :: "'w \<Rightarrow> string \<times> 'w"
  rt_now :: "'w \<Rightarrow> string \<times> 'w"

section \<open>Probes\<close>

record probe_context =
  pc_correlation_id :: string
  pc_operation_id :: "string option"
  pc_parent_invocation_id :: "string option"
  pc_retry_attempt :: "int option"
  pc_trace_id :: "string option"

record 'f domain_probe =
  dp_context :: probe_context
  dp_fields :: 'f
  dp_name :: string
  dp_occurred_at :: string
  dp_schema_version :: int

datatype gateway_action =
    CreateServiceAccount | DeleteServiceAccount | FindPlacements | GetAction | GetPlacement
  | GetPlacements | ListAction | ListServiceAccounts | Provision | Remove | Rename
  | GetServiceAccount | RevokeServiceAccount

fun gateway_action_str :: "gateway_action \<Rightarrow> string" where
  "gateway_action_str CreateServiceAccount = ''create-service-account''"
| "gateway_action_str DeleteServiceAccount = ''delete-service-account''"
| "gateway_action_str FindPlacements = ''find-placements''"
| "gateway_action_str GetAction = ''get''"
| "gateway_action_str GetPlacement = ''get-placement''"
| "gateway_action_str GetPlacements = ''get-placements''"
| "gateway_action_str ListAction = ''list''"
| "gateway_action_str ListServiceAccounts = ''list-service-accounts''"
| "gateway_action_str Provision = ''provision''"
| "gateway_action_str Remove = ''remove''"
| "gateway_action_str Rename = ''rename''"
| "gateway_action_str GetServiceAccount = ''get-service-account''"
| "gateway_action_str RevokeServiceAccount = ''revoke-service-account''"

datatype probe_outcome = Started | Succeeded | Failed | OCancelled | ODenied | Conflicted

fun probe_outcome_str :: "probe_outcome \<Rightarrow> string" where
  "probe_outcome_str Started = ''started''"
| "probe_outcome_str Succeeded = ''succeeded''"
| "probe_outcome_str Failed = ''failed''"
| "probe_outcome_str OCancelled = ''cancelled''"
| "probe_outcome_str ODenied = ''denied''"
| "probe_outcome_str Conflicted = ''conflicted''"

fun failure_kind_str :: "failure_kind \<Rightarrow> string" where
  "failure_kind_str Cancelled = ''cancelled''"
| "failure_kind_str Conflict = ''conflict''"
| "failure_kind_str Denied = ''denied''"
| "failure_kind_str NotFound = ''not-found''"
| "failure_kind_str Unavailable = ''unavailable''"
| "failure_kind_str Unknown = ''unknown''"

datatype gateway_probe_name =
  WorkflowStarted | WorkflowCompleted | DependencyAttempted | DependencyCompleted

fun probe_name_str :: "gateway_probe_name \<Rightarrow> string" where
  "probe_name_str WorkflowStarted = ''gateway.workflow.started''"
| "probe_name_str WorkflowCompleted = ''gateway.workflow.completed''"
| "probe_name_str DependencyAttempted = ''gateway.dependency.attempted''"
| "probe_name_str DependencyCompleted = ''gateway.dependency.completed''"

record gateway_probe_fields =
  pf_action :: gateway_action
  pf_failure_kind :: "failure_kind option"
  pf_outcome :: probe_outcome

type_synonym gateway_probe = "gateway_probe_fields domain_probe"

section \<open>Placement identifiers\<close>

text \<open>\<open>application/gateway-placement.ts\<close>: trimmed, non-empty, without repetition, in code-unit order.\<close>

definition normalizeGatewayPlacementClusterIds :: "string list \<Rightarrow> string list" where
  "normalizeGatewayPlacementClusterIds ids =
     sort (remdups (filter (\<lambda>s. s \<noteq> []) (map trim ids)))"

lemma normalize_ids_sorted: "sorted (normalizeGatewayPlacementClusterIds ids)"
  by (simp add: normalizeGatewayPlacementClusterIds_def)

lemma normalize_ids_distinct: "distinct (normalizeGatewayPlacementClusterIds ids)"
  by (simp add: normalizeGatewayPlacementClusterIds_def)

lemma set_normalize_ids:
  "set (normalizeGatewayPlacementClusterIds ids) = trim ` set ids - {[]}"
  by (auto simp: normalizeGatewayPlacementClusterIds_def)

lemma normalize_ids_cong:
  "trim ` set xs - {[]} = trim ` set ys - {[]} \<Longrightarrow>
     normalizeGatewayPlacementClusterIds xs = normalizeGatewayPlacementClusterIds ys"
  by (rule sorted_distinct_set_unique)
    (simp_all add: normalize_ids_sorted normalize_ids_distinct set_normalize_ids)

lemma normalize_ids_idem:
  "normalizeGatewayPlacementClusterIds (normalizeGatewayPlacementClusterIds ids)
   = normalizeGatewayPlacementClusterIds ids"
proof (rule normalize_ids_cong)
  show "trim ` set (normalizeGatewayPlacementClusterIds ids) - {[]} = trim ` set ids - {[]}"
    (is "?l = ?r")
  proof
    show "?l \<subseteq> ?r" by (auto simp: set_normalize_ids)
    show "?r \<subseteq> ?l"
    proof
      fix x
      assume x: "x \<in> ?r"
      then have "x = trim x" by auto
      with x show "x \<in> ?l" unfolding set_normalize_ids by blast
    qed
  qed
qed

section \<open>Closed enumerations\<close>

lemma sort_direction_str_inj [simp]: "sort_direction_str a = sort_direction_str b \<longleftrightarrow> a = b"
  by (cases a; cases b) simp_all

lemma gateway_sort_field_str_inj [simp]:
  "gateway_sort_field_str a = gateway_sort_field_str b \<longleftrightarrow> a = b"
  by (cases a; cases b) simp_all

lemma account_status_str_inj [simp]: "account_status_str a = account_status_str b \<longleftrightarrow> a = b"
  by (cases a; cases b) simp_all

lemma account_sort_field_str_inj [simp]:
  "account_sort_field_str a = account_sort_field_str b \<longleftrightarrow> a = b"
  by (cases a; cases b) simp_all

lemma probe_name_str_inj [simp]: "probe_name_str a = probe_name_str b \<longleftrightarrow> a = b"
  by (cases a; cases b) simp_all

end
