(* ===== verification/Domain_Probes.thy ===== *)
theory Domain_Probes
  imports Gateway_Types
begin

text \<open>
  \<open>domain-probes/src/fan-out-domain-probe-publisher.ts\<close>: the publisher that delivers each
  probe to a fixed set of sinks in their configured order, counts the deliveries that threw
  and reports them. A sink and the failure reporter are calls on a world that may throw; the
  publisher keeps its three private fields.
\<close>

section \<open>Deep freezing\<close>

text \<open>
  An object carries its frozen mark and its properties; a primitive has neither. The children
  are frozen before the object, and an object already frozen is returned as it is.
\<close>

datatype 'a js_value = JsPrimitive 'a | JsObject (is_frozen: bool) "(string \<times> 'a js_value) list"

fun deepFreeze :: "'a js_value \<Rightarrow> 'a js_value" where
  "deepFreeze (JsPrimitive p) = JsPrimitive p"
| "deepFreeze (JsObject frozen ps) =
     (let children = map (\<lambda>(k, v). (k, deepFreeze v)) ps
      in if frozen then JsObject frozen children else JsObject True children)"

fun all_frozen :: "'a js_value \<Rightarrow> bool" where
  "all_frozen (JsPrimitive p) = True"
| "all_frozen (JsObject frozen ps) = (frozen \<and> (\<forall>kv \<in> set ps. all_frozen (snd kv)))"

fun thaw :: "'a js_value \<Rightarrow> 'a js_value" where
  "thaw (JsPrimitive p) = JsPrimitive p"
| "thaw (JsObject frozen ps) = JsObject False (map (\<lambda>(k, v). (k, thaw v)) ps)"

lemma all_frozen_deepFreeze: "all_frozen (deepFreeze v)"
  by (induction v rule: deepFreeze.induct) (auto simp: Let_def)

lemma thaw_deepFreeze: "thaw (deepFreeze v) = thaw v"
  by (induction v rule: deepFreeze.induct) (auto simp: Let_def)

lemma deepFreeze_frozen: "all_frozen v \<Longrightarrow> deepFreeze v = v"
  by (induction v rule: deepFreeze.induct) (auto simp: Let_def intro!: map_idI)

section \<open>The publisher\<close>

record ('f, 'w) probe_sink =
  sink_id :: string
  sink_publish :: "'f domain_probe \<Rightarrow> ('w, js_error, unit) act"

record delivery_failure =
  df_error_type :: string
  df_probe_name :: string
  df_schema_version :: int
  df_sink_id :: string

type_synonym 'w failure_reporter = "delivery_failure \<Rightarrow> ('w, js_error, unit) act"

record publisher_state =
  deliveryFailureCount :: nat
  diagnosticFailureCount :: nat
  lastFailure :: "delivery_failure option"

text \<open>\<open>error instanceof Error ? error.name : typeof error\<close>\<close>

fun errorType :: "js_error \<Rightarrow> string" where
  "errorType (OperationFailure e) = ''GatewayOperationError''"
| "errorType (SdkFailure e) = ''SDKError''"
| "errorType (ErrorNamed n) = n"
| "errorType (ObjectNamed n) = ''object''"
| "errorType (Primitive t) = t"

text \<open>The constructor: the message of its \<open>TypeError\<close>, or the fields it initialises.\<close>

definition create_publisher :: "('f, 'w) probe_sink list \<Rightarrow> string + publisher_state" where
  "create_publisher sinks =
     (if length sinks < 2 then Inl ''Domain probe fan-out requires at least two sinks''
      else if \<exists>s \<in> set sinks. trim (sink_id s) = []
      then Inl ''Domain probe sink identifiers must not be blank''
      else if card (set (map sink_id sinks)) \<noteq> length sinks
      then Inl ''Domain probe sink identifiers must be unique''
      else Inr \<lparr>deliveryFailureCount = 0, diagnosticFailureCount = 0, lastFailure = None\<rparr>)"

definition recordFailure ::
    "'w failure_reporter \<Rightarrow> delivery_failure \<Rightarrow> publisher_state \<times> 'w \<Rightarrow> publisher_state \<times> 'w" where
  "recordFailure report failure = (\<lambda>(st, w).
     let st1 = st\<lparr>deliveryFailureCount := deliveryFailureCount st + 1, lastFailure := Some failure\<rparr>
     in case report failure w of
          (Inr _, w') \<Rightarrow> (st1, w')
        | (Inl _, w') \<Rightarrow> (st1\<lparr>diagnosticFailureCount := diagnosticFailureCount st1 + 1\<rparr>, w'))"

definition failure_of :: "('f, 'w) probe_sink \<Rightarrow> 'f domain_probe \<Rightarrow> js_error \<Rightarrow> delivery_failure" where
  "failure_of sink probe e =
     \<lparr>df_error_type = errorType e, df_probe_name = dp_name probe,
      df_schema_version = dp_schema_version probe, df_sink_id = sink_id sink\<rparr>"

definition deliver ::
    "'w failure_reporter \<Rightarrow> 'f domain_probe \<Rightarrow> ('f, 'w) probe_sink \<Rightarrow>
     publisher_state \<times> 'w \<Rightarrow> publisher_state \<times> 'w" where
  "deliver report probe sink = (\<lambda>(st, w).
     case sink_publish sink probe w of
       (Inr _, w') \<Rightarrow> (st, w')
     | (Inl e, w') \<Rightarrow> recordFailure report (failure_of sink probe e) (st, w'))"

fun publish ::
    "'w failure_reporter \<Rightarrow> ('f, 'w) probe_sink list \<Rightarrow> 'f domain_probe \<Rightarrow>
     publisher_state \<times> 'w \<Rightarrow> publisher_state \<times> 'w" where
  "publish report [] probe sw = sw"
| "publish report (sink # sinks) probe sw = publish report sinks probe (deliver report probe sink sw)"

definition reportDeliveryFailure ::
    "'w failure_reporter \<Rightarrow> delivery_failure \<Rightarrow> publisher_state \<times> 'w \<Rightarrow> publisher_state \<times> 'w" where
  "reportDeliveryFailure report failure = recordFailure report failure"

definition healthSnapshot :: "publisher_state \<Rightarrow> nat \<times> nat \<times> delivery_failure option" where
  "healthSnapshot st = (deliveryFailureCount st, diagnosticFailureCount st, lastFailure st)"

section \<open>What the constructor guarantees\<close>

lemma create_publisher_Inr:
  "create_publisher sinks = Inr st \<longleftrightarrow>
     2 \<le> length sinks \<and> (\<forall>s \<in> set sinks. trim (sink_id s) \<noteq> []) \<and> distinct (map sink_id sinks) \<and>
     st = \<lparr>deliveryFailureCount = 0, diagnosticFailureCount = 0, lastFailure = None\<rparr>"
proof -
  have "card (set (map sink_id sinks)) = length sinks \<longleftrightarrow> distinct (map sink_id sinks)"
    using card_distinct [of "map sink_id sinks"] distinct_card [of "map sink_id sinks"]
    by (metis length_map)
  then show ?thesis
    unfolding create_publisher_def by (auto simp: not_less split: if_splits)
qed

section \<open>The failures of one delivery\<close>

text \<open>
  The failures the sinks cause, in order, computed along the same world: the specification
  the counters are compared with.
\<close>

fun failures_of ::
    "'w failure_reporter \<Rightarrow> ('f, 'w) probe_sink list \<Rightarrow> 'f domain_probe \<Rightarrow> 'w \<Rightarrow> delivery_failure list" where
  "failures_of report [] probe w = []"
| "failures_of report (sink # sinks) probe w =
     (case sink_publish sink probe w of
        (Inr _, w') \<Rightarrow> failures_of report sinks probe w'
      | (Inl e, w') \<Rightarrow>
          failure_of sink probe e #
          failures_of report sinks probe (snd (report (failure_of sink probe e) w')))"

lemma recordFailure_fields:
  "deliveryFailureCount (fst (recordFailure report f (st, w))) = deliveryFailureCount st + 1"
  "lastFailure (fst (recordFailure report f (st, w))) = Some f"
  "snd (recordFailure report f (st, w)) = snd (report f w)"
  "diagnosticFailureCount (fst (recordFailure report f (st, w))) =
     diagnosticFailureCount st + (case fst (report f w) of Inl _ \<Rightarrow> 1 | Inr _ \<Rightarrow> 0)"
  by (auto simp: recordFailure_def Let_def split: prod.splits sum.splits)

lemma recordFailure_pair:
  "recordFailure report f (st, w) = (fst (recordFailure report f (st, w)), snd (report f w))"
  by (simp add: prod_eq_iff recordFailure_fields)

lemma deliver_Inr: "sink_publish s p w = (Inr u, w') \<Longrightarrow> deliver report p s (st, w) = (st, w')"
  by (simp add: deliver_def)

lemma deliver_Inl:
  "sink_publish s p w = (Inl e, w') \<Longrightarrow>
     deliver report p s (st, w) = recordFailure report (failure_of s p e) (st, w')"
  by (simp add: deliver_def)

lemma publish_failure_count:
  "deliveryFailureCount (fst (publish report sinks p (st, w)))
     = deliveryFailureCount st + length (failures_of report sinks p w)"
proof (induction sinks arbitrary: st w)
  case (Cons s sinks)
  obtain r w' where r: "sink_publish s p w = (r, w')" by fastforce
  show ?case
  proof (cases r)
    case (Inl e)
    have "deliver report p s (st, w)
        = (fst (recordFailure report (failure_of s p e) (st, w')), snd (report (failure_of s p e) w'))"
      using r Inl by (simp add: deliver_Inl recordFailure_pair [symmetric])
    then show ?thesis using r Inl by (simp add: Cons recordFailure_fields)
  qed (simp add: r deliver_Inr Cons)
qed simp

lemma publish_last_failure:
  "lastFailure (fst (publish report sinks p (st, w)))
     = (if failures_of report sinks p w = [] then lastFailure st
        else Some (last (failures_of report sinks p w)))"
proof (induction sinks arbitrary: st w)
  case (Cons s sinks)
  obtain r w' where r: "sink_publish s p w = (r, w')" by fastforce
  show ?case
  proof (cases r)
    case (Inl e)
    have "deliver report p s (st, w)
        = (fst (recordFailure report (failure_of s p e) (st, w')), snd (report (failure_of s p e) w'))"
      using r Inl by (simp add: deliver_Inl recordFailure_pair [symmetric])
    then show ?thesis using r Inl by (simp add: Cons recordFailure_fields)
  qed (simp add: r deliver_Inr Cons)
qed simp

section \<open>Health over any use of the publisher\<close>

datatype 'f publisher_call = CallPublish "'f domain_probe" | CallReport delivery_failure

fun run_call ::
    "'w failure_reporter \<Rightarrow> ('f, 'w) probe_sink list \<Rightarrow> 'f publisher_call \<Rightarrow>
     publisher_state \<times> 'w \<Rightarrow> publisher_state \<times> 'w" where
  "run_call report sinks (CallPublish p) sw = publish report sinks p sw"
| "run_call report sinks (CallReport f) sw = reportDeliveryFailure report f sw"

definition run_calls ::
    "'w failure_reporter \<Rightarrow> ('f, 'w) probe_sink list \<Rightarrow> 'f publisher_call list \<Rightarrow>
     publisher_state \<times> 'w \<Rightarrow> publisher_state \<times> 'w" where
  "run_calls report sinks cs sw = fold (run_call report sinks) cs sw"

definition health_inv :: "publisher_state \<Rightarrow> bool" where
  "health_inv st \<longleftrightarrow> diagnosticFailureCount st \<le> deliveryFailureCount st \<and>
     (lastFailure st = None \<longleftrightarrow> deliveryFailureCount st = 0)"

lemma health_inv_record: "health_inv (fst sw) \<Longrightarrow> health_inv (fst (recordFailure report f sw))"
  by (cases sw) (auto simp: health_inv_def recordFailure_fields split: sum.splits)

lemma health_inv_deliver: "health_inv (fst sw) \<Longrightarrow> health_inv (fst (deliver report p s sw))"
  by (cases sw) (auto simp: deliver_def intro!: health_inv_record split: prod.splits sum.splits)

lemma health_inv_publish: "health_inv (fst sw) \<Longrightarrow> health_inv (fst (publish report sinks p sw))"
  by (induction sinks arbitrary: sw) (simp_all add: health_inv_deliver)

lemma health_inv_run: "health_inv (fst sw) \<Longrightarrow> health_inv (fst (run_calls report sinks cs sw))"
  unfolding run_calls_def
proof (induction cs arbitrary: sw)
  case (Cons c cs)
  have "health_inv (fst (run_call report sinks c sw))"
    using Cons.prems
    by (cases c) (auto simp: reportDeliveryFailure_def intro: health_inv_publish health_inv_record)
  then show ?case using Cons.IH by simp
qed simp

section \<open>The interface of sinks and reporters\<close>

text \<open>
  What the publisher relies on when a property of the world is to survive a delivery: every
  sink and the reporter keep it, whether they return or throw.
\<close>

locale keeping_sinks =
  fixes sinks :: "('f, 'w) probe_sink list"
    and report :: "'w failure_reporter"
    and keeps :: "'w \<Rightarrow> bool"
  assumes sink_keeps: "s \<in> set sinks \<Longrightarrow> keeps w \<Longrightarrow> keeps (snd (sink_publish s p w))"
    and report_keeps: "keeps w \<Longrightarrow> keeps (snd (report f w))"
begin

lemma record_keeps: "keeps (snd sw) \<Longrightarrow> keeps (snd (recordFailure report f sw))"
  by (cases sw) (simp add: recordFailure_fields report_keeps)

lemma deliver_keeps:
  "s \<in> set sinks \<Longrightarrow> keeps (snd sw) \<Longrightarrow> keeps (snd (deliver report p s sw))"
  using sink_keeps [of s "snd sw" p]
  by (cases sw) (auto simp: deliver_def intro!: record_keeps split: prod.splits sum.splits)

lemma publish_keeps_on:
  "set ss \<subseteq> set sinks \<Longrightarrow> keeps (snd sw) \<Longrightarrow> keeps (snd (publish report ss p sw))"
  by (induction ss arbitrary: sw) (simp_all add: deliver_keeps)

lemma publish_keeps: "keeps (snd sw) \<Longrightarrow> keeps (snd (publish report sinks p sw))"
  by (rule publish_keeps_on) simp_all

lemma calls_keep: "keeps (snd sw) \<Longrightarrow> keeps (snd (run_calls report sinks cs sw))"
  unfolding run_calls_def
proof (induction cs arbitrary: sw)
  case (Cons c cs)
  have "keeps (snd (run_call report sinks c sw))"
    using Cons.prems
    by (cases c) (auto simp: reportDeliveryFailure_def intro: publish_keeps record_keeps)
  then show ?case using Cons.IH by simp
qed simp

end

section \<open>Properties\<close>

text \<open>All failures of a run: those of the sinks and those reported from outside.\<close>

fun run_failures ::
    "'w failure_reporter \<Rightarrow> ('f, 'w) probe_sink list \<Rightarrow> 'f publisher_call list \<Rightarrow>
     publisher_state \<times> 'w \<Rightarrow> delivery_failure list" where
  "run_failures report sinks [] sw = []"
| "run_failures report sinks (CallPublish p # cs) sw =
     failures_of report sinks p (snd sw) @ run_failures report sinks cs (publish report sinks p sw)"
| "run_failures report sinks (CallReport f # cs) sw =
     f # run_failures report sinks cs (reportDeliveryFailure report f sw)"

lemma run_calls_failures:
  "deliveryFailureCount (fst (run_calls report sinks cs sw))
     = deliveryFailureCount (fst sw) + length (run_failures report sinks cs sw)"
  "lastFailure (fst (run_calls report sinks cs sw))
     = (if run_failures report sinks cs sw = [] then lastFailure (fst sw)
        else Some (last (run_failures report sinks cs sw)))"
  unfolding run_calls_def
proof (induction cs arbitrary: sw)
  case (Cons c cs)
  case 1
  show ?case
    by (cases c; cases sw)
      (simp_all add: Cons publish_failure_count reportDeliveryFailure_def recordFailure_fields)
  case 2
  show ?case
    by (cases c; cases sw)
      (simp_all add: Cons publish_last_failure reportDeliveryFailure_def recordFailure_fields)
qed simp_all

text \<open>
  Over any sequence of deliveries and external reports, whatever the sinks and the reporter
  do, the failure count of a new publisher is the number of failures that occurred, its last
  failure is the last of them, and no more diagnostics failed than deliveries did.
\<close>

lemma publisher_health_counts_failures:
  assumes "create_publisher sinks = Inr st"
  shows "let h = healthSnapshot (fst (run_calls report sinks cs (st, w)));
             fs = run_failures report sinks cs (st, w)
         in fst h = length fs \<and> fst (snd h) \<le> length fs \<and>
            snd (snd h) = (if fs = [] then None else Some (last fs))"
proof -
  have st: "deliveryFailureCount st = 0" "diagnosticFailureCount st = 0" "lastFailure st = None"
    using assms by (simp_all add: create_publisher_Inr)
  then have "health_inv (fst (st, w))" by (simp add: health_inv_def)
  from health_inv_run [OF this, of report sinks cs] show ?thesis
    by (simp add: healthSnapshot_def Let_def run_calls_failures st health_inv_def)
qed

lemma publisher_health_counts_failures_witness:
  "let p = \<lparr>dp_context = \<lparr>pc_correlation_id = ''c'', pc_operation_id = None,
         pc_parent_invocation_id = None, pc_retry_attempt = None, pc_trace_id = None\<rparr>,
         dp_fields = True, dp_name = ''gateway.workflow.started'',
         dp_occurred_at = ''t'', dp_schema_version = 1\<rparr>;
       s1 = \<lparr>sink_id = ''a'', sink_publish = (\<lambda>p w. (Inl (ErrorNamed ''TypeError''), w))\<rparr>;
       s2 = \<lparr>sink_id = ''b'', sink_publish = (\<lambda>p w. (Inr (), w + 1))\<rparr>;
       report = (\<lambda>f w. (Inr (), w + 10));
       st = \<lparr>deliveryFailureCount = 0, diagnosticFailureCount = 0, lastFailure = None\<rparr>;
       cs = [CallPublish p, CallPublish p]
   in fst (healthSnapshot (fst (run_calls report [s1, s2] cs (st, 0 :: nat))))
      = length (run_failures report [s1, s2] cs (st, 0)) \<and>
      length (run_failures report [s1, s2] cs (st, 0)) = 2"
  using publisher_health_counts_failures
    [of "[\<lparr>sink_id = ''a'', sink_publish = (\<lambda>p w. (Inl (ErrorNamed ''TypeError''), w))\<rparr>,
          \<lparr>sink_id = ''b'', sink_publish = (\<lambda>p w. (Inr (), w + 1))\<rparr>]"
        "\<lparr>deliveryFailureCount = 0, diagnosticFailureCount = 0, lastFailure = None\<rparr>"
        "\<lambda>f w. (Inr (), w + 10)" "[CallPublish \<lparr>dp_context = \<lparr>pc_correlation_id = ''c'', pc_operation_id = None,
         pc_parent_invocation_id = None, pc_retry_attempt = None, pc_trace_id = None\<rparr>,
         dp_fields = True, dp_name = ''gateway.workflow.started'',
         dp_occurred_at = ''t'', dp_schema_version = 1\<rparr>,
          CallPublish \<lparr>dp_context = \<lparr>pc_correlation_id = ''c'', pc_operation_id = None,
         pc_parent_invocation_id = None, pc_retry_attempt = None, pc_trace_id = None\<rparr>,
         dp_fields = True, dp_name = ''gateway.workflow.started'',
         dp_occurred_at = ''t'', dp_schema_version = 1\<rparr>]" "0 :: nat"]
  by (simp add: create_publisher_Inr js_eval Let_def recordFailure_def deliver_def)

text \<open>
  The snapshot a probe is published with is frozen at every depth and carries the same data,
  and freezing it again changes nothing.
\<close>

lemma probe_snapshot_is_deeply_frozen:
  "all_frozen (deepFreeze v) \<and> thaw (deepFreeze v) = thaw v \<and> deepFreeze (deepFreeze v) = deepFreeze v"
  by (simp add: all_frozen_deepFreeze thaw_deepFreeze deepFreeze_frozen)

end
