(* ===== verification/Gateway_Workflows.thy ===== *)
theory Gateway_Workflows
  imports Gateway_Types
begin

text \<open>
  \<open>application/gateway-operations.ts\<close>: every operation of the gateway application runs its
  control-plane call inside \<open>execute\<close>, which publishes a started/attempted pair before the
  call and a completed pair after it. The world is the state of everything the ports can
  reach; \<open>probes.publish\<close> may throw, as any call may.
\<close>

section \<open>Classification of errors\<close>

text \<open>\<open>"name" in error && error.name === "AbortError"\<close>, for an object.\<close>

fun isCancelled :: "js_error \<Rightarrow> bool" where
  "isCancelled (OperationFailure e) = False"
| "isCancelled (SdkFailure e) = False"
| "isCancelled (ErrorNamed n) = (n = ''AbortError'')"
| "isCancelled (ObjectNamed n) = (n = Some ''AbortError'')"
| "isCancelled (Primitive t) = False"

definition failureKind :: "js_error \<Rightarrow> failure_kind" where
  "failureKind error =
     (if isCancelled error then Cancelled
      else case error of OperationFailure e \<Rightarrow> oe_kind e | _ \<Rightarrow> Unknown)"

definition failureOutcome :: "js_error \<Rightarrow> probe_outcome" where
  "failureOutcome error =
     (let kind = failureKind error
      in if kind = Cancelled then OCancelled
         else if kind = Conflict then Conflicted
         else if kind = Denied then ODenied
         else Failed)"

definition error_operation_id :: "js_error \<Rightarrow> string option" where
  "error_operation_id error = (case error of OperationFailure e \<Rightarrow> oe_operation_id e | _ \<Rightarrow> None)"

section \<open>Probes of a workflow\<close>

definition mk_probe ::
    "gateway_action \<Rightarrow> string \<Rightarrow> string \<Rightarrow> failure_kind option \<Rightarrow> gateway_probe_name \<Rightarrow> string \<Rightarrow>
     probe_outcome \<Rightarrow> string option \<Rightarrow> string option \<Rightarrow> gateway_probe" where
  "mk_probe action correlationId traceId failure name occurredAt outcome operationId parentInvocationId =
     \<lparr>dp_context =
        \<lparr>pc_correlation_id = correlationId, pc_operation_id = operationId,
         pc_parent_invocation_id = parentInvocationId, pc_retry_attempt = None,
         pc_trace_id = Some traceId\<rparr>,
      dp_fields = \<lparr>pf_action = action, pf_failure_kind = failure, pf_outcome = outcome\<rparr>,
      dp_name = probe_name_str name, dp_occurred_at = occurredAt, dp_schema_version = 1\<rparr>"

type_synonym 'w probe_publisher = "gateway_probe \<Rightarrow> ('w, js_error, unit) act"

text \<open>\<open>probes.publish(probe(..., runtime.now(), ...))\<close>: the clock is read first.\<close>

definition publish_probe ::
    "'w probe_publisher \<Rightarrow> 'w workflow_runtime \<Rightarrow> (string \<Rightarrow> gateway_probe) \<Rightarrow>
     ('w, js_error, unit) act" where
  "publish_probe pub rt mk = act_bind (act_effect (rt_now rt)) (\<lambda>t. pub (mk t))"

section \<open>execute\<close>

text \<open>The part before the task: the identifiers, and the two opening probes.\<close>

definition execute_begin ::
    "'w probe_publisher \<Rightarrow> 'w workflow_runtime \<Rightarrow> gateway_action \<Rightarrow>
     ('w, js_error, string \<times> string) act" where
  "execute_begin pub rt action =
     act_bind (act_effect (rt_createCorrelationId rt)) (\<lambda>c.
     act_bind (act_effect (rt_createTraceId rt)) (\<lambda>t.
     act_bind (publish_probe pub rt (\<lambda>now.
       mk_probe action c t None WorkflowStarted now Started None None)) (\<lambda>_.
     act_bind (publish_probe pub rt (\<lambda>now.
       mk_probe action c t None DependencyAttempted now Started None (Some c))) (\<lambda>_.
     act_return (c, t)))))"

text \<open>The rest of the \<open>try\<close> block once the task returned.\<close>

definition execute_success ::
    "'w probe_publisher \<Rightarrow> 'w workflow_runtime \<Rightarrow> gateway_action \<Rightarrow> string \<Rightarrow> string \<Rightarrow>
     ('w, js_error, unit) act" where
  "execute_success pub rt action c t =
     act_bind (publish_probe pub rt (\<lambda>now.
       mk_probe action c t None DependencyCompleted now Succeeded None (Some c))) (\<lambda>_.
     publish_probe pub rt (\<lambda>now.
       mk_probe action c t None WorkflowCompleted now Succeeded None None))"

text \<open>The \<open>catch\<close> block: it publishes and throws the error again.\<close>

definition execute_failure ::
    "'w probe_publisher \<Rightarrow> 'w workflow_runtime \<Rightarrow> gateway_action \<Rightarrow> string \<Rightarrow> string \<Rightarrow> js_error \<Rightarrow>
     ('w, js_error, 'a) act" where
  "execute_failure pub rt action c t error =
     act_bind (publish_probe pub rt (\<lambda>now.
       mk_probe action c t (Some (failureKind error)) DependencyCompleted now
         (failureOutcome error) (error_operation_id error) (Some c))) (\<lambda>_.
     act_bind (publish_probe pub rt (\<lambda>now.
       mk_probe action c t (Some (failureKind error)) WorkflowCompleted now
         (failureOutcome error) (error_operation_id error) None)) (\<lambda>_.
     act_throw error))"

definition execute ::
    "'w probe_publisher \<Rightarrow> 'w workflow_runtime \<Rightarrow> gateway_action \<Rightarrow> nat option \<Rightarrow>
     (invocation_context \<Rightarrow> ('w, js_error, 'a) act) \<Rightarrow> ('w, js_error, 'a) act" where
  "execute pub rt action signal task =
     act_bind (execute_begin pub rt action) (\<lambda>(c, t).
       act_catch
         (act_bind (task \<lparr>ic_correlation_id = c, ic_signal = signal\<rparr>) (\<lambda>result.
          act_bind (execute_success pub rt action c t) (\<lambda>_. act_return result)))
         (execute_failure pub rt action c t))"

section \<open>The operations\<close>

definition createGatewayOperations ::
    "'w control_plane \<Rightarrow> 'w probe_publisher \<Rightarrow> 'w workflow_runtime \<Rightarrow> 'w gateway_operations" where
  "createGatewayOperations controlPlane probes rt =
     \<lparr>go_create_account = (\<lambda>gatewayId input signal.
        execute probes rt CreateServiceAccount signal (cp_create_account controlPlane gatewayId input)),
      go_delete_account = (\<lambda>gatewayId accountId signal.
        execute probes rt DeleteServiceAccount signal (cp_delete_account controlPlane gatewayId accountId)),
      go_find_placements = (\<lambda>search signal.
        execute probes rt FindPlacements signal (cp_find_placements controlPlane (trim search))),
      go_get_placement = (\<lambda>clusterId signal.
        execute probes rt GetPlacement signal (cp_get_placement controlPlane clusterId)),
      go_get_placements = (\<lambda>clusterIds signal.
        execute probes rt GetPlacements signal (cp_get_placements controlPlane clusterIds)),
      go_get_gateway = (\<lambda>gatewayId signal.
        execute probes rt GetAction signal (cp_get_gateway controlPlane gatewayId)),
      go_get_account = (\<lambda>gatewayId accountId signal.
        execute probes rt GetServiceAccount signal (cp_get_account controlPlane gatewayId accountId)),
      go_list_gateways = (\<lambda>request signal.
        execute probes rt ListAction signal (cp_list_gateways controlPlane request)),
      go_list_accounts = (\<lambda>gatewayId request signal.
        execute probes rt ListServiceAccounts signal (cp_list_accounts controlPlane gatewayId request)),
      go_provision = (\<lambda>input signal.
        execute probes rt Provision signal (cp_provision controlPlane input)),
      go_remove = (\<lambda>gatewayId signal.
        execute probes rt Remove signal (cp_remove controlPlane gatewayId)),
      go_rename = (\<lambda>gatewayId name signal.
        execute probes rt Rename signal (cp_rename controlPlane gatewayId name)),
      go_revoke_account = (\<lambda>gatewayId accountId signal.
        execute probes rt RevokeServiceAccount signal (cp_revoke_account controlPlane gatewayId accountId))\<rparr>"

section \<open>Publishers that never throw\<close>

text \<open>
  The contract the workflow relies on: \<open>publish\<close> returns, with an effect on the world. The
  fan-out publisher gives it (theory \<open>Gateway_Observability\<close>).
\<close>

locale quiet_publisher =
  fixes pub :: "'w probe_publisher"
    and deliver_effect :: "gateway_probe \<Rightarrow> 'w \<Rightarrow> 'w"
  assumes quiet: "pub p w = (Inr (), deliver_effect p w)"
begin

text \<open>The world after one published probe, the clock having been read.\<close>

definition stamped :: "'w workflow_runtime \<Rightarrow> (string \<Rightarrow> gateway_probe) \<Rightarrow> 'w \<Rightarrow> 'w" where
  "stamped rt mk w = (case rt_now rt w of (t, w') \<Rightarrow> deliver_effect (mk t) w')"

lemma publish_probe_quiet: "publish_probe pub rt mk w = (Inr (), stamped rt mk w)"
  by (auto simp: publish_probe_def stamped_def act_simps quiet split: prod.splits)

text \<open>The identifiers and the world when the task starts.\<close>

definition opened :: "'w workflow_runtime \<Rightarrow> gateway_action \<Rightarrow> 'w \<Rightarrow> string \<times> string \<times> 'w" where
  "opened rt action w =
     (case rt_createCorrelationId rt w of (c, w1) \<Rightarrow>
      case rt_createTraceId rt w1 of (t, w2) \<Rightarrow>
        (c, t,
         stamped rt (\<lambda>now. mk_probe action c t None DependencyAttempted now Started None (Some c))
          (stamped rt (\<lambda>now. mk_probe action c t None WorkflowStarted now Started None None) w2)))"

text \<open>The world after the two closing probes of an outcome.\<close>

definition closed ::
    "'w workflow_runtime \<Rightarrow> gateway_action \<Rightarrow> string \<Rightarrow> string \<Rightarrow> js_error option \<Rightarrow> 'w \<Rightarrow> 'w" where
  "closed rt action c t err w =
     (let kind = map_option failureKind err;
          outcome = (case err of None \<Rightarrow> Succeeded | Some e \<Rightarrow> failureOutcome e);
          operation = (case err of None \<Rightarrow> None | Some e \<Rightarrow> error_operation_id e)
      in stamped rt (\<lambda>now. mk_probe action c t kind WorkflowCompleted now outcome operation None)
          (stamped rt (\<lambda>now. mk_probe action c t kind DependencyCompleted now outcome operation (Some c)) w))"

lemma execute_begin_quiet:
  "opened rt action w = (c, t, w') \<Longrightarrow> execute_begin pub rt action w = (Inr (c, t), w')"
  by (auto simp: execute_begin_def opened_def act_bind_def act_effect_def act_return_def
      publish_probe_quiet split: prod.splits)

lemma execute_success_quiet:
  "execute_success pub rt action c t w = (Inr (), closed rt action c t None w)"
  by (simp add: execute_success_def closed_def act_bind_def publish_probe_quiet)

lemma execute_failure_quiet:
  "execute_failure pub rt action c t e w = (Inl e, closed rt action c t (Some e) w)"
  by (simp add: execute_failure_def closed_def act_bind_def act_throw_def publish_probe_quiet Let_def)

text \<open>
  What an operation does: it opens, runs the task once on the opened world, closes with the
  outcome of the task, and passes the task's result or error on unchanged.
\<close>

lemma execute_quiet:
  assumes "opened rt action w = (c, t, w1)"
    and "task \<lparr>ic_correlation_id = c, ic_signal = signal\<rparr> w1 = (r, w2)"
  shows "execute pub rt action signal task w =
    (r, closed rt action c t (case r of Inl e \<Rightarrow> Some e | Inr _ \<Rightarrow> None) w2)"
  using assms
  by (cases r)
    (simp_all add: execute_def act_bind_def act_catch_def act_return_def
      execute_begin_quiet execute_success_quiet execute_failure_quiet)

lemma execute_result:
  "fst (execute pub rt action signal task w)
   = (case opened rt action w of (c, t, w1) \<Rightarrow>
        fst (task \<lparr>ic_correlation_id = c, ic_signal = signal\<rparr> w1))"
  by (cases "opened rt action w") (auto simp: execute_quiet [OF _ surjective_pairing])

end

section \<open>A publisher that records\<close>

text \<open>
  The probes an operation publishes, for any task and any runtime: the publisher appends to a
  list kept beside the state that the task and the runtime read and change.
\<close>

definition recording_publisher :: "('s \<times> gateway_probe list) probe_publisher" where
  "recording_publisher p = (\<lambda>(s, ps). (Inr (), (s, ps @ [p])))"

interpretation recording: quiet_publisher recording_publisher "\<lambda>p (s, ps). (s, ps @ [p])"
  by unfold_locales (auto simp: recording_publisher_def)

definition beside :: "('s \<Rightarrow> 'a \<times> 's) \<Rightarrow> 's \<times> 'l \<Rightarrow> 'a \<times> 's \<times> 'l" where
  "beside f = (\<lambda>(s, l). case f s of (x, s') \<Rightarrow> (x, s', l))"

definition runtime_beside :: "'s workflow_runtime \<Rightarrow> ('s \<times> 'l) workflow_runtime" where
  "runtime_beside rt =
     \<lparr>rt_createCorrelationId = beside (rt_createCorrelationId rt),
      rt_createTraceId = beside (rt_createTraceId rt), rt_now = beside (rt_now rt)\<rparr>"

text \<open>The four probes of a workflow with the given time stamps and outcome.\<close>

definition workflow_probes ::
    "gateway_action \<Rightarrow> string \<Rightarrow> string \<Rightarrow> string \<times> string \<times> string \<times> string \<Rightarrow> js_error option \<Rightarrow>
     gateway_probe list" where
  "workflow_probes action c t stamps err =
     (case stamps of (n1, n2, n3, n4) \<Rightarrow>
      let kind = map_option failureKind err;
          outcome = (case err of None \<Rightarrow> Succeeded | Some e \<Rightarrow> failureOutcome e);
          operation = (case err of None \<Rightarrow> None | Some e \<Rightarrow> error_operation_id e)
      in [mk_probe action c t None WorkflowStarted n1 Started None None,
          mk_probe action c t None DependencyAttempted n2 Started None (Some c),
          mk_probe action c t kind DependencyCompleted n3 outcome operation (Some c),
          mk_probe action c t kind WorkflowCompleted n4 outcome operation None])"

definition thrown_of :: "'e + 'a \<Rightarrow> 'e option" where
  "thrown_of r = (case r of Inl e \<Rightarrow> Some e | Inr _ \<Rightarrow> None)"

lemma stamped_beside:
  "recording.stamped (runtime_beside rt) mk (s, ps)
   = (case rt_now rt s of (n, s') \<Rightarrow> (s', ps @ [mk n]))"
  by (simp add: recording.stamped_def runtime_beside_def beside_def split: prod.splits)

lemma opened_beside:
  "recording.opened (runtime_beside rt) action (s, ps) =
    (case rt_createCorrelationId rt s of (c, s1) \<Rightarrow>
     case rt_createTraceId rt s1 of (t, s2) \<Rightarrow>
     case rt_now rt s2 of (n1, s3) \<Rightarrow>
     case rt_now rt s3 of (n2, s4) \<Rightarrow>
       (c, t, s4, ps @ [mk_probe action c t None WorkflowStarted n1 Started None None,
                        mk_probe action c t None DependencyAttempted n2 Started None (Some c)]))"
proof -
  have rt: "rt_createCorrelationId (runtime_beside rt) (s, ps) =
      (case rt_createCorrelationId rt s of (c, s1) \<Rightarrow> (c, s1, ps))"
    "rt_createTraceId (runtime_beside rt) (s1, ps) =
      (case rt_createTraceId rt s1 of (t, s2) \<Rightarrow> (t, s2, ps))" for s1
    by (simp_all add: runtime_beside_def beside_def)
  show ?thesis
    by (simp add: recording.opened_def stamped_beside rt case_prod_beta)
qed

lemma execute_recorded:
  "execute recording_publisher (runtime_beside rt) action signal (\<lambda>ctx. beside (task ctx)) (s, ps) =
    (case rt_createCorrelationId rt s of (c, s1) \<Rightarrow>
     case rt_createTraceId rt s1 of (t, s2) \<Rightarrow>
     case rt_now rt s2 of (n1, s3) \<Rightarrow>
     case rt_now rt s3 of (n2, s4) \<Rightarrow>
     case task \<lparr>ic_correlation_id = c, ic_signal = signal\<rparr> s4 of (r, s5) \<Rightarrow>
     case rt_now rt s5 of (n3, s6) \<Rightarrow>
     case rt_now rt s6 of (n4, s7) \<Rightarrow>
       (r, s7, ps @ workflow_probes action c t (n1, n2, n3, n4) (thrown_of r)))"
proof -
  obtain c s1 where 1: "rt_createCorrelationId rt s = (c, s1)" by fastforce
  obtain t s2 where 2: "rt_createTraceId rt s1 = (t, s2)" by fastforce
  obtain n1 s3 where 3: "rt_now rt s2 = (n1, s3)" by fastforce
  obtain n2 s4 where 4: "rt_now rt s3 = (n2, s4)" by fastforce
  obtain r s5 where 5: "task \<lparr>ic_correlation_id = c, ic_signal = signal\<rparr> s4 = (r, s5)" by fastforce
  obtain n3 s6 where 6: "rt_now rt s5 = (n3, s6)" by fastforce
  obtain n4 s7 where 7: "rt_now rt s6 = (n4, s7)" by fastforce
  let ?ps = "ps @ [mk_probe action c t None WorkflowStarted n1 Started None None,
    mk_probe action c t None DependencyAttempted n2 Started None (Some c)]"
  have op: "recording.opened (runtime_beside rt) action (s, ps) = (c, t, s4, ?ps)"
    by (simp add: opened_beside 1 2 3 4)
  have tk: "beside (task \<lparr>ic_correlation_id = c, ic_signal = signal\<rparr>) (s4, ?ps) = (r, s5, ?ps)"
    by (simp add: beside_def 5)
  show ?thesis
    using recording.execute_quiet [where task = "\<lambda>ctx. beside (task ctx)", OF op tk]
    by (cases r) (simp_all add: 1 2 3 4 5 6 7 recording.closed_def stamped_beside
      workflow_probes_def thrown_of_def Let_def)
qed

section \<open>Properties\<close>

text \<open>
  C1. Every operation, for any task, runtime and abort signal: it draws its identifiers, publishes
  started and attempted, runs the task once under that correlation identifier, publishes both
  completions with the outcome of the task, and returns or throws exactly what the task did.
\<close>

theorem operation_publishes_its_four_probes:
  "execute recording_publisher (runtime_beside rt) action signal (\<lambda>ctx. beside (task ctx)) (s, ps) =
    (case rt_createCorrelationId rt s of (c, s1) \<Rightarrow>
     case rt_createTraceId rt s1 of (t, s2) \<Rightarrow>
     case rt_now rt s2 of (n1, s3) \<Rightarrow>
     case rt_now rt s3 of (n2, s4) \<Rightarrow>
     case task \<lparr>ic_correlation_id = c, ic_signal = signal\<rparr> s4 of (r, s5) \<Rightarrow>
     case rt_now rt s5 of (n3, s6) \<Rightarrow>
     case rt_now rt s6 of (n4, s7) \<Rightarrow>
       (r, s7, ps @ workflow_probes action c t (n1, n2, n3, n4) (thrown_of r)))"
  by (rule execute_recorded)

end
