(* ===== verification/Gateway_Observability.thy ===== *)
theory Gateway_Observability
  imports Domain_Probes Gateway_Workflows
begin

text \<open>
  \<open>app/adapters/observability/gateway-observability.ts\<close>: the publisher of the web console, with
  a bounded list of recent probes, a bounded list of recent delivery failures, the browser's
  performance timeline and any additional sinks. The timeline and the additional sinks act on
  the rest of the world (\<open>ow_rest\<close>) and may throw.
\<close>

section \<open>Bounded buffers\<close>

text \<open>\<open>target.push(value)\<close>, then \<open>target.splice(0, target.length - limit)\<close> when it is too long.\<close>

definition appendBounded :: "'a list \<Rightarrow> 'a \<Rightarrow> nat \<Rightarrow> 'a list" where
  "appendBounded target value limit =
     (let pushed = target @ [value]
      in if length pushed > limit then drop (length pushed - limit) pushed else pushed)"

definition recentProbeLimit :: nat where "recentProbeLimit = 100"
definition recentFailureLimit :: nat where "recentFailureLimit = 20"

lemma appendBounded_lastn: "appendBounded xs x n = lastn n (xs @ [x])"
  by (simp add: appendBounded_def Let_def lastn_def)

lemma fold_appendBounded:
  "fold (\<lambda>x xs. appendBounded xs x n) ys (lastn n xs) = lastn n (xs @ ys)"
proof (induction ys rule: rev_induct)
  case (snoc y ys)
  then show ?case by (simp add: appendBounded_lastn) (metis append_assoc lastn_lastn_append)
qed simp

section \<open>The observability world\<close>

record 'x obs_world =
  ow_recent :: "gateway_probe list"
  ow_failures :: "delivery_failure list"
  ow_rest :: 'x

record 'x performance_target =
  pt_clearMarks :: "string \<Rightarrow> ('x, js_error, unit) act"
  pt_mark :: "string \<Rightarrow> gateway_probe \<Rightarrow> ('x, js_error, unit) act"

text \<open>A call on the rest of the world.\<close>

definition on_rest :: "('x, 'e, 'a) act \<Rightarrow> ('x obs_world, 'e, 'a) act" where
  "on_rest m = (\<lambda>w. case m (ow_rest w) of (r, x) \<Rightarrow> (r, w\<lparr>ow_rest := x\<rparr>))"

definition recentSink :: "(gateway_probe_fields, 'x obs_world) probe_sink" where
  "recentSink =
     \<lparr>sink_id = ''gateway-product-health'',
      sink_publish = (\<lambda>value w. (Inr (), w\<lparr>ow_recent := appendBounded (ow_recent w) value recentProbeLimit\<rparr>))\<rparr>"

definition performanceSink ::
    "'x performance_target \<Rightarrow> (gateway_probe_fields, 'x obs_world) probe_sink" where
  "performanceSink target =
     \<lparr>sink_id = ''gateway-performance'',
      sink_publish = (\<lambda>value. on_rest
        (act_bind (pt_clearMarks target (dp_name value)) (\<lambda>_. pt_mark target (dp_name value) value)))\<rparr>"

definition additional_sink ::
    "(gateway_probe_fields, 'x) probe_sink \<Rightarrow> (gateway_probe_fields, 'x obs_world) probe_sink" where
  "additional_sink s = \<lparr>sink_id = sink_id s, sink_publish = (\<lambda>value. on_rest (sink_publish s value))\<rparr>"

definition observability_sinks ::
    "'x performance_target \<Rightarrow> (gateway_probe_fields, 'x) probe_sink list \<Rightarrow>
     (gateway_probe_fields, 'x obs_world) probe_sink list" where
  "observability_sinks target additionalSinks =
     (case map additional_sink additionalSinks of
        [] \<Rightarrow> [recentSink, performanceSink target]
      | first # remaining \<Rightarrow> [recentSink, first] @ remaining @ [performanceSink target])"

definition report_failure :: "'x obs_world failure_reporter" where
  "report_failure failure w =
     (Inr (), w\<lparr>ow_failures := appendBounded (ow_failures w) failure recentFailureLimit\<rparr>)"

text \<open>The constructor's error, or the initial state.\<close>

definition createGatewayObservability ::
    "'x performance_target \<Rightarrow> (gateway_probe_fields, 'x) probe_sink list \<Rightarrow> 'x \<Rightarrow>
     string + publisher_state \<times> 'x obs_world" where
  "createGatewayObservability target additionalSinks rest =
     (case create_publisher (observability_sinks target additionalSinks) of
        Inl e \<Rightarrow> Inl e
      | Inr st \<Rightarrow> Inr (st, \<lparr>ow_recent = [], ow_failures = [], ow_rest = rest\<rparr>))"

definition observability_publish ::
    "'x performance_target \<Rightarrow> (gateway_probe_fields, 'x) probe_sink list \<Rightarrow>
     (publisher_state \<times> 'x obs_world) probe_publisher" where
  "observability_publish target additionalSinks probe sw =
     (Inr (), publish report_failure (observability_sinks target additionalSinks) probe sw)"

definition observability_run ::
    "'x performance_target \<Rightarrow> (gateway_probe_fields, 'x) probe_sink list \<Rightarrow>
     gateway_probe_fields publisher_call list \<Rightarrow> publisher_state \<times> 'x obs_world \<Rightarrow>
     publisher_state \<times> 'x obs_world" where
  "observability_run target additionalSinks =
     run_calls report_failure (observability_sinks target additionalSinks)"

interpretation observed: quiet_publisher
  "observability_publish target additionalSinks"
  "\<lambda>p. publish report_failure (observability_sinks target additionalSinks) p"
  by unfold_locales (simp add: observability_publish_def)

section \<open>What the sinks leave alone\<close>

lemma on_rest_fields:
  "ow_recent (snd (on_rest m w)) = ow_recent w"
  "ow_failures (snd (on_rest m w)) = ow_failures w"
  by (simp_all add: on_rest_def split: prod.splits)

text \<open>All sinks but the first: they act on the rest of the world only.\<close>

definition later_sinks ::
    "'x performance_target \<Rightarrow> (gateway_probe_fields, 'x) probe_sink list \<Rightarrow>
     (gateway_probe_fields, 'x obs_world) probe_sink list" where
  "later_sinks target additionalSinks = map additional_sink additionalSinks @ [performanceSink target]"

lemma observability_sinks_Cons:
  "observability_sinks target adds = recentSink # later_sinks target adds"
  by (simp add: observability_sinks_def later_sinks_def split: list.split)

lemma later_sink_fields:
  assumes "s \<in> set (later_sinks target adds)"
  shows "ow_recent (snd (sink_publish s p w)) = ow_recent w"
    and "ow_failures (snd (sink_publish s p w)) = ow_failures w"
  using assms
  by (auto simp: later_sinks_def additional_sink_def performanceSink_def on_rest_fields)

lemma recentSink_publish:
  "sink_publish recentSink p w =
     (Inr (), w\<lparr>ow_recent := appendBounded (ow_recent w) p recentProbeLimit\<rparr>)"
  by (simp add: recentSink_def)

interpretation later: keeping_sinks "later_sinks target adds" report_failure "\<lambda>w. ow_recent w = r"
  by unfold_locales (simp_all add: later_sink_fields report_failure_def)

interpretation bounded: keeping_sinks "observability_sinks target adds" report_failure
  "\<lambda>w. length (ow_recent w) \<le> recentProbeLimit \<and> length (ow_failures w) \<le> recentFailureLimit"
  by unfold_locales
    (auto simp: observability_sinks_Cons recentSink_publish later_sink_fields report_failure_def
      appendBounded_lastn)

section \<open>The recent lists\<close>

lemma publish_recent:
  "ow_recent (snd (publish report_failure (observability_sinks target adds) p (st, w)))
   = appendBounded (ow_recent w) p recentProbeLimit"
  using later.publish_keeps
    [of "(st, w\<lparr>ow_recent := appendBounded (ow_recent w) p recentProbeLimit\<rparr>)"
      "appendBounded (ow_recent w) p recentProbeLimit" target adds p]
  by (simp add: observability_sinks_Cons deliver_Inr [OF recentSink_publish])

lemma report_recent:
  "ow_recent (snd (reportDeliveryFailure report_failure f (st, w))) = ow_recent w"
  by (simp add: reportDeliveryFailure_def recordFailure_fields report_failure_def)

text \<open>The probes and the failures of a run of calls, in order.\<close>

fun published :: "'f publisher_call list \<Rightarrow> 'f domain_probe list" where
  "published [] = []"
| "published (CallPublish p # cs) = p # published cs"
| "published (CallReport f # cs) = published cs"

lemma run_recent_lastn:
  "ow_recent w = lastn recentProbeLimit ps \<Longrightarrow>
     ow_recent (snd (observability_run target adds cs (st, w)))
     = lastn recentProbeLimit (ps @ published cs)"
  unfolding observability_run_def run_calls_def
proof (induction cs arbitrary: ps st w)
  case (Cons c cs)
  show ?case
  proof (cases c)
    case (CallPublish p)
    obtain st' w' where sw: "publish report_failure (observability_sinks target adds) p (st, w) = (st', w')"
      by fastforce
    have "ow_recent w' = lastn recentProbeLimit (ps @ [p])"
      using publish_recent [of target adds p st w] Cons.prems
      by (simp add: sw appendBounded_lastn lastn_lastn_append)
    from Cons.IH [OF this, of st'] show ?thesis by (simp add: CallPublish sw)
  next
    case (CallReport f)
    obtain st' w' where sw: "reportDeliveryFailure report_failure f (st, w) = (st', w')"
      by fastforce
    have "ow_recent w' = lastn recentProbeLimit ps"
      using report_recent [of f st w] Cons.prems by (simp add: sw)
    from Cons.IH [OF this, of st'] show ?thesis by (simp add: CallReport sw)
  qed
qed simp

lemma report_failure_list:
  "ow_failures (snd (report_failure f w)) = appendBounded (ow_failures w) f recentFailureLimit"
  by (simp add: report_failure_def)

lemma publish_failures_on:
  assumes "\<And>s p w. s \<in> set ss \<Longrightarrow> ow_failures (snd (sink_publish s p w)) = ow_failures w"
    and "ow_failures w = lastn recentFailureLimit fs"
  shows "ow_failures (snd (publish report_failure ss p (st, w)))
    = lastn recentFailureLimit (fs @ failures_of report_failure ss p w)"
  using assms
proof (induction ss arbitrary: st w fs)
  case (Cons s ss)
  obtain r w' where r: "sink_publish s p w = (r, w')" by fastforce
  have w': "ow_failures w' = lastn recentFailureLimit fs"
    using Cons.prems(1) [of s p w] Cons.prems(2) r by simp
  show ?case
  proof (cases r)
    case (Inl e)
    have d: "deliver report_failure p s (st, w)
        = (fst (recordFailure report_failure (failure_of s p e) (st, w')),
           snd (report_failure (failure_of s p e) w'))"
      using r Inl by (simp add: deliver_Inl recordFailure_pair [symmetric])
    have "ow_failures (snd (report_failure (failure_of s p e) w'))
        = lastn recentFailureLimit (fs @ [failure_of s p e])"
      by (simp add: report_failure_list w' appendBounded_lastn lastn_lastn_append)
    from Cons.IH [OF _ this] Cons.prems(1) show ?thesis by (simp add: d r Inl)
  qed (use Cons r w' in \<open>simp add: deliver_Inr\<close>)
qed simp

lemma observability_sink_failures:
  "s \<in> set (observability_sinks target adds) \<Longrightarrow>
     ow_failures (snd (sink_publish s p w)) = ow_failures w"
  by (auto simp: observability_sinks_Cons recentSink_publish later_sink_fields)

lemma run_failures_lastn:
  "ow_failures w = lastn recentFailureLimit fs \<Longrightarrow>
     ow_failures (snd (observability_run target adds cs (st, w)))
     = lastn recentFailureLimit
        (fs @ run_failures report_failure (observability_sinks target adds) cs (st, w))"
  unfolding observability_run_def run_calls_def
proof (induction cs arbitrary: fs st w)
  case (Cons c cs)
  show ?case
  proof (cases c)
    case (CallPublish p)
    obtain st' w' where sw: "publish report_failure (observability_sinks target adds) p (st, w) = (st', w')"
      by fastforce
    have "ow_failures w' = lastn recentFailureLimit
        (fs @ failures_of report_failure (observability_sinks target adds) p w)"
      using publish_failures_on [where ss = "observability_sinks target adds" and p = p and st = st,
          OF observability_sink_failures Cons.prems]
      by (simp add: sw)
    from Cons.IH [OF this, of st'] show ?thesis by (simp add: CallPublish sw)
  next
    case (CallReport f)
    obtain st' w' where sw: "reportDeliveryFailure report_failure f (st, w) = (st', w')"
      by fastforce
    have "w' = snd (report_failure f w)"
      using arg_cong [OF sw, of snd] by (simp add: reportDeliveryFailure_def recordFailure_fields)
    then have "ow_failures w' = lastn recentFailureLimit (fs @ [f])"
      using Cons.prems by (simp add: report_failure_list appendBounded_lastn lastn_lastn_append)
    from Cons.IH [OF this, of st'] show ?thesis by (simp add: CallReport sw)
  qed
qed simp

section \<open>Properties\<close>

lemma created_Inr:
  "createGatewayObservability target adds rest = Inr (st, w) \<Longrightarrow>
     ow_recent w = [] \<and> ow_failures w = [] \<and>
     create_publisher (observability_sinks target adds) = Inr st"
  by (auto simp: createGatewayObservability_def split: sum.splits if_splits)

text \<open>
  After any sequence of publications and failure reports the console's observability holds
  the last 100 published probes and the last 20 failures, in order, whatever the other sinks do.
\<close>

lemma observability_holds_recent_history:
  assumes "createGatewayObservability target adds rest = Inr sw"
  shows "ow_recent (snd (observability_run target adds cs sw)) = lastn recentProbeLimit (published cs) \<and>
    ow_failures (snd (observability_run target adds cs sw))
      = lastn recentFailureLimit (run_failures report_failure (observability_sinks target adds) cs sw)"
proof -
  obtain st w where sw: "sw = (st, w)" by fastforce
  have "ow_recent w = lastn recentProbeLimit []" "ow_failures w = lastn recentFailureLimit []"
    using created_Inr [OF assms [unfolded sw]] by (simp_all add: lastn_def)
  from run_recent_lastn [OF this(1)] run_failures_lastn [OF this(2)] show ?thesis
    by (simp add: sw)
qed

lemma observability_holds_recent_history_witness:
  "let p = (mk_probe Rename ''c'' ''t'' None WorkflowStarted ''n'' Started None None);
       target = \<lparr>pt_clearMarks = (\<lambda>n x. (Inr (), x + 1)), pt_mark = (\<lambda>n p x. (Inl (ErrorNamed ''X''), x))\<rparr>;
       sw = (\<lparr>deliveryFailureCount = 0, diagnosticFailureCount = 0, lastFailure = None\<rparr>,
             \<lparr>ow_recent = [], ow_failures = [], ow_rest = (0 :: nat)\<rparr>)
   in ow_recent (snd (observability_run target [] [CallPublish p] sw)) = [p] \<and>
      length (ow_failures (snd (observability_run target [] [CallPublish p] sw))) = 1"
  using observability_holds_recent_history
    [of "\<lparr>pt_clearMarks = (\<lambda>n x. (Inr (), x + 1)), pt_mark = (\<lambda>n p x. (Inl (ErrorNamed ''X''), x))\<rparr>"
        "[]" "0 :: nat"
        "(\<lparr>deliveryFailureCount = 0, diagnosticFailureCount = 0, lastFailure = None\<rparr>,
          \<lparr>ow_recent = [], ow_failures = [], ow_rest = 0\<rparr>)" "[CallPublish (mk_probe Rename ''c'' ''t'' None WorkflowStarted ''n'' Started None None)]"]
  by (simp add: createGatewayObservability_def observability_sinks_def recentSink_def
      performanceSink_def on_rest_def create_publisher_def js_eval Let_def lastn_def
      recentProbeLimit_def recentFailureLimit_def act_simps report_failure_def)


end
