(* ===== verification/Gateway_Trace.thy ===== *)
theory Gateway_Trace
  imports Domain_Probes Gateway_Workflows "HOL-Library.Word"
begin

text \<open>
  \<open>app/adapters/observability/gateway-trace-sink.ts\<close>: a probe sink that keeps one entry per
  correlation identifier and turns workflow and dependency probes into spans of an
  OpenTelemetry tracer. The tracer is not part of the repository: the calls the sink makes on
  it are recorded in order, a span being named by the number of the \<open>startSpan\<close> call that made
  it. What the tracer answers (a span's context, whether it is valid) is an argument.
\<close>

section \<open>State\<close>

datatype span_kind = KindInternal | KindClient
datatype span_parent = RootContext | ActiveContext | ChildOf nat
datatype span_status = StatusOk | StatusError

datatype tracer_call =
    StartSpan nat string span_kind "(string \<times> string) list" span_parent
  | SetAttribute nat string string
  | SetStatus nat span_status
  | EndSpan nat

record span_entry =
  en_workflow :: nat
  en_dependency :: "nat option"

record trace_state =
  tr_spans :: "string \<Rightarrow> span_entry option"
  tr_next :: nat
  tr_calls :: "tracer_call list"

definition trace_init :: trace_state where
  "trace_init = \<lparr>tr_spans = Map.empty, tr_next = 0, tr_calls = []\<rparr>"

definition record_calls :: "tracer_call list \<Rightarrow> trace_state \<Rightarrow> trace_state" where
  "record_calls cs st = st\<lparr>tr_calls := tr_calls st @ cs\<rparr>"

definition startSpan ::
    "string \<Rightarrow> span_kind \<Rightarrow> (string \<times> string) list \<Rightarrow> span_parent \<Rightarrow> trace_state \<Rightarrow>
     nat \<times> trace_state" where
  "startSpan name kind attributes parent st =
     (tr_next st,
      st\<lparr>tr_next := Suc (tr_next st),
         tr_calls := tr_calls st @ [StartSpan (tr_next st) name kind attributes parent]\<rparr>)"

section \<open>The sink\<close>

definition isFailureOutcome :: "probe_outcome \<Rightarrow> bool" where
  "isFailureOutcome outcome \<longleftrightarrow> outcome \<noteq> Started \<and> outcome \<noteq> Succeeded"

definition applyTerminalOutcome :: "nat \<Rightarrow> gateway_probe \<Rightarrow> trace_state \<Rightarrow> trace_state" where
  "applyTerminalOutcome span probe =
     record_calls
       ([SetAttribute span ''gateway.outcome'' (probe_outcome_str (pf_outcome (dp_fields probe)))] @
        (case pf_failure_kind (dp_fields probe) of None \<Rightarrow> []
         | Some k \<Rightarrow> [SetAttribute span ''gateway.failure_kind'' (failure_kind_str k)]) @
        (case pc_operation_id (dp_context probe) of None \<Rightarrow> []
         | Some oid \<Rightarrow> [SetAttribute span ''hypershell.operation_id'' oid]) @
        [SetStatus span (if isFailureOutcome (pf_outcome (dp_fields probe)) then StatusError else StatusOk)])"

text \<open>
  \<open>options.beginTrace\<close> primes the trace identifier and may reject it by throwing; then no span
  is started and no entry is made.
\<close>

definition startWorkflow ::
    "(string \<Rightarrow> js_error option) \<Rightarrow> gateway_probe \<Rightarrow> (trace_state, js_error, unit) act" where
  "startWorkflow beginTrace probe st =
     (let start = (\<lambda>parent.
            case startSpan (''gateway.workflow.'' @ gateway_action_str (pf_action (dp_fields probe)))
                   KindInternal
                   [(''gateway.action'', gateway_action_str (pf_action (dp_fields probe)))] parent st of
              (workflow, st') \<Rightarrow>
                (Inr (), st'\<lparr>tr_spans := (tr_spans st')
                   (pc_correlation_id (dp_context probe) \<mapsto>
                      \<lparr>en_workflow = workflow, en_dependency = None\<rparr>)\<rparr>))
      in case pc_trace_id (dp_context probe) of
           None \<Rightarrow> start ActiveContext
         | Some traceId \<Rightarrow>
             (case beginTrace traceId of Some e \<Rightarrow> (Inl e, st) | None \<Rightarrow> start RootContext))"

definition startDependency :: "gateway_probe \<Rightarrow> trace_state \<Rightarrow> trace_state" where
  "startDependency probe st =
     (case tr_spans st (pc_correlation_id (dp_context probe)) of
        None \<Rightarrow> st
      | Some entry \<Rightarrow>
          (case startSpan (''gateway.dependency.'' @ gateway_action_str (pf_action (dp_fields probe)))
                  KindClient
                  [(''gateway.action'', gateway_action_str (pf_action (dp_fields probe)))]
                  (ChildOf (en_workflow entry)) st of
             (dependency, st') \<Rightarrow>
               st'\<lparr>tr_spans := (tr_spans st')
                 (pc_correlation_id (dp_context probe) \<mapsto> entry\<lparr>en_dependency := Some dependency\<rparr>)\<rparr>))"

definition completeDependency :: "gateway_probe \<Rightarrow> trace_state \<Rightarrow> trace_state" where
  "completeDependency probe st =
     (case tr_spans st (pc_correlation_id (dp_context probe)) of
        None \<Rightarrow> st
      | Some entry \<Rightarrow>
          (case en_dependency entry of
             None \<Rightarrow> st
           | Some dependency \<Rightarrow>
               (let st' = record_calls [EndSpan dependency] (applyTerminalOutcome dependency probe st)
                in st'\<lparr>tr_spans := (tr_spans st')
                     (pc_correlation_id (dp_context probe) \<mapsto> entry\<lparr>en_dependency := None\<rparr>)\<rparr>)))"

definition completeWorkflow :: "gateway_probe \<Rightarrow> trace_state \<Rightarrow> trace_state" where
  "completeWorkflow probe st =
     (case tr_spans st (pc_correlation_id (dp_context probe)) of
        None \<Rightarrow> st
      | Some entry \<Rightarrow>
          (let st1 = (case en_dependency entry of None \<Rightarrow> st | Some d \<Rightarrow> record_calls [EndSpan d] st);
               st2 = record_calls [EndSpan (en_workflow entry)]
                       (applyTerminalOutcome (en_workflow entry) probe st1)
           in st2\<lparr>tr_spans := (tr_spans st2)(pc_correlation_id (dp_context probe) := None)\<rparr>))"

text \<open>The \<open>switch\<close> on the probe's name; a name outside the four cases does nothing.\<close>

definition trace_publish ::
    "(string \<Rightarrow> js_error option) \<Rightarrow> gateway_probe \<Rightarrow> (trace_state, js_error, unit) act" where
  "trace_publish beginTrace probe st =
     (if dp_name probe = probe_name_str WorkflowStarted then startWorkflow beginTrace probe st
      else if dp_name probe = probe_name_str DependencyAttempted then (Inr (), startDependency probe st)
      else if dp_name probe = probe_name_str DependencyCompleted then (Inr (), completeDependency probe st)
      else if dp_name probe = probe_name_str WorkflowCompleted then (Inr (), completeWorkflow probe st)
      else (Inr (), st))"

definition traceSink ::
    "(string \<Rightarrow> js_error option) \<Rightarrow> (gateway_probe_fields, trace_state) probe_sink" where
  "traceSink beginTrace = \<lparr>sink_id = ''gateway-trace'', sink_publish = trace_publish beginTrace\<rparr>"

section \<open>Propagation\<close>

record span_context =
  sc_trace_id :: string
  sc_span_id :: string
  sc_trace_flags :: "8 word"
  sc_trace_state :: "string option"

record trace_context =
  tc_traceparent :: string
  tc_tracestate :: "string option"

text \<open>The \<open>SAMPLED\<close> flag of the W3C context is the lowest bit.\<close>

definition sampled :: "8 word \<Rightarrow> bool" where "sampled flags = bit flags 0"

definition traceParentFor ::
    "(nat \<Rightarrow> span_context) \<Rightarrow> (span_context \<Rightarrow> bool) \<Rightarrow> string \<Rightarrow> trace_state \<Rightarrow>
     trace_context option" where
  "traceParentFor context_of isSpanContextValid correlationId st =
     (case (case tr_spans st correlationId of
              None \<Rightarrow> None
            | Some entry \<Rightarrow>
                Some (case en_dependency entry of Some d \<Rightarrow> d | None \<Rightarrow> en_workflow entry)) of
        None \<Rightarrow> None
      | Some span \<Rightarrow>
          (let sc = context_of span
           in if \<not> isSpanContextValid sc then None
              else let flags = (if sampled (sc_trace_flags sc) then ''01'' else ''00'');
                       traceparent = ''00-'' @ sc_trace_id sc @ ''-'' @ sc_span_id sc @ ''-'' @ flags
                   in Some \<lparr>tc_traceparent = traceparent, tc_tracestate = keep_truthy (sc_trace_state sc)\<rparr>))"

section \<open>The sink connected to the telemetry runtime\<close>

datatype log_context = NoSpanContext | SpanContext string string bool

datatype telemetry_call =
    EmitLog string nat "(string \<times> string) list" log_context
  | AddCounter string int "(string \<times> string) list" log_context

record tracing_state =
  tg_trace :: trace_state
  tg_signals :: "telemetry_call list"

text \<open>\<open>parent.slice(3, 35)\<close>, \<open>parent.slice(36, 52)\<close> and \<open>parent.endsWith("-01")\<close>.\<close>

definition log_context_of :: "string option \<Rightarrow> log_context" where
  "log_context_of parent =
     (case parent of
        None \<Rightarrow> NoSpanContext
      | Some p \<Rightarrow> SpanContext (take 32 (drop 3 p)) (take 16 (drop 36 p)) (suffix ''-01'' p))"

definition on_trace :: "(trace_state, 'e, 'a) act \<Rightarrow> (tracing_state, 'e, 'a) act" where
  "on_trace m = (\<lambda>ts. case m (tg_trace ts) of (r, st) \<Rightarrow> (r, ts\<lparr>tg_trace := st\<rparr>))"

definition probe_starts :: "gateway_probe \<Rightarrow> bool" where
  "probe_starts probe \<longleftrightarrow>
     dp_name probe = probe_name_str WorkflowStarted \<or> dp_name probe = probe_name_str DependencyAttempted"

definition emit_signals ::
    "(nat \<Rightarrow> span_context) \<Rightarrow> (span_context \<Rightarrow> bool) \<Rightarrow> gateway_probe \<Rightarrow> tracing_state \<Rightarrow> tracing_state" where
  "emit_signals context_of valid probe ts =
     (let parent = map_option tc_traceparent
            (traceParentFor context_of valid (pc_correlation_id (dp_context probe)) (tg_trace ts));
          ctx = log_context_of parent;
          attributes =
            [(''gateway.action'', gateway_action_str (pf_action (dp_fields probe))),
             (''gateway.outcome'', probe_outcome_str (pf_outcome (dp_fields probe))),
             (''gateway.probe'', dp_name probe)]
      in ts\<lparr>tg_signals := tg_signals ts @
           [EmitLog (dp_name probe) (if isFailureOutcome (pf_outcome (dp_fields probe)) then 17 else 9)
              attributes ctx,
            AddCounter ''gateway.probes'' 1 attributes ctx]\<rparr>)"

definition tracing_publish ::
    "(string \<Rightarrow> js_error option) \<Rightarrow> (nat \<Rightarrow> span_context) \<Rightarrow> (span_context \<Rightarrow> bool) \<Rightarrow> gateway_probe \<Rightarrow>
     (tracing_state, js_error, unit) act" where
  "tracing_publish beginTrace context_of valid probe =
     act_bind
       (if probe_starts probe then on_trace (trace_publish beginTrace probe) else act_return ())
       (\<lambda>_. act_bind (act_effect (\<lambda>ts. ((), emit_signals context_of valid probe ts)))
       (\<lambda>_. if probe_starts probe then act_return () else on_trace (trace_publish beginTrace probe)))"

definition tracingSink ::
    "(string \<Rightarrow> js_error option) \<Rightarrow> (nat \<Rightarrow> span_context) \<Rightarrow> (span_context \<Rightarrow> bool) \<Rightarrow>
     (gateway_probe_fields, tracing_state) probe_sink" where
  "tracingSink beginTrace context_of valid =
     \<lparr>sink_id = ''gateway-trace'', sink_publish = tracing_publish beginTrace context_of valid\<rparr>"

section \<open>Started and ended spans\<close>

fun started_span :: "tracer_call \<Rightarrow> nat list" where
  "started_span (StartSpan n name kind attrs parent) = [n]"
| "started_span c = []"

fun ended_span :: "tracer_call \<Rightarrow> nat list" where
  "ended_span (EndSpan n) = [n]"
| "ended_span c = []"

definition started :: "trace_state \<Rightarrow> nat list" where
  "started st = concat (map started_span (tr_calls st))"

definition ended :: "trace_state \<Rightarrow> nat list" where
  "ended st = concat (map ended_span (tr_calls st))"

text \<open>The spans an entry holds open.\<close>

definition entry_spans :: "span_entry \<Rightarrow> nat set" where
  "entry_spans e = insert (en_workflow e) (set_option (en_dependency e))"

text \<open>The effect of each case of the switch on the entries and on the two lists.\<close>

named_theorems trace_step \<open>effect of the sink's operations\<close>

lemma trace_init_view [trace_step]:
  "tr_spans trace_init = Map.empty" "tr_next trace_init = 0"
  "started trace_init = []" "ended trace_init = []"
  by (simp_all add: trace_init_def started_def ended_def)

lemma record_calls_view [trace_step]:
  "tr_spans (record_calls cs st) = tr_spans st" "tr_next (record_calls cs st) = tr_next st"
  "started (record_calls cs st) = started st @ concat (map started_span cs)"
  "ended (record_calls cs st) = ended st @ concat (map ended_span cs)"
  by (simp_all add: record_calls_def started_def ended_def)

lemma spans_update_view [trace_step]:
  "started (st\<lparr>tr_spans := f\<rparr>) = started st" "ended (st\<lparr>tr_spans := f\<rparr>) = ended st"
  by (simp_all add: started_def ended_def)

lemma applyTerminalOutcome_view [trace_step]:
  "tr_spans (applyTerminalOutcome n p st) = tr_spans st"
  "tr_next (applyTerminalOutcome n p st) = tr_next st"
  "started (applyTerminalOutcome n p st) = started st"
  "ended (applyTerminalOutcome n p st) = ended st"
  by (auto simp: applyTerminalOutcome_def trace_step split: option.splits)

lemma startSpan_view:
  "startSpan name kind attrs parent st = (n, st') \<Longrightarrow>
     n = tr_next st \<and> tr_spans st' = tr_spans st \<and> tr_next st' = Suc (tr_next st) \<and>
     started st' = started st @ [tr_next st] \<and> ended st' = ended st"
  by (auto simp: startSpan_def started_def ended_def)

definition opens :: "string \<Rightarrow> nat \<Rightarrow> nat option \<Rightarrow> trace_state \<Rightarrow> trace_state \<Rightarrow> bool" where
  "opens c w d st st' \<longleftrightarrow>
     tr_spans st' = (tr_spans st)(c \<mapsto> \<lparr>en_workflow = w, en_dependency = d\<rparr>) \<and>
     tr_next st' = Suc (tr_next st) \<and> started st' = started st @ [tr_next st] \<and> ended st' = ended st"

lemma startWorkflow_Inl: "startWorkflow bt p st = (Inl e, st') \<Longrightarrow> st' = st"
  by (auto simp: startWorkflow_def startSpan_def Let_def split: option.splits prod.splits)

lemma startWorkflow_Inr:
  "startWorkflow bt p st = (Inr u, st') \<Longrightarrow>
     opens (pc_correlation_id (dp_context p)) (tr_next st) None st st'"
  by (auto simp: startWorkflow_def opens_def Let_def trace_step
      dest!: startSpan_view split: option.splits prod.splits)

lemma startDependency_None:
  "tr_spans st (pc_correlation_id (dp_context p)) = None \<Longrightarrow> startDependency p st = st"
  by (simp add: startDependency_def)

lemma startDependency_Some:
  assumes "tr_spans st (pc_correlation_id (dp_context p)) = Some e"
  shows "opens (pc_correlation_id (dp_context p)) (en_workflow e) (Some (tr_next st)) st
    (startDependency p st)"
  using assms
  by (auto simp: startDependency_def opens_def trace_step dest!: startSpan_view split: prod.splits)

lemma completeDependency_idle:
  "(\<And>e. tr_spans st (pc_correlation_id (dp_context p)) = Some e \<Longrightarrow> en_dependency e = None) \<Longrightarrow>
     completeDependency p st = st"
  by (simp add: completeDependency_def split: option.split)

lemma completeDependency_Some:
  assumes "tr_spans st (pc_correlation_id (dp_context p)) = Some e" "en_dependency e = Some d"
  shows "tr_spans (completeDependency p st) =
      (tr_spans st)(pc_correlation_id (dp_context p) \<mapsto> e\<lparr>en_dependency := None\<rparr>)"
    "tr_next (completeDependency p st) = tr_next st"
    "started (completeDependency p st) = started st"
    "ended (completeDependency p st) = ended st @ [d]"
  using assms by (simp_all add: completeDependency_def Let_def trace_step)

lemma completeWorkflow_None:
  "tr_spans st (pc_correlation_id (dp_context p)) = None \<Longrightarrow> completeWorkflow p st = st"
  by (simp add: completeWorkflow_def)

lemma completeWorkflow_Some:
  assumes "tr_spans st (pc_correlation_id (dp_context p)) = Some e"
  shows "tr_spans (completeWorkflow p st) = (tr_spans st)(pc_correlation_id (dp_context p) := None)"
    "tr_next (completeWorkflow p st) = tr_next st"
    "started (completeWorkflow p st) = started st"
    "ended (completeWorkflow p st) =
       ended st @ (case en_dependency e of None \<Rightarrow> [] | Some d \<Rightarrow> [d]) @ [en_workflow e]"
  using assms by (simp_all add: completeWorkflow_def Let_def trace_step split: option.split)

section \<open>No span is ended twice\<close>

definition span_inv :: "trace_state \<Rightarrow> bool" where
  "span_inv st \<longleftrightarrow>
     started st = [0..<tr_next st] \<and> distinct (ended st) \<and> set (ended st) \<subseteq> {..<tr_next st} \<and>
     (\<forall>c e. tr_spans st c = Some e \<longrightarrow>
        entry_spans e \<subseteq> {..<tr_next st} - set (ended st) \<and> en_dependency e \<noteq> Some (en_workflow e)) \<and>
     (\<forall>c c' e e'. tr_spans st c = Some e \<longrightarrow> tr_spans st c' = Some e' \<longrightarrow> c \<noteq> c' \<longrightarrow>
        entry_spans e \<inter> entry_spans e' = {})"

lemma span_inv_init: "span_inv trace_init"
  by (simp add: span_inv_def trace_step)

lemma span_invI:
  assumes "started st = [0..<tr_next st]" "distinct (ended st)"
    and "\<And>n. n \<in> set (ended st) \<Longrightarrow> n < tr_next st"
    and "\<And>c e n. tr_spans st c = Some e \<Longrightarrow> n \<in> entry_spans e \<Longrightarrow> n < tr_next st \<and> n \<notin> set (ended st)"
    and "\<And>c e. tr_spans st c = Some e \<Longrightarrow> en_dependency e \<noteq> Some (en_workflow e)"
    and "\<And>c c' e e' n. tr_spans st c = Some e \<Longrightarrow> tr_spans st c' = Some e' \<Longrightarrow>
      n \<in> entry_spans e \<Longrightarrow> n \<in> entry_spans e' \<Longrightarrow> c = c'"
  shows "span_inv st"
  unfolding span_inv_def using assms by (auto simp: subset_iff disjoint_iff)

lemma span_invD:
  assumes "span_inv st"
  shows "started st = [0..<tr_next st]" "distinct (ended st)"
    and "n \<in> set (ended st) \<Longrightarrow> n < tr_next st"
    and "tr_spans st c = Some e \<Longrightarrow> n \<in> entry_spans e \<Longrightarrow> n < tr_next st \<and> n \<notin> set (ended st)"
    and "tr_spans st c = Some e \<Longrightarrow> en_dependency e \<noteq> Some (en_workflow e)"
    and "tr_spans st c = Some e \<Longrightarrow> tr_spans st c' = Some e' \<Longrightarrow>
      n \<in> entry_spans e \<Longrightarrow> n \<in> entry_spans e' \<Longrightarrow> c = c'"
  using assms unfolding span_inv_def
  by (blast, blast, blast, blast, blast, metis disjoint_iff)

text \<open>A new entry holds the new span and, at most, spans of the entry it replaces.\<close>

lemma span_inv_opens:
  assumes inv: "span_inv st" and o: "opens c w d st st'" and d: "d \<noteq> Some w"
    and new: "\<And>n. n = w \<or> d = Some n \<Longrightarrow>
      n = tr_next st \<or> (\<exists>e. tr_spans st c = Some e \<and> n \<in> entry_spans e)"
  shows "span_inv st'"
proof -
  let ?e = "\<lparr>en_workflow = w, en_dependency = d\<rparr>"
  have sp: "tr_spans st' = (tr_spans st)(c \<mapsto> ?e)" "tr_next st' = Suc (tr_next st)"
    "started st' = started st @ [tr_next st]" "ended st' = ended st"
    using o by (simp_all add: opens_def)
  have origin: "n = tr_next st \<and> c' = c \<or> (\<exists>e0. tr_spans st c' = Some e0 \<and> n \<in> entry_spans e0)"
    if "tr_spans st' c' = Some e'" "n \<in> entry_spans e'" for c' e' n
    using that new [of n] by (auto simp: sp entry_spans_def split: if_splits)
  have fresh: "tr_next st \<notin> set (ended st)"
    using span_invD(3) [OF inv] by blast
  have old: "n < tr_next st" if "tr_spans st c' = Some e0" "n \<in> entry_spans e0" for c' e0 n
    using span_invD(4) [OF inv that] by simp
  show ?thesis
  proof (rule span_invI)
    show "n < tr_next st' \<and> n \<notin> set (ended st')"
      if "tr_spans st' c' = Some e'" "n \<in> entry_spans e'" for c' e' n
      using origin [OF that] fresh span_invD(4) [OF inv] by (auto simp: sp less_Suc_eq)
    show "c1 = c2"
      if "tr_spans st' c1 = Some e1" "tr_spans st' c2 = Some e2"
        "n \<in> entry_spans e1" "n \<in> entry_spans e2" for c1 c2 e1 e2 n
      using origin [OF that(1,3)] origin [OF that(2,4)] old span_invD(6) [OF inv] by blast
    show "en_dependency e' \<noteq> Some (en_workflow e')" if "tr_spans st' c' = Some e'" for c' e'
      using that d span_invD(5) [OF inv] by (auto simp: sp split: if_splits)
  qed (use span_invD [OF inv] in \<open>auto simp: sp less_Suc_eq\<close>)
qed

text \<open>Ending spans of one entry, which keeps at most its other spans.\<close>

lemma span_inv_ends:
  assumes inv: "span_inv st" and e: "tr_spans st c = Some e"
    and sp: "tr_spans st' = (tr_spans st)(c := eo)" "tr_next st' = tr_next st"
      "started st' = started st" "ended st' = ended st @ ds"
    and ds: "distinct ds" "set ds \<subseteq> entry_spans e"
    and eo: "\<And>e'. eo = Some e' \<Longrightarrow>
      entry_spans e' \<subseteq> entry_spans e - set ds \<and> en_dependency e' \<noteq> Some (en_workflow e')"
  shows "span_inv st'"
proof -
  have origin: "\<exists>e0. tr_spans st c' = Some e0 \<and> n \<in> entry_spans e0 \<and> n \<notin> set ds"
    if "tr_spans st' c' = Some e'" "n \<in> entry_spans e'" for c' e' n
  proof (cases "c' = c")
    case True
    then show ?thesis using that eo e by (auto simp: sp)
  next
    case False
    then have "tr_spans st c' = Some e'" using that by (simp add: sp)
    moreover have "n \<notin> entry_spans e"
      using span_invD(6) [OF inv e \<open>tr_spans st c' = Some e'\<close> _ that(2)] False by blast
    ultimately show ?thesis using that(2) ds(2) by blast
  qed
  have dsn: "n < tr_next st \<and> n \<notin> set (ended st)" if "n \<in> set ds" for n
    using span_invD(4) [OF inv e] that ds(2) by blast
  show ?thesis
  proof (rule span_invI)
    show "n < tr_next st' \<and> n \<notin> set (ended st')"
      if "tr_spans st' c' = Some e'" "n \<in> entry_spans e'" for c' e' n
      using origin [OF that] span_invD(4) [OF inv] by (auto simp: sp)
    show "c1 = c2"
      if "tr_spans st' c1 = Some e1" "tr_spans st' c2 = Some e2"
        "n \<in> entry_spans e1" "n \<in> entry_spans e2" for c1 c2 e1 e2 n
      using origin [OF that(1,3)] origin [OF that(2,4)] span_invD(6) [OF inv] by blast
    show "en_dependency e' \<noteq> Some (en_workflow e')" if "tr_spans st' c' = Some e'" for c' e'
      using that eo span_invD(5) [OF inv] by (auto simp: sp split: if_splits)
  qed (use span_invD [OF inv] ds dsn in \<open>auto simp: sp\<close>)
qed

lemma span_inv_startWorkflow: "span_inv st \<Longrightarrow> span_inv (snd (startWorkflow bt p st))"
proof -
  assume inv: "span_inv st"
  obtain r st' where r: "startWorkflow bt p st = (r, st')" by fastforce
  show ?thesis
  proof (cases r)
    case (Inr u)
    from startWorkflow_Inr [OF r [unfolded Inr]] have "span_inv st'"
      by (rule span_inv_opens [OF inv]) auto
    then show ?thesis by (simp add: r)
  next
    case (Inl e)
    then have "st' = st" using r by (simp add: startWorkflow_Inl)
    then show ?thesis by (simp add: r inv)
  qed
qed

lemma span_inv_startDependency: "span_inv st \<Longrightarrow> span_inv (startDependency p st)"
proof -
  assume inv: "span_inv st"
  show ?thesis
  proof (cases "tr_spans st (pc_correlation_id (dp_context p))")
    case (Some e)
    have w: "en_workflow e \<in> entry_spans e" by (simp add: entry_spans_def)
    then have "en_workflow e < tr_next st" using span_invD(4) [OF inv Some] by blast
    then show ?thesis
      using Some w by (intro span_inv_opens [OF inv startDependency_Some [OF Some]]) auto
  qed (simp add: startDependency_None inv)
qed

lemma span_inv_completeDependency: "span_inv st \<Longrightarrow> span_inv (completeDependency p st)"
proof -
  assume inv: "span_inv st"
  show ?thesis
  proof (cases "\<exists>e d. tr_spans st (pc_correlation_id (dp_context p)) = Some e \<and> en_dependency e = Some d")
    case True
    then obtain e d where e: "tr_spans st (pc_correlation_id (dp_context p)) = Some e"
      and d: "en_dependency e = Some d" by blast
    have "d \<noteq> en_workflow e" using span_invD(5) [OF inv e] d by simp
    then show ?thesis
      by (intro span_inv_ends [OF inv e completeDependency_Some [OF e d]])
        (auto simp: entry_spans_def d)
  next
    case False
    then show ?thesis using completeDependency_idle [of st p] inv by (metis not_Some_eq)
  qed
qed

lemma span_inv_completeWorkflow: "span_inv st \<Longrightarrow> span_inv (completeWorkflow p st)"
proof -
  assume inv: "span_inv st"
  show ?thesis
  proof (cases "tr_spans st (pc_correlation_id (dp_context p))")
    case (Some e)
    have "en_dependency e \<noteq> Some (en_workflow e)" using span_invD(5) [OF inv Some] .
    then show ?thesis
      by (intro span_inv_ends [OF inv Some completeWorkflow_Some [OF Some]])
        (auto simp: entry_spans_def split: option.splits)
  qed (simp add: completeWorkflow_None inv)
qed

lemma span_inv_publish: "span_inv st \<Longrightarrow> span_inv (snd (trace_publish bt p st))"
  by (simp add: trace_publish_def span_inv_startWorkflow span_inv_startDependency
      span_inv_completeDependency span_inv_completeWorkflow)

definition trace_run :: "(string \<Rightarrow> js_error option) \<Rightarrow> gateway_probe list \<Rightarrow> trace_state \<Rightarrow> trace_state" where
  "trace_run bt ps st = fold (\<lambda>p s. snd (trace_publish bt p s)) ps st"

lemma trace_run_simps [simp]:
  "trace_run bt [] st = st"
  "trace_run bt (p # ps) st = trace_run bt ps (snd (trace_publish bt p st))"
  "trace_run bt (ps @ qs) st = trace_run bt qs (trace_run bt ps st)"
  by (simp_all add: trace_run_def)

lemma span_inv_run: "span_inv st \<Longrightarrow> span_inv (trace_run bt ps st)"
  by (induction ps arbitrary: st) (simp_all add: span_inv_publish)

section \<open>Complete workflows leave no span open\<close>

text \<open>
  The probes of one correlation identifier come in the order the workflow publishes them, but
  workflows may interleave in any way. \<open>phase\<close> counts the probes of an identifier so far.
\<close>

definition protocol :: "string list" where
  "protocol = map probe_name_str
     [WorkflowStarted, DependencyAttempted, DependencyCompleted, WorkflowCompleted]"

definition probes_of :: "string \<Rightarrow> gateway_probe list \<Rightarrow> gateway_probe list" where
  "probes_of c ps = filter (\<lambda>p. pc_correlation_id (dp_context p) = c) ps"

definition in_protocol :: "gateway_probe list \<Rightarrow> bool" where
  "in_protocol ps \<longleftrightarrow> (\<forall>c. prefix (map dp_name (probes_of c ps)) protocol)"

definition phase :: "gateway_probe list \<Rightarrow> string \<Rightarrow> nat" where
  "phase ps c = length (probes_of c ps)"

definition in_phase :: "nat \<Rightarrow> span_entry option \<Rightarrow> bool" where
  "in_phase k eo \<longleftrightarrow>
     (if k = 0 \<or> k = 4 then eo = None
      else \<exists>e. eo = Some e \<and> (en_dependency e \<noteq> None \<longleftrightarrow> k = 2))"

definition held :: "trace_state \<Rightarrow> nat \<Rightarrow> bool" where
  "held st n \<longleftrightarrow> n \<in> set (ended st) \<or> (\<exists>c e. tr_spans st c = Some e \<and> n \<in> entry_spans e)"

definition balanced :: "trace_state \<Rightarrow> bool" where
  "balanced st \<longleftrightarrow> (\<forall>n \<in> set (started st). held st n)"

lemma balancedI:
  assumes bal: "balanced st"
    and new: "\<And>n. n \<in> set (started st') \<Longrightarrow> n \<in> set (started st) \<or> held st' n"
    and en: "set (ended st) \<subseteq> set (ended st')"
    and other: "\<And>c'. c' \<noteq> c \<Longrightarrow> tr_spans st' c' = tr_spans st c'"
    and own: "\<And>e n. tr_spans st c = Some e \<Longrightarrow> n \<in> entry_spans e \<Longrightarrow> held st' n"
  shows "balanced st'"
  unfolding balanced_def
proof
  fix n
  assume "n \<in> set (started st')"
  then consider "held st' n" | "n \<in> set (started st)" using new by blast
  then show "held st' n"
  proof cases
    case 2
    then have "held st n" using bal by (simp add: balanced_def)
    then consider "n \<in> set (ended st)" | c' e where "tr_spans st c' = Some e" "n \<in> entry_spans e"
      by (auto simp: held_def)
    then show ?thesis
    proof cases
      case 1
      then show ?thesis using en by (auto simp: held_def)
    next
      case (2 c' e)
      show ?thesis
      proof (cases "c' = c")
        case True
        then show ?thesis using 2 own by simp
      next
        case False
        then show ?thesis using 2 other [of c'] unfolding held_def by metis
      qed
    qed
  qed simp
qed

definition follows :: "gateway_probe list \<Rightarrow> trace_state \<Rightarrow> bool" where
  "follows ps st \<longleftrightarrow> balanced st \<and> (\<forall>c. in_phase (phase ps c) (tr_spans st c))"

lemma probes_of_snoc:
  "probes_of c (ps @ [p]) = probes_of c ps @ (if pc_correlation_id (dp_context p) = c then [p] else [])"
  by (simp add: probes_of_def)

lemma in_protocol_snoc:
  assumes "in_protocol (ps @ [p])"
  shows "in_protocol ps"
    and "phase ps (pc_correlation_id (dp_context p)) < 4"
    and "dp_name p = protocol ! phase ps (pc_correlation_id (dp_context p))"
proof -
  let ?c = "pc_correlation_id (dp_context p)"
  show "in_protocol ps"
    using assms unfolding in_protocol_def probes_of_snoc by (auto intro: append_prefixD)
  have pre: "prefix (map dp_name (probes_of ?c ps) @ [dp_name p]) protocol"
    using assms unfolding in_protocol_def by (auto simp: probes_of_snoc dest: spec [of _ ?c])
  then have "length (map dp_name (probes_of ?c ps) @ [dp_name p]) \<le> 4"
    using prefix_length_le [OF pre] by (simp add: protocol_def)
  then show "phase ps ?c < 4" by (simp add: phase_def)
  from pre obtain zs where "protocol = (map dp_name (probes_of ?c ps) @ [dp_name p]) @ zs"
    by (auto elim: prefixE)
  then show "dp_name p = protocol ! phase ps ?c"
    using nth_append_length [of "map dp_name (probes_of ?c ps)" "dp_name p" zs]
    by (simp add: phase_def)
qed

lemma follows_snocI:
  assumes fol: "follows ps st" and c: "c = pc_correlation_id (dp_context p)"
    and bal: "balanced st'" and other: "\<And>c'. c' \<noteq> c \<Longrightarrow> tr_spans st' c' = tr_spans st c'"
    and here: "in_phase (Suc (phase ps c)) (tr_spans st' c)"
  shows "follows (ps @ [p]) st'"
  unfolding follows_def
proof (intro conjI allI)
  fix c'
  show "in_phase (phase (ps @ [p]) c') (tr_spans st' c')"
  proof (cases "c' = c")
    case True
    then show ?thesis using here c by (simp add: phase_def probes_of_snoc)
  next
    case False
    then have "phase (ps @ [p]) c' = phase ps c'" using c by (auto simp: phase_def probes_of_snoc)
    then show ?thesis using fol other [OF False] by (simp add: follows_def)
  qed
qed (rule bal)

lemma startWorkflow_accepted:
  "(\<And>t. bt t = None) \<Longrightarrow> \<exists>st'. startWorkflow bt p st = (Inr (), st')"
  by (auto simp: startWorkflow_def startSpan_def Let_def split: option.split)

lemma follows_step:
  assumes fol: "follows ps st" and pr: "in_protocol (ps @ [p])" and bt: "\<And>t. bt t = None"
  shows "follows (ps @ [p]) (snd (trace_publish bt p st))"
proof -
  let ?c = "pc_correlation_id (dp_context p)"
  let ?k = "phase ps ?c"
  have bal: "balanced st" and ph: "in_phase ?k (tr_spans st ?c)"
    using fol by (auto simp: follows_def)
  have name: "dp_name p = protocol ! ?k" using in_protocol_snoc(3) [OF pr] .
  consider "?k = 0" | "?k = 1" | "?k = 2" | "?k = 3" using in_protocol_snoc(2) [OF pr] by linarith
  then show ?thesis
  proof cases
    case 1
    obtain st' where st': "startWorkflow bt p st = (Inr (), st')" using startWorkflow_accepted bt by blast
    have o: "opens ?c (tr_next st) None st st'" by (rule startWorkflow_Inr [OF st'])
    have pub: "snd (trace_publish bt p st) = st'"
      using name 1 st' by (simp add: trace_publish_def protocol_def)
    have none: "tr_spans st ?c = None" using ph 1 by (simp add: in_phase_def)
    have "balanced st'"
      by (rule balancedI [OF bal, where c = ?c])
        (use o none in \<open>auto simp: opens_def held_def entry_spans_def split: if_splits\<close>)
    then show ?thesis unfolding pub
      by (rule follows_snocI [OF fol refl]) (use o 1 in \<open>auto simp: opens_def in_phase_def\<close>)
  next
    case 2
    then obtain e where e: "tr_spans st ?c = Some e" "en_dependency e = None"
      using ph by (auto simp: in_phase_def)
    note o = startDependency_Some [OF e(1)]
    have pub: "snd (trace_publish bt p st) = startDependency p st"
      using name 2 by (simp add: trace_publish_def protocol_def)
    have "balanced (startDependency p st)"
      by (rule balancedI [OF bal, where c = ?c])
        (use o e in \<open>auto simp: opens_def held_def entry_spans_def split: if_splits\<close>)
    then show ?thesis unfolding pub
      by (rule follows_snocI [OF fol refl]) (use o 2 in \<open>auto simp: opens_def in_phase_def\<close>)
  next
    case 3
    then obtain e d where e: "tr_spans st ?c = Some e" "en_dependency e = Some d"
      using ph by (auto simp: in_phase_def)
    note f = completeDependency_Some [OF e]
    have pub: "snd (trace_publish bt p st) = completeDependency p st"
      using name 3 by (simp add: trace_publish_def protocol_def)
    have "balanced (completeDependency p st)"
      by (rule balancedI [OF bal, where c = ?c])
        (use f e in \<open>auto simp: held_def entry_spans_def split: if_splits\<close>)
    then show ?thesis unfolding pub
      by (rule follows_snocI [OF fol refl]) (use f 3 in \<open>auto simp: in_phase_def\<close>)
  next
    case 4
    then obtain e where e: "tr_spans st ?c = Some e" "en_dependency e = None"
      using ph by (auto simp: in_phase_def)
    note f = completeWorkflow_Some [OF e(1)]
    have pub: "snd (trace_publish bt p st) = completeWorkflow p st"
      using name 4 by (simp add: trace_publish_def protocol_def)
    have "balanced (completeWorkflow p st)"
      by (rule balancedI [OF bal, where c = ?c])
        (use f e in \<open>auto simp: held_def entry_spans_def split: if_splits\<close>)
    then show ?thesis unfolding pub
      by (rule follows_snocI [OF fol refl]) (use f 4 in \<open>auto simp: in_phase_def\<close>)
  qed
qed

lemma follows_run:
  "in_protocol ps \<Longrightarrow> (\<And>t. bt t = None) \<Longrightarrow> follows ps (trace_run bt ps trace_init)"
proof (induction ps rule: rev_induct)
  case Nil
  then show ?case
    by (simp add: follows_def balanced_def trace_step in_phase_def phase_def probes_of_def)
next
  case (snoc p ps)
  have "follows ps (trace_run bt ps trace_init)"
    by (rule snoc.IH [OF in_protocol_snoc(1) [OF snoc.prems(1)] snoc.prems(2)])
  from follows_step [OF this snoc.prems] show ?case by simp
qed

section \<open>Propagated contexts\<close>

lemma traceParentFor_Some:
  assumes "traceParentFor ctx valid c st = Some tc"
  obtains e span where "tr_spans st c = Some e" "span \<in> entry_spans e" "valid (ctx span)"
    "span = (case en_dependency e of Some d \<Rightarrow> d | None \<Rightarrow> en_workflow e)"
    "tc_traceparent tc = ''00-'' @ sc_trace_id (ctx span) @ ''-'' @ sc_span_id (ctx span) @ ''-'' @
       (if sampled (sc_trace_flags (ctx span)) then ''01'' else ''00'')"
  using assms
  by (auto simp: traceParentFor_def Let_def entry_spans_def split: option.splits if_splits)

lemma log_context_of_traceparent:
  assumes "length tid = 32" "length sid = 16"
  shows "log_context_of (Some (''00-'' @ tid @ ''-'' @ sid @ ''-'' @ (if b then ''01'' else ''00'')))
    = SpanContext tid sid b"
proof -
  have sfx: "suffix ''-01'' (xs @ ''-'' @ (if b then ''01'' else ''00'')) \<longleftrightarrow> b" for xs
    by (cases b) (auto simp: suffix_def append_eq_append_conv2 Cons_eq_append_conv)
  have sl: "take 32 (drop 3 (''00-'' @ tid @ ''-'' @ sid @ r)) = tid"
    "take 16 (drop 36 (''00-'' @ tid @ ''-'' @ sid @ r)) = sid" for r
    using assms by (simp_all add: numeral_eq_Suc)
  show ?thesis
    using sfx [of "''00-'' @ tid @ ''-'' @ sid"] sl
    by (simp add: log_context_of_def)
qed

section \<open>Properties\<close>

text \<open>
  C3. Whatever probes the sink receives, in any order, with any correlation identifiers and
  whichever trace identifiers the tracer rejects: spans are numbered in the order they are
  started, every span the sink ends was started, and none is ended twice.
\<close>

theorem trace_sink_span_discipline:
  "let st = trace_run beginTrace ps trace_init
   in started st = [0..<tr_next st] \<and> set (ended st) \<subseteq> set (started st) \<and> distinct (ended st)"
proof -
  have inv: "span_inv (trace_run beginTrace ps trace_init)"
    by (rule span_inv_run [OF span_inv_init])
  show ?thesis using span_invD(1-3) [OF inv] by (auto simp: Let_def)
qed



text \<open>
  A context propagated to the control plane is that of the open dependency span, or of the
  workflow span outside a dependency, and the log records read back its identifiers and its
  sampling decision from the header.
\<close>

lemma propagated_context_reads_back:
  assumes "traceParentFor context_of valid c st = Some tc"
    and "\<And>sc. valid sc \<Longrightarrow> length (sc_trace_id sc) = 32 \<and> length (sc_span_id sc) = 16"
  shows "\<exists>e span. tr_spans st c = Some e \<and>
     span = (case en_dependency e of Some d \<Rightarrow> d | None \<Rightarrow> en_workflow e) \<and>
     log_context_of (Some (tc_traceparent tc)) =
       SpanContext (sc_trace_id (context_of span)) (sc_span_id (context_of span))
         (sampled (sc_trace_flags (context_of span)))"
proof -
  obtain e span where e: "tr_spans st c = Some e" "valid (context_of span)"
    "span = (case en_dependency e of Some d \<Rightarrow> d | None \<Rightarrow> en_workflow e)"
    "tc_traceparent tc = ''00-'' @ sc_trace_id (context_of span) @ ''-'' @ sc_span_id (context_of span) @ ''-'' @
       (if sampled (sc_trace_flags (context_of span)) then ''01'' else ''00'')"
    by (rule traceParentFor_Some [OF assms(1)]) blast
  have "log_context_of (Some (tc_traceparent tc)) =
      SpanContext (sc_trace_id (context_of span)) (sc_span_id (context_of span))
        (sampled (sc_trace_flags (context_of span)))"
    unfolding e(4) using assms(2) [OF e(2)] by (intro log_context_of_traceparent) simp_all
  with e(1,3) show ?thesis by blast
qed

lemma propagated_context_reads_back_witness:
  "\<exists>tid. length tid = 32 \<and>
     log_context_of (Some (''00-'' @ tid @ ''-'' @ replicate 16 (CHR ''b'') @ ''-01''))
       = SpanContext tid (replicate 16 (CHR ''b'')) True"
proof -
  let ?ctx = "\<lambda>n. \<lparr>sc_trace_id = replicate 32 (CHR ''a''), sc_span_id = replicate 16 (CHR ''b''),
    sc_trace_flags = 1, sc_trace_state = None\<rparr>"
  let ?valid = "\<lambda>sc. length (sc_trace_id sc) = 32 \<and> length (sc_span_id sc) = 16"
  let ?st = "trace_init\<lparr>tr_spans := [''c'' \<mapsto> \<lparr>en_workflow = 0, en_dependency = None\<rparr>]\<rparr>"
  let ?tc = "\<lparr>tc_traceparent = ''00-'' @ replicate 32 (CHR ''a'') @ ''-'' @ replicate 16 (CHR ''b'') @ ''-01'',
    tc_tracestate = None\<rparr>"
  have "traceParentFor ?ctx ?valid ''c'' ?st = Some ?tc"
    by (simp add: traceParentFor_def sampled_def)
  from propagated_context_reads_back [OF this] show ?thesis
    by (intro exI [of _ "replicate 32 (CHR ''a'')"]) (auto simp: sampled_def)
qed

end
