(* ===== verification/JS_Json.thy ===== *)
theory JS_Json
  imports JS_Prelude
begin

text \<open>
  Numbers and JSON values. A number is an integer, or one of the remaining doubles given by
  the text it prints as (fractions, \<open>NaN\<close>, the infinities). A JSON object is the list of its own
  properties in order, each name once.
\<close>

datatype js_number = Integral int | NonIntegral string

definition max_safe_integer :: int where "max_safe_integer = 9007199254740991"

fun is_safe_integer :: "js_number \<Rightarrow> bool" where
  "is_safe_integer (Integral n) = (- max_safe_integer \<le> n \<and> n \<le> max_safe_integer)"
| "is_safe_integer (NonIntegral t) = False"

datatype json =
    JNull
  | JBool bool
  | JNumber js_number
  | JString string
  | JArray "json list"
  | JObject "(string \<times> json) list"

text \<open>\<open>typeof value === "string" ? value.trim() : ""\<close> and \<open>typeof value === "number" ? value : undefined\<close>.\<close>

fun json_text :: "json option \<Rightarrow> string" where
  "json_text (Some (JString s)) = trim s"
| "json_text _ = []"

text \<open>A property that is present unless its text is empty.\<close>

definition nonempty :: "string \<Rightarrow> string option" where
  "nonempty s = (if s = [] then None else Some s)"

lemma nonempty_simps [simp]:
  "nonempty [] = None" "nonempty (c # s) = Some (c # s)" "nonempty s = None \<longleftrightarrow> s = []"
  "nonempty s = Some t \<longleftrightarrow> s = t \<and> t \<noteq> []"
  by (auto simp: nonempty_def)

end
