(* ===== verification/Control_Plane.thy ===== *)
theory Control_Plane
  imports Gateway_Types JS_Json
begin

text \<open>
  \<open>adapters/api/gateway-operations.ts\<close>: the control-plane port implemented over the generated
  API client. The client and its factory are parameters (records of calls that may throw), as
  are the callback for a required login, the reader of the trace context and \<open>JSON.parse\<close>.
\<close>

section \<open>Values of the API\<close>

text \<open>The properties of the API schemas the adapter reads; \<open>null\<close> and absence read alike.\<close>

record api_gateway =
  ag_active_sandbox_count :: "int option"
  ag_cluster_id :: string
  ag_console_address :: "string option"
  ag_created_at :: "string option"
  ag_created_by :: "string option"
  ag_external_dns :: "string option"
  ag_id :: "string option"
  ag_name :: string
  ag_namespace :: string
  ag_oidc :: "string option"
  ag_phase :: "string option"
  ag_release_id :: string
  ag_route_address :: "string option"
  ag_status :: "string option"

record api_cluster =
  mc_id :: "string option"
  mc_name :: string
  mc_provider :: string
  mc_region :: "string option"
  mc_status :: "string option"

record api_account =
  aa_client_id :: string
  aa_created_at :: string
  aa_created_by_user_id :: string
  aa_description :: "string option"
  aa_expires_at :: string
  aa_gateway_id :: string
  aa_id :: string
  aa_last_error :: "string option"
  aa_name :: string
  aa_revoked_at :: "string option"
  aa_role :: account_role
  aa_status :: account_status
  aa_subject :: string
  aa_updated_at :: string

record api_connection =
  an_lifetime :: int
  an_audience :: string
  an_client_id :: string
  an_gateway_endpoint :: "string option"
  an_gateway_name :: string
  an_issuer :: string
  an_token_endpoint :: string

record api_credential = api_connection +
  an_client_secret :: string

record api_capabilities =
  ak_allowed_roles :: "account_role list"
  ak_can_create :: bool
  ak_can_manage_all :: bool
  ak_default_seconds :: int
  ak_maximum_seconds :: int
  ak_minimum_seconds :: int

text \<open>A list response: its page fields may be absent or any number, its items absent.\<close>

record 'a api_list =
  al_page :: "js_number option"
  al_total :: "js_number option"
  al_items :: "'a list option"

record api_account_list = "api_account api_list" +
  al_capabilities :: api_capabilities
  al_size :: int

section \<open>Requests and the client\<close>

record request_options =
  ro_signal :: "nat option"
  ro_traceparent :: "string option"

record list_query =
  lq_orderBy :: string
  lq_page :: int
  lq_search :: "string option"
  lq_size :: int

record create_account_body =
  cb_description :: "string option"
  cb_expires_at :: string
  cb_name :: string
  cb_role :: account_role

record create_gateway_body =
  gb_cluster_id :: string
  gb_name :: string
  gb_release_id :: string
  gb_route :: string

text \<open>The part of the client the adapter calls; each call gives the body of the result.\<close>

record 'w api_client =
  api_createGateway :: "create_gateway_body \<Rightarrow> request_options \<Rightarrow> ('w, js_error, api_gateway) act"
  api_deleteGateway :: "string \<Rightarrow> request_options \<Rightarrow> ('w, js_error, unit) act"
  api_getGateway :: "string \<Rightarrow> request_options \<Rightarrow> ('w, js_error, api_gateway) act"
  api_listGateways :: "list_query \<Rightarrow> request_options \<Rightarrow> ('w, js_error, api_gateway api_list) act"
  api_updateGateway :: "string \<Rightarrow> string \<Rightarrow> request_options \<Rightarrow> ('w, js_error, api_gateway) act"
  api_getManagedCluster :: "string \<Rightarrow> request_options \<Rightarrow> ('w, js_error, api_cluster) act"
  api_listManagedClusters :: "list_query \<Rightarrow> request_options \<Rightarrow> ('w, js_error, api_cluster api_list) act"
  api_createAccount :: "string \<Rightarrow> create_account_body \<Rightarrow> request_options \<Rightarrow>
    ('w, js_error, api_account \<times> api_credential) act"
  api_deleteAccount :: "string \<Rightarrow> string \<Rightarrow> request_options \<Rightarrow> ('w, js_error, unit) act"
  api_getAccount :: "string \<Rightarrow> string \<Rightarrow> request_options \<Rightarrow>
    ('w, js_error, api_account \<times> api_connection) act"
  api_listAccounts :: "string \<Rightarrow> account_list_request \<Rightarrow> request_options \<Rightarrow>
    ('w, js_error, api_account_list) act"
  api_revokeAccount :: "string \<Rightarrow> string \<Rightarrow> request_options \<Rightarrow> ('w, js_error, api_account) act"

section \<open>Page validation\<close>

definition operation_failure :: "failure_kind \<Rightarrow> js_error" where
  "operation_failure kind = OperationFailure \<lparr>oe_code = None, oe_kind = kind, oe_operation_id = None\<rparr>"

fun safe_int :: "js_number option \<Rightarrow> int option" where
  "safe_int (Some (Integral n)) = (if is_safe_integer (Integral n) then Some n else None)"
| "safe_int _ = None"

text \<open>The narrowed page, total and items, or the error.\<close>

definition requirePage :: "('a, 'z) api_list_scheme \<Rightarrow> js_error + int \<times> int \<times> 'a list" where
  "requirePage value =
     (case (safe_int (al_page value), safe_int (al_total value), al_items value) of
        (Some pg, Some tot, Some xs) \<Rightarrow>
          if pg < 1 \<or> tot < 0 then Inl (operation_failure Unavailable) else Inr (pg, tot, xs)
      | _ \<Rightarrow> Inl (operation_failure Unavailable))"

definition placementPageSize :: int where
  "placementPageSize = lr_size defaultGatewayListRequest"

section \<open>Search expressions\<close>

fun gatewaySortFields :: "gateway_sort_field \<Rightarrow> string" where
  "gatewaySortFields SortCluster = ''cluster_id''"
| "gatewaySortFields SortCreated = ''created_at''"
| "gatewaySortFields SortEndpoint = ''route_address''"
| "gatewaySortFields SortName = ''name''"
| "gatewaySortFields SortOwner = ''created_by''"
| "gatewaySortFields SortStatus = ''status''"

definition escapeSearchLiteral :: "string \<Rightarrow> string" where
  "escapeSearchLiteral value = replace_all quote [quote, quote] value"

definition escapeIlikeLiteral :: "string \<Rightarrow> string" where
  "escapeIlikeLiteral value =
     replace_all (CHR ''_'') [backslash, CHR ''_'']
      (replace_all (CHR ''%'') [backslash, CHR ''%'']
        (replace_all backslash [backslash, backslash] (escapeSearchLiteral value)))"

definition ilike_clause :: "string \<Rightarrow> string \<Rightarrow> string" where
  "ilike_clause field literal = field @ '' ilike '' @ [quote] @ ''%'' @ literal @ ''%'' @ [quote]"

definition gatewaySearchFields :: "string list" where
  "gatewaySearchFields = [''name'', ''cluster_id'', ''status'', ''route_address'', ''external_dns'']"

definition gatewaySearch :: "string \<Rightarrow> string option" where
  "gatewaySearch value =
     (let query = trim value
      in if query = [] then None
         else let literal = escapeIlikeLiteral query
              in Some (join '' or '' (map (\<lambda>field. ilike_clause field literal) gatewaySearchFields)))"

section \<open>Conversions\<close>

text \<open>\<open>parse\<close> is \<open>JSON.parse\<close>: \<open>None\<close> when it throws.\<close>

definition jsonObject :: "(string \<Rightarrow> json option) \<Rightarrow> string option \<Rightarrow> (string \<times> json) list option" where
  "jsonObject parse value =
     (case parse (case value of None \<Rightarrow> [] | Some s \<Rightarrow> s) of
        Some (JObject kvs) \<Rightarrow> Some kvs
      | _ \<Rightarrow> None)"

definition oidc_text :: "(string \<times> json) list option \<Rightarrow> string \<Rightarrow> string" where
  "oidc_text oidc key = (case oidc of None \<Rightarrow> [] | Some kvs \<Rightarrow> json_text (map_of kvs key))"

definition drop_prefix :: "string \<Rightarrow> string \<Rightarrow> string option" where
  "drop_prefix p s = (if prefix p s then Some (drop (length p) s) else None)"

definition endpointFromRouteAddress :: "string option \<Rightarrow> string option" where
  "endpointFromRouteAddress routeAddress =
     (case routeAddress of
        None \<Rightarrow> None
      | Some s \<Rightarrow>
          if s = [] then None
          else (case drop_prefix ''grpc://'' s of
                  Some r \<Rightarrow> Some r
                | None \<Rightarrow> (case drop_prefix ''grpcs://'' s of Some r \<Rightarrow> Some r | None \<Rightarrow> Some s)))"

definition toGatewayRecord :: "(string \<Rightarrow> json option) \<Rightarrow> api_gateway \<Rightarrow> js_error + gateway_record" where
  "toGatewayRecord parse gateway =
     (case keep_truthy (ag_id gateway) of
        None \<Rightarrow> Inl (operation_failure Unavailable)
      | Some gid \<Rightarrow>
          let oidc = jsonObject parse (ag_oidc gateway)
          in Inr
            \<lparr>gr_active_sandboxes = ag_active_sandbox_count gateway,
             gr_cluster_id = ag_cluster_id gateway,
             gr_console_url = nonempty (trim_or_empty (ag_console_address gateway)),
             gr_created_at = keep_truthy (ag_created_at gateway),
             gr_created_by = nonempty (trim_or_empty (ag_created_by gateway)),
             gr_external_dns =
               (if trim_or_empty (ag_external_dns gateway) \<noteq> []
                then Some (trim_or_empty (ag_external_dns gateway))
                else endpointFromRouteAddress (ag_route_address gateway)),
             gr_id = gid,
             gr_name = ag_name gateway,
             gr_namespace = ag_namespace gateway,
             gr_oidc_audience = nonempty (oidc_text oidc ''audience''),
             gr_oidc_client_id = nonempty (oidc_text oidc ''client_id''),
             gr_oidc_issuer = nonempty (oidc_text oidc ''issuer''),
             gr_phase = ag_phase gateway,
             gr_release_id = ag_release_id gateway,
             gr_status = ag_status gateway\<rparr>)"

definition toServiceAccountRecord :: "api_account \<Rightarrow> account_record" where
  "toServiceAccountRecord account =
     \<lparr>ac_client_id = aa_client_id account, ac_created_at = aa_created_at account,
      ac_created_by = aa_created_by_user_id account,
      ac_description = nonempty (trim_or_empty (aa_description account)),
      ac_expires_at = aa_expires_at account, ac_gateway_id = aa_gateway_id account,
      ac_id = aa_id account,
      ac_last_error = nonempty (trim_or_empty (aa_last_error account)),
      ac_name = aa_name account,
      ac_revoked_at = nonempty (trim_or_empty (aa_revoked_at account)),
      ac_role = aa_role account, ac_status = aa_status account,
      ac_subject = aa_subject account, ac_updated_at = aa_updated_at account\<rparr>"

definition toServiceAccountConnection :: "'z api_connection_scheme \<Rightarrow> account_connection" where
  "toServiceAccountConnection c =
     \<lparr>cn_token_lifetime = an_lifetime c, cn_audience = an_audience c, cn_client_id = an_client_id c,
      cn_gateway_endpoint = keep_truthy (an_gateway_endpoint c),
      cn_gateway_name = an_gateway_name c, cn_issuer = an_issuer c,
      cn_token_endpoint = an_token_endpoint c\<rparr>"

definition toServiceAccountCredential :: "api_credential \<Rightarrow> account_credential" where
  "toServiceAccountCredential c =
     account_connection.extend (toServiceAccountConnection c) \<lparr>cr_client_secret = an_client_secret c\<rparr>"

definition toServiceAccountCapabilities :: "api_capabilities \<Rightarrow> account_capabilities" where
  "toServiceAccountCapabilities c =
     \<lparr>cap_allowed_roles = ak_allowed_roles c, cap_can_create = ak_can_create c,
      cap_can_manage_all = ak_can_manage_all c,
      cap_expiration_policy =
        \<lparr>ep_default_seconds = ak_default_seconds c, ep_maximum_seconds = ak_maximum_seconds c,
         ep_minimum_seconds = ak_minimum_seconds c\<rparr>\<rparr>"

definition toGatewayPlacement :: "api_cluster \<Rightarrow> js_error + gateway_placement" where
  "toGatewayPlacement cluster =
     (case keep_truthy (mc_id cluster) of
        None \<Rightarrow> Inl (operation_failure Unavailable)
      | Some cid \<Rightarrow> Inr
          \<lparr>pl_id = cid, pl_name = mc_name cluster, pl_provider = mc_provider cluster,
           pl_region = nonempty (trim_or_empty (mc_region cluster)),
           pl_status = nonempty (trim_or_empty (mc_status cluster))\<rparr>)"

section \<open>Failures\<close>

definition gatewayFailureKind :: "int \<Rightarrow> failure_kind" where
  "gatewayFailureKind statusCode =
     (if statusCode = 401 \<or> statusCode = 403 then Denied
      else if statusCode = 404 then NotFound
      else if statusCode = 409 then Conflict
      else if statusCode = 408 \<or> statusCode = 429 \<or> statusCode \<ge> 500 then Unavailable
      else Unknown)"

definition gatewayFailureCode :: "string \<Rightarrow> failure_code option" where
  "gatewayFailureCode code =
     (if code = ''service_account_name_exists'' then Some ServiceAccountNameExists else None)"

definition sdk_failure_of :: "sdk_error \<Rightarrow> js_error" where
  "sdk_failure_of e = OperationFailure
     \<lparr>oe_code = gatewayFailureCode (case se_api_code e of None \<Rightarrow> [] | Some c \<Rightarrow> c),
      oe_kind = gatewayFailureKind (se_status e), oe_operation_id = None\<rparr>"

definition mapSDKFailure ::
    "('w, js_error, unit) act option \<Rightarrow> ('w, js_error, 'a) act \<Rightarrow> ('w, js_error, 'a) act" where
  "mapSDKFailure onReauthRequired task =
     act_catch task (\<lambda>error.
       case error of
         SdkFailure e \<Rightarrow>
           act_bind
             (case onReauthRequired of
                Some callback \<Rightarrow> if se_code e = ''reauth_required'' then callback else act_return ()
              | None \<Rightarrow> act_return ())
             (\<lambda>_. act_throw (sdk_failure_of e))
       | _ \<Rightarrow> act_throw error)"

section \<open>The adapter\<close>

text \<open>What \<open>createGatewayControlPlaneAdapter\<close> is given.\<close>

record 'w adapter_ports =
  ad_factory :: "string \<Rightarrow> ('w, js_error, 'w api_client) act"
  ad_onReauthRequired :: "('w, js_error, unit) act option"
  ad_traceParentFor :: "(string \<Rightarrow> ('w, js_error, string option) act) option"
  ad_parse :: "string \<Rightarrow> json option"

definition requestOptions :: "'w adapter_ports \<Rightarrow> invocation_context \<Rightarrow> ('w, js_error, request_options) act" where
  "requestOptions ad ctx =
     act_bind
       (case ad_traceParentFor ad of None \<Rightarrow> act_return None | Some f \<Rightarrow> f (ic_correlation_id ctx))
       (\<lambda>traceparent. act_return \<lparr>ro_signal = ic_signal ctx, ro_traceparent = traceparent\<rparr>)"

text \<open>\<open>apiClient(apiFactory, context).method(..., requestOptions(context))\<close>: the client first.\<close>

definition api_call ::
    "'w adapter_ports \<Rightarrow> invocation_context \<Rightarrow> ('w api_client \<Rightarrow> request_options \<Rightarrow> ('w, js_error, 'a) act) \<Rightarrow>
     ('w, js_error, 'a) act" where
  "api_call ad ctx call =
     act_bind (ad_factory ad (ic_correlation_id ctx)) (\<lambda>client.
     act_bind (requestOptions ad ctx) (\<lambda>options. call client options))"

definition mapFailure :: "'w adapter_ports \<Rightarrow> ('w, js_error, 'a) act \<Rightarrow> ('w, js_error, 'a) act" where
  "mapFailure ad task = mapSDKFailure (ad_onReauthRequired ad) task"

definition adapter_create_account ::
    "'w adapter_ports \<Rightarrow> string \<Rightarrow> account_create_input \<Rightarrow> invocation_context \<Rightarrow>
     ('w, js_error, account_create_result) act" where
  "adapter_create_account ad gatewayId input ctx =
     mapFailure ad
      (act_bind
        (api_call ad ctx (\<lambda>client. api_createAccount client gatewayId
          \<lparr>cb_description = aci_description input, cb_expires_at = aci_expires_at input,
           cb_name = aci_name input, cb_role = aci_role input\<rparr>))
        (\<lambda>(account, credential). act_return
          \<lparr>acr_credential = toServiceAccountCredential credential,
           acr_account = toServiceAccountRecord account\<rparr>))"

definition adapter_delete_account ::
    "'w adapter_ports \<Rightarrow> string \<Rightarrow> string \<Rightarrow> invocation_context \<Rightarrow> ('w, js_error, unit) act" where
  "adapter_delete_account ad gatewayId accountId ctx =
     mapFailure ad (api_call ad ctx (\<lambda>client. api_deleteAccount client gatewayId accountId))"

definition checked_placements :: "api_cluster api_list \<Rightarrow> js_error + placement_options" where
  "checked_placements result =
     (case requirePage result of
        Inl e \<Rightarrow> Inl e
      | Inr (pg, tot, xs) \<Rightarrow>
          if pg \<noteq> 1 \<or> tot < 0 \<or> int (length xs) \<noteq> min placementPageSize tot
          then Inl (operation_failure Unavailable)
          else (case map_throw toGatewayPlacement xs of
                  Inl e \<Rightarrow> Inl e
                | Inr placements \<Rightarrow>
                    Inr \<lparr>po_has_more = (tot > int (length xs)), po_items = placements\<rparr>))"

definition adapter_find_placements ::
    "'w adapter_ports \<Rightarrow> string \<Rightarrow> invocation_context \<Rightarrow> ('w, js_error, placement_options) act" where
  "adapter_find_placements ad search ctx =
     mapFailure ad
      (let literal = escapeIlikeLiteral (trim search)
       in act_bind
        (api_call ad ctx (\<lambda>client. api_listManagedClusters client
          \<lparr>lq_orderBy = ''name asc'', lq_page = 1,
           lq_search = (if literal = [] then None else Some (ilike_clause ''name'' literal)),
           lq_size = placementPageSize\<rparr>))
        (\<lambda>result. act_lift (checked_placements result)))"

definition adapter_get_placement ::
    "'w adapter_ports \<Rightarrow> string \<Rightarrow> invocation_context \<Rightarrow> ('w, js_error, gateway_placement) act" where
  "adapter_get_placement ad clusterId ctx =
     mapFailure ad
      (act_bind (api_call ad ctx (\<lambda>client. api_getManagedCluster client clusterId))
        (\<lambda>cluster. act_lift (toGatewayPlacement cluster)))"

definition id_search :: "string list \<Rightarrow> string" where
  "id_search ids = ''id in ('' @
     join '', '' (map (\<lambda>i. [quote] @ escapeSearchLiteral i @ [quote]) ids) @ '')''"

text \<open>The response is checked after its items were converted; the conversion may throw first.\<close>

definition matching_placements :: "string list \<Rightarrow> api_cluster api_list \<Rightarrow> js_error + gateway_placement list" where
  "matching_placements ids result =
     (case requirePage result of
        Inl e \<Rightarrow> Inl e
      | Inr (pg, tot, xs) \<Rightarrow>
          (case map_throw toGatewayPlacement xs of
             Inl e \<Rightarrow> Inl e
           | Inr placements \<Rightarrow>
               let returned = map pl_id placements
               in if pg \<noteq> 1 \<or> tot < 0 \<or> tot > int (length ids) \<or> int (length xs) \<noteq> tot \<or>
                     \<not> distinct returned \<or> (\<exists>i \<in> set returned. i \<notin> set ids)
                  then Inl (operation_failure Unavailable)
                  else map_throw toGatewayPlacement xs))"

definition adapter_get_placements ::
    "'w adapter_ports \<Rightarrow> string list \<Rightarrow> invocation_context \<Rightarrow> ('w, js_error, gateway_placement list) act" where
  "adapter_get_placements ad clusterIds ctx =
     mapFailure ad
      (let ids = normalizeGatewayPlacementClusterIds clusterIds
       in if ids = [] then act_return []
          else act_bind
            (api_call ad ctx (\<lambda>client. api_listManagedClusters client
              \<lparr>lq_orderBy = ''id asc'', lq_page = 1, lq_search = Some (id_search ids),
               lq_size = int (length ids)\<rparr>))
            (\<lambda>result. act_lift (matching_placements ids result)))"

definition adapter_get_gateway ::
    "'w adapter_ports \<Rightarrow> string \<Rightarrow> invocation_context \<Rightarrow> ('w, js_error, gateway_record) act" where
  "adapter_get_gateway ad gatewayId ctx =
     mapFailure ad
      (act_bind (api_call ad ctx (\<lambda>client. api_getGateway client gatewayId))
        (\<lambda>gateway. act_lift (toGatewayRecord (ad_parse ad) gateway)))"

definition adapter_get_account ::
    "'w adapter_ports \<Rightarrow> string \<Rightarrow> string \<Rightarrow> invocation_context \<Rightarrow> ('w, js_error, account_detail) act" where
  "adapter_get_account ad gatewayId accountId ctx =
     mapFailure ad
      (act_bind (api_call ad ctx (\<lambda>client. api_getAccount client gatewayId accountId))
        (\<lambda>(account, connection). act_return
          \<lparr>ad_connection = toServiceAccountConnection connection,
           ad_account = toServiceAccountRecord account\<rparr>))"

text \<open>\<open>Math.max(0, Math.min(size, total - (page - 1) * size))\<close>\<close>

definition expected_items :: "int \<Rightarrow> int \<Rightarrow> int \<Rightarrow> int" where
  "expected_items pg sz tot = max 0 (min sz (tot - (pg - 1) * sz))"

definition checked_gateways ::
    "(string \<Rightarrow> json option) \<Rightarrow> gateway_list_request \<Rightarrow> api_gateway api_list \<Rightarrow>
     js_error + gateway_record gateway_page" where
  "checked_gateways parse request result =
     (case requirePage result of
        Inl e \<Rightarrow> Inl e
      | Inr (pg, tot, xs) \<Rightarrow>
          if pg \<noteq> lr_page request \<or> tot < 0 \<or>
             int (length xs) \<noteq> expected_items (lr_page request) (lr_size request) tot
          then Inl (operation_failure Unavailable)
          else (case map_throw (toGatewayRecord parse) xs of
                  Inl e \<Rightarrow> Inl e
                | Inr gateways \<Rightarrow>
                    Inr \<lparr>gp_items = gateways, gp_page = pg, gp_size = lr_size request, gp_total = tot\<rparr>))"

definition adapter_list_gateways ::
    "'w adapter_ports \<Rightarrow> gateway_list_request \<Rightarrow> invocation_context \<Rightarrow>
     ('w, js_error, gateway_record gateway_page) act" where
  "adapter_list_gateways ad request ctx =
     mapFailure ad
      (let search = gatewaySearch (lr_search request)
       in act_bind
        (api_call ad ctx (\<lambda>client. api_listGateways client
          \<lparr>lq_orderBy = gatewaySortFields (lr_sort_field request) @ '' '' @
             sort_direction_str (lr_sort_direction request),
           lq_page = lr_page request, lq_search = search, lq_size = lr_size request\<rparr>))
        (\<lambda>result. act_lift (checked_gateways (ad_parse ad) request result)))"

definition checked_accounts :: "account_list_request \<Rightarrow> api_account_list \<Rightarrow> js_error + account_page" where
  "checked_accounts request result =
     (case requirePage result of
        Inl e \<Rightarrow> Inl e
      | Inr (pg, tot, xs) \<Rightarrow>
          if pg \<noteq> alr_page request \<or> tot < 0 \<or>
             int (length xs) \<noteq> expected_items (alr_page request) (alr_size request) tot
          then Inl (operation_failure Unavailable)
          else Inr
            \<lparr>ap_capabilities = toServiceAccountCapabilities (al_capabilities result),
             ap_items = map toServiceAccountRecord xs, ap_page = pg, ap_size = al_size result,
             ap_total = tot\<rparr>)"

definition adapter_list_accounts ::
    "'w adapter_ports \<Rightarrow> string \<Rightarrow> account_list_request \<Rightarrow> invocation_context \<Rightarrow>
     ('w, js_error, account_page) act" where
  "adapter_list_accounts ad gatewayId request ctx =
     mapFailure ad
      (act_bind (api_call ad ctx (\<lambda>client. api_listAccounts client gatewayId request))
        (\<lambda>result. act_lift (checked_accounts request result)))"

definition adapter_provision ::
    "'w adapter_ports \<Rightarrow> provision_input \<Rightarrow> invocation_context \<Rightarrow> ('w, js_error, gateway_record) act" where
  "adapter_provision ad input ctx =
     mapFailure ad
      (act_bind
        (api_call ad ctx (\<lambda>client. api_createGateway client
          \<lparr>gb_cluster_id = pi_cluster_id input, gb_name = pi_name input, gb_release_id = [],
           gb_route = ''{'' @ [CHR 0x22] @ ''enabled'' @ [CHR 0x22] @ '':true}''\<rparr>))
        (\<lambda>gateway. act_lift (toGatewayRecord (ad_parse ad) gateway)))"

definition adapter_remove ::
    "'w adapter_ports \<Rightarrow> string \<Rightarrow> invocation_context \<Rightarrow> ('w, js_error, unit) act" where
  "adapter_remove ad gatewayId ctx =
     mapFailure ad (api_call ad ctx (\<lambda>client. api_deleteGateway client gatewayId))"

definition adapter_rename ::
    "'w adapter_ports \<Rightarrow> string \<Rightarrow> string \<Rightarrow> invocation_context \<Rightarrow> ('w, js_error, gateway_record) act" where
  "adapter_rename ad gatewayId name ctx =
     mapFailure ad
      (act_bind (api_call ad ctx (\<lambda>client. api_updateGateway client gatewayId name))
        (\<lambda>gateway. act_lift (toGatewayRecord (ad_parse ad) gateway)))"

definition adapter_revoke_account ::
    "'w adapter_ports \<Rightarrow> string \<Rightarrow> string \<Rightarrow> invocation_context \<Rightarrow> ('w, js_error, account_record) act" where
  "adapter_revoke_account ad gatewayId accountId ctx =
     mapFailure ad
      (act_bind (api_call ad ctx (\<lambda>client. api_revokeAccount client gatewayId accountId))
        (\<lambda>account. act_return (toServiceAccountRecord account)))"

definition createGatewayControlPlaneAdapter :: "'w adapter_ports \<Rightarrow> 'w control_plane" where
  "createGatewayControlPlaneAdapter ad =
     \<lparr>cp_create_account = adapter_create_account ad,
      cp_delete_account = adapter_delete_account ad,
      cp_find_placements = adapter_find_placements ad,
      cp_get_placement = adapter_get_placement ad,
      cp_get_placements = adapter_get_placements ad,
      cp_get_gateway = adapter_get_gateway ad,
      cp_get_account = adapter_get_account ad,
      cp_list_gateways = adapter_list_gateways ad,
      cp_list_accounts = adapter_list_accounts ad,
      cp_provision = adapter_provision ad,
      cp_remove = adapter_remove ad,
      cp_rename = adapter_rename ad,
      cp_revoke_account = adapter_revoke_account ad\<rparr>"

section \<open>Reading search expressions back\<close>

text \<open>
  A reader of SQL text as the standard has it: in a quoted literal two quotes stand for one, and
  in a pattern a backslash takes the next character literally.
\<close>

fun read_quoted :: "string \<Rightarrow> (string \<times> string) option" where
  "read_quoted [] = None"
| "read_quoted [c] = (if c = quote then Some ([], []) else None)"
| "read_quoted (c # d # s) =
     (if c = quote then (if d = quote then map_option (\<lambda>(v, r). (quote # v, r)) (read_quoted s)
                         else Some ([], d # s))
      else map_option (\<lambda>(v, r). (c # v, r)) (read_quoted (d # s)))"

datatype like_token = AnyText | AnyChar | Exactly char

fun read_pattern :: "string \<Rightarrow> like_token list" where
  "read_pattern [] = []"
| "read_pattern [c] = [if c = CHR ''%'' then AnyText else if c = CHR ''_'' then AnyChar else Exactly c]"
| "read_pattern (c # d # s) =
     (if c = backslash then Exactly d # read_pattern s
      else (if c = CHR ''%'' then AnyText else if c = CHR ''_'' then AnyChar else Exactly c)
        # read_pattern (d # s))"

text \<open>The clauses \<open>field ilike 'pattern'\<close> of an expression, joined by \<open>or\<close>; the number bounds them.\<close>

fun read_clauses :: "nat \<Rightarrow> string \<Rightarrow> (string \<times> like_token list) list option" where
  "read_clauses 0 s = None"
| "read_clauses (Suc n) s =
     (let field = takeWhile (\<lambda>c. c \<noteq> CHR '' '') s;
          rest = drop (length field) s
      in case drop_prefix ('' ilike '' @ [quote]) rest of
           None \<Rightarrow> None
         | Some r \<Rightarrow>
             (case read_quoted r of
                None \<Rightarrow> None
              | Some (pat, []) \<Rightarrow> Some [(field, read_pattern pat)]
              | Some (pat, r') \<Rightarrow>
                  (case drop_prefix '' or '' r' of
                     None \<Rightarrow> None
                   | Some r'' \<Rightarrow> map_option (Cons (field, read_pattern pat)) (read_clauses n r''))))"

fun read_ids :: "nat \<Rightarrow> string \<Rightarrow> string list option" where
  "read_ids 0 s = None"
| "read_ids (Suc n) s =
     (case drop_prefix [quote] s of
        None \<Rightarrow> None
      | Some r \<Rightarrow>
          (case read_quoted r of
             None \<Rightarrow> None
           | Some (i, r') \<Rightarrow>
               if r' = '')'' then Some [i]
               else (case drop_prefix '', '' r' of
                       None \<Rightarrow> None
                     | Some r'' \<Rightarrow> map_option (Cons i) (read_ids n r''))))"

text \<open>The escapes of a pattern apart from the quotes.\<close>

definition like_escape :: "string \<Rightarrow> string" where
  "like_escape s = concat (map (\<lambda>c. if c = backslash \<or> c = CHR ''%'' \<or> c = CHR ''_'' then [backslash, c] else [c]) s)"

lemma like_escape_simps [simp]:
  "like_escape [] = []"
  "like_escape (c # s) =
     (if c = backslash \<or> c = CHR ''%'' \<or> c = CHR ''_'' then [backslash, c] else [c]) @ like_escape s"
  by (simp_all add: like_escape_def)

lemma escapeIlikeLiteral_like: "escapeIlikeLiteral s = escapeSearchLiteral (like_escape s)"
  by (induction s) (auto simp: escapeIlikeLiteral_def escapeSearchLiteral_def)

lemma escapeSearchLiteral_simps [simp]:
  "escapeSearchLiteral [] = []"
  "escapeSearchLiteral (c # s) = (if c = quote then [quote, quote] else [c]) @ escapeSearchLiteral s"
  "escapeSearchLiteral (s @ t) = escapeSearchLiteral s @ escapeSearchLiteral t"
  by (simp_all add: escapeSearchLiteral_def)

lemma read_quoted_escaped:
  "rest = [] \<or> hd rest \<noteq> quote \<Longrightarrow>
     read_quoted (escapeSearchLiteral s @ quote # rest) = Some (s, rest)"
proof (induction s)
  case Nil
  then show ?case by (cases rest) auto
next
  case (Cons c s)
  have "\<exists>d t. escapeSearchLiteral s @ quote # rest = d # t"
    by (cases "escapeSearchLiteral s @ quote # rest") auto
  then show ?case using Cons by (cases "c = quote") auto
qed

lemma read_pattern_escaped:
  "read_pattern (like_escape s @ ''%'') = map Exactly s @ [AnyText]"
proof (induction s)
  case (Cons c s)
  have "\<exists>d t. like_escape s @ ''%'' = d # t" by (cases "like_escape s") auto
  then show ?case using Cons by auto
qed simp

lemma read_pattern_clause:
  "read_pattern (CHR ''%'' # like_escape s @ ''%'') = AnyText # map Exactly s @ [AnyText]"
proof -
  obtain d t where dt: "like_escape s @ ''%'' = d # t" by (cases "like_escape s") auto
  show ?thesis using read_pattern_escaped [of s] by (simp add: dt)
qed

lemma read_clause_quoted:
  assumes "rest = [] \<or> hd rest \<noteq> quote"
  shows "read_quoted (CHR ''%'' # escapeIlikeLiteral s @ CHR ''%'' # quote # rest)
    = Some (CHR ''%'' # like_escape s @ ''%'', rest)"
  using read_quoted_escaped [OF assms, of "CHR ''%'' # like_escape s @ ''%''"]
  by (simp add: escapeIlikeLiteral_like)

lemma drop_prefix_append [simp]: "drop_prefix p (p @ s) = Some s"
  by (simp add: drop_prefix_def)

lemma read_clause_head:
  assumes "CHR '' '' \<notin> set field"
  shows "takeWhile (\<lambda>c. c \<noteq> CHR '' '') (field @ CHR '' '' # s) = field"
  using assms by (induction field) auto

lemma read_clauses_joined:
  assumes "\<forall>f \<in> set fs. CHR '' '' \<notin> set f" and "fs \<noteq> []" and "length fs \<le> n"
  shows "read_clauses n (join '' or '' (map (\<lambda>f. ilike_clause f (escapeIlikeLiteral q)) fs))
    = Some (map (\<lambda>f. (f, AnyText # map Exactly q @ [AnyText])) fs)"
  using assms
proof (induction fs arbitrary: n)
  case (Cons f fs)
  note IH = Cons.IH and prems = Cons.prems
  obtain m where n: "n = Suc m" using Cons.prems(3) by (cases n) auto
  let ?body = "CHR ''%'' # escapeIlikeLiteral q @ CHR ''%'' # quote # []"
  have clause: "ilike_clause f (escapeIlikeLiteral q) @ t =
      f @ CHR '' '' # ''ilike '' @ quote # CHR ''%'' # escapeIlikeLiteral q @ CHR ''%'' # quote # t" for t
    by (simp add: ilike_clause_def)
  have head: "takeWhile (\<lambda>c. c \<noteq> CHR '' '') (ilike_clause f (escapeIlikeLiteral q) @ t) = f" for t
    unfolding clause by (rule read_clause_head) (use Cons.prems(1) in simp)
  have rest: "drop_prefix ('' ilike '' @ [quote]) (drop (length f) (ilike_clause f (escapeIlikeLiteral q) @ t))
      = Some (CHR ''%'' # escapeIlikeLiteral q @ CHR ''%'' # quote # t)" for t
    unfolding clause by (simp add: drop_prefix_def)
  show ?case
  proof (cases fs)
    case Nil
    show ?thesis
      using head [of "[]"] rest [of "[]"] read_clause_quoted [of "[]" q]
      by (simp add: n Nil read_pattern_clause Let_def)
  next
    case (Cons g gs)
    let ?t = "'' or '' @ join '' or '' (map (\<lambda>f. ilike_clause f (escapeIlikeLiteral q)) fs)"
    have ih: "read_clauses m (join '' or '' (map (\<lambda>f. ilike_clause f (escapeIlikeLiteral q)) fs))
        = Some (map (\<lambda>f. (f, AnyText # map Exactly q @ [AnyText])) fs)"
      using IH [of m] prems n Cons by simp
    have quoted: "read_quoted (CHR ''%'' # escapeIlikeLiteral q @ CHR ''%'' # quote # ?t)
        = Some (CHR ''%'' # like_escape q @ ''%'', ?t)"
      by (rule read_clause_quoted) simp
    have dp: "drop_prefix '' or '' ?t
        = Some (join '' or '' (map (\<lambda>f. ilike_clause f (escapeIlikeLiteral q)) fs))"
      by (rule drop_prefix_append)
    have joined: "join '' or '' (map (\<lambda>f. ilike_clause f (escapeIlikeLiteral q)) (f # fs))
        = ilike_clause f (escapeIlikeLiteral q) @ ?t"
      using Cons by simp
    show ?thesis
      unfolding n joined read_clauses.simps Let_def head rest option.case quoted
      using ih dp by (simp add: read_pattern_clause)
  qed
qed simp

lemma read_ids_joined:
  assumes "ids \<noteq> []" and "length ids \<le> n"
  shows "read_ids n (join '', '' (map (\<lambda>i. [quote] @ escapeSearchLiteral i @ [quote]) ids) @ '')'')
    = Some ids"
  using assms
proof (induction ids arbitrary: n)
  case (Cons i ids)
  note IH = Cons.IH and prems = Cons.prems
  obtain m where n: "n = Suc m" using prems by (cases n) auto
  show ?case
  proof (cases ids)
    case Nil
    have "read_quoted (escapeSearchLiteral i @ quote # '')'') = Some (i, '')'')"
      by (rule read_quoted_escaped) simp
    then show ?thesis by (simp add: n Nil drop_prefix_def)
  next
    case (Cons j js)
    let ?s = "join '', '' (map (\<lambda>i. [quote] @ escapeSearchLiteral i @ [quote]) ids) @ '')''"
    have split: "join '', '' (map (\<lambda>i. [quote] @ escapeSearchLiteral i @ [quote]) (i # ids)) @ '')''
        = [quote] @ escapeSearchLiteral i @ quote # '', '' @ ?s"
      using Cons by simp
    have q: "read_quoted (escapeSearchLiteral i @ quote # '', '' @ ?s) = Some (i, '', '' @ ?s)"
      by (rule read_quoted_escaped) simp
    have ne: "('', '' @ ?s = '')'') = False" by simp
    have ih: "read_ids m ?s = Some ids" using IH [of m] prems n Cons by simp
    show ?thesis
      unfolding n split read_ids.simps drop_prefix_append option.case q prod.case ne if_False ih
      by simp
  qed
qed simp

section \<open>Failures at the boundary\<close>

fun is_sdk_failure :: "js_error + 'a \<Rightarrow> bool" where
  "is_sdk_failure (Inl (SdkFailure e)) = True"
| "is_sdk_failure _ = False"

lemma is_sdk_failure_Inl: "is_sdk_failure (Inl e) \<longleftrightarrow> (\<exists>x. e = SdkFailure x)"
  by (cases e) simp_all

definition quiet_callback :: "('w, js_error, unit) act option \<Rightarrow> bool" where
  "quiet_callback cb \<longleftrightarrow> (case cb of None \<Rightarrow> True | Some f \<Rightarrow> \<forall>w. \<not> is_sdk_failure (fst (f w)))"

lemma mapFailure_pure:
  assumes "task w = (r, w')" and "\<And>e. r \<noteq> Inl (SdkFailure e)"
  shows "mapFailure ad task w = (r, w')"
proof (cases r)
  case (Inl e)
  then show ?thesis
    using assms by (cases e) (simp_all add: mapFailure_def mapSDKFailure_def act_catch_def act_throw_def)
qed (use assms in \<open>simp add: mapFailure_def mapSDKFailure_def act_catch_def\<close>)

lemma mapFailure_sdk:
  assumes "task w = (Inl (SdkFailure e), w')"
  shows "mapFailure ad task w =
    (case (if se_code e = ''reauth_required'' then ad_onReauthRequired ad else None) of
       None \<Rightarrow> (Inl (sdk_failure_of e), w')
     | Some callback \<Rightarrow>
         (case callback w' of (Inl x, w'') \<Rightarrow> (Inl x, w'') | (Inr _, w'') \<Rightarrow> (Inl (sdk_failure_of e), w'')))"
  using assms
  by (cases "ad_onReauthRequired ad")
    (simp_all add: mapFailure_def mapSDKFailure_def act_simps)

lemma mapFailure_no_sdk:
  assumes "quiet_callback (ad_onReauthRequired ad)"
  shows "\<not> is_sdk_failure (fst (mapFailure ad task w))"
proof -
  obtain r w' where task: "task w = (r, w')" by fastforce
  show ?thesis
  proof (cases "\<exists>e. r = Inl (SdkFailure e)")
    case False
    then have "\<not> is_sdk_failure r" by (cases r rule: is_sdk_failure.cases) auto
    then show ?thesis using mapFailure_pure [where task = task and w = w, OF task] False by simp
  next
    case True
    then obtain e where e: "task w = (Inl (SdkFailure e), w')" using task by auto
    have cb: "\<not> is_sdk_failure (fst (f w'))" if "ad_onReauthRequired ad = Some f" for f
      using assms that by (simp add: quiet_callback_def)
    show ?thesis
    proof (cases "if se_code e = ''reauth_required'' then ad_onReauthRequired ad else None")
      case None
      then show ?thesis by (simp add: mapFailure_sdk [where task = task and w = w, OF e] sdk_failure_of_def)
    next
      case (Some f)
      then have f: "ad_onReauthRequired ad = Some f" by (simp split: if_splits)
      obtain r2 w2 where r2: "f w' = (r2, w2)" by fastforce
      then have "\<not> is_sdk_failure r2" using cb [OF f] by simp
      then show ?thesis
        by (cases r2) (auto simp: mapFailure_sdk [where task = task and w = w, OF e] Some r2
            sdk_failure_of_def is_sdk_failure_Inl)
    qed
  qed
qed

lemma mapFailure_Inr: "mapFailure ad task w = (Inr x, w') \<Longrightarrow> task w = (Inr x, w')"
proof -
  assume res: "mapFailure ad task w = (Inr x, w')"
  obtain r w1 where task: "task w = (r, w1)" by fastforce
  show "task w = (Inr x, w')"
  proof (cases "\<exists>e. r = Inl (SdkFailure e)")
    case True
    then obtain e where "task w = (Inl (SdkFailure e), w1)" using task by auto
    with res show ?thesis
      by (simp add: mapFailure_sdk split: option.splits prod.splits sum.splits if_splits)
  next
    case False
    then show ?thesis using mapFailure_pure [where task = task and w = w, OF task] res task by simp
  qed
qed

lemma lifted_Inr:
  "act_bind m (\<lambda>x. act_lift (f x)) w = (Inr y, w') \<Longrightarrow> \<exists>x. f x = Inr y"
  by (auto simp: act_simps split: prod.splits sum.splits)

lemma map_throw_placements:
  "map_throw toGatewayPlacement xs = Inr ps \<Longrightarrow> length ps = length xs"
  using map_throw_Inr by blast

section \<open>A client that answers from given lists\<close>

text \<open>
  Used at concrete inputs: lists of clusters and gateways are answered, every other call throws
  the given error.
\<close>

definition answering_client ::
    "js_error \<Rightarrow> api_cluster api_list \<Rightarrow> api_gateway api_list \<Rightarrow> unit api_client" where
  "answering_client e clusters gateways =
     \<lparr>api_createGateway = (\<lambda>_ _. act_throw e), api_deleteGateway = (\<lambda>_ _. act_throw e),
      api_getGateway = (\<lambda>_ _. act_throw e), api_listGateways = (\<lambda>_ _. act_return gateways),
      api_updateGateway = (\<lambda>_ _ _. act_throw e), api_getManagedCluster = (\<lambda>_ _. act_throw e),
      api_listManagedClusters = (\<lambda>_ _. act_return clusters),
      api_createAccount = (\<lambda>_ _ _. act_throw e), api_deleteAccount = (\<lambda>_ _ _. act_throw e),
      api_getAccount = (\<lambda>_ _ _. act_throw e), api_listAccounts = (\<lambda>_ _ _. act_throw e),
      api_revokeAccount = (\<lambda>_ _ _. act_throw e)\<rparr>"

definition no_items :: "'a api_list" where
  "no_items = \<lparr>al_page = Some (Integral 1), al_total = Some (Integral 0), al_items = Some []\<rparr>"

definition answering_ports ::
    "js_error \<Rightarrow> api_cluster api_list \<Rightarrow> api_gateway api_list \<Rightarrow> unit adapter_ports" where
  "answering_ports e clusters gateways =
     \<lparr>ad_factory = (\<lambda>_. act_return (answering_client e clusters gateways)),
      ad_onReauthRequired = None, ad_traceParentFor = None, ad_parse = (\<lambda>_. None)\<rparr>"

lemmas answering_simps =
  answering_ports_def answering_client_def no_items_def api_call_def requestOptions_def
  mapFailure_def mapSDKFailure_def act_simps

section \<open>Properties\<close>



text \<open>
  Placements resolved by identifier are ones that were asked for, each at most once, and no
  more than were asked for, whatever the API answers.
\<close>

lemma resolved_placements_were_requested:
  assumes "fst (adapter_get_placements ad ids ctx w) = Inr placements"
  shows "distinct (map pl_id placements) \<and> set (map pl_id placements) \<subseteq> trim ` set ids - {[]} \<and>
    length placements \<le> length (normalizeGatewayPlacementClusterIds ids)"
proof -
  obtain w' where task: "adapter_get_placements ad ids ctx w = (Inr placements, w')"
    using assms by (cases "adapter_get_placements ad ids ctx w") simp
  let ?ids = "normalizeGatewayPlacementClusterIds ids"
  have "placements = [] \<or> (\<exists>result. matching_placements ?ids result = Inr placements)"
    using mapFailure_Inr [OF task [unfolded adapter_get_placements_def]]
    by (auto simp: Let_def act_return_def split: if_splits dest: lifted_Inr)
  then show ?thesis
  proof
    assume "\<exists>result. matching_placements ?ids result = Inr placements"
    then obtain result where "matching_placements ?ids result = Inr placements" by blast
    then have "distinct (map pl_id placements)" "\<forall>i \<in> set (map pl_id placements). i \<in> set ?ids"
      "length placements \<le> length ?ids"
      by (auto simp: matching_placements_def Let_def dest!: map_throw_placements
          split: sum.splits prod.splits if_splits)
    then show ?thesis by (auto simp: set_normalize_ids)
  qed simp
qed

lemma resolved_placements_were_requested_witness:
  "let c = \<lparr>mc_id = Some ''b'', mc_name = ''n'', mc_provider = ''p'', mc_region = None, mc_status = None\<rparr>;
       ad = answering_ports (ErrorNamed ''Error'')
         \<lparr>al_page = Some (Integral 1), al_total = Some (Integral 1), al_items = Some [c]\<rparr> no_items;
       r = fst (adapter_get_placements ad [''b'', '' a '', ''b''] \<lparr>ic_correlation_id = ''c'', ic_signal = None\<rparr> ())
   in \<exists>ps. r = Inr ps \<and> map pl_id ps = [''b''] \<and> distinct (map pl_id ps)"
proof -
  let ?c = "\<lparr>mc_id = Some ''b'', mc_name = ''n'', mc_provider = ''p'', mc_region = None, mc_status = None\<rparr>"
  let ?ad = "answering_ports (ErrorNamed ''Error'')
    \<lparr>al_page = Some (Integral 1), al_total = Some (Integral 1), al_items = Some [?c]\<rparr> no_items"
  have ids: "normalizeGatewayPlacementClusterIds [''b'', '' a '', ''b''] = [''a'', ''b'']"
    by code_simp
  have r: "fst (adapter_get_placements ?ad [''b'', '' a '', ''b''] \<lparr>ic_correlation_id = ''c'', ic_signal = None\<rparr> ())
      = Inr [\<lparr>pl_id = ''b'', pl_name = ''n'', pl_provider = ''p'', pl_region = None, pl_status = None\<rparr>]"
    by (simp add: adapter_get_placements_def ids answering_simps matching_placements_def
        requirePage_def max_safe_integer_def toGatewayPlacement_def Let_def)
  from resolved_placements_were_requested [OF this] show ?thesis by (simp add: r Let_def)
qed

text \<open>
  A page of gateways the adapter returns is the requested page, complete: as many gateways as
  that page of that size holds among the reported total.
\<close>

lemma listed_gateways_are_the_requested_page:
  assumes "fst (adapter_list_gateways ad request ctx w) = Inr page"
  shows "gp_page page = lr_page request \<and> gp_size page = lr_size request \<and> 1 \<le> gp_page page \<and>
    0 \<le> gp_total page \<and> gp_total page \<le> max_safe_integer \<and>
    int (length (gp_items page))
      = max 0 (min (lr_size request) (gp_total page - (lr_page request - 1) * lr_size request))"
proof -
  obtain w' where task: "adapter_list_gateways ad request ctx w = (Inr page, w')"
    using assms by (cases "adapter_list_gateways ad request ctx w") simp
  obtain result where result: "checked_gateways (ad_parse ad) request result = Inr page"
    using mapFailure_Inr [OF task [unfolded adapter_list_gateways_def]]
    by (auto simp: Let_def dest: lifted_Inr)
  have "length ys = length xs" if "map_throw (toGatewayRecord (ad_parse ad)) xs = Inr ys" for xs ys
    using map_throw_Inr [OF that] by simp
  with result show ?thesis
    by (auto simp: checked_gateways_def requirePage_def expected_items_def
        elim!: safe_int.elims split: sum.splits prod.splits if_splits option.splits)
qed

lemma listed_gateways_are_the_requested_page_witness:
  "let ad = answering_ports (ErrorNamed ''Error'') no_items
         \<lparr>al_page = Some (Integral 3), al_total = Some (Integral 20), al_items = Some []\<rparr>;
       request = defaultGatewayListRequest\<lparr>lr_page := 3\<rparr>
   in \<exists>page. fst (adapter_list_gateways ad request \<lparr>ic_correlation_id = ''c'', ic_signal = None\<rparr> ()) = Inr page \<and>
        gp_page page = 3 \<and> gp_total page = 20 \<and> gp_items page = []"
proof -
  let ?ad = "answering_ports (ErrorNamed ''Error'') no_items
    \<lparr>al_page = Some (Integral 3), al_total = Some (Integral 20), al_items = Some []\<rparr>"
  have r: "fst (adapter_list_gateways ?ad (defaultGatewayListRequest\<lparr>lr_page := 3\<rparr>)
        \<lparr>ic_correlation_id = ''c'', ic_signal = None\<rparr> ())
      = Inr \<lparr>gp_items = [], gp_page = 3, gp_size = 20, gp_total = 20\<rparr>"
    by (simp add: adapter_list_gateways_def defaultGatewayListRequest_def gatewayListPageSizes_def
        gatewaySearch_def answering_simps checked_gateways_def requirePage_def max_safe_integer_def
        expected_items_def Let_def)
  from listed_gateways_are_the_requested_page [OF this] show ?thesis by (simp add: r Let_def)
qed

text \<open>
  C35. Search text cannot escape its literal: read back as SQL, the expression sent for a search is
  exactly one clause per searched field, each matching any text around the trimmed search text,
  taken character by character.
\<close>

theorem gateway_search_reads_back:
  assumes "gatewaySearch text = Some expr"
  shows "read_clauses 5 expr
    = Some (map (\<lambda>f. (f, AnyText # map Exactly (trim text) @ [AnyText])) gatewaySearchFields)"
proof -
  have "\<forall>f \<in> set gatewaySearchFields. CHR '' '' \<notin> set f" "gatewaySearchFields \<noteq> []"
    "length gatewaySearchFields \<le> 5"
    by (simp_all add: gatewaySearchFields_def)
  from read_clauses_joined [OF this] assms show ?thesis
    by (auto simp: gatewaySearch_def Let_def split: if_splits)
qed

lemma gateway_search_reads_back_witness:
  "let text = [CHR ''o'', quote, CHR '' '', CHR ''%''] @ ''or 1 ''
   in \<exists>expr. gatewaySearch text = Some expr \<and>
     read_clauses 5 expr =
       Some (map (\<lambda>f. (f, AnyText # map Exactly ([CHR ''o'', quote, CHR '' '', CHR ''%''] @ ''or 1'') @ [AnyText]))
        gatewaySearchFields)"
proof -
  let ?q = "[CHR ''o'', quote, CHR '' '', CHR ''%''] @ ''or 1 ''"
  have t: "trim ?q = [CHR ''o'', quote, CHR '' '', CHR ''%''] @ ''or 1''" by code_simp
  then obtain expr where e: "gatewaySearch ?q = Some expr"
    by (simp add: gatewaySearch_def Let_def)
  from gateway_search_reads_back [OF this] e t show ?thesis by (simp add: Let_def)
qed

text \<open>
  The identifiers sent to resolve placements are read back unchanged from the search
  expression, whatever characters they hold.
\<close>

lemma id_search_reads_back:
  assumes "normalizeGatewayPlacementClusterIds ids \<noteq> []"
  shows "read_ids (length (normalizeGatewayPlacementClusterIds ids))
      (drop 7 (id_search (normalizeGatewayPlacementClusterIds ids)))
    = Some (normalizeGatewayPlacementClusterIds ids)"
  using read_ids_joined [OF assms] by (simp add: id_search_def)

lemma id_search_reads_back_witness:
  "read_ids 1 (drop 7 (id_search [[CHR ''a'', quote]])) = Some [[CHR ''a'', quote]]"
proof -
  have ids: "normalizeGatewayPlacementClusterIds [[CHR ''a'', quote]] = [[CHR ''a'', quote]]"
    by code_simp
  from id_search_reads_back [of "[[CHR ''a'', quote]]"] show ?thesis by (simp add: ids)
qed

end
