(* ===== verification/Gateway_Data.thy ===== *)
theory Gateway_Data
  imports Gateway_Types
begin

text \<open>
  \<open>gateways/gateway-data.ts\<close> and \<open>gateways/console-wait-tracker.ts\<close>: which gateways are
  polled, how long a gateway may wait for its console, the query keys of the cache, and the
  conversion to what the pages show.
\<close>

section \<open>Life-cycle states\<close>

definition gatewayStatusPollMilliseconds :: int where "gatewayStatusPollMilliseconds = 5000"
definition gatewayConsoleReadyDeadlineMilliseconds :: int where
  "gatewayConsoleReadyDeadlineMilliseconds = 600000"

definition gatewayPollingStates :: "string set" where
  "gatewayPollingStates =
     {''pending'', ''provisioning'', ''reconciling'', ''updating'', ''degraded'', ''deleting''}"

definition gatewayFailedLifecycleStates :: "string set" where
  "gatewayFailedLifecycleStates = {''error'', ''failed''}"

definition gatewayLifecycleStates :: "gateway_record \<Rightarrow> string list" where
  "gatewayLifecycleStates gateway =
     filter (\<lambda>s. s \<noteq> [])
       (map (\<lambda>value. to_lower (trim_or_empty value)) [gr_phase gateway, gr_status gateway])"

definition gatewayAwaitingConsoleEligible :: "gateway_record \<Rightarrow> string list \<Rightarrow> bool" where
  "gatewayAwaitingConsoleEligible gateway states =
     (let routed = trim_or_empty (gr_external_dns gateway) \<noteq> [];
          consolePublished = trim_or_empty (gr_console_url gateway) \<noteq> [];
          transitional = states = [] \<or> (\<exists>s \<in> set states. s \<in> gatewayPollingStates);
          failed = (\<exists>s \<in> set states. s \<in> gatewayFailedLifecycleStates)
      in routed \<and> \<not> consolePublished \<and> \<not> transitional \<and> \<not> failed)"

section \<open>The console deadline\<close>

text \<open>A time stamp in milliseconds: a whole number or \<open>NaN\<close>.\<close>

datatype instant = NaN | Ms int

definition resolveConsoleWaitStart :: "gateway_record \<Rightarrow> instant \<Rightarrow> instant option \<Rightarrow> instant option" where
  "resolveConsoleWaitStart gateway now previousStart =
     (if \<not> gatewayAwaitingConsoleEligible gateway (gatewayLifecycleStates gateway) then None
      else (case previousStart of Some s \<Rightarrow> Some s | None \<Rightarrow> Some now))"

fun withinConsoleReadyDeadline :: "instant option \<Rightarrow> instant \<Rightarrow> bool" where
  "withinConsoleReadyDeadline (Some (Ms start)) (Ms now) =
     (now - start < gatewayConsoleReadyDeadlineMilliseconds)"
| "withinConsoleReadyDeadline _ _ = False"

definition gatewayNeedsStatusPolling :: "gateway_record \<Rightarrow> instant option \<Rightarrow> instant \<Rightarrow> bool" where
  "gatewayNeedsStatusPolling gateway start now =
     (let states = gatewayLifecycleStates gateway
      in if states = [] \<or> (\<exists>s \<in> set states. s \<in> gatewayPollingStates) then True
         else gatewayAwaitingConsoleEligible gateway states \<and> withinConsoleReadyDeadline start now)"

definition isGatewayConsolePastDeadline :: "instant option \<Rightarrow> instant \<Rightarrow> bool" where
  "isGatewayConsolePastDeadline start now =
     (if start = None then False else \<not> withinConsoleReadyDeadline start now)"

definition gatewayConsoleUnavailable :: "gateway_record \<Rightarrow> instant option \<Rightarrow> instant \<Rightarrow> bool" where
  "gatewayConsoleUnavailable gateway start now =
     (let states = gatewayLifecycleStates gateway
      in if \<not> gatewayAwaitingConsoleEligible gateway states then False
         else \<not> withinConsoleReadyDeadline start now)"

section \<open>The wait tracker\<close>

text \<open>The tracker's map from gateway identifiers to starts, and one call of the tracker.\<close>

type_synonym wait_starts = "string \<Rightarrow> instant option"

definition track :: "string \<Rightarrow> gateway_record \<Rightarrow> instant \<Rightarrow> wait_starts \<Rightarrow> instant option \<times> wait_starts" where
  "track gatewayId gateway now starts =
     (let next = resolveConsoleWaitStart gateway now (starts gatewayId)
      in (next, if next = None then starts(gatewayId := None) else starts(gatewayId := next)))"

type_synonym observation = "string \<times> gateway_record \<times> instant"

definition track_all :: "observation list \<Rightarrow> wait_starts \<Rightarrow> wait_starts" where
  "track_all obs starts = fold (\<lambda>(i, g, now) s. snd (track i g now s)) obs starts"

section \<open>Query keys\<close>

datatype key_part = KText string | KNumber int

definition gatewayListQueryRoot :: "key_part list" where
  "gatewayListQueryRoot = [KText ''gateways'', KText ''list'']"

definition gatewayPlacementQueryRoot :: "key_part list" where
  "gatewayPlacementQueryRoot = [KText ''gateways'', KText ''placements'']"

definition gatewayListQueryKey :: "gateway_list_request \<Rightarrow> key_part list" where
  "gatewayListQueryKey request =
     gatewayListQueryRoot @
     [KNumber (lr_page request), KNumber (lr_size request), KText (lr_search request),
      KText (gateway_sort_field_str (lr_sort_field request)),
      KText (sort_direction_str (lr_sort_direction request))]"

definition gatewayQueryKey :: "string \<Rightarrow> key_part list" where
  "gatewayQueryKey gatewayId = [KText ''gateways'', KText ''detail'', KText gatewayId]"

definition gatewayPlacementQueryKey :: "string \<Rightarrow> key_part list" where
  "gatewayPlacementQueryKey search =
     gatewayPlacementQueryRoot @ [KText ''search'', KText (trim search)]"

definition gatewayPlacementDetailQueryKey :: "string \<Rightarrow> key_part list" where
  "gatewayPlacementDetailQueryKey clusterId =
     gatewayPlacementQueryRoot @ [KText ''detail'', KText clusterId]"

definition gatewayPlacementBatchQueryKey :: "string list \<Rightarrow> key_part list" where
  "gatewayPlacementBatchQueryKey clusterIds =
     gatewayPlacementQueryRoot @
     KText ''batch'' # map KText (normalizeGatewayPlacementClusterIds clusterIds)"

section \<open>What the pages show of a gateway\<close>

record gateway_connection =
  gc_active_sandboxes :: "int option"
  gc_cluster_id :: "string option"
  gc_cluster_name :: string
  gc_console_url :: "string option"
  gc_created_at :: "string option"
  gc_created_by :: "string option"
  gc_endpoint :: "string option"
  gc_id :: string
  gc_name :: string
  gc_oidc_audience :: "string option"
  gc_oidc_client_id :: "string option"
  gc_oidc_issuer :: "string option"
  gc_phase :: "string option"
  gc_status :: string

text \<open>\<open>/^https?:\/\//iu\<close>\<close>

definition has_http_scheme :: "string \<Rightarrow> bool" where
  "has_http_scheme s \<longleftrightarrow> prefix ''http://'' (to_lower s) \<or> prefix ''https://'' (to_lower s)"

definition gatewayEndpoint :: "gateway_record \<Rightarrow> string option" where
  "gatewayEndpoint gateway =
     (let externalDns = trim_or_empty (gr_external_dns gateway)
      in if externalDns = [] then None
         else if has_http_scheme externalDns then Some externalDns
         else Some (''https://'' @ externalDns @ (if CHR '':'' \<in> set externalDns then [] else '':443'')))"

definition present :: "string \<Rightarrow> string option" where
  "present s = (if s = [] then None else Some s)"

definition toGatewayConnection :: "gateway_record \<Rightarrow> string \<Rightarrow> gateway_connection" where
  "toGatewayConnection gateway hubClusterName =
     (let clusterId = trim (gr_cluster_id gateway);
          phase = trim_or_empty (gr_phase gateway);
          healthStatus = trim_or_empty (gr_status gateway);
          normalizedPhase = to_lower phase;
          status =
            (if phase \<noteq> [] \<and> (normalizedPhase \<in> gatewayPollingStates \<or>
                 normalizedPhase \<in> gatewayFailedLifecycleStates)
             then phase
             else if healthStatus \<noteq> [] then healthStatus else phase)
      in \<lparr>gc_active_sandboxes = gr_active_sandboxes gateway,
          gc_cluster_id = present clusterId,
          gc_cluster_name = (if clusterId \<noteq> [] then [] else hubClusterName),
          gc_console_url = keep_truthy (gr_console_url gateway),
          gc_created_at = keep_truthy (gr_created_at gateway),
          gc_created_by = keep_truthy (gr_created_by gateway),
          gc_endpoint = gatewayEndpoint gateway,
          gc_id = gr_id gateway,
          gc_name = gr_name gateway,
          gc_oidc_audience = keep_truthy (gr_oidc_audience gateway),
          gc_oidc_client_id = keep_truthy (gr_oidc_client_id gateway),
          gc_oidc_issuer = keep_truthy (gr_oidc_issuer gateway),
          gc_phase = present phase,
          gc_status = (if status \<noteq> [] then status else ''Unknown'')\<rparr>)"

section \<open>The tracker against its specification\<close>

definition eligible :: "gateway_record \<Rightarrow> bool" where
  "eligible gateway = gatewayAwaitingConsoleEligible gateway (gatewayLifecycleStates gateway)"

text \<open>
  The first instant of the uninterrupted run of eligible observations of a gateway that ends with
  its latest one.
\<close>

definition waiting_since :: "string \<Rightarrow> observation list \<Rightarrow> instant option" where
  "waiting_since i obs =
     (let run = takeWhile (\<lambda>(_, g, _). eligible g) (rev (filter (\<lambda>(j, _, _). j = i) obs))
      in if run = [] then None else Some (snd (snd (last run))))"

lemma unavailable_iff:
  "gatewayConsoleUnavailable g start now \<longleftrightarrow> eligible g \<and> \<not> withinConsoleReadyDeadline start now"
  by (simp add: gatewayConsoleUnavailable_def eligible_def Let_def)

definition settled :: "gateway_record \<Rightarrow> bool" where
  "settled g \<longleftrightarrow> gatewayLifecycleStates g \<noteq> [] \<and>
     (\<forall>s \<in> set (gatewayLifecycleStates g). s \<notin> gatewayPollingStates)"

lemma eligible_settled: "eligible g \<Longrightarrow> settled g"
  by (simp add: eligible_def settled_def gatewayAwaitingConsoleEligible_def Let_def)

lemma needs_polling_iff:
  "gatewayNeedsStatusPolling g start now \<longleftrightarrow>
     \<not> settled g \<or> eligible g \<and> withinConsoleReadyDeadline start now"
  by (auto simp: gatewayNeedsStatusPolling_def eligible_def settled_def Let_def)

lemma track_starts:
  "snd (track i g now starts) = starts(i := resolveConsoleWaitStart g now (starts i))"
  by (simp add: track_def Let_def)

lemma waiting_since_other:
  "j \<noteq> i \<Longrightarrow> waiting_since i (obs @ [(j, g, now)]) = waiting_since i obs"
  by (simp add: waiting_since_def)

lemma waiting_since_same:
  "waiting_since i (obs @ [(i, g, now)]) = resolveConsoleWaitStart g now (waiting_since i obs)"
  by (simp add: waiting_since_def resolveConsoleWaitStart_def eligible_def Let_def)

lemma track_all_waiting_since: "track_all obs Map.empty i = waiting_since i obs"
proof (induction obs rule: rev_induct)
  case Nil
  show ?case by (simp add: track_all_def waiting_since_def)
next
  case (snoc x obs)
  obtain j g now where x: "x = (j, g, now)" by (cases x)
  have "track_all (obs @ [x]) Map.empty = snd (track j g now (track_all obs Map.empty))"
    by (simp add: track_all_def x)
  then show ?case
    using snoc by (cases "j = i") (simp_all add: track_starts x waiting_since_other waiting_since_same)
qed

section \<open>Properties\<close>

text \<open>
  C33. After any sequence of observations of any gateways, the tracker holds for each gateway the
  instant at which its current uninterrupted wait for a console was first observed, and nothing
  for a gateway that is not waiting.
\<close>

theorem tracker_holds_start_of_current_wait:
  "track_all obs Map.empty = (\<lambda>i. waiting_since i obs)"
  by (rule ext) (rule track_all_waiting_since)

text \<open>
  C34. The console is never polled for and declared unavailable at once, and a settled, routed
  gateway without a console is always one of the two: polled before the deadline of its wait,
  unavailable from the deadline on.
\<close>

theorem console_polled_until_deadline_then_unavailable:
  "\<not> (gatewayConsoleUnavailable g start now \<and> gatewayNeedsStatusPolling g start now) \<and>
   (eligible g \<longrightarrow> gatewayConsoleUnavailable g start now = (\<not> gatewayNeedsStatusPolling g start now)) \<and>
   (eligible g \<longrightarrow> gatewayNeedsStatusPolling g (Some (Ms s)) (Ms t) = (t < s + 600000))"
proof (intro conjI impI)
  show "\<not> (gatewayConsoleUnavailable g start now \<and> gatewayNeedsStatusPolling g start now)"
    unfolding unavailable_iff needs_polling_iff using eligible_settled by blast
  assume "eligible g"
  then show "gatewayConsoleUnavailable g start now = (\<not> gatewayNeedsStatusPolling g start now)"
    unfolding unavailable_iff needs_polling_iff using eligible_settled by blast
  from \<open>eligible g\<close> eligible_settled [OF \<open>eligible g\<close>]
  have "gatewayNeedsStatusPolling g (Some (Ms s)) (Ms t) = (t - s < 600000)"
    by (simp add: needs_polling_iff gatewayConsoleReadyDeadlineMilliseconds_def)
  then show "gatewayNeedsStatusPolling g (Some (Ms s)) (Ms t) = (t < s + 600000)"
    by (simp add: algebra_simps)
qed

lemma console_polled_until_deadline_then_unavailable_witness:
  "let g = \<lparr>gr_active_sandboxes = None, gr_cluster_id = [], gr_console_url = None, gr_created_at = None,
       gr_created_by = None, gr_external_dns = Some ''x'', gr_id = ''g'', gr_name = ''n'', gr_namespace = ''s'',
       gr_oidc_audience = None, gr_oidc_client_id = None, gr_oidc_issuer = None, gr_phase = Some ''Running'',
       gr_release_id = [], gr_status = None\<rparr>
   in gatewayNeedsStatusPolling g (Some (Ms 5)) (Ms 600004) \<and>
      \<not> gatewayNeedsStatusPolling g (Some (Ms 5)) (Ms 600005)"
proof -
  let ?g = "\<lparr>gr_active_sandboxes = None, gr_cluster_id = [], gr_console_url = None, gr_created_at = None,
       gr_created_by = None, gr_external_dns = Some ''x'', gr_id = ''g'', gr_name = ''n'', gr_namespace = ''s'',
       gr_oidc_audience = None, gr_oidc_client_id = None, gr_oidc_issuer = None, gr_phase = Some ''Running'',
       gr_release_id = [], gr_status = None\<rparr>"
  have t: "trim ''x'' = ''x''" "trim ''Running'' = ''Running''" "to_lower ''Running'' = ''running''"
    by code_simp+
  have e: "eligible ?g"
    by (simp add: eligible_def gatewayAwaitingConsoleEligible_def gatewayLifecycleStates_def
        gatewayPollingStates_def gatewayFailedLifecycleStates_def Let_def t)
  from console_polled_until_deadline_then_unavailable [of ?g _ _ 5 600004]
    console_polled_until_deadline_then_unavailable [of ?g _ _ 5 600005] e
  show ?thesis by (simp add: Let_def)
qed

text \<open>
  A gateway that is polled although it is settled has been waiting less than ten minutes; so
  nothing settled is polled for ever, and a wait that starts again is timed afresh.
\<close>

lemma settled_polling_is_bounded:
  assumes "gatewayNeedsStatusPolling g (track_all obs Map.empty i) (Ms t)" and "settled g"
  shows "\<exists>s. track_all obs Map.empty i = Some (Ms s) \<and> t - s < gatewayConsoleReadyDeadlineMilliseconds"
proof -
  have "withinConsoleReadyDeadline (track_all obs Map.empty i) (Ms t)"
    using assms by (simp add: needs_polling_iff)
  then show ?thesis
    by (cases "(track_all obs Map.empty i, Ms t)" rule: withinConsoleReadyDeadline.cases) auto
qed

lemma settled_polling_is_bounded_witness:
  "let g = \<lparr>gr_active_sandboxes = None, gr_cluster_id = [], gr_console_url = None, gr_created_at = None,
       gr_created_by = None, gr_external_dns = Some ''x'', gr_id = ''g'', gr_name = ''n'', gr_namespace = ''s'',
       gr_oidc_audience = None, gr_oidc_client_id = None, gr_oidc_issuer = None, gr_phase = Some ''Running'',
       gr_release_id = [], gr_status = None\<rparr>
   in \<exists>s. track_all [(''g'', g, Ms 7), (''g'', g, Ms 5007)] Map.empty ''g'' = Some (Ms s) \<and> 5007 - s < 600000"
proof -
  let ?g = "\<lparr>gr_active_sandboxes = None, gr_cluster_id = [], gr_console_url = None, gr_created_at = None,
       gr_created_by = None, gr_external_dns = Some ''x'', gr_id = ''g'', gr_name = ''n'', gr_namespace = ''s'',
       gr_oidc_audience = None, gr_oidc_client_id = None, gr_oidc_issuer = None, gr_phase = Some ''Running'',
       gr_release_id = [], gr_status = None\<rparr>"
  have t: "trim ''x'' = ''x''" "trim ''Running'' = ''Running''" "to_lower ''Running'' = ''running''"
    by code_simp+
  have st: "gatewayLifecycleStates ?g = [''running'']"
    by (simp add: gatewayLifecycleStates_def t)
  have e: "eligible ?g"
    by (simp add: eligible_def gatewayAwaitingConsoleEligible_def st
        gatewayPollingStates_def gatewayFailedLifecycleStates_def Let_def t)
  have w: "waiting_since ''g'' [(''g'', ?g, Ms 7), (''g'', ?g, Ms 5007)] = Some (Ms 7)"
    using e by (simp add: waiting_since_def Let_def)
  have p: "gatewayNeedsStatusPolling ?g (Some (Ms 7)) (Ms 5007)"
    using e by (simp add: gatewayNeedsStatusPolling_def eligible_def Let_def
        gatewayConsoleReadyDeadlineMilliseconds_def)
  have "\<exists>s. track_all [(''g'', ?g, Ms 7), (''g'', ?g, Ms 5007)] Map.empty ''g'' = Some (Ms s) \<and>
      5007 - s < gatewayConsoleReadyDeadlineMilliseconds"
    by (rule settled_polling_is_bounded [of ?g])
      (simp_all add: track_all_waiting_since w p st settled_def gatewayPollingStates_def)
  then show ?thesis by (simp add: Let_def gatewayConsoleReadyDeadlineMilliseconds_def)
qed

text \<open>
  Two batches of placement identifiers share a cache entry exactly when they name the same
  placements: order, repetition, white space and blanks do not matter.
\<close>

lemma placement_batch_keys_identify_sets:
  "gatewayPlacementBatchQueryKey xs = gatewayPlacementBatchQueryKey ys
   \<longleftrightarrow> trim ` set xs - {[]} = trim ` set ys - {[]}"
proof
  assume "gatewayPlacementBatchQueryKey xs = gatewayPlacementBatchQueryKey ys"
  then have "map KText (normalizeGatewayPlacementClusterIds xs) =
      map KText (normalizeGatewayPlacementClusterIds ys)"
    by (simp add: gatewayPlacementBatchQueryKey_def)
  then have "normalizeGatewayPlacementClusterIds xs = normalizeGatewayPlacementClusterIds ys"
    using inj_map_eq_map [of KText] by (simp add: inj_def)
  from arg_cong [OF this, of set] show "trim ` set xs - {[]} = trim ` set ys - {[]}"
    by (simp add: set_normalize_ids)
next
  assume "trim ` set xs - {[]} = trim ` set ys - {[]}"
  from normalize_ids_cong [OF this]
  show "gatewayPlacementBatchQueryKey xs = gatewayPlacementBatchQueryKey ys"
    by (simp add: gatewayPlacementBatchQueryKey_def)
qed

end
