(* ===== verification/Gateway_Commands.thy ===== *)
theory Gateway_Commands
  imports Gateway_Data
begin

text \<open>
  \<open>gateways/gateway-connections.ts\<close> and \<open>service-accounts/service-account-commands.ts\<close>: the
  shell commands shown for copying. A reader of shell words, written from the quoting rules of
  the shell, gives the specification: what was quoted is read back as one word.
\<close>

section \<open>Readiness\<close>

definition isGatewayReadyToConnect :: "gateway_connection \<Rightarrow> bool" where
  "isGatewayReadyToConnect gateway \<longleftrightarrow>
     map_option (\<lambda>p. to_lower (trim p)) (gc_phase gateway) = Some ''running'' \<and> truthy (gc_endpoint gateway)"

definition isGatewayDeleting :: "gateway_connection \<Rightarrow> bool" where
  "isGatewayDeleting gateway \<longleftrightarrow>
     map_option (\<lambda>p. to_lower (trim p)) (gc_phase gateway) = Some ''deleting''"

section \<open>Quoting\<close>

text \<open>\<open>[A-Za-z0-9_./:@%+=,-]\<close>\<close>

definition safe_shell_char :: "char \<Rightarrow> bool" where
  "safe_shell_char c \<longleftrightarrow>
     (let n = code_unit c in 65 \<le> n \<and> n \<le> 90 \<or> 97 \<le> n \<and> n \<le> 122 \<or> 48 \<le> n \<and> n \<le> 57) \<or>
     c \<in> set ''_./:@%+=,-''"

definition safeShellArgument :: "string \<Rightarrow> bool" where
  "safeShellArgument value \<longleftrightarrow> value \<noteq> [] \<and> (\<forall>c \<in> set value. safe_shell_char c)"

definition shellArgument :: "string \<Rightarrow> string" where
  "shellArgument value =
     (if safeShellArgument value then value
      else [quote] @ replace_all quote [quote, dquote, quote, dquote, quote] value @ [quote])"

text \<open>The separator of a command continued on the next line.\<close>

definition continued :: string where
  "continued = [CHR '' '', backslash, newline, CHR '' '', CHR '' '']"

definition flag :: "string \<Rightarrow> string \<Rightarrow> string" where
  "flag name value = name @ '' '' @ shellArgument value"

section \<open>Gateway commands\<close>

definition oidc_flags :: "gateway_connection \<Rightarrow> string list" where
  "oidc_flags gateway =
     (case (keep_truthy (gc_oidc_issuer gateway), keep_truthy (gc_oidc_client_id gateway),
            keep_truthy (gc_oidc_audience gateway)) of
        (Some issuer, Some clientId, Some audience) \<Rightarrow>
          [flag ''--oidc-issuer'' issuer, flag ''--oidc-client-id'' clientId,
           flag ''--oidc-audience'' audience]
      | _ \<Rightarrow> [])"

definition buildGatewayAddCommand :: "gateway_connection \<Rightarrow> string option" where
  "buildGatewayAddCommand gateway =
     (case keep_truthy (gc_endpoint gateway) of
        None \<Rightarrow> None
      | Some endpoint \<Rightarrow>
          if \<not> isGatewayReadyToConnect gateway then None
          else Some (join continued
                 ([''openshell gateway add'', flag ''--name'' (gc_name gateway)] @ oidc_flags gateway @
                  [shellArgument endpoint])))"

definition vertexProviderName :: string where "vertexProviderName = ''my-gcp''"
definition sandboxName :: string where "sandboxName = ''mysand''"
definition claudeModel :: string where "claudeModel = ''claude-haiku-4-5''"

definition buildProviderCreateCommand :: "string \<Rightarrow> string" where
  "buildProviderCreateCommand providerName =
     join continued
      [''openshell provider create'', ''--name '' @ providerName, ''--type google-vertex-ai'',
       ''--from-gcloud-adc'',
       ''--config VERTEX_AI_PROJECT_ID='' @ [dquote] @ ''$ANTHROPIC_VERTEX_PROJECT_ID'' @ [dquote],
       ''--config VERTEX_AI_REGION=global'']"

definition buildInferenceSetCommand :: "string \<Rightarrow> string \<Rightarrow> string" where
  "buildInferenceSetCommand providerName model =
     ''openshell inference set --provider '' @ providerName @ '' --model '' @ model"

definition buildSandboxCreateCommand :: "string \<Rightarrow> string \<Rightarrow> string" where
  "buildSandboxCreateCommand name model =
     join continued
      [''openshell sandbox create'', ''--name '' @ name,
       ''--env=ANTHROPIC_BASE_URL=https://inference.local'', ''--env=ANTHROPIC_API_KEY=unused'',
       ''--no-auto-providers'', ''-- claude --bare --model '' @ model]"

record setup_overrides =
  so_model :: "string option"
  so_provider_name :: "string option"

definition or_default :: "string option \<Rightarrow> string \<Rightarrow> string" where
  "or_default v d = (case v of None \<Rightarrow> d | Some s \<Rightarrow> s)"

definition buildSetupScript :: "gateway_connection \<Rightarrow> setup_overrides \<Rightarrow> string option" where
  "buildSetupScript gateway overrides =
     (case keep_truthy (buildGatewayAddCommand gateway) of
        None \<Rightarrow> None
      | Some gatewayAdd \<Rightarrow>
          let model = or_default (so_model overrides) claudeModel;
              providerName = or_default (so_provider_name overrides) vertexProviderName
          in Some (join [newline]
               [''# 1. Log in to the gateway'', gatewayAdd, [],
                ''# 2. Add the Claude on Vertex AI provider'', buildProviderCreateCommand providerName, [],
                ''# 3. Select the model'', buildInferenceSetCommand providerName model]))"

section \<open>Status appearance\<close>

datatype status_appearance =
  ADanger | AInactive | APending | AProgress | ASuccess | AUnknown | AWarning

definition gatewayStatusAppearance :: "string \<Rightarrow> status_appearance" where
  "gatewayStatusAppearance status =
     (let s = to_lower (trim status)
      in if s \<in> set [''active'', ''available'', ''healthy'', ''ready'', ''running'', ''succeeded''] then ASuccess
         else if s \<in> set [''degraded'', ''warning''] then AWarning
         else if s \<in> set [''expired'', ''revoked''] then AInactive
         else if s = ''pending'' then APending
         else if s \<in> set [''provisioning'', ''reconciling'', ''revoking'', ''deleting'', ''updating''] then AProgress
         else if s \<in> set [''error'', ''failed''] then ADanger
         else AUnknown)"

text \<open>\<open>GatewayStatus\<close>: the icon of an appearance, and whether the label is muted.\<close>

datatype status_icon =
    BanIcon | CheckCircleIcon | ExclamationTriangleIcon | ExclamationCircleIcon | PendingIcon | SpinnerIcon | UnknownIcon

fun gatewayStatusIcon :: "status_appearance \<Rightarrow> status_icon" where
  "gatewayStatusIcon AInactive = BanIcon"
| "gatewayStatusIcon ASuccess = CheckCircleIcon"
| "gatewayStatusIcon AWarning = ExclamationTriangleIcon"
| "gatewayStatusIcon ADanger = ExclamationCircleIcon"
| "gatewayStatusIcon APending = PendingIcon"
| "gatewayStatusIcon AProgress = SpinnerIcon"
| "gatewayStatusIcon AUnknown = UnknownIcon"

text \<open>The icon, whether the label has the muted class, and the label.\<close>

definition gatewayStatus :: "string option \<Rightarrow> string \<Rightarrow> status_icon \<times> bool \<times> string" where
  "gatewayStatus label status =
     (let appearance = gatewayStatusAppearance status
      in (gatewayStatusIcon appearance, appearance = AUnknown \<or> appearance = AInactive, or_default label status))"

section \<open>Service-account commands\<close>

definition hasRequiredConnectionValues :: "'z account_connection_scheme \<Rightarrow> bool" where
  "hasRequiredConnectionValues c \<longleftrightarrow>
     (\<forall>v \<in> set [Some (cn_audience c), Some (cn_client_id c), cn_gateway_endpoint c,
        Some (cn_gateway_name c), Some (cn_issuer c), Some (cn_token_endpoint c)].
        trim_or_empty v \<noteq> [])"

definition secretEnvironmentVariable :: string where
  "secretEnvironmentVariable = ''OPENSHELL_OIDC_CLIENT_SECRET''"

definition secretPrompt :: "string list" where
  "secretPrompt =
     [''if [ -z '' @ [dquote] @ ''${'' @ secretEnvironmentVariable @ '':-}'' @ [dquote] @ '' ]; then'',
      ''  read -rsp '' @ [quote] @ ''OpenShell OIDC client secret: '' @ [quote] @ '' '' @ secretEnvironmentVariable,
      ''  printf '' @ [quote, backslash] @ ''n'' @ [quote],
      ''  export '' @ secretEnvironmentVariable,
      ''fi'']"

definition serviceAccountGatewayAlias :: "string \<Rightarrow> string \<Rightarrow> string" where
  "serviceAccountGatewayAlias gatewayName accountName = gatewayName @ ''-'' @ accountName"

definition buildWorkspaceMembershipCommand :: "string \<Rightarrow> string option" where
  "buildWorkspaceMembershipCommand subject =
     (if trim subject = [] then None
      else Some (join [newline]
        [''WORKSPACE_NAME='' @ [quote] @ ''replace-with-workspace-name'' @ [quote], [],
         ''openshell workspace member add '' @ [backslash],
         ''  --workspace '' @ [dquote] @ ''$WORKSPACE_NAME'' @ [dquote] @ '' '' @ [backslash],
         ''  --subject '' @ shellArgument subject @ '' '' @ [backslash],
         ''  --role user'']))"

text \<open>The registration command inside the script.\<close>

definition service_account_add :: "string \<Rightarrow> 'z account_connection_scheme \<Rightarrow> string" where
  "service_account_add aliasName c =
     join continued
      [''openshell gateway add'', flag ''--name'' aliasName, flag ''--oidc-issuer'' (cn_issuer c),
       flag ''--oidc-client-id'' (cn_client_id c), flag ''--oidc-audience'' (cn_audience c),
       shellArgument (or_default (cn_gateway_endpoint c) [])]"

definition buildOpenShellServiceAccountScript ::
    "string \<Rightarrow> 'z account_connection_scheme \<Rightarrow> string option" where
  "buildOpenShellServiceAccountScript accountName c =
     (if \<not> hasRequiredConnectionValues c \<or> trim accountName = [] then None
      else let aliasName = serviceAccountGatewayAlias (cn_gateway_name c) accountName
           in Some (join [newline]
                (secretPrompt @ [[], service_account_add aliasName c, [],
                  ''openshell -g '' @ shellArgument aliasName @ '' whoami --output json''])))"

definition buildClientCredentialsScript :: "'z account_connection_scheme \<Rightarrow> string option" where
  "buildClientCredentialsScript c =
     (if \<not> hasRequiredConnectionValues c then None
      else Some (join [newline]
        (secretPrompt @
         [[],
          ''ACCESS_TOKEN=$(printf '' @ [quote] @ ''%s'' @ [quote] @ '' '' @ [dquote] @
            ''$OPENSHELL_OIDC_CLIENT_SECRET'' @ [dquote] @ '' | '' @ [backslash],
          ''  curl --fail --silent --show-error --request POST '' @ shellArgument (cn_token_endpoint c) @
            '' '' @ [backslash],
          ''    --header '' @ [quote] @ ''Content-Type: application/x-www-form-urlencoded'' @ [quote] @
            '' '' @ [backslash],
          ''    --data-urlencode '' @ [quote] @ ''grant_type=client_credentials'' @ [quote] @ '' '' @ [backslash],
          ''    --data-urlencode '' @ shellArgument (''client_id='' @ cn_client_id c) @ '' '' @ [backslash],
          ''    --data-urlencode client_secret@- | '' @ [backslash],
          ''  python3 -c '' @ shellArgument
            (''import json,sys; print(json.load(sys.stdin)['' @ [dquote] @ ''access_token'' @ [dquote] @ ''])'') @
            '')''])))"

section \<open>Reading shell words\<close>

datatype quoting = Bare | InSingle | InDouble

definition blank :: "char \<Rightarrow> bool" where "blank c \<longleftrightarrow> c = CHR '' '' \<or> c = newline"

text \<open>
  One word: its value and the text after it. Outside quotes only characters without meaning to the
  shell are read, inside double quotes only those that do not start an expansion.
\<close>

fun read_word :: "quoting \<Rightarrow> string \<Rightarrow> (string \<times> string) option" where
  "read_word Bare [] = Some ([], [])"
| "read_word Bare (c # s) =
     (if blank c then Some ([], c # s)
      else if c = quote then read_word InSingle s
      else if c = dquote then read_word InDouble s
      else if safe_shell_char c then map_option (\<lambda>(w, r). (c # w, r)) (read_word Bare s)
      else None)"
| "read_word InSingle [] = None"
| "read_word InSingle (c # s) =
     (if c = quote then read_word Bare s else map_option (\<lambda>(w, r). (c # w, r)) (read_word InSingle s))"
| "read_word InDouble [] = None"
| "read_word InDouble (c # s) =
     (if c = dquote then read_word Bare s
      else if c \<in> {CHR ''$'', CHR 0x60, backslash} then None
      else map_option (\<lambda>(w, r). (c # w, r)) (read_word InDouble s))"

lemma read_word_length: "read_word m s = Some (w, r) \<Longrightarrow> length r \<le> length s"
  by (induction m s arbitrary: w r rule: read_word.induct) (fastforce split: if_splits)+

lemma read_word_progress:
  "read_word Bare (c # s) = Some (w, r) \<Longrightarrow> \<not> blank c \<Longrightarrow> length r \<le> length s"
  by (auto split: if_splits dest: read_word_length)

text \<open>The words of a command, which a backslash and a line end may continue.\<close>

function read_command :: "string \<Rightarrow> string list option" where
  "read_command [] = Some []"
| "read_command (c # s) =
     (if c = CHR '' '' then read_command s
      else if c = backslash then
        (case s of [] \<Rightarrow> None | d # s' \<Rightarrow> if d = newline then read_command s' else None)
      else if c = newline then None
      else (case read_word Bare (c # s) of
              None \<Rightarrow> None
            | Some (w, r) \<Rightarrow> map_option (Cons w) (read_command r)))"
  by pat_completeness auto
termination
  by (relation "measure length")
    (auto simp: blank_def less_Suc_eq_le simp del: read_word.simps dest: read_word_progress)

section \<open>What is read back\<close>

definition ends_word :: "string \<Rightarrow> bool" where
  "ends_word rest \<longleftrightarrow> rest = [] \<or> blank (hd rest)"

lemma ends_word_simps [simp]:
  "ends_word []" "ends_word (CHR '' '' # s)" "ends_word (newline # s)"
  by (simp_all add: ends_word_def blank_def)

lemma read_word_end: "ends_word rest \<Longrightarrow> read_word Bare rest = Some ([], rest)"
  by (cases rest) (simp_all add: ends_word_def)

lemma safe_not_special:
  "safe_shell_char c \<Longrightarrow> \<not> blank c \<and> c \<noteq> quote \<and> c \<noteq> dquote \<and> c \<noteq> backslash"
  by (auto simp: safe_shell_char_def blank_def code_unit_def Let_def)

lemma read_word_safe:
  "\<forall>c \<in> set s. safe_shell_char c \<Longrightarrow> ends_word rest \<Longrightarrow> read_word Bare (s @ rest) = Some (s, rest)"
  by (induction s) (auto simp: read_word_end dest: safe_not_special)

lemma read_word_single:
  "ends_word rest \<Longrightarrow>
     read_word InSingle (replace_all quote [quote, dquote, quote, dquote, quote] s @ quote # rest) = Some (s, rest)"
  by (induction s) (auto simp: read_word_end blank_def)

lemma read_shellArgument:
  "ends_word rest \<Longrightarrow> read_word Bare (shellArgument s @ rest) = Some (s, rest)"
  by (simp add: shellArgument_def safeShellArgument_def read_word_safe read_word_single blank_def)

lemma shellArgument_nonempty: "\<exists>c t. shellArgument s = c # t \<and> c \<noteq> CHR '' '' \<and> c \<noteq> backslash \<and> c \<noteq> newline"
proof (cases "safeShellArgument s")
  case True
  then obtain c t where "s = c # t" "safe_shell_char c"
    by (cases s) (auto simp: safeShellArgument_def)
  then show ?thesis
    using True safe_not_special [of c] by (auto simp: shellArgument_def blank_def)
qed (simp add: shellArgument_def)

text \<open>A piece of a command that is read as the given words, whatever follows it.\<close>

definition reads :: "string \<Rightarrow> string list \<Rightarrow> bool" where
  "reads piece ws \<longleftrightarrow>
     (\<forall>rest. ends_word rest \<longrightarrow> read_command (piece @ rest) = map_option ((@) ws) (read_command rest))"

lemma reads_argument: "reads (shellArgument s) [s]"
  unfolding reads_def
proof (intro allI impI)
  fix rest
  assume rest: "ends_word rest"
  obtain c t where c: "shellArgument s = c # t" "c \<noteq> CHR '' ''" "c \<noteq> backslash" "c \<noteq> newline"
    using shellArgument_nonempty by blast
  have "read_word Bare (c # t @ rest) = Some (s, rest)"
    using read_shellArgument [OF rest, of s] c(1) by simp
  then show "read_command (shellArgument s @ rest) = map_option ((@) [s]) (read_command rest)"
    using c by (simp del: read_word.simps add: option.map_comp comp_def) (simp add: append_Cons [abs_def])
qed

lemma reads_word: "safeShellArgument w \<Longrightarrow> reads w [w]"
  using reads_argument [of w] by (simp add: shellArgument_def)

lemma read_command_blank [simp]: "read_command (CHR '' '' # s) = read_command s"
  by simp

lemma readsD:
  "reads p ws \<Longrightarrow> ends_word rest \<Longrightarrow> read_command (p @ rest) = map_option ((@) ws) (read_command rest)"
  by (simp add: reads_def)

lemma append_comp: "(\<lambda>x. ws @ vs @ x) = (@) (ws @ vs)"
  by (rule ext) simp

lemma reads_space:
  assumes "reads p ws" and "reads q vs"
  shows "reads (p @ '' '' @ q) (ws @ vs)"
  using readsD [OF assms(1), of "'' '' @ q @ rest" for rest] readsD [OF assms(2)]
  by (simp add: reads_def option.map_comp comp_def append_comp)

lemma reads_continued:
  assumes "reads p ws" and "reads q vs"
  shows "reads (p @ continued @ q) (ws @ vs)"
  using readsD [OF assms(1), of "continued @ q @ rest" for rest] readsD [OF assms(2)]
  by (simp add: reads_def continued_def option.map_comp comp_def append_comp)

lemma reads_join:
  "list_all2 reads ps wss \<Longrightarrow> ps \<noteq> [] \<Longrightarrow> reads (join continued ps) (concat wss)"
proof (induction ps wss rule: list_all2_induct)
  case (Cons p ps ws wss)
  show ?case
  proof (cases ps)
    case Nil
    then show ?thesis using Cons.hyps by simp
  next
    case (Cons q qs)
    then have "reads (join continued ps) (concat wss)" using \<open>ps \<noteq> [] \<Longrightarrow> _\<close> by simp
    from reads_continued [OF Cons.hyps(1) this] show ?thesis by (simp add: Cons)
  qed
qed simp

lemma reads_whole: "reads p ws \<Longrightarrow> read_command p = Some ws"
  unfolding reads_def by (drule spec [of _ "[]"]) simp

lemma reads_flag: "safeShellArgument f \<Longrightarrow> reads (flag f v) [f, v]"
  using reads_space [OF reads_word reads_argument, of f v] by (simp add: flag_def)

lemma safe_literals:
  "safeShellArgument ''openshell''" "safeShellArgument ''gateway''" "safeShellArgument ''add''"
  "safeShellArgument ''--name''" "safeShellArgument ''--oidc-issuer''"
  "safeShellArgument ''--oidc-client-id''" "safeShellArgument ''--oidc-audience''"
  by code_simp+

lemma reads_gateway_add: "reads ''openshell gateway add'' [''openshell'', ''gateway'', ''add'']"
  using reads_space [OF reads_word reads_space [OF reads_word reads_word],
      of "''openshell''" "''gateway''" "''add''"]
  by (simp add: safe_literals)

text \<open>The words the sign-in settings stand for, given all three of them.\<close>

definition oidc_words :: "gateway_connection \<Rightarrow> string list list" where
  "oidc_words gateway =
     (case (keep_truthy (gc_oidc_issuer gateway), keep_truthy (gc_oidc_client_id gateway),
            keep_truthy (gc_oidc_audience gateway)) of
        (Some i, Some c, Some a) \<Rightarrow>
          [[''--oidc-issuer'', i], [''--oidc-client-id'', c], [''--oidc-audience'', a]]
      | _ \<Rightarrow> [])"

lemma reads_oidc: "list_all2 reads (oidc_flags gateway) (oidc_words gateway)"
  by (simp add: oidc_flags_def oidc_words_def reads_flag safe_literals split: option.split)

lemma sublist_join: "x \<in> set xs \<Longrightarrow> sublist x (join sep xs)"
proof (induction xs)
  case (Cons y ys)
  note IH = Cons.IH and prems = Cons.prems
  show ?case
  proof (cases ys)
    case Nil
    then show ?thesis using Cons.prems by simp
  next
    case (Cons z zs)
    have whole: "join sep (y # ys) = y @ (sep @ join sep ys)" using Cons by simp
    show ?thesis
    proof (cases "x = y")
      case True
      then show ?thesis unfolding whole by simp
    next
      case False
      then have "sublist x (join sep ys)" using IH prems by simp
      then have "sublist x ((y @ sep) @ join sep ys)"
        by (auto simp: sublist_def) (metis append.assoc)
      then show ?thesis unfolding whole by simp
    qed
  qed
qed simp

section \<open>Properties\<close>

text \<open>
  Any value is quoted so that the shell reads back exactly that value as one word, at the end of
  the text or before a blank, whatever characters it holds.
\<close>

lemma quoted_argument_reads_back:
  assumes "rest = [] \<or> hd rest = CHR '' '' \<or> hd rest = newline"
  shows "read_word Bare (shellArgument value @ rest) = Some (value, rest)"
  using assms by (intro read_shellArgument) (auto simp: ends_word_def blank_def)

lemma quoted_argument_reads_back_witness:
  "read_word Bare (shellArgument [CHR ''a'', quote, CHR ''$''] @ '' x'') = Some ([CHR ''a'', quote, CHR ''$''], '' x'')"
  by (rule quoted_argument_reads_back) simp

text \<open>
  C36. The command that registers a gateway exists exactly for a running gateway with an endpoint,
  and is read by the shell as one command with the gateway's name, its sign-in settings when all
  three are known, and its endpoint, each exactly one argument.
\<close>

theorem gateway_add_command_reads_back:
  "case buildGatewayAddCommand gateway of
     None \<Rightarrow> \<not> isGatewayReadyToConnect gateway
   | Some cmd \<Rightarrow>
       isGatewayReadyToConnect gateway \<and>
       read_command cmd = Some
         ([''openshell'', ''gateway'', ''add'', ''--name'', gc_name gateway] @
          concat (oidc_words gateway) @ [the (gc_endpoint gateway)])"
proof (cases "buildGatewayAddCommand gateway")
  case None
  then have "keep_truthy (gc_endpoint gateway) = None \<or> \<not> isGatewayReadyToConnect gateway"
    by (simp add: buildGatewayAddCommand_def split: option.splits if_splits)
  then have "\<not> isGatewayReadyToConnect gateway"
    by (cases "gc_endpoint gateway") (simp_all add: isGatewayReadyToConnect_def keep_truthy_def split: if_splits)
  with None show ?thesis by simp
next
  case (Some cmd)
  then obtain endpoint where e: "keep_truthy (gc_endpoint gateway) = Some endpoint"
    and ready: "isGatewayReadyToConnect gateway"
    and cmd: "cmd = join continued
      ([''openshell gateway add'', flag ''--name'' (gc_name gateway)] @ oidc_flags gateway @ [shellArgument endpoint])"
    by (simp add: buildGatewayAddCommand_def split: option.splits if_splits)
  have "list_all2 reads
      ([''openshell gateway add'', flag ''--name'' (gc_name gateway)] @ oidc_flags gateway @ [shellArgument endpoint])
      ([[''openshell'', ''gateway'', ''add''], [''--name'', gc_name gateway]] @ oidc_words gateway @ [[endpoint]])"
    by (intro list_all2_appendI reads_oidc)
      (simp_all add: reads_gateway_add reads_flag safe_literals reads_argument)
  from reads_whole [OF reads_join [OF this]]
  have "read_command cmd = Some (concat ([[''openshell'', ''gateway'', ''add''], [''--name'', gc_name gateway]] @
      oidc_words gateway @ [[endpoint]]))"
    by (simp add: cmd)
  moreover have "the (gc_endpoint gateway) = endpoint" using e by (simp add: keep_truthy_Some)
  ultimately show ?thesis using ready by (simp add: Some)
qed

text \<open>
  The registration inside a service account's script is read by the shell as one command whose
  alias, issuer, client, audience and endpoint are each exactly one argument; and there is no script
  without all of them.
\<close>

lemma service_account_script_registers:
  "case buildOpenShellServiceAccountScript name c of
     None \<Rightarrow> \<not> (hasRequiredConnectionValues c \<and> trim name \<noteq> [])
   | Some script \<Rightarrow> hasRequiredConnectionValues c \<and>
       (let aliasName = serviceAccountGatewayAlias (cn_gateway_name c) name
        in sublist (service_account_add aliasName c) script \<and>
           read_command (service_account_add aliasName c) = Some
             [''openshell'', ''gateway'', ''add'', ''--name'', aliasName, ''--oidc-issuer'', cn_issuer c,
              ''--oidc-client-id'', cn_client_id c, ''--oidc-audience'', cn_audience c,
              the (cn_gateway_endpoint c)])"
proof (cases "buildOpenShellServiceAccountScript name c")
  case None
  then show ?thesis
    by (cases "hasRequiredConnectionValues c")
      (simp_all add: buildOpenShellServiceAccountScript_def Let_def split: if_splits)
next
  case (Some script)
  let ?aliasName = "serviceAccountGatewayAlias (cn_gateway_name c) name"
  have req: "hasRequiredConnectionValues c" and script: "script = join [newline]
      (secretPrompt @ [[], service_account_add ?aliasName c, [],
        ''openshell -g '' @ shellArgument ?aliasName @ '' whoami --output json''])"
    using Some by (simp_all add: buildOpenShellServiceAccountScript_def Let_def split: if_splits)
  obtain e where e: "cn_gateway_endpoint c = Some e"
    using req by (cases "cn_gateway_endpoint c") (simp_all add: hasRequiredConnectionValues_def)
  have "sublist (service_account_add ?aliasName c) script"
    unfolding script by (rule sublist_join) simp
  moreover have "list_all2 reads
      [''openshell gateway add'', flag ''--name'' ?aliasName, flag ''--oidc-issuer'' (cn_issuer c),
       flag ''--oidc-client-id'' (cn_client_id c), flag ''--oidc-audience'' (cn_audience c), shellArgument e]
      [[''openshell'', ''gateway'', ''add''], [''--name'', ?aliasName], [''--oidc-issuer'', cn_issuer c],
       [''--oidc-client-id'', cn_client_id c], [''--oidc-audience'', cn_audience c], [e]]"
    by (simp add: reads_gateway_add reads_flag safe_literals reads_argument)
  from reads_whole [OF reads_join [OF this]]
  have "read_command (service_account_add ?aliasName c) = Some
      [''openshell'', ''gateway'', ''add'', ''--name'', ?aliasName, ''--oidc-issuer'', cn_issuer c,
       ''--oidc-client-id'', cn_client_id c, ''--oidc-audience'', cn_audience c, e]"
    by (simp add: service_account_add_def e or_default_def)
  ultimately show ?thesis using req by (simp add: Some e Let_def)
qed

end
