(* ===== verification/Command_Highlight.thy ===== *)
theory Command_Highlight
  imports JS_Prelude
begin

text \<open>
  \<open>gateways/command-highlight.ts\<close>: the coloured parts of a command whose editable values were
  replaced by markers. The tokens of the highlighter are a parameter.
\<close>

section \<open>Class names\<close>

definition is_hex_digit :: "char \<Rightarrow> bool" where
  "is_hex_digit c \<longleftrightarrow>
     (let n = code_unit c in 48 \<le> n \<and> n \<le> 57 \<or> 65 \<le> n \<and> n \<le> 70 \<or> 97 \<le> n \<and> n \<le> 102)"

text \<open>\<open>/^#([0-9a-fA-F]{3,8})$/\<close> and its group.\<close>

definition hex_colour :: "string \<Rightarrow> string option" where
  "hex_colour s =
     (case s of
        [] \<Rightarrow> None
      | c # h \<Rightarrow>
          if c = CHR ''#'' \<and> 3 \<le> length h \<and> length h \<le> 8 \<and> (\<forall>d \<in> set h. is_hex_digit d)
          then Some h else None)"

definition colorClass :: "string \<Rightarrow> string option \<Rightarrow> string option" where
  "colorClass prefix_text value =
     (case hex_colour (trim_or_empty value) of
        None \<Rightarrow> None
      | Some hex \<Rightarrow> Some (prefix_text @ ''-'' @ to_lower hex))"

type_synonym token_style = "string \<Rightarrow> string option"

definition contains_text :: "string option \<Rightarrow> string \<Rightarrow> bool" where
  "contains_text value part = (case value of None \<Rightarrow> False | Some s \<Rightarrow> sublist part s)"

definition class_list :: "token_style \<Rightarrow> string list" where
  "class_list style =
     (case colorClass ''hl-fg'' (style ''color'') of None \<Rightarrow> [] | Some fg \<Rightarrow> [fg]) @
     (case colorClass ''hl-dfg'' (style ''--shiki-dark'') of None \<Rightarrow> [] | Some dfg \<Rightarrow> [dfg]) @
     (if contains_text (style ''font-weight'') ''bold'' then [''hl-bold''] else []) @
     (if contains_text (style ''font-style'') ''italic'' then [''hl-italic''] else [])"

definition tokenClassName :: "token_style option \<Rightarrow> string" where
  "tokenClassName style = (case style of None \<Rightarrow> [] | Some s \<Rightarrow> join '' '' (class_list s))"

section \<open>Splitting at markers\<close>

datatype command_part =
    TextPart string string
  | FieldPart string string

text \<open>
  The inner loop: the smallest index at which a marker occurs, and the first marker of the list
  that occurs there.
\<close>

fun earliest_from :: "string \<Rightarrow> string list \<Rightarrow> (nat \<times> string) option \<Rightarrow> (nat \<times> string) option" where
  "earliest_from rest [] best = best"
| "earliest_from rest (m # ms) best =
     earliest_from rest ms
       (case (index_of rest m, best) of
          (None, _) \<Rightarrow> best
        | (Some i, None) \<Rightarrow> Some (i, m)
        | (Some i, Some (j, b)) \<Rightarrow> if i < j then Some (i, m) else best)"

definition earliest_marker :: "string \<Rightarrow> string list \<Rightarrow> (nat \<times> string) option" where
  "earliest_marker rest markers = earliest_from rest markers None"

text \<open>The loop; \<open>None\<close> when it does not end.\<close>

partial_function (option) splitOnMarkers ::
    "string list \<Rightarrow> string \<Rightarrow> string \<Rightarrow> command_part list option" where
  "splitOnMarkers markers className rest =
     (if rest = [] then Some []
      else case earliest_marker rest markers of
        None \<Rightarrow> Some [TextPart className rest]
      | Some im \<Rightarrow>
          Option.bind (splitOnMarkers markers className (drop (fst im + length (snd im)) rest)) (\<lambda>parts.
            Some ((if fst im > 0 then [TextPart className (take (fst im) rest)] else []) @
              FieldPart className (snd im) # parts)))"

text \<open>A token: its content and its style.\<close>

type_synonym token = "string \<times> token_style option"

fun token_parts :: "string list \<Rightarrow> token list \<Rightarrow> command_part list option" where
  "token_parts markers [] = Some []"
| "token_parts markers ((content, style) # ts) =
     Option.bind (splitOnMarkers markers (tokenClassName style) content) (\<lambda>ps.
     Option.bind (token_parts markers ts) (\<lambda>qs. Some (ps @ qs)))"

text \<open>A text part with the line end stands before every line but the first.\<close>

fun highlight_lines :: "string list \<Rightarrow> token list list \<Rightarrow> command_part list option" where
  "highlight_lines markers [] = Some []"
| "highlight_lines markers (l # ls) =
     Option.bind (token_parts markers l) (\<lambda>ps.
     Option.bind (highlight_lines markers ls) (\<lambda>qs. Some (TextPart [] [newline] # ps @ qs)))"

definition highlightTemplate :: "string list \<Rightarrow> token list list \<Rightarrow> command_part list option" where
  "highlightTemplate markers tokens =
     (case tokens of
        [] \<Rightarrow> Some []
      | l # ls \<Rightarrow>
          Option.bind (token_parts markers l) (\<lambda>ps.
          Option.bind (highlight_lines markers ls) (\<lambda>qs. Some (ps @ qs))))"

section \<open>The earliest marker\<close>

fun part_text :: "command_part \<Rightarrow> string" where
  "part_text (TextPart c v) = v"
| "part_text (FieldPart c m) = m"

definition parts_text :: "command_part list \<Rightarrow> string" where
  "parts_text ps = concat (map part_text ps)"

fun good_part :: "string list \<Rightarrow> command_part \<Rightarrow> bool" where
  "good_part markers (TextPart c v) = (v \<noteq> [] \<and> (\<forall>m \<in> set markers. \<not> sublist m v))"
| "good_part markers (FieldPart c m) = (m \<in> set markers)"

lemma index_of_None: "index_of xs p = None \<longleftrightarrow> \<not> sublist p xs"
proof (induction xs p rule: index_of.induct)
  case (2 x xs p)
  then show ?case by (auto simp: sublist_Cons_right)
qed simp

lemma index_of_least:
  "index_of xs p = Some i \<Longrightarrow> p \<noteq> [] \<Longrightarrow> \<not> sublist p (take i xs)"
proof (induction xs p arbitrary: i rule: index_of.induct)
  case (2 x xs p)
  show ?case
  proof (cases "prefix p (x # xs)")
    case False
    then obtain j where j: "index_of xs p = Some j" "i = Suc j" using 2 by auto
    have "\<not> prefix p (x # take j xs)"
      using False by (metis prefix_order.trans take_Suc_Cons take_is_prefix)
    then show ?thesis using 2 False j by (simp add: sublist_Cons_right)
  qed (use 2 in simp)
qed simp

definition best_for :: "string \<Rightarrow> string set \<Rightarrow> (nat \<times> string) option \<Rightarrow> bool" where
  "best_for rest ms best \<longleftrightarrow>
     (case best of
        None \<Rightarrow> \<forall>m \<in> ms. index_of rest m = None
      | Some (i, m) \<Rightarrow> m \<in> ms \<and> index_of rest m = Some i \<and>
          (\<forall>n \<in> ms. \<forall>j. index_of rest n = Some j \<longrightarrow> i \<le> j))"

lemma earliest_from_best:
  "best_for rest seen best \<Longrightarrow> best_for rest (seen \<union> set ms) (earliest_from rest ms best)"
proof (induction ms arbitrary: seen best)
  case (Cons m ms)
  have "best_for rest (insert m seen)
      (case (index_of rest m, best) of
          (None, _) \<Rightarrow> best
        | (Some i, None) \<Rightarrow> Some (i, m)
        | (Some i, Some (j, b)) \<Rightarrow> if i < j then Some (i, m) else best)"
    using Cons.prems by (fastforce simp: best_for_def split: option.splits)
  from Cons.IH [OF this] show ?case by simp
qed simp

lemma earliest_marker_best: "best_for rest (set markers) (earliest_marker rest markers)"
  using earliest_from_best [of rest "{}" None markers] by (simp add: earliest_marker_def best_for_def)

lemma earliest_marker_None:
  "earliest_marker rest markers = None \<Longrightarrow> m \<in> set markers \<Longrightarrow> \<not> sublist m rest"
  using earliest_marker_best [of rest markers] by (simp add: best_for_def index_of_None)

lemma earliest_marker_Some:
  assumes "earliest_marker rest markers = Some (i, m)"
  shows "m \<in> set markers" and "rest = take i rest @ m @ drop (i + length m) rest"
    and "[] \<notin> set markers \<Longrightarrow> n \<in> set markers \<Longrightarrow> \<not> sublist n (take i rest)"
proof -
  have best: "m \<in> set markers" "index_of rest m = Some i"
    "\<And>n j. n \<in> set markers \<Longrightarrow> index_of rest n = Some j \<Longrightarrow> i \<le> j"
    using earliest_marker_best [of rest markers] assms by (auto simp: best_for_def)
  show "m \<in> set markers" by (rule best(1))
  show "rest = take i rest @ m @ drop (i + length m) rest" by (rule index_of_Some [OF best(2)])
  assume "[] \<notin> set markers" and n: "n \<in> set markers"
  show "\<not> sublist n (take i rest)"
  proof (cases "index_of rest n")
    case None
    then have "\<not> sublist n rest" by (simp add: index_of_None)
    then show ?thesis by (meson sublist_order.order.trans sublist_take)
  next
    case (Some j)
    have "\<not> sublist n (take j rest)"
      using index_of_least [OF Some] n \<open>[] \<notin> set markers\<close> by auto
    moreover have "sublist (take i rest) (take j rest)"
      using best(3) [OF n Some] by (metis min.absorb2 sublist_take take_take min.commute)
    ultimately show ?thesis by (meson sublist_order.order.trans)
  qed
qed

lemma split_total:
  assumes "[] \<notin> set markers"
  shows "\<exists>parts. splitOnMarkers markers className content = Some parts \<and>
    parts_text parts = content \<and> (\<forall>p \<in> set parts. good_part markers p)"
proof (induction content rule: length_induct)
  case (1 rest)
  show ?case
  proof (cases "rest = []")
    case True
    then show ?thesis by (simp add: splitOnMarkers.simps parts_text_def)
  next
    case False
    show ?thesis
    proof (cases "earliest_marker rest markers")
      case None
      then show ?thesis
        using False earliest_marker_None [OF None]
        by (simp add: splitOnMarkers.simps [of markers className rest] parts_text_def)
    next
      case (Some im)
      obtain i m where im: "im = (i, m)" by fastforce
      note em = earliest_marker_Some [OF Some [unfolded im]]
      let ?d = "drop (i + length m) rest"
      have "0 < length m" using em(1) assms by (cases m) auto
      then have "length ?d < length rest" using False by simp
      then obtain parts where parts: "splitOnMarkers markers className ?d = Some parts"
        "parts_text parts = ?d" "\<forall>p \<in> set parts. good_part markers p"
        using 1 by blast
      have whole: "take i rest @ m @ drop (i + length m) rest = rest" by (rule em(2) [symmetric])
      then have start: "i = 0 \<Longrightarrow> m @ drop (length m) rest = rest" by simp
      show ?thesis
        using False Some im em(1) em(3) [OF assms] parts whole start
        by (simp add: splitOnMarkers.simps [of markers className rest] parts_text_def)
    qed
  qed
qed

lemma highlight_text:
  assumes "[] \<notin> set markers"
  shows "\<exists>parts. highlightTemplate markers tokens = Some parts \<and>
    parts_text parts = join [newline] (map (\<lambda>l. concat (map fst l)) tokens)"
proof -
  have split: "\<exists>ps. splitOnMarkers markers c t = Some ps \<and> parts_text ps = t" for c t
  proof -
    have "\<exists>parts. splitOnMarkers markers c t = Some parts \<and> parts_text parts = t \<and>
        (\<forall>p \<in> set parts. good_part markers p)"
      by (rule split_total [OF assms])
    then show ?thesis by blast
  qed
  have app: "parts_text (ps @ qs) = parts_text ps @ parts_text qs" for ps qs
    by (simp add: parts_text_def)
  have line: "\<exists>ps. token_parts markers l = Some ps \<and> parts_text ps = concat (map fst l)" for l
  proof (induction l)
    case (Cons t l)
    obtain content style where t: "t = (content, style)" by fastforce
    obtain ps where "splitOnMarkers markers (tokenClassName style) content = Some ps" "parts_text ps = content"
      using split by blast
    with Cons show ?case by (auto simp: t app)
  qed (simp add: parts_text_def)
  have rest: "\<exists>qs. highlight_lines markers ls = Some qs \<and>
      parts_text qs = concat (map (\<lambda>l. newline # concat (map fst l)) ls)" for ls
  proof (induction ls)
    case (Cons l ls)
    obtain ps where "token_parts markers l = Some ps" "parts_text ps = concat (map fst l)"
      using line by blast
    with Cons show ?case by (auto simp: app) (simp add: parts_text_def)
  qed (simp add: parts_text_def)
  have cons: "join sep ((c # x) # xs) = c # join sep (x # xs)" for sep c and x :: string and xs
    by (cases xs) simp_all
  have joined: "x @ concat (map (\<lambda>l. newline # f l) ls) = join [newline] (x # map f ls)"
    for x and f :: "token list \<Rightarrow> string" and ls
    by (induction ls arbitrary: x) (simp_all add: cons)
  show ?thesis
  proof (cases tokens)
    case Nil
    then show ?thesis by (simp add: highlightTemplate_def parts_text_def)
  next
    case (Cons l ls)
    obtain ps where "token_parts markers l = Some ps" "parts_text ps = concat (map fst l)"
      using line by blast
    moreover obtain qs where "highlight_lines markers ls = Some qs"
      "parts_text qs = concat (map (\<lambda>l. newline # concat (map fst l)) ls)"
      using rest by blast
    ultimately show ?thesis
      using joined [of "concat (map fst l)" "\<lambda>l. concat (map fst l)" ls]
      by (simp add: highlightTemplate_def Cons app)
  qed
qed

section \<open>Properties\<close>

text \<open>
  With markers that are not empty the splitting ends: its parts put together are the text, every
  field is one of the markers, and no text part is empty or holds a marker.
\<close>

lemma split_on_markers_ends:
  assumes "[] \<notin> set markers"
  shows "\<exists>parts. splitOnMarkers markers className content = Some parts \<and>
    parts_text parts = content \<and> (\<forall>p \<in> set parts. good_part markers p)"
  by (rule split_total [OF assms])

lemma split_on_markers_ends_witness:
  "\<exists>parts. splitOnMarkers [''XX''] ''c'' ''a XX b'' = Some parts \<and> parts_text parts = ''a XX b''"
  using split_on_markers_ends [of "[''XX'']" "''c''" "''a XX b''"] by auto

text \<open>
  Highlighting loses nothing: whatever tokens the highlighter makes of a command, the parts put
  together are the lines of tokens joined by line ends.
\<close>

lemma highlight_keeps_the_command:
  assumes "[] \<notin> set markers"
  shows "\<exists>parts. highlightTemplate markers tokens = Some parts \<and>
    parts_text parts = join [newline] (map (\<lambda>l. concat (map fst l)) tokens)"
  by (rule highlight_text [OF assms])

lemma highlight_keeps_the_command_witness:
  "\<exists>parts. highlightTemplate [''M''] [[(''ls M'', None)], [(''x'', None)]] = Some parts \<and>
     parts_text parts = ''ls M'' @ [newline] @ ''x''"
  using highlight_keeps_the_command [of "[''M'']" "[[(''ls M'', None)], [(''x'', None)]]"] by auto

end
