(* ===== verification/JS_Url.thy ===== *)
theory JS_Url
  imports JS_Json
begin

text \<open>
  Whole numbers in text, as \<open>String\<close> prints them and \<open>Number\<close> reads a run of digits, and the
  parameters of a URL: \<open>URLSearchParams\<close> is the list of its pairs.
\<close>

section \<open>Whole numbers in text\<close>

definition digit :: "nat \<Rightarrow> char" where "digit d = char_of (48 + d)"

definition is_digit :: "char \<Rightarrow> bool" where "is_digit c \<longleftrightarrow> 48 \<le> code_unit c \<and> code_unit c \<le> 57"

definition digit_value :: "char \<Rightarrow> nat" where "digit_value c = code_unit c - 48"

fun decimal :: "nat \<Rightarrow> string" where
  "decimal n = (if n < 10 then [digit n] else decimal (n div 10) @ [digit (n mod 10)])"

declare decimal.simps [simp del]

definition digits_value :: "string \<Rightarrow> nat" where
  "digits_value s = foldl (\<lambda>v c. 10 * v + digit_value c) 0 s"

text \<open>\<open>String(n)\<close> for a whole number below \<open>10\<^sup>2\<^sup>1\<close>.\<close>

definition show_int :: "int \<Rightarrow> string" where
  "show_int n = (if n < 0 then CHR ''-'' # decimal (nat (- n)) else decimal (nat n))"

text \<open>\<open>/^[1-9][0-9]*$/\<close>\<close>

definition positive_digits :: "string \<Rightarrow> bool" where
  "positive_digits s \<longleftrightarrow> s \<noteq> [] \<and> hd s \<noteq> CHR ''0'' \<and> (\<forall>c \<in> set s. is_digit c)"

lemma code_unit_digit: "d < 10 \<Longrightarrow> code_unit (digit d) = 48 + d"
  by (simp add: code_unit_def digit_def of_char_of)

lemma digit_facts: "d < 10 \<Longrightarrow> is_digit (digit d)" "d < 10 \<Longrightarrow> digit_value (digit d) = d"
  by (simp_all add: is_digit_def digit_value_def code_unit_digit)

lemma char_of_code_unit [simp]: "char_of (code_unit c) = c"
  by (simp add: code_unit_def)

lemma digit_0: "digit 0 = CHR ''0''"
  by code_simp

lemma digit_zero: "d < 10 \<Longrightarrow> digit d = CHR ''0'' \<longleftrightarrow> d = 0"
proof -
  assume d: "d < 10"
  have "code_unit (digit d) = 48 + d" "code_unit (digit 0) = 48"
    using code_unit_digit [OF d] code_unit_digit [of 0] by simp_all
  then show ?thesis unfolding digit_0 [symmetric] by auto
qed

lemma digits_value_decimal: "digits_value (decimal n) = n"
  unfolding digits_value_def
proof (induction n rule: decimal.induct)
  case (1 n)
  then show ?case
    by (subst decimal.simps) (simp add: digit_facts)
qed

lemma decimal_digits: "\<forall>c \<in> set (decimal n). is_digit c"
proof (induction n rule: decimal.induct)
  case (1 n)
  then show ?case by (subst decimal.simps) (auto simp: digit_facts)
qed

lemma decimal_nonempty [simp]: "decimal n \<noteq> []"
  by (subst decimal.simps) simp

lemma decimal_head: "0 < n \<Longrightarrow> hd (decimal n) \<noteq> CHR ''0''"
proof (induction n rule: decimal.induct)
  case (1 n)
  show ?case
  proof (cases "n < 10")
    case True
    then show ?thesis using 1 by (subst decimal.simps) (simp add: digit_zero)
  next
    case False
    then have "hd (decimal (n div 10)) \<noteq> CHR ''0''" using 1 by simp
    then show ?thesis using False by (subst decimal.simps) simp
  qed
qed

lemma positive_digits_decimal: "positive_digits (decimal n) \<longleftrightarrow> 0 < n"
proof
  assume "positive_digits (decimal n)"
  then show "0 < n"
    by (cases "n = 0") (auto simp: positive_digits_def decimal.simps [of 0] digit_zero)
qed (simp add: positive_digits_def decimal_head decimal_digits)

lemma decimal_inj [simp]: "decimal m = decimal n \<longleftrightarrow> m = n"
  by (metis digits_value_decimal)

lemma digits_value_pos: "positive_digits s \<Longrightarrow> 0 < digits_value s"
proof -
  have grow: "0 < v \<Longrightarrow> 0 < foldl (\<lambda>v c. 10 * v + digit_value c) v t" for v t
    by (induction t arbitrary: v) simp_all
  assume s: "positive_digits s"
  then obtain c t where ct: "s = c # t" "is_digit c" "c \<noteq> CHR ''0''"
    by (cases s) (auto simp: positive_digits_def)
  have "code_unit c \<noteq> 48"
  proof
    assume "code_unit c = 48"
    then have "char_of (code_unit c) = digit 0" by (simp only: digit_def) simp
    then show False using ct(3) by (simp add: digit_0)
  qed
  then have "0 < digit_value c" using ct(2) by (simp add: digit_value_def is_digit_def)
  then show ?thesis using grow by (simp add: digits_value_def ct(1))
qed

section \<open>URL parameters\<close>

type_synonym url_params = "(string \<times> string) list"

definition param_get :: "url_params \<Rightarrow> string \<Rightarrow> string option" where
  "param_get ps k = map_of ps k"

definition param_delete :: "url_params \<Rightarrow> string \<Rightarrow> url_params" where
  "param_delete ps k = filter (\<lambda>(n, _). n \<noteq> k) ps"

text \<open>\<open>set\<close> gives the first pair of the name the value and removes the others, or appends a pair.\<close>

fun param_set :: "url_params \<Rightarrow> string \<Rightarrow> string \<Rightarrow> url_params" where
  "param_set [] k v = [(k, v)]"
| "param_set ((n, x) # ps) k v =
     (if n = k then (k, v) # param_delete ps k else (n, x) # param_set ps k v)"

text \<open>The interface the list states are written against.\<close>

locale parameter_store =
  fixes get :: "'s \<Rightarrow> string \<Rightarrow> string option"
    and put :: "'s \<Rightarrow> string \<Rightarrow> string \<Rightarrow> 's"
    and drop_name :: "'s \<Rightarrow> string \<Rightarrow> 's"
  assumes get_put: "get (put s k v) n = (if n = k then Some v else get s n)"
    and get_drop: "get (drop_name s k) n = (if n = k then None else get s n)"
begin

text \<open>A parameter kept only while it differs from its default.\<close>

definition store :: "'s \<Rightarrow> string \<Rightarrow> string \<Rightarrow> string \<Rightarrow> 's" where
  "store s k v d = (if v = d then drop_name s k else put s k v)"

lemma get_store: "get (store s k v d) n = (if n = k then (if v = d then None else Some v) else get s n)"
  by (simp add: store_def get_put get_drop)

lemma store_other: "n \<noteq> k \<Longrightarrow> get (store s k v d) n = get s n"
  by (simp add: get_store)

lemma store_reads: "(case get (store s k v d) k of None \<Rightarrow> d | Some x \<Rightarrow> x) = v"
  by (simp add: get_store)

end

lemma param_delete_get: "map_of (param_delete ps k) n = (if n = k then None else map_of ps n)"
  by (induction ps) (auto simp: param_delete_def)

lemma param_set_get: "map_of (param_set ps k v) n = (if n = k then Some v else map_of ps n)"
  by (induction ps k v rule: param_set.induct) (auto simp: param_delete_get)

interpretation url: parameter_store param_get param_set param_delete
  by unfold_locales (simp_all add: param_get_def param_set_get param_delete_get)

end
