(* ===== verification/List_State.thy ===== *)
theory List_State
  imports Gateway_Types JS_Url
begin

text \<open>
  The state of the lists in the URL: \<open>features/gateways/gateway-list-state.ts\<close> for the gateways
  and the collection state of \<open>routes/gateway.tsx\<close> for the service accounts.
\<close>

section \<open>Gateways\<close>

text \<open>A run of digits beyond the safe integers reads as a number that is not safe.\<close>

definition pageFrom :: "string option \<Rightarrow> int" where
  "pageFrom value =
     (case keep_truthy value of
        None \<Rightarrow> lr_page defaultGatewayListRequest
      | Some s \<Rightarrow>
          if \<not> positive_digits s then lr_page defaultGatewayListRequest
          else if int (digits_value s) \<le> max_safe_integer then int (digits_value s)
          else lr_page defaultGatewayListRequest)"

definition sortDirectionFrom :: "string option \<Rightarrow> sort_direction" where
  "sortDirectionFrom value =
     (if value = Some ''asc'' then Asc else if value = Some ''desc'' then Desc
      else lr_sort_direction defaultGatewayListRequest)"

definition sizeFrom :: "string option \<Rightarrow> int" where
  "sizeFrom value =
     (case keep_truthy value of
        None \<Rightarrow> lr_size defaultGatewayListRequest
      | Some s \<Rightarrow>
          if \<not> positive_digits s then lr_size defaultGatewayListRequest
          else if int (digits_value s) \<in> set gatewayListPageSizes then int (digits_value s)
          else lr_size defaultGatewayListRequest)"

definition sortFieldFrom :: "string option \<Rightarrow> gateway_sort_field" where
  "sortFieldFrom value =
     (if value = Some ''cluster'' then SortCluster
      else if value = Some ''created'' then SortCreated
      else if value = Some ''endpoint'' then SortEndpoint
      else if value = Some ''name'' then SortName
      else if value = Some ''owner'' then SortOwner
      else if value = Some ''status'' then SortStatus
      else lr_sort_field defaultGatewayListRequest)"

definition parseGatewayListState :: "url_params \<Rightarrow> gateway_list_request" where
  "parseGatewayListState ps =
     \<lparr>lr_page = pageFrom (param_get ps ''page''),
      lr_search = (case param_get ps ''q'' of None \<Rightarrow> lr_search defaultGatewayListRequest | Some q \<Rightarrow> q),
      lr_size = sizeFrom (param_get ps ''size''),
      lr_sort_direction = sortDirectionFrom (param_get ps ''direction''),
      lr_sort_field = sortFieldFrom (param_get ps ''sort'')\<rparr>"

definition set_when :: "bool \<Rightarrow> string \<Rightarrow> string \<Rightarrow> url_params \<Rightarrow> url_params" where
  "set_when b k v ps = (if b then param_set ps k v else ps)"

definition serializeGatewayListState :: "gateway_list_request \<Rightarrow> url_params" where
  "serializeGatewayListState state =
     set_when (lr_sort_direction state \<noteq> lr_sort_direction defaultGatewayListRequest) ''direction''
       (sort_direction_str (lr_sort_direction state))
     (set_when (lr_sort_field state \<noteq> lr_sort_field defaultGatewayListRequest) ''sort''
       (gateway_sort_field_str (lr_sort_field state))
     (set_when (lr_size state \<noteq> lr_size defaultGatewayListRequest) ''size'' (show_int (lr_size state))
     (set_when (lr_page state \<noteq> lr_page defaultGatewayListRequest) ''page'' (show_int (lr_page state))
     (set_when (lr_search state \<noteq> []) ''q'' (lr_search state) []))))"

section \<open>Service accounts\<close>

text \<open>\<open>number\<close> is \<open>Number\<close> applied to a parameter or to \<open>null\<close>.\<close>

definition positiveInteger :: "(string option \<Rightarrow> js_number) \<Rightarrow> string option \<Rightarrow> int \<Rightarrow> int" where
  "positiveInteger number value fallback =
     (case number value of Integral n \<Rightarrow> if n > 0 then n else fallback | NonIntegral _ \<Rightarrow> fallback)"

definition account_sort_of :: "string \<Rightarrow> account_sort_field option" where
  "account_sort_of s =
     find (\<lambda>f. account_sort_field_str f = s) [AccCreatedAt, AccExpiresAt, AccName, AccRole, AccStatus]"

definition account_status_of :: "string \<Rightarrow> account_status option" where
  "account_status_of s =
     find (\<lambda>f. account_status_str f = s)
       [StDegraded, StDeleting, StError, StExpired, StProvisioning, StReady, StRevoked, StRevoking]"

definition serviceAccountCollectionState ::
    "(string option \<Rightarrow> js_number) \<Rightarrow> url_params \<Rightarrow> account_list_request" where
  "serviceAccountCollectionState number ps =
     (let defaults = defaultServiceAccountListRequest
      in \<lparr>alr_order = (if param_get ps ''sa-order'' = Some ''asc'' then Asc else alr_order defaults),
          alr_page = positiveInteger number (param_get ps ''sa-page'') (alr_page defaults),
          alr_search = (case param_get ps ''sa-search'' of None \<Rightarrow> alr_search defaults | Some s \<Rightarrow> s),
          alr_size = min 100 (positiveInteger number (param_get ps ''sa-size'') (alr_size defaults)),
          alr_sort =
            (case param_get ps ''sa-sort'' of
               None \<Rightarrow> alr_sort defaults
             | Some s \<Rightarrow> (case account_sort_of s of None \<Rightarrow> alr_sort defaults | Some f \<Rightarrow> f)),
          alr_status =
            (case param_get ps ''sa-status'' of None \<Rightarrow> None | Some s \<Rightarrow> account_status_of s)\<rparr>)"

definition setOrDelete :: "url_params \<Rightarrow> string \<Rightarrow> string \<Rightarrow> string \<Rightarrow> url_params" where
  "setOrDelete ps name value defaultValue =
     (if value = defaultValue then param_delete ps name else param_set ps name value)"

text \<open>The parameters after \<open>onServiceAccountCollectionStateChange\<close>.\<close>

definition changeCollectionState :: "account_list_request \<Rightarrow> url_params \<Rightarrow> url_params" where
  "changeCollectionState state previous =
     (let defaults = defaultServiceAccountListRequest;
          next1 = setOrDelete previous ''sa-page'' (show_int (alr_page state)) (show_int (alr_page defaults));
          next2 = setOrDelete next1 ''sa-size'' (show_int (alr_size state)) (show_int (alr_size defaults));
          next3 = setOrDelete next2 ''sa-search'' (alr_search state) (alr_search defaults);
          next4 = setOrDelete next3 ''sa-sort'' (account_sort_field_str (alr_sort state))
            (account_sort_field_str (alr_sort defaults));
          next5 = setOrDelete next4 ''sa-order'' (sort_direction_str (alr_order state))
            (sort_direction_str (alr_order defaults))
      in setOrDelete next5 ''sa-status''
           (case alr_status state of None \<Rightarrow> [] | Some s \<Rightarrow> account_status_str s) [])"

text \<open>The parameters after \<open>onTabChange\<close>.\<close>

definition changeTab :: "string \<Rightarrow> url_params \<Rightarrow> url_params" where
  "changeTab tab previous =
     (if tab = ''connection'' then param_delete previous ''tab'' else param_set previous ''tab'' tab)"

section \<open>Reading back\<close>

lemma setOrDelete_store: "setOrDelete = url.store"
  by (intro ext) (simp add: setOrDelete_def url.store_def)

lemma get_set_when: "param_get (set_when b k v ps) n = (if b \<and> n = k then Some v else param_get ps n)"
  by (simp add: set_when_def url.get_put)

lemma param_get_Nil [simp]: "param_get [] n = None"
  by (simp add: param_get_def)

definition valid_list_request :: "gateway_list_request \<Rightarrow> bool" where
  "valid_list_request r \<longleftrightarrow>
     1 \<le> lr_page r \<and> lr_page r \<le> max_safe_integer \<and> lr_size r \<in> set gatewayListPageSizes"

lemma show_positive:
  "0 < n \<Longrightarrow> positive_digits (show_int n) \<and> show_int n \<noteq> [] \<and> int (digits_value (show_int n)) = n"
  by (simp add: show_int_def positive_digits_decimal digits_value_decimal)

lemma keep_truthy_nonempty: "s \<noteq> [] \<Longrightarrow> keep_truthy (Some s) = Some s"
  by (simp add: keep_truthy_def)

lemma pageFrom_show: "1 \<le> n \<Longrightarrow> n \<le> max_safe_integer \<Longrightarrow> pageFrom (Some (show_int n)) = n"
  using show_positive [of n] by (simp add: pageFrom_def keep_truthy_nonempty)

lemma sizeFrom_show: "n \<in> set gatewayListPageSizes \<Longrightarrow> sizeFrom (Some (show_int n)) = n"
proof -
  assume n: "n \<in> set gatewayListPageSizes"
  then have "0 < n" by (auto simp: gatewayListPageSizes_def)
  with n show ?thesis using show_positive [of n] by (simp add: sizeFrom_def keep_truthy_nonempty)
qed

lemma sortDirectionFrom_str: "sortDirectionFrom (Some (sort_direction_str d)) = d"
  by (cases d) (simp_all add: sortDirectionFrom_def)

lemma sortFieldFrom_str: "sortFieldFrom (Some (gateway_sort_field_str f)) = f"
  by (cases f) (simp_all add: sortFieldFrom_def)

lemma from_None:
  "pageFrom None = lr_page defaultGatewayListRequest"
  "sizeFrom None = lr_size defaultGatewayListRequest"
  "sortDirectionFrom None = lr_sort_direction defaultGatewayListRequest"
  "sortFieldFrom None = lr_sort_field defaultGatewayListRequest"
  by (simp_all add: pageFrom_def sizeFrom_def sortDirectionFrom_def sortFieldFrom_def)

lemma account_sort_of_str: "account_sort_of (account_sort_field_str f) = Some f"
  by (cases f) (simp_all add: account_sort_of_def)

lemma account_status_of_str: "account_status_of (account_status_str s) = Some s"
  by (cases s) (simp_all add: account_status_of_def)

lemma account_status_str_nonempty [simp]: "account_status_str s \<noteq> []"
  by (cases s) simp_all

lemma read_serialized:
  assumes "valid_list_request state"
  shows "parseGatewayListState (serializeGatewayListState state) = state"
proof -
  have page: "pageFrom (Some (show_int (lr_page state))) = lr_page state"
    and size: "sizeFrom (Some (show_int (lr_size state))) = lr_size state"
    using assms by (simp_all add: valid_list_request_def pageFrom_show sizeFrom_show)
  have dflt: "lr_search defaultGatewayListRequest = []"
    by (simp add: defaultGatewayListRequest_def)
  show ?thesis
    by (rule gateway_list_request.equality)
      (simp_all add: parseGatewayListState_def serializeGatewayListState_def get_set_when page size
        sortDirectionFrom_str sortFieldFrom_str from_None dflt)
qed

section \<open>Properties\<close>

text \<open>
  A list state written to the URL is read back unchanged, for every page that is a safe positive
  integer and every offered page size.
\<close>

lemma gateway_list_state_reads_back:
  assumes "valid_list_request state"
  shows "parseGatewayListState (serializeGatewayListState state) = state"
  using assms by (rule read_serialized)

lemma gateway_list_state_reads_back_witness:
  "let s = \<lparr>lr_page = 12, lr_search = ''a b'', lr_size = 50, lr_sort_direction = Desc, lr_sort_field = SortOwner\<rparr>
   in parseGatewayListState (serializeGatewayListState s) = s"
  using gateway_list_state_reads_back
    [of "\<lparr>lr_page = 12, lr_search = ''a b'', lr_size = 50, lr_sort_direction = Desc, lr_sort_field = SortOwner\<rparr>"]
  by (simp add: valid_list_request_def max_safe_integer_def gatewayListPageSizes_def)

text \<open>
  Whatever the URL holds, the list state read from it is a valid request: a safe positive page and
  an offered page size.
\<close>

lemma gateway_list_state_is_valid:
  "valid_list_request (parseGatewayListState ps)"
proof -
  have dflt: "lr_page defaultGatewayListRequest = 1" "lr_size defaultGatewayListRequest = 20"
    by (simp_all add: defaultGatewayListRequest_def gatewayListPageSizes_def)
  have "1 \<le> pageFrom v \<and> pageFrom v \<le> max_safe_integer" for v
    by (auto simp: pageFrom_def dflt max_safe_integer_def dest: digits_value_pos split: option.split)
  moreover have "sizeFrom v \<in> set gatewayListPageSizes" for v
    by (auto simp: sizeFrom_def dflt gatewayListPageSizes_def split: option.split)
  ultimately show ?thesis by (simp add: valid_list_request_def parseGatewayListState_def)
qed

text \<open>
  A service-account list state put into the URL is read back unchanged and leaves every other
  parameter as it was, given that \<open>Number\<close> reads what \<open>String\<close> printed.
\<close>

lemma collection_state_reads_back:
  assumes number: "\<And>n. 0 \<le> n \<Longrightarrow> n \<le> max_safe_integer \<Longrightarrow> number (Some (show_int n)) = Integral n"
    and null: "number None = Integral 0"
    and page: "1 \<le> alr_page state" "alr_page state \<le> max_safe_integer"
    and size: "1 \<le> alr_size state" "alr_size state \<le> 100"
  shows "serviceAccountCollectionState number (changeCollectionState state previous) = state \<and>
    (\<forall>n. n \<notin> {''sa-page'', ''sa-size'', ''sa-search'', ''sa-sort'', ''sa-order'', ''sa-status''} \<longrightarrow>
      param_get (changeCollectionState state previous) n = param_get previous n)"
proof
  have inj: "show_int m = show_int n \<longleftrightarrow> m = n" if "0 \<le> m" "0 \<le> n" for m n
    using that by (simp add: show_int_def eq_nat_nat_iff)
  have dflt: "alr_page defaultServiceAccountListRequest = 1" "alr_size defaultServiceAccountListRequest = 20"
    "alr_search defaultServiceAccountListRequest = []" "alr_sort defaultServiceAccountListRequest = AccCreatedAt"
    "alr_order defaultServiceAccountListRequest = Desc"
    by (simp_all add: defaultServiceAccountListRequest_def openShellGatewayServiceAccountPageSizes_def)
  have safe: "alr_size state \<le> max_safe_integer" using size by (simp add: max_safe_integer_def)
  have nums: "number (Some (show_int (alr_page state))) = Integral (alr_page state)"
    "number (Some (show_int (alr_size state))) = Integral (alr_size state)"
    using number page size safe by simp_all
  have eqs: "show_int (alr_page state) = show_int 1 \<longleftrightarrow> alr_page state = 1"
    "show_int (alr_size state) = show_int 20 \<longleftrightarrow> alr_size state = 20"
    using inj page size by simp_all
  have ord: "sort_direction_str d = ''asc'' \<longleftrightarrow> d = Asc" "sort_direction_str d = ''desc'' \<longleftrightarrow> d = Desc" for d
    by (cases d; simp)+
  have srt: "account_sort_field_str f = ''created_at'' \<longleftrightarrow> f = AccCreatedAt" for f
    by (cases f) simp_all
  have order: "d \<noteq> Desc \<longleftrightarrow> d = Asc" "d \<noteq> Asc \<longleftrightarrow> d = Desc" for d by (cases d; simp)+
  show "serviceAccountCollectionState number (changeCollectionState state previous) = state"
    by (rule account_list_request.equality)
      (use page size in \<open>simp_all add: serviceAccountCollectionState_def changeCollectionState_def Let_def
        setOrDelete_store url.get_store dflt positiveInteger_def nums null eqs ord srt account_sort_of_str
        account_status_of_str order split: option.split\<close>)
  show "\<forall>n. n \<notin> {''sa-page'', ''sa-size'', ''sa-search'', ''sa-sort'', ''sa-order'', ''sa-status''} \<longrightarrow>
      param_get (changeCollectionState state previous) n = param_get previous n"
    by (simp add: changeCollectionState_def Let_def setOrDelete_store url.store_other)
qed

lemma collection_state_reads_back_witness:
  "let number = (\<lambda>v. case v of None \<Rightarrow> Integral 0 | Some s \<Rightarrow> Integral (int (digits_value s)));
       state = \<lparr>alr_order = Asc, alr_page = 3, alr_search = ''x'', alr_size = 50, alr_sort = AccName,
         alr_status = Some StReady\<rparr>;
       previous = [(''tab'', ''accounts''), (''sa-page'', ''9'')]
   in serviceAccountCollectionState number (changeCollectionState state previous) = state \<and>
      param_get (changeCollectionState state previous) ''tab'' = Some ''accounts''"
proof -
  let ?number = "\<lambda>v. case v of None \<Rightarrow> Integral 0 | Some s \<Rightarrow> Integral (int (digits_value s))"
  have "?number (Some (show_int n)) = Integral n" if "0 \<le> n" for n
    using that by (simp add: show_int_def digits_value_decimal)
  from collection_state_reads_back
    [of ?number "\<lparr>alr_order = Asc, alr_page = 3, alr_search = ''x'', alr_size = 50, alr_sort = AccName,
         alr_status = Some StReady\<rparr>" "[(''tab'', ''accounts''), (''sa-page'', ''9'')]", OF this]
  show ?thesis by (simp add: max_safe_integer_def param_get_def Let_def)
qed

end
