(* ===== verification/Placement_Select.thy ===== *)
theory Placement_Select
  imports Gateway_Types JS_Url
begin

text \<open>
  \<open>gateways/gateway-placement-select.tsx\<close>: the field that chooses the cluster of a new gateway.
  Its options come from the hub and a debounced query; the keyboard moves over them, and the text
  typed, the chosen value and the last accepted choice are kept together.
\<close>

section \<open>Options\<close>

datatype placement_description =
  ProviderAndRegion string string | ProviderOnly string | RegionOnly string

definition placementDescription :: "gateway_placement \<Rightarrow> placement_description option" where
  "placementDescription placement =
     (let provider = trim (pl_provider placement);
          region = trim_or_empty (pl_region placement)
      in if provider \<noteq> [] \<and> region \<noteq> [] then Some (ProviderAndRegion provider region)
         else if provider \<noteq> [] then Some (ProviderOnly provider)
         else if region \<noteq> [] then Some (RegionOnly region)
         else None)"

text \<open>The value of an option is a string, or one of the two symbols.\<close>

datatype option_value = Chosen string | LoadingValue | NoResultsValue

record placement_option =
  op_description :: "placement_description option"
  op_disabled :: bool
  op_key :: string
  op_label :: string
  op_value :: option_value

text \<open>The query of the placements: pending without data, fetching, failed, and its data.\<close>

record placement_query =
  pq_pending :: bool
  pq_fetching :: bool
  pq_error :: bool
  pq_data :: "placement_options option"

record select_labels =
  sl_hub :: string
  sl_loading :: string
  sl_none :: string

record select_state =
  sx_open :: bool
  sx_input :: string
  sx_search :: string
  sx_focused :: "nat option"
  sx_active_item :: "string option"
  sx_accepted :: "string \<times> string"
  sx_value :: "string option"

definition select_init :: "select_labels \<Rightarrow> string option \<Rightarrow> select_state" where
  "select_init labels value =
     \<lparr>sx_open = False, sx_input = sl_hub labels, sx_search = [], sx_focused = None,
      sx_active_item = None, sx_accepted = (sl_hub labels, []), sx_value = value\<rparr>"

definition isSearchPending :: "string \<Rightarrow> select_state \<Rightarrow> bool" where
  "isSearchPending debouncedSearch s \<longleftrightarrow> trim (sx_search s) \<noteq> debouncedSearch"

definition placement_entry :: "gateway_placement \<Rightarrow> placement_option" where
  "placement_entry placement =
     \<lparr>op_description = placementDescription placement, op_disabled = False,
      op_key = ''cluster:'' @ pl_id placement, op_label = pl_name placement,
      op_value = Chosen (pl_id placement)\<rparr>"

definition found_options :: "select_labels \<Rightarrow> placement_query \<Rightarrow> string \<Rightarrow> select_state \<Rightarrow> placement_option list" where
  "found_options labels query debouncedSearch s =
     (if sublist (to_lower (trim (sx_search s))) (to_lower (sl_hub labels))
      then [\<lparr>op_description = None, op_disabled = False, op_key = ''hub'', op_label = sl_hub labels,
             op_value = Chosen []\<rparr>]
      else []) @
     (if isSearchPending debouncedSearch s then []
      else case pq_data query of None \<Rightarrow> [] | Some d \<Rightarrow> map placement_entry (po_items d))"

definition select_options :: "select_labels \<Rightarrow> placement_query \<Rightarrow> string \<Rightarrow> select_state \<Rightarrow> placement_option list" where
  "select_options labels query debouncedSearch s =
     (let found = found_options labels query debouncedSearch s
      in if isSearchPending debouncedSearch s \<or> pq_pending query then
           found @ [\<lparr>op_description = None, op_disabled = True, op_key = ''loading'',
             op_label = sl_loading labels, op_value = LoadingValue\<rparr>]
         else if found = [] then
           [\<lparr>op_description = None, op_disabled = True, op_key = ''no-results'',
             op_label = sl_none labels, op_value = NoResultsValue\<rparr>]
         else found)"

section \<open>Operations\<close>

definition resetFocus :: "select_state \<Rightarrow> select_state" where
  "resetFocus s = s\<lparr>sx_focused := None, sx_active_item := None\<rparr>"

definition closeMenu :: "select_state \<Rightarrow> select_state" where
  "closeMenu s = resetFocus (s\<lparr>sx_open := False\<rparr>)"

definition chooseOption :: "placement_option \<Rightarrow> select_state \<Rightarrow> select_state" where
  "chooseOption opt s =
     (case op_value opt of
        Chosen v \<Rightarrow>
          if op_disabled opt then s
          else closeMenu (s\<lparr>sx_accepted := (op_label opt, v), sx_value := Some v,
                 sx_input := op_label opt, sx_search := []\<rparr>)
      | _ \<Rightarrow> s)"

definition focusOption :: "nat \<Rightarrow> select_state \<Rightarrow> select_state" where
  "focusOption index s =
     s\<lparr>sx_focused := Some index, sx_active_item := Some (''gateway-cluster-option-'' @ decimal index)\<rparr>"

text \<open>
  The loop of \<open>moveFocus\<close>: \<open>(next + direction + length) % length\<close> until the option is enabled;
  \<open>None\<close> when it does not end. The remainder of JavaScript keeps the sign of the dividend.
\<close>

definition js_rem :: "int \<Rightarrow> int \<Rightarrow> int" where
  "js_rem a b = sgn a * (\<bar>a\<bar> mod \<bar>b\<bar>)"

definition option_disabled_at :: "placement_option list \<Rightarrow> int \<Rightarrow> bool" where
  "option_disabled_at options i \<longleftrightarrow>
     0 \<le> i \<and> i < int (length options) \<and> op_disabled (options ! nat i)"

partial_function (option) next_enabled :: "placement_option list \<Rightarrow> int \<Rightarrow> int \<Rightarrow> int option" where
  "next_enabled options direction index =
     (let i = js_rem (index + direction + int (length options)) (int (length options))
      in if option_disabled_at options i then next_enabled options direction i else Some i)"

definition moveFocus :: "placement_option list \<Rightarrow> int \<Rightarrow> select_state \<Rightarrow> select_state option" where
  "moveFocus options direction s =
     (let opened = s\<lparr>sx_open := True\<rparr>
      in if \<forall>o' \<in> set options. op_disabled o' then Some opened
         else
           let start = (case sx_focused s of Some i \<Rightarrow> int i | None \<Rightarrow> if direction = 1 then -1 else 0)
           in map_option (\<lambda>i. focusOption (nat i) opened) (next_enabled options direction start))"

section \<open>Events\<close>

datatype select_event =
  ToggleMenu | TypeText string | ClickInput | ArrowDown | ArrowUp | EnterKey | EscapeKey | ClearText
  | MenuClosed | SelectOption option_value

definition enter_key :: "placement_option list \<Rightarrow> select_state \<Rightarrow> select_state" where
  "enter_key options s =
     (if sx_open s \<and> sx_focused s \<noteq> None then
        (let i = the (sx_focused s)
         in if i < length options then chooseOption (options ! i) s else s)
      else if \<not> sx_open s then s\<lparr>sx_open := True\<rparr> else s)"

definition escape_key :: "select_state \<Rightarrow> select_state" where
  "escape_key s =
     (if sx_open s then
        closeMenu (s\<lparr>sx_input := fst (sx_accepted s), sx_search := [], sx_value := Some (snd (sx_accepted s))\<rparr>)
      else s)"

fun apply_event :: "placement_option list \<Rightarrow> select_event \<Rightarrow> select_state \<Rightarrow> select_state option" where
  "apply_event options ToggleMenu s = Some (s\<lparr>sx_open := \<not> sx_open s\<rparr>)"
| "apply_event options (TypeText t) s =
     Some ((resetFocus (s\<lparr>sx_input := t, sx_search := t, sx_value := None\<rparr>))\<lparr>sx_open := True\<rparr>)"
| "apply_event options ClickInput s = Some (s\<lparr>sx_open := True\<rparr>)"
| "apply_event options ArrowDown s = moveFocus options 1 s"
| "apply_event options ArrowUp s = moveFocus options (-1) s"
| "apply_event options EnterKey s = Some (enter_key options s)"
| "apply_event options EscapeKey s = Some (escape_key s)"
| "apply_event options ClearText s =
     Some (resetFocus (s\<lparr>sx_input := [], sx_search := [], sx_value := None\<rparr>))"
| "apply_event options MenuClosed s = Some (closeMenu s)"
| "apply_event options (SelectOption v) s =
     Some (case find (\<lambda>o'. op_value o' = v) options of None \<Rightarrow> s | Some o' \<Rightarrow> chooseOption o' s)"

text \<open>One event under the options of the moment.\<close>

definition select_step ::
    "select_labels \<Rightarrow> placement_query \<Rightarrow> string \<Rightarrow> select_event \<Rightarrow> select_state \<Rightarrow> select_state option" where
  "select_step labels query debouncedSearch ev s =
     apply_event (select_options labels query debouncedSearch s) ev s"

section \<open>What the field shows beside the menu\<close>

definition shows_more_available :: "placement_query \<Rightarrow> string \<Rightarrow> select_state \<Rightarrow> bool" where
  "shows_more_available query debouncedSearch s \<longleftrightarrow>
     (case pq_data query of None \<Rightarrow> False | Some d \<Rightarrow> po_has_more d) \<and>
     \<not> isSearchPending debouncedSearch s \<and> \<not> pq_fetching query"

definition shows_load_error :: "placement_query \<Rightarrow> string \<Rightarrow> select_state \<Rightarrow> bool" where
  "shows_load_error query debouncedSearch s \<longleftrightarrow> pq_error query \<and> \<not> isSearchPending debouncedSearch s"

definition is_selected :: "placement_option \<Rightarrow> select_state \<Rightarrow> bool" where
  "is_selected opt s = (case op_value opt of Chosen v \<Rightarrow> sx_value s = Some v | _ \<Rightarrow> False)"

section \<open>The loop over disabled options ends\<close>

lemma js_rem_mod: "0 \<le> a \<Longrightarrow> 0 < b \<Longrightarrow> js_rem a b = a mod b"
  by (cases "a = 0") (simp_all add: js_rem_def)

lemma option_disabled_mod:
  assumes "options \<noteq> []"
  shows "option_disabled_at options (i mod int (length options))
    = op_disabled (options ! nat (i mod int (length options)))"
  using assms by (simp add: option_disabled_at_def)

lemma next_enabled_iterate:
  assumes "options \<noteq> []" and dir: "direction = 1 \<or> direction = -1"
    and "-1 \<le> index" and "\<not> option_disabled_at options ((index + int k * direction) mod int (length options))"
    and "0 < k"
    and "0 \<le> index + direction + int (length options)"
  shows "\<exists>i. next_enabled options direction index = Some i \<and> 0 \<le> i \<and> i < int (length options) \<and>
    \<not> option_disabled_at options i"
  using assms(3-)
proof (induction k arbitrary: index)
  case (Suc k)
  let ?n = "int (length options)"
  have n: "0 < ?n" using assms(1) by simp
  let ?i = "(index + direction + ?n) mod ?n"
  have i: "js_rem (index + direction + ?n) ?n = ?i"
    using n Suc.prems(4) by (simp add: js_rem_mod)
  have range: "0 \<le> ?i" "?i < ?n" using n by simp_all
  show ?case
  proof (cases "option_disabled_at options ?i")
    case False
    then show ?thesis
      using range i by (intro exI [of _ ?i]) (simp add: next_enabled.simps [of options direction index] Let_def)
  next
    case True
    have "?i = (index + direction) mod ?n" by simp
    then have eq: "(?i + int k * direction) mod ?n = (index + int (Suc k) * direction) mod ?n"
      by (simp add: mod_simps algebra_simps)
    have "k \<noteq> 0"
    proof
      assume "k = 0"
      then have "?i mod ?n = (index + int (Suc k) * direction) mod ?n" using eq by simp
      then show False using True Suc.prems(2) by simp
    qed
    then have k: "0 < k" by simp
    have low: "-1 \<le> ?i" using range(1) by linarith
    have nxt: "0 \<le> ?i + direction + ?n" using dir range(1) n by (elim disjE) linarith+
    have "\<not> option_disabled_at options ((?i + int k * direction) mod ?n)"
      unfolding eq by (rule Suc.prems(2))
    from Suc.IH [OF low this k nxt]
    have "\<exists>j. next_enabled options direction ?i = Some j \<and> 0 \<le> j \<and> j < ?n \<and> \<not> option_disabled_at options j" .
    then show ?thesis
      using True i by (simp add: next_enabled.simps [of options direction index] Let_def)
  qed
qed simp

lemma steps_to:
  assumes "direction = 1 \<or> direction = (-1 :: int)"
  shows "(index + ((direction * (j - index) - 1) mod n + 1) * direction) mod n = j mod n"
  using assms
proof
  assume d: "direction = 1"
  have "((j - index - 1) mod n + (index + 1)) mod n = ((j - index - 1) + (index + 1)) mod n"
    by (rule mod_add_left_eq)
  then show ?thesis by (simp add: d algebra_simps)
next
  assume d: "direction = -1"
  have "((index - 1) - (index - j - 1) mod n) mod n = ((index - 1) - (index - j - 1)) mod n"
    by (rule mod_diff_right_eq)
  then show ?thesis by (simp add: d algebra_simps)
qed

lemma next_enabled_ends:
  assumes some: "\<exists>o' \<in> set options. \<not> op_disabled o'"
    and dir: "direction = 1 \<or> direction = -1" and "-1 \<le> index" and "0 \<le> index + direction + int (length options)"
  shows "\<exists>i. next_enabled options direction index = Some i \<and> 0 \<le> i \<and> i < int (length options) \<and>
    \<not> option_disabled_at options i"
proof -
  let ?n = "int (length options)"
  obtain j where j: "j < length options" "\<not> op_disabled (options ! j)"
    using some by (auto simp: in_set_conv_nth)
  have n: "0 < ?n" using j(1) by linarith
  then have ne: "options \<noteq> []" by simp
  text \<open>The number of steps from the start to that option, at least one.\<close>
  let ?k = "(direction * (int j - index) - 1) mod ?n + 1"
  have k: "0 < ?k" using n by (simp add: add_nonneg_pos)
  have nat_k: "int (nat ?k) = ?k" "0 < nat ?k" using k by linarith+
  have "(index + int (nat ?k) * direction) mod ?n = int j"
    unfolding nat_k(1) steps_to [OF dir] using j(1) by simp
  then have "\<not> option_disabled_at options ((index + int (nat ?k) * direction) mod ?n)"
    using j by (simp add: option_disabled_at_def)
  from next_enabled_iterate [OF ne dir assms(3) this nat_k(2) assms(4)] show ?thesis .
qed

section \<open>Choice, text and value stay together\<close>

definition select_inv :: "select_state \<Rightarrow> bool" where
  "select_inv s \<longleftrightarrow> sx_value s = None \<or> (sx_value s = Some (snd (sx_accepted s)) \<and> sx_input s = fst (sx_accepted s))"

lemma moveFocus_ends:
  assumes "direction = 1 \<or> direction = -1"
  shows "\<exists>s'. moveFocus options direction s = Some s' \<and> sx_open s' \<and> sx_value s' = sx_value s \<and>
    sx_input s' = sx_input s \<and> sx_accepted s' = sx_accepted s \<and> sx_search s' = sx_search s \<and>
    (if list_all op_disabled options then sx_focused s' = sx_focused s
     else \<exists>i. sx_focused s' = Some i \<and> i < length options \<and> \<not> op_disabled (options ! i))"
proof (cases "list_all op_disabled options")
  case True
  then show ?thesis by (simp add: moveFocus_def list_all_iff)
next
  case False
  then have some: "\<exists>o' \<in> set options. \<not> op_disabled o'" by (simp add: list_all_iff)
  then have ne: "0 < length options" by (cases options) auto
  let ?start = "case sx_focused s of Some i \<Rightarrow> int i | None \<Rightarrow> if direction = 1 then -1 else 0"
  have n: "0 < int (length options)" using ne by linarith
  have bounds: "-1 \<le> ?start \<and> 0 \<le> ?start + direction + int (length options)"
  proof (cases "sx_focused s")
    case (Some i)
    have "0 \<le> int i" by simp
    then have "0 \<le> int i + direction + int (length options)"
      using assms n by (elim disjE) linarith+
    then show ?thesis by (simp add: Some)
  next
    case None
    then show ?thesis using assms n by (elim disjE) simp_all
  qed
  from next_enabled_ends [OF some assms conjunct1 [OF bounds] conjunct2 [OF bounds]]
  obtain i where i: "next_enabled options direction ?start = Some i" "0 \<le> i" "i < int (length options)"
    "\<not> option_disabled_at options i" by blast
  then have "\<not> op_disabled (options ! nat i)" "nat i < length options"
    by (simp_all add: option_disabled_at_def)
  moreover have nd: "(\<forall>o' \<in> set options. op_disabled o') = False" using some by blast
  ultimately show ?thesis using False i(1) by (simp only: moveFocus_def nd) (simp add: focusOption_def Let_def)
qed

lemma select_inv_choose: "select_inv s \<Longrightarrow> select_inv (chooseOption opt s)"
  by (simp add: select_inv_def chooseOption_def closeMenu_def resetFocus_def split: option_value.split)

lemma select_inv_event:
  assumes "select_inv s"
  shows "\<exists>s'. apply_event options ev s = Some s' \<and> select_inv s'"
proof (cases ev)
  case ArrowDown
  then show ?thesis using moveFocus_ends [of 1 options s] assms by (auto simp: select_inv_def)
next
  case ArrowUp
  then show ?thesis using moveFocus_ends [of "-1" options s] assms by (auto simp: select_inv_def)
next
  case EnterKey
  have "select_inv (enter_key options s)"
    using assms select_inv_choose [OF assms] by (simp add: enter_key_def Let_def) (simp add: select_inv_def)
  then show ?thesis using EnterKey by simp
next
  case EscapeKey
  have "select_inv (escape_key s)"
    using assms by (simp add: escape_key_def closeMenu_def resetFocus_def) (simp add: select_inv_def)
  then show ?thesis using EscapeKey by simp
next
  case (SelectOption v)
  then show ?thesis using assms select_inv_choose [OF assms] by (simp split: option.split)
qed (use assms in \<open>simp_all add: select_inv_def closeMenu_def resetFocus_def\<close>)

text \<open>Events under any queries and debounced texts.\<close>

fun select_run :: "select_labels \<Rightarrow> (placement_query \<times> string \<times> select_event) list \<Rightarrow> select_state \<Rightarrow> select_state option" where
  "select_run labels [] s = Some s"
| "select_run labels ((q, t, ev) # es) s = Option.bind (select_step labels q t ev s) (select_run labels es)"

lemma select_inv_run: "select_inv s \<Longrightarrow> \<exists>s'. select_run labels es s = Some s' \<and> select_inv s'"
proof (induction es arbitrary: s)
  case (Cons e es)
  obtain q t ev where e: "e = (q, t, ev)" by (cases e)
  from select_inv_event [OF Cons.prems, of "select_options labels q t s" ev]
  obtain s1 where "select_step labels q t ev s = Some s1" "select_inv s1"
    by (auto simp: select_step_def)
  with Cons.IH [of s1] show ?case by (simp add: e)
qed simp

section \<open>Properties\<close>

text \<open>
  An arrow key opens the menu and focuses an enabled option whenever there is one, past any
  disabled ones and around either end, however stale the focused index is; otherwise it leaves the
  focus alone.
\<close>

lemma arrow_key_focuses_an_enabled_option:
  "\<exists>s'. apply_event options (if down then ArrowDown else ArrowUp) s = Some s' \<and> sx_open s' \<and>
    (if list_all op_disabled options then sx_focused s' = sx_focused s
     else \<exists>i. sx_focused s' = Some i \<and> i < length options \<and> \<not> op_disabled (options ! i))"
  using moveFocus_ends [of 1 options s] moveFocus_ends [of "-1" options s] by (cases down) auto

end
