(* ===== verification/Account_Dialog.thy ===== *)
theory Account_Dialog
  imports Gateway_Types JS_Url
begin

text \<open>
  \<open>service-accounts/service-account-create-dialog.tsx\<close>: the form of a new service account, the
  request, the one-time secret it hands over, and the guard that keeps a navigation from
  discarding it. The dialog is a state machine over the events its view lets happen.
\<close>

section \<open>The form\<close>

definition expirationDays :: "int list" where "expirationDays = [30, 60, 90]"

text \<open>The offered expirations: days and seconds.\<close>

definition expirationOptions :: "account_capabilities \<Rightarrow> (int \<times> int) list" where
  "expirationOptions capabilities =
     (let policy = cap_expiration_policy capabilities
      in filter (\<lambda>(_, seconds). seconds \<ge> ep_minimum_seconds policy \<and> seconds \<le> ep_maximum_seconds policy)
           (map (\<lambda>days. (days, days * 86400)) expirationDays))"

definition defaultExpirationSeconds :: "account_capabilities \<Rightarrow> int option" where
  "defaultExpirationSeconds capabilities =
     (let options = expirationOptions capabilities
      in case find (\<lambda>(_, s). s = ep_default_seconds (cap_expiration_policy capabilities)) options of
           Some (_, s) \<Rightarrow> Some s
         | None \<Rightarrow> if options = [] then None else Some (snd (last options)))"

record account_form =
  af_description :: string
  af_expiration :: string
  af_name :: string
  af_role :: string

record account_form_output =
  ao_description :: string
  ao_expiration :: int
  ao_name :: string
  ao_role :: account_role

definition default_form :: "account_capabilities \<Rightarrow> account_form" where
  "default_form capabilities =
     \<lparr>af_description = [],
      af_expiration =
        (case defaultExpirationSeconds capabilities of
           None \<Rightarrow> []
         | Some s \<Rightarrow> if s = 0 then [] else show_int s),
      af_name = [],
      af_role =
        (if RoleUser \<in> set (cap_allowed_roles capabilities) then ''openshell-user''
         else case cap_allowed_roles capabilities of
                [] \<Rightarrow> ''openshell-user''
              | r # _ \<Rightarrow> account_role_str r)\<rparr>"

definition role_of :: "account_role list \<Rightarrow> string \<Rightarrow> account_role option" where
  "role_of allowed s = find (\<lambda>r. account_role_str r = s) allowed"

text \<open>The schema: \<open>number\<close> is \<open>Number\<close> applied to a string.\<close>

definition parse_form ::
    "(string \<Rightarrow> js_number) \<Rightarrow> account_capabilities \<Rightarrow> account_form \<Rightarrow> account_form_output option" where
  "parse_form number capabilities f =
     (case number (af_expiration f) of
        NonIntegral _ \<Rightarrow> None
      | Integral seconds \<Rightarrow>
          if seconds \<notin> snd ` set (expirationOptions capabilities) \<or> trim (af_name f) = [] then None
          else (case role_of (cap_allowed_roles capabilities) (af_role f) of
                  None \<Rightarrow> None
                | Some r \<Rightarrow> Some \<lparr>ao_description = af_description f, ao_expiration = seconds,
                    ao_name = trim (af_name f), ao_role = r\<rparr>))"

text \<open>The menus accept only offered values.\<close>

definition select_role :: "account_capabilities \<Rightarrow> string \<Rightarrow> account_form \<Rightarrow> account_form" where
  "select_role capabilities value f =
     (if role_of (cap_allowed_roles capabilities) value \<noteq> None then f\<lparr>af_role := value\<rparr> else f)"

definition select_expiration :: "account_capabilities \<Rightarrow> string \<Rightarrow> account_form \<Rightarrow> account_form" where
  "select_expiration capabilities value f =
     (if \<exists>(_, s) \<in> set (expirationOptions capabilities). show_int s = value
      then f\<lparr>af_expiration := value\<rparr> else f)"

definition selectedExpirationDays ::
    "(string \<Rightarrow> js_number) \<Rightarrow> account_capabilities \<Rightarrow> account_form \<Rightarrow> int option" where
  "selectedExpirationDays number capabilities f =
     map_option fst
       (find (\<lambda>(_, s). number (af_expiration f) = Integral s) (expirationOptions capabilities))"

text \<open>The input of the operation; \<open>isoString\<close> is \<open>new Date(ms).toISOString()\<close>.\<close>

definition create_input :: "(int \<Rightarrow> string) \<Rightarrow> int \<Rightarrow> account_form_output \<Rightarrow> account_create_input" where
  "create_input isoString now values =
     \<lparr>aci_description = (if trim (ao_description values) = [] then None else Some (trim (ao_description values))),
      aci_expires_at = isoString (now + ao_expiration values * 1000),
      aci_name = ao_name values, aci_role = ao_role values\<rparr>"

section \<open>Failures of the request\<close>

definition uncertainFailure :: "js_error \<Rightarrow> bool" where
  "uncertainFailure error =
     (case error of OperationFailure e \<Rightarrow> oe_kind e \<in> {Unavailable, Unknown} | _ \<Rightarrow> True)"

definition nameExistsFailure :: "js_error \<Rightarrow> bool" where
  "nameExistsFailure error =
     (case error of OperationFailure e \<Rightarrow> oe_code e = Some ServiceAccountNameExists | _ \<Rightarrow> False)"

datatype create_alert = CreateUncertain | NameExists | CreateError

definition create_alert :: "js_error \<Rightarrow> create_alert" where
  "create_alert error =
     (if uncertainFailure error then CreateUncertain
      else if nameExistsFailure error then NameExists else CreateError)"

section \<open>The dialog\<close>

text \<open>
  The mutation: \<open>MDelivered\<close> is the time between the result and the end of \<open>onSuccess\<close>, still
  pending.
\<close>

datatype mutation = MIdle | MPending | MDelivered | MSuccess | MError js_error

text \<open>
  A leave decision is named by a number. \<open>dg_resolved\<close> records the calls of \<open>onConfirm\<close> (true) and
  \<open>onCancel\<close> (false); \<open>dg_abandoned\<close> counts requests still running after their mutation was reset.
\<close>

record dialog =
  dg_open :: bool
  dg_handoff :: "account_create_result option"
  dg_ack :: bool
  dg_confirming :: bool
  dg_expiration_open :: bool
  dg_role_open :: bool
  dg_creation :: mutation
  dg_leave :: "nat option"
  dg_abandoned :: nat
  dg_resolved :: "(nat \<times> bool) list"

definition dialog_init :: dialog where
  "dialog_init =
     \<lparr>dg_open = False, dg_handoff = None, dg_ack = False, dg_confirming = False,
      dg_expiration_open = False, dg_role_open = False, dg_creation = MIdle, dg_leave = None,
      dg_abandoned = 0, dg_resolved = []\<rparr>"

definition is_pending :: "dialog \<Rightarrow> bool" where
  "is_pending d \<longleftrightarrow> dg_creation d = MPending \<or> dg_creation d = MDelivered"

definition unacknowledged :: "dialog \<Rightarrow> bool" where
  "unacknowledged d \<longleftrightarrow> dg_handoff d \<noteq> None \<and> \<not> dg_ack d"

definition isProtected :: "dialog \<Rightarrow> bool" where
  "isProtected d \<longleftrightarrow> is_pending d \<or> unacknowledged d"

definition shouldBlock :: "dialog \<Rightarrow> bool" where "shouldBlock d = isProtected d"

definition confirmLeave :: "nat \<Rightarrow> dialog \<Rightarrow> dialog" where
  "confirmLeave decision d = d\<lparr>dg_leave := Some decision, dg_confirming := True\<rparr>"

definition clearAndClose :: "dialog \<Rightarrow> dialog" where
  "clearAndClose d =
     d\<lparr>dg_handoff := None, dg_ack := False, dg_confirming := False, dg_expiration_open := False,
       dg_role_open := False,
       dg_abandoned := dg_abandoned d + (if dg_creation d = MPending then 1 else 0),
       dg_creation := MIdle, dg_open := False\<rparr>"

definition requestClose :: "dialog \<Rightarrow> dialog" where
  "requestClose d = (if unacknowledged d then d\<lparr>dg_confirming := True\<rparr> else clearAndClose d)"

definition resolve :: "bool \<Rightarrow> dialog \<Rightarrow> dialog" where
  "resolve answer d =
     (case dg_leave d of
        None \<Rightarrow> d
      | Some n \<Rightarrow> d\<lparr>dg_leave := None, dg_resolved := dg_resolved d @ [(n, answer)]\<rparr>)"

section \<open>What the dialog shows\<close>

datatype dialog_title = LeaveTitle | SetupTitle string | CreateTitle
datatype dialog_body = LeaveBody | SetupBody account_create_result bool | FormBody "create_alert option"

datatype dialog_button =
  LeaveSetupButton | ReturnButton | FinishButton bool | CreateButton bool | CancelButton bool

definition dialog_title :: "dialog \<Rightarrow> dialog_title" where
  "dialog_title d =
     (if dg_confirming d then LeaveTitle
      else case dg_handoff d of Some r \<Rightarrow> SetupTitle (ac_name (acr_account r)) | None \<Rightarrow> CreateTitle)"

definition dialog_body :: "dialog \<Rightarrow> dialog_body" where
  "dialog_body d =
     (if dg_confirming d then LeaveBody
      else case dg_handoff d of
             Some r \<Rightarrow> SetupBody r (dg_ack d)
           | None \<Rightarrow> FormBody (case dg_creation d of MError e \<Rightarrow> Some (create_alert e) | _ \<Rightarrow> None))"

text \<open>The buttons of the footer, with whether they are enabled.\<close>

definition dialog_footer :: "dialog \<Rightarrow> dialog_button list" where
  "dialog_footer d =
     (if dg_confirming d then [LeaveSetupButton, ReturnButton]
      else case dg_handoff d of
             Some _ \<Rightarrow> [FinishButton (dg_ack d)]
           | None \<Rightarrow> [CreateButton (\<not> is_pending d), CancelButton (\<not> is_pending d)])"

section \<open>Events\<close>

datatype dialog_event =
    OpenDialog
  | Submit
  | RequestReturns account_create_result
  | RequestThrows js_error
  | Settled
  | AbandonedReturns account_create_result
  | AbandonedThrows
  | CloseIcon
  | Cancel
  | Finish
  | Acknowledge bool
  | LeaveSetup
  | ReturnToSetup
  | LeaveRequested nat
  | RoleMenu bool
  | ExpirationMenu bool

definition offers :: "dialog \<Rightarrow> dialog_button \<Rightarrow> bool" where
  "offers d b \<longleftrightarrow> dg_open d \<and> b \<in> set (dialog_footer d)"

text \<open>
  When an event may happen: a button is shown and enabled, the close icon is there, the request is
  in that state, the host asks for a decision only where the guard blocks.
\<close>

fun dialog_enabled :: "dialog \<Rightarrow> dialog_event \<Rightarrow> bool" where
  "dialog_enabled d OpenDialog = (\<not> dg_open d)"
| "dialog_enabled d Submit = offers d (CreateButton True)"
| "dialog_enabled d (RequestReturns r) = (dg_creation d = MPending)"
| "dialog_enabled d (RequestThrows e) = (dg_creation d = MPending)"
| "dialog_enabled d Settled = (dg_creation d = MDelivered)"
| "dialog_enabled d (AbandonedReturns r) = (0 < dg_abandoned d)"
| "dialog_enabled d AbandonedThrows = (0 < dg_abandoned d)"
| "dialog_enabled d CloseIcon = (dg_open d \<and> \<not> is_pending d)"
| "dialog_enabled d Cancel = offers d (CancelButton True)"
| "dialog_enabled d Finish = offers d (FinishButton True)"
| "dialog_enabled d (Acknowledge b) = (dg_open d \<and> \<not> dg_confirming d \<and> dg_handoff d \<noteq> None)"
| "dialog_enabled d LeaveSetup = offers d LeaveSetupButton"
| "dialog_enabled d ReturnToSetup = offers d ReturnButton"
| "dialog_enabled d (LeaveRequested n) = shouldBlock d"
| "dialog_enabled d (RoleMenu b) = (dg_open d \<and> \<not> dg_confirming d \<and> dg_handoff d = None)"
| "dialog_enabled d (ExpirationMenu b) = (dg_open d \<and> \<not> dg_confirming d \<and> dg_handoff d = None)"

fun dialog_apply :: "dialog_event \<Rightarrow> dialog \<Rightarrow> dialog" where
  "dialog_apply OpenDialog d = d\<lparr>dg_open := True\<rparr>"
| "dialog_apply Submit d = d\<lparr>dg_creation := MPending\<rparr>"
| "dialog_apply (RequestReturns r) d = d\<lparr>dg_handoff := Some r, dg_creation := MDelivered\<rparr>"
| "dialog_apply (RequestThrows e) d = d\<lparr>dg_creation := MError e\<rparr>"
| "dialog_apply Settled d = d\<lparr>dg_creation := MSuccess\<rparr>"
| "dialog_apply (AbandonedReturns r) d = d\<lparr>dg_handoff := Some r, dg_abandoned := dg_abandoned d - 1\<rparr>"
| "dialog_apply AbandonedThrows d = d\<lparr>dg_abandoned := dg_abandoned d - 1\<rparr>"
| "dialog_apply CloseIcon d = requestClose d"
| "dialog_apply Cancel d = requestClose d"
| "dialog_apply Finish d = clearAndClose d"
| "dialog_apply (Acknowledge b) d = d\<lparr>dg_ack := b\<rparr>"
| "dialog_apply LeaveSetup d = resolve True (clearAndClose d)"
| "dialog_apply ReturnToSetup d = resolve False (d\<lparr>dg_confirming := False\<rparr>)"
| "dialog_apply (LeaveRequested n) d = confirmLeave n d"
| "dialog_apply (RoleMenu b) d = d\<lparr>dg_role_open := b\<rparr>"
| "dialog_apply (ExpirationMenu b) d = d\<lparr>dg_expiration_open := b\<rparr>"

inductive dialog_step :: "dialog \<Rightarrow> dialog_event \<Rightarrow> dialog \<Rightarrow> bool" where
  step: "dialog_enabled d e \<Longrightarrow> dialog_step d e (dialog_apply e d)"

inductive_cases dialog_stepE: "dialog_step d e d'"

text \<open>The dialogs reached by events of a kind.\<close>

inductive dialog_reach :: "(dialog_event \<Rightarrow> bool) \<Rightarrow> dialog \<Rightarrow> bool" for P where
  start: "dialog_reach P dialog_init"
| move: "dialog_reach P d \<Longrightarrow> P e \<Longrightarrow> dialog_step d e d' \<Longrightarrow> dialog_reach P d'"

section \<open>The form yields what the capabilities allow\<close>

lemma role_of_Some: "role_of allowed s = Some r \<Longrightarrow> r \<in> set allowed \<and> account_role_str r = s"
  by (auto simp: role_of_def find_Some_iff)

lemma account_role_str_inj [simp]: "account_role_str a = account_role_str b \<longleftrightarrow> a = b"
  by (cases a; cases b) simp_all

lemma role_of_str: "r \<in> set allowed \<Longrightarrow> role_of allowed (account_role_str r) = Some r"
  unfolding role_of_def by (induction allowed) auto

lemma option_seconds:
  "s \<in> snd ` set (expirationOptions c) \<Longrightarrow>
     ep_minimum_seconds (cap_expiration_policy c) \<le> s \<and> s \<le> ep_maximum_seconds (cap_expiration_policy c) \<and>
     s \<in> {30 * 86400, 60 * 86400, 90 * 86400}"
proof -
  have "snd ` set (expirationOptions c) =
      {s \<in> {30 * 86400, 60 * 86400, 90 * 86400}.
        ep_minimum_seconds (cap_expiration_policy c) \<le> s \<and> s \<le> ep_maximum_seconds (cap_expiration_policy c)}"
    unfolding expirationOptions_def expirationDays_def Let_def set_filter set_map by (auto simp: image_iff)
  then show "s \<in> snd ` set (expirationOptions c) \<Longrightarrow> ?thesis" by blast
qed

lemma default_is_option:
  "defaultExpirationSeconds c = Some s \<Longrightarrow> s \<in> snd ` set (expirationOptions c)"
  by (auto simp: defaultExpirationSeconds_def Let_def find_Some_iff image_iff
      split: option.splits if_splits intro: bexI [OF _ last_in_set])
    (metis nth_mem snd_conv)

lemma default_exists: "expirationOptions c \<noteq> [] \<Longrightarrow> \<exists>s. defaultExpirationSeconds c = Some s"
  by (auto simp: defaultExpirationSeconds_def Let_def split: option.split)

section \<open>Steps\<close>

named_theorems dialog_simps \<open>the operations of the dialog\<close>

declare clearAndClose_def [dialog_simps] requestClose_def [dialog_simps] resolve_def [dialog_simps]
  confirmLeave_def [dialog_simps] unacknowledged_def [dialog_simps] is_pending_def [dialog_simps]
  isProtected_def [dialog_simps] shouldBlock_def [dialog_simps] offers_def [dialog_simps]
  dialog_footer_def [dialog_simps]

text \<open>While the dialog was never left, a secret and a request in flight exclude each other.\<close>

definition staying :: "dialog_event \<Rightarrow> bool" where "staying e \<longleftrightarrow> e \<noteq> LeaveSetup"

definition one_secret :: "dialog \<Rightarrow> bool" where
  "one_secret d \<longleftrightarrow> dg_abandoned d = 0 \<and> (dg_creation d = MPending \<longrightarrow> dg_handoff d = None) \<and>
     (dg_ack d \<longrightarrow> dg_handoff d \<noteq> None)"

lemma one_secret_clear: "one_secret d \<Longrightarrow> dg_creation d \<noteq> MPending \<Longrightarrow> one_secret (clearAndClose d)"
  by (simp add: one_secret_def clearAndClose_def)

lemma one_secret_apply:
  assumes "one_secret d" "dialog_enabled d e" "staying e"
  shows "one_secret (dialog_apply e d)"
proof (cases e)
  case Finish
  then have "dg_creation d \<noteq> MPending"
    using assms by (auto simp: one_secret_def offers_def dialog_footer_def split: if_splits option.splits)
  then show ?thesis using assms Finish by (simp add: one_secret_clear)
next
  case CloseIcon
  then have "dg_creation d \<noteq> MPending" using assms by (simp add: is_pending_def)
  then show ?thesis
    using assms CloseIcon by (simp add: requestClose_def one_secret_clear) (simp add: one_secret_def)
next
  case Cancel
  then have "dg_creation d \<noteq> MPending"
    using assms by (auto simp: offers_def dialog_footer_def is_pending_def split: if_splits option.splits)
  then show ?thesis
    using assms Cancel by (simp add: requestClose_def one_secret_clear) (simp add: one_secret_def)
next
  case Submit
  then have "dg_handoff d = None"
    using assms by (auto simp: offers_def dialog_footer_def split: if_splits option.splits)
  then show ?thesis using assms Submit by (simp add: one_secret_def)
qed (use assms in \<open>auto simp: one_secret_def staying_def confirmLeave_def resolve_def split: option.split\<close>)

lemma secret_kept:
  assumes "one_secret d" and "dialog_enabled d e" and "staying e"
  shows "(unacknowledged d \<longrightarrow> dg_handoff (dialog_apply e d) = dg_handoff d) \<and>
    (dg_open d \<and> \<not> dg_open (dialog_apply e d) \<longrightarrow> \<not> unacknowledged d \<and> dg_creation d \<noteq> MPending)"
proof (cases e)
  case Finish
  then have "dg_ack d" "dg_handoff d \<noteq> None"
    using assms by (auto simp: offers_def dialog_footer_def split: if_splits option.splits)
  then show ?thesis using assms by (auto simp: unacknowledged_def one_secret_def)
next
  case CloseIcon
  then show ?thesis using assms by (simp add: requestClose_def is_pending_def)
next
  case Cancel
  then have "dg_handoff d = None" "\<not> is_pending d"
    using assms by (auto simp: offers_def dialog_footer_def split: if_splits option.splits)
  then show ?thesis by (simp add: unacknowledged_def is_pending_def)
next
  case (RequestReturns r)
  then show ?thesis using assms by (simp add: one_secret_def unacknowledged_def)
next
  case (AbandonedReturns r)
  then show ?thesis using assms by (simp add: one_secret_def)
qed (use assms in \<open>simp_all add: staying_def resolve_def confirmLeave_def split: option.split\<close>)

text \<open>Whatever is protected is in an open dialog.\<close>

definition protected_open :: "dialog \<Rightarrow> bool" where
  "protected_open d \<longleftrightarrow> (isProtected d \<longrightarrow> dg_open d)"

lemma protected_open_apply:
  assumes "one_secret d" "protected_open d" "dialog_enabled d e" "staying e"
  shows "protected_open (dialog_apply e d)"
proof (cases e)
  case Finish
  then show ?thesis by (simp add: protected_open_def clearAndClose_def isProtected_def is_pending_def unacknowledged_def)
next
  case (RequestReturns r)
  then have "isProtected d" "dg_open d = dg_open (dialog_apply e d)"
    using assms by (simp_all add: isProtected_def is_pending_def)
  then show ?thesis using assms(2) by (simp add: protected_open_def)
qed (use assms in \<open>auto simp: protected_open_def one_secret_def dialog_simps staying_def split: option.splits\<close>)

lemma one_secret_reach: "dialog_reach staying d \<Longrightarrow> one_secret d"
proof (induction rule: dialog_reach.induct)
  case start
  show ?case by (simp add: one_secret_def dialog_init_def)
next
  case (move d e d')
  then show ?case by (auto elim!: dialog_stepE intro: one_secret_apply)
qed

fun run_events :: "dialog_event list \<Rightarrow> dialog \<Rightarrow> dialog option" where
  "run_events [] d = Some d"
| "run_events (e # es) d = (if dialog_enabled d e then run_events es (dialog_apply e d) else None)"

lemma run_events_reach:
  "dialog_reach P d \<Longrightarrow> list_all P es \<Longrightarrow> run_events es d = Some d' \<Longrightarrow> dialog_reach P d'"
proof (induction es arbitrary: d)
  case (Cons e es)
  then have "dialog_enabled d e" "run_events es (dialog_apply e d) = Some d'" by (simp_all split: if_splits)
  moreover have "dialog_reach P (dialog_apply e d)"
    using Cons.prems calculation(1) by (auto intro: dialog_reach.move dialog_step.step)
  ultimately show ?case using Cons by simp
qed simp

text \<open>A handed-over account, for use at concrete inputs.\<close>

definition sample_result :: account_create_result where
  "sample_result =
     \<lparr>acr_credential =
        \<lparr>cn_token_lifetime = 300, cn_audience = ''aud'', cn_client_id = ''id'', cn_gateway_endpoint = None,
         cn_gateway_name = ''gw'', cn_issuer = ''iss'', cn_token_endpoint = ''tok'', cr_client_secret = ''s3cret''\<rparr>,
      acr_account =
        \<lparr>ac_client_id = ''id'', ac_created_at = ''t'', ac_created_by = ''u'', ac_description = None,
         ac_expires_at = ''t2'', ac_gateway_id = ''g'', ac_id = ''a'', ac_last_error = None, ac_name = ''ci'',
         ac_revoked_at = None, ac_role = RoleUser, ac_status = StReady, ac_subject = ''s'', ac_updated_at = ''t''\<rparr>\<rparr>"

section \<open>Properties\<close>

text \<open>
  A form that passes the schema asks for an account the capabilities allow: an allowed role, a
  name that is not blank, and an expiration of 30, 60 or 90 days within the policy's bounds.
\<close>

lemma accepted_form_is_allowed:
  assumes "parse_form number capabilities f = Some out"
  shows "ao_role out \<in> set (cap_allowed_roles capabilities) \<and> ao_name out = trim (af_name f) \<and>
    ao_name out \<noteq> [] \<and>
    ep_minimum_seconds (cap_expiration_policy capabilities) \<le> ao_expiration out \<and>
    ao_expiration out \<le> ep_maximum_seconds (cap_expiration_policy capabilities) \<and>
    ao_expiration out \<in> {30 * 86400, 60 * 86400, 90 * 86400}"
proof -
  from assms obtain s r where "number (af_expiration f) = Integral s"
    "s \<in> snd ` set (expirationOptions capabilities)" "trim (af_name f) \<noteq> []"
    "role_of (cap_allowed_roles capabilities) (af_role f) = Some r"
    "out = \<lparr>ao_description = af_description f, ao_expiration = s, ao_name = trim (af_name f), ao_role = r\<rparr>"
    by (simp add: parse_form_def split: js_number.splits if_splits option.splits)
  then show ?thesis using option_seconds role_of_Some by simp
qed

lemma accepted_form_is_allowed_witness:
  "let c = \<lparr>cap_allowed_roles = [RoleUser], cap_can_create = True, cap_can_manage_all = False,
        cap_expiration_policy = \<lparr>ep_default_seconds = 0, ep_maximum_seconds = 6000000, ep_minimum_seconds = 60\<rparr>\<rparr>;
       f = (default_form c)\<lparr>af_name := ''ci''\<rparr>
   in \<exists>out. parse_form (\<lambda>s. Integral (int (digits_value s))) c f = Some out \<and> ao_expiration out \<le> 6000000 \<and>
        ao_role out \<in> {RoleUser}"
proof -
  let ?c = "\<lparr>cap_allowed_roles = [RoleUser], cap_can_create = True, cap_can_manage_all = False,
    cap_expiration_policy = \<lparr>ep_default_seconds = 0, ep_maximum_seconds = 6000000, ep_minimum_seconds = 60\<rparr>\<rparr>"
  have o: "expirationOptions ?c = [(30, 2592000), (60, 5184000)]"
    by (simp add: expirationOptions_def expirationDays_def Let_def)
  have d: "defaultExpirationSeconds ?c = Some 5184000"
    by (simp add: defaultExpirationSeconds_def o Let_def)
  have n: "digits_value (show_int 5184000) = 5184000"
    by (simp add: show_int_def digits_value_decimal)
  have t: "trim ''ci'' = ''ci''" by code_simp
  have p: "parse_form (\<lambda>s. Integral (int (digits_value s))) ?c ((default_form ?c)\<lparr>af_name := ''ci''\<rparr>)
      = Some \<lparr>ao_description = [], ao_expiration = 5184000, ao_name = ''ci'', ao_role = RoleUser\<rparr>"
    by (simp add: parse_form_def default_form_def d o n t role_of_def)
  from accepted_form_is_allowed [OF this] show ?thesis by (simp add: p Let_def)
qed

text \<open>
  C12. A one-time secret is not lost: until it is acknowledged, every event except the confirmed leave
  keeps it, and no close icon, cancel or finish closes the dialog over it or over a request in flight.
\<close>

theorem secret_survives_until_confirmed_leave:
  assumes "dialog_reach staying d" and "dialog_step d e d'" and "staying e"
  shows "(unacknowledged d \<longrightarrow> dg_handoff d' = dg_handoff d) \<and>
    (dg_open d \<and> \<not> dg_open d' \<longrightarrow> \<not> unacknowledged d \<and> dg_creation d \<noteq> MPending)"
  using secret_kept [OF one_secret_reach [OF assms(1)] _ assms(3)] assms(2) by (auto elim: dialog_stepE)

lemma secret_survives_until_confirmed_leave_witness:
  "\<exists>d. run_events [OpenDialog, Submit, RequestReturns sample_result, Settled] dialog_init = Some d \<and>
     dg_handoff (dialog_apply CloseIcon d) = Some sample_result \<and> dg_open (dialog_apply CloseIcon d)"
proof -
  obtain d where d: "run_events [OpenDialog, Submit, RequestReturns sample_result, Settled] dialog_init = Some d"
    by (simp add: dialog_simps dialog_init_def)
  then have f: "dg_handoff d = Some sample_result" "\<not> dg_ack d" "dg_open d" "dg_creation d = MSuccess"
    by (auto simp: dialog_simps dialog_init_def split: if_splits)
  have r: "dialog_reach staying d"
    by (rule run_events_reach [OF dialog_reach.start _ d]) (simp add: staying_def)
  have "dialog_step d CloseIcon (dialog_apply CloseIcon d)"
    by (rule dialog_step.step) (simp add: f is_pending_def)
  from secret_survives_until_confirmed_leave [OF r this] f d show ?thesis
    by (intro exI [of _ d]) (auto simp: staying_def unacknowledged_def)
qed

text \<open>
  The guard blocks exactly while a request is pending or a secret is not acknowledged, and a
  decision asked for then is answered by the button pressed: leaving confirms it after the dialog was
  cleared, returning cancels it with the secret still there.
\<close>

lemma leave_decision_is_answered:
  "shouldBlock d = (is_pending d \<or> (dg_handoff d \<noteq> None \<and> \<not> dg_ack d)) \<and>
   (let left = dialog_apply LeaveSetup (confirmLeave n d)
    in dg_resolved left = dg_resolved d @ [(n, True)] \<and> dg_leave left = None \<and>
       dg_handoff left = None \<and> \<not> dg_open left \<and> \<not> shouldBlock left) \<and>
   (let back = dialog_apply ReturnToSetup (confirmLeave n d)
    in dg_resolved back = dg_resolved d @ [(n, False)] \<and> dg_leave back = None \<and>
       dg_handoff back = dg_handoff d \<and> \<not> dg_confirming back \<and> shouldBlock back = shouldBlock d)"
  by (simp add: Let_def confirmLeave_def clearAndClose_def resolve_def shouldBlock_def isProtected_def
      is_pending_def unacknowledged_def)

text \<open>
  A decision can be left unanswered: a leave asked for while the request is pending is neither
  confirmed nor cancelled when the request then fails and the dialog is closed by its icon, although
  nothing is protected any more and the guard promises an answer to every decision.
\<close>

lemma stale_leave_decision:
  "\<exists>d. run_events [OpenDialog, Submit, LeaveRequested n, RequestThrows e, CloseIcon] dialog_init = Some d \<and>
     \<not> dg_open d \<and> \<not> shouldBlock d \<and> dg_leave d = Some n \<and> dg_resolved d = []"
  by (simp add: dialog_simps dialog_init_def)

end
