(* ===== verification/Event_Runs.thy ===== *)
theory Event_Runs
  imports JS_Prelude
begin

text \<open>
  Runs of a view: a list of events, each with the data the view is rendered with at that time,
  handled only where the view lets the event happen. A handler changes the view's state and asks for
  effects, which are collected in order.
\<close>

fun log_step ::
    "('g \<Rightarrow> 's \<Rightarrow> 'e \<Rightarrow> bool) \<Rightarrow> ('g \<Rightarrow> 'e \<Rightarrow> 's \<Rightarrow> 's \<times> 'x list) \<Rightarrow> ('s \<times> 'x list) option \<Rightarrow> 'g \<times> 'e \<Rightarrow>
     ('s \<times> 'x list) option" where
  "log_step enabled handle None ge = None"
| "log_step enabled handle (Some (s, log)) (g, e) =
     (if enabled g s e then let (s', xs) = handle g e s in Some (s', log @ xs) else None)"

definition log_run ::
    "('g \<Rightarrow> 's \<Rightarrow> 'e \<Rightarrow> bool) \<Rightarrow> ('g \<Rightarrow> 'e \<Rightarrow> 's \<Rightarrow> 's \<times> 'x list) \<Rightarrow> 's \<Rightarrow> ('g \<times> 'e) list \<Rightarrow>
     ('s \<times> 'x list) option" where
  "log_run enabled handle init evs = foldl (log_step enabled handle) (Some (init, [])) evs"

text \<open>
  The contract of a view with an invariant over its history: the events so far, the state they led to
  and the effects asked for.
\<close>

locale logged_invariant =
  fixes enabled :: "'g \<Rightarrow> 's \<Rightarrow> 'e \<Rightarrow> bool"
    and handle :: "'g \<Rightarrow> 'e \<Rightarrow> 's \<Rightarrow> 's \<times> 'x list"
    and init :: 's
    and inv :: "('g \<times> 'e) list \<Rightarrow> 's \<Rightarrow> 'x list \<Rightarrow> bool"
  assumes start: "inv [] init []"
    and step: "inv evs s log \<Longrightarrow> enabled g s e \<Longrightarrow> handle g e s = (s', xs) \<Longrightarrow>
      inv (evs @ [(g, e)]) s' (log @ xs)"
begin

lemma holds: "log_run enabled handle init evs = Some (s, log) \<Longrightarrow> inv evs s log"
proof (induction evs arbitrary: s log rule: rev_induct)
  case Nil
  then show ?case using start by (simp add: log_run_def)
next
  case (snoc ge evs)
  obtain g e where ge: "ge = (g, e)" by (cases ge)
  have run: "log_step enabled handle (log_run enabled handle init evs) (g, e) = Some (s, log)"
    using snoc.prems by (simp add: log_run_def ge)
  then obtain s0 log0 where r0: "log_run enabled handle init evs = Some (s0, log0)"
    by (cases "log_run enabled handle init evs") auto
  obtain s1 xs where ap: "handle g e s0 = (s1, xs)" by (cases "handle g e s0")
  with run r0 have en: "enabled g s0 e" and eq: "s = s1" "log = log0 @ xs"
    by (auto split: if_splits)
  from step [OF snoc.IH [OF r0] en ap] show ?case by (simp add: ge eq)
qed

end

section \<open>Requests and their answers\<close>

text \<open>
  Requests of a kind never overlap when every step keeps the balance: as many were sent as were
  answered, and one more while one is waiting.
\<close>

definition balanced :: "('x \<Rightarrow> bool) \<Rightarrow> ('e \<Rightarrow> bool) \<Rightarrow> ('s \<Rightarrow> bool) \<Rightarrow> ('g \<times> 'e) list \<Rightarrow> 's \<Rightarrow> 'x list \<Rightarrow> bool" where
  "balanced request answers waiting evs s log \<longleftrightarrow>
     length (filter request log) = length (filter (answers \<circ> snd) evs) + (if waiting s then 1 else 0)"

lemma balanced_step:
  assumes "balanced request answers waiting evs s log"
    and "length (filter request xs) + (if waiting s then 1 else 0) =
      (if answers e then 1 else 0) + (if waiting s' then 1 else (0::nat))"
  shows "balanced request answers waiting (evs @ [(g, e)]) s' (log @ xs)"
proof -
  have counts: "length (filter request (log @ xs)) = length (filter request log) + length (filter request xs)"
    "length (filter (answers \<circ> snd) (evs @ [(g, e)])) =
      length (filter (answers \<circ> snd) evs) + (if answers e then 1 else 0)" by simp_all
  show ?thesis using assms unfolding balanced_def counts by linarith
qed

lemma subseq_then: "x \<in> set xs \<Longrightarrow> subseq [x, y] (xs @ [y])"
  using list_emb_append_mono [of "(=)" "[x]" xs "[y]" "[y]"] by (simp add: subseq_singleton_left)

lemma subseq_longer: "subseq xs ys \<Longrightarrow> subseq xs (ys @ zs)"
  using list_emb_append_mono [of "(=)" xs ys "[]" zs] by simp

end
