(* ===== verification/Gateway_Dialogs.thy ===== *)
theory Gateway_Dialogs
  imports Gateway_Commands Account_Dialog Event_Runs
begin

text \<open>
  The dialogs that change a gateway: \<open>gateway-delete-dialog.tsx\<close>, \<open>gateway-rename-dialog.tsx\<close>, the
  form of \<open>gateway-create.tsx\<close>, and the two menus that open the dialogs, of
  \<open>gateway-row-actions.tsx\<close> and \<open>gateway-detail-header.tsx\<close>.
\<close>

section \<open>What the handlers ask for\<close>

text \<open>
  Requests to the driving port, changes of the query cache (a key names itself alone, or everything
  under it), calls of the host and navigation.
\<close>

datatype ui_effect =
    RequestRemove string
  | RequestRename string string
  | RequestProvision provision_input
  | SetQueryData "key_part list" gateway_record
  | InvalidateExact "key_part list"
  | InvalidateUnder "key_part list"
  | DeletionAccepted
  | Renamed string
  | Created string
  | NavigateDetail string
  | NavigateCollection
  | WriteClipboard string

section \<open>Deleting\<close>

record delete_dialog =
  dd_deletion :: mutation

definition mutation_pending :: "mutation \<Rightarrow> bool" where
  "mutation_pending m \<longleftrightarrow> m = MPending \<or> m = MDelivered"

definition delete_mutate :: "string \<Rightarrow> delete_dialog \<Rightarrow> delete_dialog \<times> ui_effect list" where
  "delete_mutate gatewayId d = (d\<lparr>dd_deletion := MPending\<rparr>, [RequestRemove gatewayId])"

definition delete_onSuccess :: "string \<Rightarrow> delete_dialog \<Rightarrow> delete_dialog \<times> ui_effect list" where
  "delete_onSuccess gatewayId d =
     (d\<lparr>dd_deletion := MDelivered\<rparr>,
      [DeletionAccepted, InvalidateExact (gatewayQueryKey gatewayId), InvalidateUnder gatewayListQueryRoot])"

text \<open>The body: the number of active sandboxes to warn of, and whether the request failed.\<close>

definition sandbox_warning :: "int option \<Rightarrow> int option" where
  "sandbox_warning activeSandboxCount =
     (case activeSandboxCount of None \<Rightarrow> None | Some n \<Rightarrow> if n \<noteq> 0 \<and> n > 0 then Some n else None)"

definition delete_failed :: "delete_dialog \<Rightarrow> bool" where
  "delete_failed d = (case dd_deletion d of MError _ \<Rightarrow> True | _ \<Rightarrow> False)"

section \<open>Renaming\<close>

record rename_dialog =
  rd_name :: string
  rd_show_required :: bool
  rd_rename :: mutation

definition rename_init :: "string \<Rightarrow> rename_dialog" where
  "rename_init gatewayName = \<lparr>rd_name = gatewayName, rd_show_required = False, rd_rename = MIdle\<rparr>"

definition trimmedName :: "rename_dialog \<Rightarrow> string" where "trimmedName d = trim (rd_name d)"

definition rename_submit :: "string \<Rightarrow> rename_dialog \<Rightarrow> rename_dialog \<times> ui_effect list" where
  "rename_submit gatewayId d =
     (if trimmedName d = [] then (d\<lparr>rd_show_required := True\<rparr>, [])
      else (d\<lparr>rd_rename := MPending\<rparr>, [RequestRename gatewayId (trimmedName d)]))"

definition rename_onChange :: "string \<Rightarrow> rename_dialog \<Rightarrow> rename_dialog" where
  "rename_onChange value d =
     d\<lparr>rd_name := value, rd_show_required := False,
       rd_rename := (case rd_rename d of MError _ \<Rightarrow> MIdle | m \<Rightarrow> m)\<rparr>"

text \<open>The cache first, then the host, then the lists.\<close>

definition rename_onSuccess :: "string \<Rightarrow> gateway_record \<Rightarrow> ui_effect list" where
  "rename_onSuccess gatewayId gateway =
     [SetQueryData (gatewayQueryKey gatewayId) gateway, Renamed (gr_name gateway),
      InvalidateUnder gatewayListQueryRoot]"

definition rename_enabled :: "string \<Rightarrow> rename_dialog \<Rightarrow> bool" where
  "rename_enabled gatewayName d \<longleftrightarrow> \<not> (mutation_pending (rd_rename d) \<or> trimmedName d = gatewayName)"

section \<open>Creating\<close>

record gateway_form =
  gf_cluster_id :: "string option"
  gf_name :: string

definition gateway_form_default :: gateway_form where
  "gateway_form_default = \<lparr>gf_cluster_id = Some [], gf_name = []\<rparr>"

text \<open>The schema: the fields whose value is missing, or the input of the operation.\<close>

datatype form_field = ClusterField | NameField

definition parse_gateway_form :: "gateway_form \<Rightarrow> form_field list + provision_input" where
  "parse_gateway_form f =
     (let name = trim (gf_name f);
          issues = (if gf_cluster_id f = None then [ClusterField] else []) @
            (if length name < 1 then [NameField] else [])
      in case gf_cluster_id f of
           None \<Rightarrow> Inl issues
         | Some clusterId \<Rightarrow> if issues \<noteq> [] then Inl issues
             else Inr \<lparr>pi_cluster_id = clusterId, pi_name = name\<rparr>)"

record create_page =
  cg_creation :: mutation
  cg_issues :: "form_field list"

definition create_submit :: "gateway_form \<Rightarrow> create_page \<Rightarrow> create_page \<times> ui_effect list" where
  "create_submit f p =
     (case parse_gateway_form f of
        Inl issues \<Rightarrow> (p\<lparr>cg_issues := issues\<rparr>, [])
      | Inr input \<Rightarrow> (p\<lparr>cg_issues := [], cg_creation := MPending\<rparr>, [RequestProvision input]))"

text \<open>\<open>has_onCreated\<close>: the host passes its own handler.\<close>

definition create_onSuccess :: "bool \<Rightarrow> gateway_record \<Rightarrow> ui_effect list" where
  "create_onSuccess has_onCreated gateway =
     [SetQueryData (gatewayQueryKey (gr_id gateway)) gateway, InvalidateUnder gatewayListQueryRoot,
      if has_onCreated then Created (gr_id gateway) else NavigateDetail (gr_id gateway)]"

section \<open>The menus\<close>

datatype copy_result = CopyError | CopySuccess

text \<open>
  The state of a row's menu, or of the header's. The rename dialog is there while it is open; the
  delete dialog is always there, and shown when open and the gateway is not being deleted.
\<close>

record menu_state =
  ms_open :: bool
  ms_delete_open :: bool
  ms_delete :: delete_dialog
  ms_rename :: "rename_dialog option"
  ms_copy :: "copy_result option"

definition menu_init :: menu_state where
  "menu_init = \<lparr>ms_open = False, ms_delete_open = False, ms_delete = \<lparr>dd_deletion = MIdle\<rparr>,
     ms_rename = None, ms_copy = None\<rparr>"

datatype menu_item =
    OpenConsole string
  | is_CopyCommand: CopyCommand string
  | RenameItem
  | DeleteItem

definition row_items :: "gateway_connection \<Rightarrow> menu_item list" where
  "row_items gateway =
     (case keep_truthy (gc_console_url gateway) of Some url \<Rightarrow> [OpenConsole url] | None \<Rightarrow> []) @
     (case keep_truthy (buildGatewayAddCommand gateway) of Some c \<Rightarrow> [CopyCommand c] | None \<Rightarrow> []) @
     [RenameItem, DeleteItem]"

definition header_items :: "menu_item list" where "header_items = [RenameItem, DeleteItem]"

definition menu_shown :: "gateway_connection \<Rightarrow> menu_state \<Rightarrow> bool" where
  "menu_shown gateway m \<longleftrightarrow> ms_open m \<and> \<not> isGatewayDeleting gateway"

definition delete_shown :: "gateway_connection \<Rightarrow> menu_state \<Rightarrow> bool" where
  "delete_shown gateway m \<longleftrightarrow> ms_delete_open m \<and> \<not> isGatewayDeleting gateway"

text \<open>\<open>copyConnectionCommand\<close>, before and after the clipboard answers.\<close>

definition copyConnectionCommand :: "gateway_connection \<Rightarrow> ui_effect list" where
  "copyConnectionCommand gateway =
     (case keep_truthy (buildGatewayAddCommand gateway) of None \<Rightarrow> [] | Some c \<Rightarrow> [WriteClipboard c])"

text \<open>The console control of the header: none, a link, or a disabled button with its reason.\<close>

datatype console_control = NoConsole | ConsoleLink string | ConsoleUnavailable | ConsoleProvisioning

definition console_control :: "gateway_connection \<Rightarrow> instant option \<Rightarrow> instant \<Rightarrow> console_control" where
  "console_control gateway consoleWaitStartedAt now =
     (if \<not> isGatewayReadyToConnect gateway then NoConsole
      else case keep_truthy (gc_console_url gateway) of
             Some url \<Rightarrow> ConsoleLink url
           | None \<Rightarrow> if isGatewayConsolePastDeadline consoleWaitStartedAt now then ConsoleUnavailable
                     else ConsoleProvisioning)"

section \<open>Events of a menu and its dialogs\<close>

datatype menu_event =
    ToggleActions
  | OpenChange bool
  | ChooseRename
  | ChooseDelete
  | ChooseCopy
  | CopyReturns bool
  | DismissCopy
  | ConfirmDelete
  | RemoveReturns
  | RemoveThrows js_error
  | RemoveSettles
  | CloseDelete
  | TypeName string
  | SubmitRename
  | RenameReturns gateway_record
  | RenameThrows js_error
  | CloseRename

text \<open>When the view lets an event happen for a gateway, with the items its menu has.\<close>

fun menu_enabled :: "gateway_connection \<Rightarrow> menu_item list \<Rightarrow> menu_state \<Rightarrow> menu_event \<Rightarrow> bool" where
  "menu_enabled g items m ToggleActions = (\<not> isGatewayDeleting g)"
| "menu_enabled g items m (OpenChange b) = menu_shown g m"
| "menu_enabled g items m ChooseRename = (menu_shown g m \<and> RenameItem \<in> set items)"
| "menu_enabled g items m ChooseDelete = (menu_shown g m \<and> DeleteItem \<in> set items)"
| "menu_enabled g items m ChooseCopy = (menu_shown g m \<and> (\<exists>i \<in> set items. is_CopyCommand i))"
| "menu_enabled g items m (CopyReturns b) = True"
| "menu_enabled g items m DismissCopy = (ms_copy m \<noteq> None)"
| "menu_enabled g items m ConfirmDelete = (delete_shown g m \<and> \<not> mutation_pending (dd_deletion (ms_delete m)))"
| "menu_enabled g items m RemoveReturns = (dd_deletion (ms_delete m) = MPending)"
| "menu_enabled g items m (RemoveThrows e) = (dd_deletion (ms_delete m) = MPending)"
| "menu_enabled g items m RemoveSettles = (dd_deletion (ms_delete m) = MDelivered)"
| "menu_enabled g items m CloseDelete = (delete_shown g m \<and> \<not> mutation_pending (dd_deletion (ms_delete m)))"
| "menu_enabled g items m (TypeName v) =
     (case ms_rename m of None \<Rightarrow> False | Some d \<Rightarrow> \<not> mutation_pending (rd_rename d))"
| "menu_enabled g items m SubmitRename =
     (case ms_rename m of None \<Rightarrow> False | Some d \<Rightarrow> rename_enabled (gc_name g) d)"
| "menu_enabled g items m (RenameReturns r) =
     (case ms_rename m of None \<Rightarrow> False | Some d \<Rightarrow> rd_rename d = MPending)"
| "menu_enabled g items m (RenameThrows e) =
     (case ms_rename m of None \<Rightarrow> False | Some d \<Rightarrow> rd_rename d = MPending)"
| "menu_enabled g items m CloseRename =
     (case ms_rename m of None \<Rightarrow> False | Some d \<Rightarrow> \<not> mutation_pending (rd_rename d))"

text \<open>
  The handlers. Choosing an item also closes the menu (\<open>onSelect\<close>); the rename dialog is unmounted
  when its result arrives or it is closed.
\<close>

fun menu_apply :: "gateway_connection \<Rightarrow> menu_event \<Rightarrow> menu_state \<Rightarrow> menu_state \<times> ui_effect list" where
  "menu_apply g ToggleActions m = (m\<lparr>ms_open := \<not> ms_open m\<rparr>, [])"
| "menu_apply g (OpenChange b) m = (m\<lparr>ms_open := b\<rparr>, [])"
| "menu_apply g ChooseRename m =
     (m\<lparr>ms_open := False, ms_rename := (case ms_rename m of None \<Rightarrow> Some (rename_init (gc_name g)) | r \<Rightarrow> r)\<rparr>, [])"
| "menu_apply g ChooseDelete m = (m\<lparr>ms_open := False, ms_delete_open := True\<rparr>, [])"
| "menu_apply g ChooseCopy m = (m\<lparr>ms_open := False\<rparr>, copyConnectionCommand g)"
| "menu_apply g (CopyReturns b) m = (m\<lparr>ms_copy := Some (if b then CopySuccess else CopyError)\<rparr>, [])"
| "menu_apply g DismissCopy m = (m\<lparr>ms_copy := None\<rparr>, [])"
| "menu_apply g ConfirmDelete m =
     (let (d, es) = delete_mutate (gc_id g) (ms_delete m) in (m\<lparr>ms_delete := d\<rparr>, es))"
| "menu_apply g RemoveReturns m =
     (let (d, es) = delete_onSuccess (gc_id g) (ms_delete m)
      in (m\<lparr>ms_delete := d, ms_delete_open := False\<rparr>, es))"
| "menu_apply g (RemoveThrows e) m = (m\<lparr>ms_delete := \<lparr>dd_deletion = MError e\<rparr>\<rparr>, [])"
| "menu_apply g RemoveSettles m = (m\<lparr>ms_delete := \<lparr>dd_deletion = MSuccess\<rparr>\<rparr>, [])"
| "menu_apply g CloseDelete m = (m\<lparr>ms_delete := \<lparr>dd_deletion = MIdle\<rparr>, ms_delete_open := False\<rparr>, [])"
| "menu_apply g (TypeName v) m = (m\<lparr>ms_rename := map_option (rename_onChange v) (ms_rename m)\<rparr>, [])"
| "menu_apply g SubmitRename m =
     (case ms_rename m of
        None \<Rightarrow> (m, [])
      | Some d \<Rightarrow> let (d', es) = rename_submit (gc_id g) d in (m\<lparr>ms_rename := Some d'\<rparr>, es))"
| "menu_apply g (RenameReturns r) m = (m\<lparr>ms_rename := None\<rparr>, rename_onSuccess (gc_id g) r)"
| "menu_apply g (RenameThrows e) m =
     (m\<lparr>ms_rename := map_option (\<lambda>d. d\<lparr>rd_rename := MError e\<rparr>) (ms_rename m)\<rparr>, [])"
| "menu_apply g CloseRename m = (m\<lparr>ms_rename := None\<rparr>, [])"

section \<open>Runs\<close>

definition menu_run ::
    "(gateway_connection \<Rightarrow> menu_item list) \<Rightarrow> (gateway_connection \<times> menu_event) list \<Rightarrow>
     (menu_state \<times> ui_effect list) option" where
  "menu_run items evs = log_run (\<lambda>g. menu_enabled g (items g)) menu_apply menu_init evs"

fun is_remove :: "ui_effect \<Rightarrow> bool" where
  "is_remove (RequestRemove _) = True"
| "is_remove _ = False"

fun is_rename :: "ui_effect \<Rightarrow> bool" where
  "is_rename (RequestRename _ _) = True"
| "is_rename _ = False"

fun remove_answer :: "menu_event \<Rightarrow> bool" where
  "remove_answer RemoveReturns = True"
| "remove_answer (RemoveThrows _) = True"
| "remove_answer _ = False"

fun rename_answer :: "menu_event \<Rightarrow> bool" where
  "rename_answer (RenameReturns _) = True"
| "rename_answer (RenameThrows _) = True"
| "rename_answer _ = False"

definition remove_waiting :: "menu_state \<Rightarrow> bool" where
  "remove_waiting m \<longleftrightarrow> dd_deletion (ms_delete m) = MPending"

definition rename_waiting :: "menu_state \<Rightarrow> bool" where
  "rename_waiting m = (case ms_rename m of None \<Rightarrow> False | Some d \<Rightarrow> rd_rename d = MPending)"

text \<open>The effects of one event.\<close>

lemma copy_effects: "\<forall>e \<in> set (copyConnectionCommand g). \<not> is_remove e \<and> \<not> is_rename e"
  by (auto simp: copyConnectionCommand_def split: option.split)

lemma filter_copy [simp]:
  "filter is_remove (copyConnectionCommand g) = []" "filter is_rename (copyConnectionCommand g) = []"
  using copy_effects by (simp_all add: filter_empty_conv)

lemma menu_remove_count:
  assumes "menu_enabled g items m e"
  shows "length (filter is_remove (snd (menu_apply g e m))) + (if remove_waiting m then 1 else 0)
    = (if remove_answer e then 1 else 0) + (if remove_waiting (fst (menu_apply g e m)) then 1 else (0::nat))"
  using assms
  by (cases e) (auto simp: delete_mutate_def delete_onSuccess_def rename_onSuccess_def rename_submit_def
      remove_waiting_def mutation_pending_def Let_def split: option.splits)

lemma menu_rename_count:
  assumes "menu_enabled g items m e"
  shows "length (filter is_rename (snd (menu_apply g e m))) + (if rename_waiting m then 1 else 0)
    = (if rename_answer e then 1 else 0) + (if rename_waiting (fst (menu_apply g e m)) then 1 else (0::nat))"
  using assms
  by (cases e) (auto simp: delete_mutate_def delete_onSuccess_def rename_onSuccess_def rename_submit_def
      rename_enabled_def rename_onChange_def rename_init_def rename_waiting_def mutation_pending_def
      Let_def split: option.splits mutation.splits)

lemma menu_requests:
  assumes "menu_enabled g items m e"
  shows "(RequestRename i n \<in> set (snd (menu_apply g e m)) \<longrightarrow> e = SubmitRename \<and> i = gc_id g \<and>
      n \<noteq> [] \<and> trim n = n \<and> n \<noteq> gc_name g) \<and>
    (RequestRemove i \<in> set (snd (menu_apply g e m)) \<longrightarrow> e = ConfirmDelete \<and> i = gc_id g \<and>
      ms_delete_open m \<and> \<not> isGatewayDeleting g) \<and>
    (ms_delete_open (fst (menu_apply g e m)) \<longrightarrow> ms_delete_open m \<or> e = ChooseDelete)"
  using assms copy_effects [of g]
  by (cases e) (auto simp: delete_mutate_def delete_onSuccess_def rename_onSuccess_def rename_submit_def
      rename_enabled_def trimmedName_def delete_shown_def Let_def split: option.splits)

definition menu_inv :: "(gateway_connection \<times> menu_event) list \<Rightarrow> menu_state \<Rightarrow> ui_effect list \<Rightarrow> bool" where
  "menu_inv evs m log \<longleftrightarrow>
     balanced is_remove remove_answer remove_waiting evs m log \<and>
     balanced is_rename rename_answer rename_waiting evs m log \<and>
     (\<forall>i n. RequestRename i n \<in> set log \<longrightarrow> n \<noteq> [] \<and> trim n = n \<and>
       list_ex (\<lambda>ge. snd ge = SubmitRename \<and> gc_id (fst ge) = i \<and> gc_name (fst ge) \<noteq> n) evs) \<and>
     (\<forall>i. RequestRemove i \<in> set log \<longrightarrow> subseq [ChooseDelete, ConfirmDelete] (map snd evs) \<and>
       list_ex (\<lambda>ge. snd ge = ConfirmDelete \<and> gc_id (fst ge) = i \<and> \<not> isGatewayDeleting (fst ge)) evs) \<and>
     (ms_delete_open m \<longrightarrow> ChooseDelete \<in> snd ` set evs)"

lemma menu_inv_step:
  assumes inv: "menu_inv evs m log" and "menu_enabled g items m e" and "menu_apply g e m = (m', es)"
  shows "menu_inv (evs @ [(g, e)]) m' (log @ es)"
proof -
  have eqs: "fst (menu_apply g e m) = m'" "snd (menu_apply g e m) = es" using assms(3) by simp_all
  note parts = inv [unfolded menu_inv_def]
  note req = menu_requests [OF assms(2), unfolded eqs]
  show ?thesis
    unfolding menu_inv_def
  proof (intro conjI allI impI)
    show "balanced is_remove remove_answer remove_waiting (evs @ [(g, e)]) m' (log @ es)"
      using parts menu_remove_count [OF assms(2), unfolded eqs] by (intro balanced_step) blast+
    show "balanced is_rename rename_answer rename_waiting (evs @ [(g, e)]) m' (log @ es)"
      using parts menu_rename_count [OF assms(2), unfolded eqs] by (intro balanced_step) blast+
  next
    fix i n
    assume "RequestRename i n \<in> set (log @ es)"
    then show "n \<noteq> []" "trim n = n"
      "list_ex (\<lambda>ge. snd ge = SubmitRename \<and> gc_id (fst ge) = i \<and> gc_name (fst ge) \<noteq> n) (evs @ [(g, e)])"
      using parts req by auto
  next
    fix i
    assume "RequestRemove i \<in> set (log @ es)"
    then consider "RequestRemove i \<in> set log" | "RequestRemove i \<in> set es" by auto
    then show "subseq [ChooseDelete, ConfirmDelete] (map snd (evs @ [(g, e)]))"
    proof cases
      case 1
      then have "subseq [ChooseDelete, ConfirmDelete] (map snd evs)" using parts by blast
      from subseq_longer [OF this, of "[e]"] show ?thesis by simp
    next
      case 2
      then have "e = ConfirmDelete" "ChooseDelete \<in> set (map snd evs)" using parts req by auto
      then show ?thesis using subseq_then [of ChooseDelete "map snd evs" ConfirmDelete] by simp
    qed
    show "list_ex (\<lambda>ge. snd ge = ConfirmDelete \<and> gc_id (fst ge) = i \<and> \<not> isGatewayDeleting (fst ge)) (evs @ [(g, e)])"
      using \<open>RequestRemove i \<in> set (log @ es)\<close> parts req by auto
  next
    assume "ms_delete_open m'"
    then show "ChooseDelete \<in> snd ` set (evs @ [(g, e)])" using parts req by auto
  qed
qed

interpretation menus: logged_invariant "\<lambda>g. menu_enabled g (items g)" menu_apply menu_init menu_inv for items
proof unfold_locales
  show "menu_inv [] menu_init []"
    by (simp add: menu_inv_def balanced_def menu_init_def remove_waiting_def rename_waiting_def)
qed (rule menu_inv_step)

section \<open>Properties\<close>

text \<open>
  C13. Whatever is pressed in a row's or the header's menu and however the requests end: a gateway is
  removed only after its deletion was chosen and then confirmed, while it is not already being
  deleted, and never twice at once; a rename is sent for a trimmed name that is not blank and differs
  from the one shown, and never twice at once.
\<close>

theorem menu_requests_are_confirmed:
  "case menu_run items evs of
     None \<Rightarrow> True
   | Some (m, log) \<Rightarrow>
       balanced is_remove remove_answer remove_waiting evs m log \<and>
       balanced is_rename rename_answer rename_waiting evs m log \<and>
       list_all (\<lambda>e. case e of
           RequestRename i n \<Rightarrow> n \<noteq> [] \<and> trim n = n \<and>
             list_ex (\<lambda>ge. snd ge = SubmitRename \<and> gc_id (fst ge) = i \<and> gc_name (fst ge) \<noteq> n) evs
         | RequestRemove i \<Rightarrow> subseq [ChooseDelete, ConfirmDelete] (map snd evs) \<and>
             list_ex (\<lambda>ge. snd ge = ConfirmDelete \<and> gc_id (fst ge) = i \<and> \<not> isGatewayDeleting (fst ge)) evs
         | _ \<Rightarrow> True) log"
proof (cases "menu_run items evs")
  case (Some r)
  obtain m log where r: "r = (m, log)" by (cases r)
  have inv: "menu_inv evs m log" using menus.holds [of items evs m log] Some r by (simp add: menu_run_def)
  then show ?thesis
    unfolding Some r option.case prod.case
    by (intro conjI) (auto simp: menu_inv_def list_all_iff split: ui_effect.split)
qed simp

text \<open>
  A form that passes the creation schema names a gateway that is not blank and a cluster that was
  chosen; a form that does not sends nothing and marks exactly the missing fields.
\<close>

lemma create_sends_what_the_form_says:
  "case create_submit f p of (p', es) \<Rightarrow>
     (if gf_cluster_id f \<noteq> None \<and> trim (gf_name f) \<noteq> []
      then es = [RequestProvision \<lparr>pi_cluster_id = the (gf_cluster_id f), pi_name = trim (gf_name f)\<rparr>] \<and>
        cg_creation p' = MPending \<and> cg_issues p' = []
      else es = [] \<and> cg_creation p' = cg_creation p \<and>
        (ClusterField \<in> set (cg_issues p')) = (gf_cluster_id f = None) \<and>
        (NameField \<in> set (cg_issues p')) = (trim (gf_name f) = []))"
  by (cases "gf_cluster_id f") (auto simp: create_submit_def parse_gateway_form_def Let_def)

end
