(* ===== verification/Resource_Table.thy ===== *)
theory Resource_Table
  imports Gateway_Types
begin

text \<open>
  \<open>shared/resource-table.tsx\<close> and \<open>shared/use-debounced-value.ts\<close>: the table both collection
  pages show, as a function from its properties to its view and from an event to the call of
  \<open>onStateChange\<close>, and the value that follows another after a quiet time.
\<close>

section \<open>The table\<close>

record ('r, 'c) table_column =
  tc_id :: string
  tc_label :: string
  tc_render :: "'r \<Rightarrow> 'c"
  tc_sortable :: "bool option"

record table_state =
  ts_page :: int
  ts_page_size :: int
  ts_query :: string
  ts_sort_column :: string
  ts_sort_direction :: sort_direction

datatype change_reason = FilterReason | PageReason | PageSizeReason | SortReason

record ('r, 'c) table_props =
  tp_columns :: "('r, 'c) table_column list"
  tp_has_active_filters :: "bool option"
  tp_item_count :: int
  tp_clears_filters :: bool
  tp_page_sizes :: "int list"
  tp_rows :: "'r list"
  tp_row_key :: "'r \<Rightarrow> string"
  tp_state :: table_state

text \<open>\<open>Math.max(0, columns.findIndex(...))\<close>\<close>

fun find_index :: "('a \<Rightarrow> bool) \<Rightarrow> 'a list \<Rightarrow> int" where
  "find_index P [] = -1"
| "find_index P (x # xs) =
     (if P x then 0 else let i = find_index P xs in if i = -1 then -1 else i + 1)"

definition activeSortIndex :: "('r, 'c) table_column list \<Rightarrow> table_state \<Rightarrow> nat" where
  "activeSortIndex columns state = nat (max 0 (find_index (\<lambda>c. tc_id c = ts_sort_column state) columns))"

definition hasFilter :: "('r, 'c) table_props \<Rightarrow> bool" where
  "hasFilter p =
     (case tp_has_active_filters p of Some b \<Rightarrow> b | None \<Rightarrow> 0 < length (trim (ts_query (tp_state p))))"

text \<open>
  The sort control of a column: its index, the active index and direction. Its handler looks the
  column up again by the index it is called with.
\<close>

record sort_params =
  sp_column_index :: nat
  sp_active_index :: nat
  sp_direction :: sort_direction

definition getSortParams :: "('r, 'c) table_props \<Rightarrow> nat \<Rightarrow> sort_params" where
  "getSortParams p columnIndex =
     \<lparr>sp_column_index = columnIndex, sp_active_index = activeSortIndex (tp_columns p) (tp_state p),
      sp_direction = ts_sort_direction (tp_state p)\<rparr>"

definition column_sort :: "('r, 'c) table_props \<Rightarrow> nat \<Rightarrow> sort_params option" where
  "column_sort p i = (if tc_sortable (tp_columns p ! i) = Some False then None else Some (getSortParams p i))"

definition onSort :: "('r, 'c) table_props \<Rightarrow> nat \<Rightarrow> sort_direction \<Rightarrow> (table_state \<times> change_reason) option" where
  "onSort p index direction =
     (if index < length (tp_columns p)
      then Some ((tp_state p)\<lparr>ts_page := 1, ts_sort_column := tc_id (tp_columns p ! index),
             ts_sort_direction := direction\<rparr>, SortReason)
      else None)"

text \<open>What a handler calls: \<open>onStateChange\<close>, \<open>onClearFilters\<close>, or nothing.\<close>

datatype table_call = StateChange table_state change_reason | ClearFilters | NoCall

definition clearFilter :: "('r, 'c) table_props \<Rightarrow> table_call" where
  "clearFilter p =
     (if tp_clears_filters p then ClearFilters
      else StateChange ((tp_state p)\<lparr>ts_page := 1, ts_query := []\<rparr>) FilterReason)"

datatype table_event =
  SearchText string | ClearSearch | SetPage int | SetPageSize int | SortColumn nat sort_direction

fun table_handle :: "('r, 'c) table_props \<Rightarrow> table_event \<Rightarrow> table_call" where
  "table_handle p (SearchText v) = StateChange ((tp_state p)\<lparr>ts_page := 1, ts_query := v\<rparr>) FilterReason"
| "table_handle p ClearSearch = clearFilter p"
| "table_handle p (SetPage n) = StateChange ((tp_state p)\<lparr>ts_page := n\<rparr>) PageReason"
| "table_handle p (SetPageSize n) =
     StateChange ((tp_state p)\<lparr>ts_page := 1, ts_page_size := n\<rparr>) PageSizeReason"
| "table_handle p (SortColumn i d) =
     (case onSort p i d of None \<Rightarrow> NoCall | Some (s, r) \<Rightarrow> StateChange s r)"

text \<open>The results count of the search field, and the body: the rows, or an empty state.\<close>

definition resultsCount :: "('r, 'c) table_props \<Rightarrow> int option" where
  "resultsCount p = (if hasFilter p then Some (tp_item_count p) else None)"

datatype 'c table_body =
  Rows "(string \<times> sort_params option) list" "(string \<times> (string \<times> 'c) list) list"
| NoResults
| EmptyCollection

definition table_body :: "('r, 'c) table_props \<Rightarrow> 'c table_body" where
  "table_body p =
     (if 0 < length (tp_rows p) then
        Rows (map (\<lambda>i. (tc_label (tp_columns p ! i), column_sort p i)) [0..<length (tp_columns p)])
          (map (\<lambda>row. (tp_row_key p row, map (\<lambda>c. (tc_label c, tc_render c row)) (tp_columns p))) (tp_rows p))
      else if hasFilter p then NoResults else EmptyCollection)"

section \<open>The debounced value\<close>

text \<open>
  The effect runs on mount and whenever the value or the delay of a rendering differs from that of
  the one before: it clears the timer and starts another, for the new value. Times are milliseconds.
\<close>

record 'v debounce =
  db_deps :: "'v \<times> int"
  db_timer :: "(int \<times> 'v) option"
  db_value :: 'v

definition debounce_mount :: "'v \<Rightarrow> int \<Rightarrow> int \<Rightarrow> 'v debounce" where
  "debounce_mount v delay now =
     \<lparr>db_deps = (v, delay), db_timer = Some (now + delay, v), db_value = v\<rparr>"

datatype 'v debounce_event = Render 'v int | TimersRun

fun debounce_step :: "'v debounce \<Rightarrow> int \<times> 'v debounce_event \<Rightarrow> 'v debounce" where
  "debounce_step s (now, Render v delay) =
     (if db_deps s = (v, delay) then s
      else s\<lparr>db_deps := (v, delay), db_timer := Some (now + delay, v)\<rparr>)"
| "debounce_step s (now, TimersRun) =
     (case db_timer s of
        None \<Rightarrow> s
      | Some (due, v) \<Rightarrow> if due \<le> now then s\<lparr>db_timer := None, db_value := v\<rparr> else s)"

definition useDebouncedValue :: "'v \<Rightarrow> int \<Rightarrow> int \<Rightarrow> (int \<times> 'v debounce_event) list \<Rightarrow> 'v debounce" where
  "useDebouncedValue v delay now evs = foldl debounce_step (debounce_mount v delay now) evs"

section \<open>Lemmas\<close>

lemma find_index_range: "-1 \<le> find_index P xs \<and> find_index P xs < int (length xs)"
  by (induction xs) (auto simp: Let_def)

lemma find_index_found: "0 \<le> find_index P xs \<Longrightarrow> P (xs ! nat (find_index P xs))"
proof (induction xs)
  case (Cons x xs)
  show ?case
  proof (cases "P x")
    case False
    then have "0 \<le> find_index P xs"
      using Cons.prems find_index_range [of P xs] by (simp add: Let_def split: if_splits)
    then show ?thesis using False Cons.IH by (simp add: Let_def nat_add_distrib)
  qed simp
qed simp

lemma find_index_none: "find_index P xs = -1 \<longleftrightarrow> (\<forall>x \<in> set xs. \<not> P x)"
proof (induction xs)
  case (Cons x xs)
  have "find_index P xs + 1 \<noteq> -1" using find_index_range [of P xs] by linarith
  then show ?case using Cons by (simp add: Let_def)
qed simp

lemma activeSortIndex_known:
  assumes "ts_sort_column state \<in> tc_id ` set columns"
  shows "activeSortIndex columns state < length columns \<and>
    tc_id (columns ! activeSortIndex columns state) = ts_sort_column state"
proof -
  let ?i = "find_index (\<lambda>c. tc_id c = ts_sort_column state) columns"
  have "?i \<noteq> -1" using assms by (auto simp: find_index_none)
  then have i: "0 \<le> ?i" using find_index_range [of "\<lambda>c. tc_id c = ts_sort_column state" columns] by linarith
  then have "activeSortIndex columns state = nat ?i" by (simp add: activeSortIndex_def)
  then show ?thesis
    using find_index_found [OF i] find_index_range [of "\<lambda>c. tc_id c = ts_sort_column state" columns] i by auto
qed

lemma activeSortIndex_distinct:
  assumes "distinct (map tc_id columns)" and "i < length columns" and "ts_sort_column state = tc_id (columns ! i)"
  shows "activeSortIndex columns state = i"
proof -
  have "ts_sort_column state \<in> tc_id ` set columns" using assms(2,3) by simp
  from activeSortIndex_known [OF this]
  have "activeSortIndex columns state < length columns"
    "map tc_id columns ! activeSortIndex columns state = map tc_id columns ! i"
    using assms(2,3) by simp_all
  then show ?thesis using assms(1,2) nth_eq_iff_index_eq [of "map tc_id columns"] by simp
qed

text \<open>A sort column that is not shown marks the first column.\<close>

lemma activeSortIndex_unknown:
  "ts_sort_column state \<notin> tc_id ` set columns \<Longrightarrow> activeSortIndex columns state = 0"
proof -
  assume "ts_sort_column state \<notin> tc_id ` set columns"
  then have "find_index (\<lambda>c. tc_id c = ts_sort_column state) columns = -1"
    unfolding find_index_none by (metis image_eqI)
  then show ?thesis by (simp add: activeSortIndex_def)
qed

text \<open>The timer is for the value last rendered; without one the debounced value is that value.\<close>

definition debounce_inv :: "int \<Rightarrow> 'v debounce \<Rightarrow> bool" where
  "debounce_inv now s \<longleftrightarrow>
     (case db_timer s of
        None \<Rightarrow> db_value s = fst (db_deps s)
      | Some (due, v) \<Rightarrow> v = fst (db_deps s) \<and> due \<le> now + snd (db_deps s))"

lemma debounce_inv_step:
  assumes "debounce_inv now s" and "now \<le> t"
  shows "debounce_inv t (debounce_step s (t, e))"
  using assms by (cases e) (auto simp: debounce_inv_def split: option.splits)

lemma debounce_inv_run:
  "debounce_inv now s \<Longrightarrow> sorted (now # map fst evs) \<Longrightarrow>
     debounce_inv (last (now # map fst evs)) (foldl debounce_step s evs)"
proof (induction evs arbitrary: now s)
  case (Cons e evs)
  obtain t ev where e: "e = (t, ev)" by (cases e)
  have "debounce_inv t (debounce_step s e)"
    using debounce_inv_step [of now s t ev] Cons.prems by (simp add: e)
  from Cons.IH [OF this] Cons.prems(2) show ?case by (simp add: e)
qed simp

definition rendered :: "'v \<times> int \<Rightarrow> (int \<times> 'v debounce_event) list \<Rightarrow> 'v \<times> int" where
  "rendered d evs = foldl (\<lambda>d e. case snd e of Render v delay \<Rightarrow> (v, delay) | TimersRun \<Rightarrow> d) d evs"

lemma deps_rendered: "db_deps (foldl debounce_step s evs) = rendered (db_deps s) evs"
proof (induction evs rule: rev_induct)
  case (snoc e evs)
  obtain t ev where e: "e = (t, ev)" by (cases e)
  show ?case
    using snoc by (cases ev) (simp_all add: e rendered_def split: option.split)
qed (simp add: rendered_def)

section \<open>Properties\<close>

text \<open>
  Every change of the table other than turning the page goes back to the first page, and no
  handler touches more than its own part of the state; the reason it reports says which part.
\<close>

lemma table_changes_only_its_part:
  "case table_handle p ev of
     NoCall \<Rightarrow> (case ev of SortColumn i _ \<Rightarrow> length (tp_columns p) \<le> i | _ \<Rightarrow> False)
   | ClearFilters \<Rightarrow> ev = ClearSearch \<and> tp_clears_filters p
   | StateChange s PageReason \<Rightarrow> s = (tp_state p)\<lparr>ts_page := ts_page s\<rparr> \<and> ev = SetPage (ts_page s)
   | StateChange s PageSizeReason \<Rightarrow> s = (tp_state p)\<lparr>ts_page := 1, ts_page_size := ts_page_size s\<rparr> \<and>
       ev = SetPageSize (ts_page_size s)
   | StateChange s FilterReason \<Rightarrow> s = (tp_state p)\<lparr>ts_page := 1, ts_query := ts_query s\<rparr> \<and>
       (if ev = ClearSearch then ts_query s = [] else ev = SearchText (ts_query s))
   | StateChange s SortReason \<Rightarrow>
       s = (tp_state p)\<lparr>ts_page := 1, ts_sort_column := ts_sort_column s, ts_sort_direction := ts_sort_direction s\<rparr> \<and>
       ts_sort_column s = tc_id (tp_columns p ! activeSortIndex (tp_columns p) s)"
proof (cases ev)
  case (SortColumn i d)
  show ?thesis
  proof (cases "i < length (tp_columns p)")
    case True
    then have "tc_id (tp_columns p ! i) \<in> tc_id ` set (tp_columns p)" by simp
    then show ?thesis
      using True activeSortIndex_known [of "(tp_state p)\<lparr>ts_page := 1, ts_sort_column := tc_id (tp_columns p ! i),
          ts_sort_direction := d\<rparr>" "tp_columns p"]
      by (simp add: SortColumn onSort_def)
  qed (simp add: SortColumn onSort_def)
qed (simp_all add: clearFilter_def)

text \<open>
  When the timers run a whole delay after the last event, the debounced value is the value last
  rendered, whatever was rendered and whenever the timers ran before.
\<close>

lemma debounced_value_settles:
  assumes "sorted (now # map fst evs)"
    and "last (now # map fst evs) + snd (rendered (v, delay) evs) \<le> t"
  shows "db_value (useDebouncedValue v delay now (evs @ [(t, TimersRun)])) = fst (rendered (v, delay) evs) \<and>
    db_timer (useDebouncedValue v delay now (evs @ [(t, TimersRun)])) = None"
proof -
  let ?s = "useDebouncedValue v delay now evs"
  have init: "debounce_inv now (debounce_mount v delay now)"
    by (simp add: debounce_inv_def debounce_mount_def)
  have inv: "debounce_inv (last (now # map fst evs)) ?s"
    unfolding useDebouncedValue_def by (rule debounce_inv_run [OF init assms(1)])
  have deps: "db_deps ?s = rendered (v, delay) evs"
    by (simp add: useDebouncedValue_def deps_rendered debounce_mount_def)
  have run: "useDebouncedValue v delay now (evs @ [(t, TimersRun)]) = debounce_step ?s (t, TimersRun)"
    by (simp add: useDebouncedValue_def)
  show ?thesis
    unfolding run using inv assms(2) deps
    by (auto simp: debounce_inv_def split: option.splits)
qed

lemma debounced_value_settles_witness:
  "db_value (useDebouncedValue ''a'' 250 0 [(100, Render ''ab'' 250), (300, TimersRun), (320, Render ''abc'' 250),
     (400, Render ''abc'' 250), (650, TimersRun)]) = ''abc''"
  using debounced_value_settles [of 0 "[(100, Render ''ab'' 250), (300, TimersRun), (320, Render ''abc'' 250),
     (400, Render ''abc'' 250)]" "''a''" 250 650]
  by (simp add: rendered_def)

end
