(* ===== verification/Gateway_Pages.thy ===== *)
theory Gateway_Pages
  imports Gateway_Dialogs Resource_Table
begin

text \<open>
  \<open>pages/gateway-pages.tsx\<close>: the page of the gateways, over its query and its table, and the page
  of one gateway, with its tabs and the leave guard of the service-account dialog. What a query
  reports to a page is an input; the page's handlers and views are functions of it and of the state
  the page keeps.
\<close>

section \<open>Cells\<close>

datatype cell =
    TextCell string
  | LinkCell string string
  | TimeCell string string
  | StatusCell string
  | LoadingCell
  | NotAvailableCell
  | RetryCell

text \<open>\<open>parseDate\<close> is \<open>new Date(s).getTime()\<close>, \<open>formatDate\<close> the locale's date.\<close>

definition gateway_created_date :: "(string \<Rightarrow> instant) \<Rightarrow> (int \<Rightarrow> string) \<Rightarrow> string option \<Rightarrow> cell" where
  "gateway_created_date parseDate formatDate createdAt =
     (case keep_truthy createdAt of
        None \<Rightarrow> NotAvailableCell
      | Some s \<Rightarrow> (case parseDate s of NaN \<Rightarrow> NotAvailableCell | Ms t \<Rightarrow> TimeCell s (formatDate t)))"

text \<open>What a query reports: pending, failed, fetching, and its data.\<close>

record 'd query =
  qy_pending :: bool
  qy_error :: bool
  qy_fetching :: bool
  qy_data :: "'d option"

definition cluster_id_or_empty :: "gateway_connection \<Rightarrow> string" where
  "cluster_id_or_empty gateway = (case gc_cluster_id gateway of None \<Rightarrow> [] | Some s \<Rightarrow> s)"

definition detail_cluster_name :: "gateway_connection \<Rightarrow> gateway_placement query \<Rightarrow> cell" where
  "detail_cluster_name gateway placementQuery =
     (if cluster_id_or_empty gateway = [] then TextCell (gc_cluster_name gateway)
      else if qy_pending placementQuery then LoadingCell
      else if qy_error placementQuery then RetryCell
      else case qy_data placementQuery of None \<Rightarrow> RetryCell | Some p \<Rightarrow> TextCell (pl_name p))"

definition collection_cluster_name :: "bool \<Rightarrow> (string \<rightharpoonup> string) \<Rightarrow> gateway_connection \<Rightarrow> cell" where
  "collection_cluster_name isLoading placementNames gateway =
     (if cluster_id_or_empty gateway = [] \<or> trim (gc_cluster_name gateway) \<noteq> []
      then TextCell (gc_cluster_name gateway)
      else if isLoading then LoadingCell
      else case placementNames (cluster_id_or_empty gateway) of
             Some n \<Rightarrow> TextCell n | None \<Rightarrow> NotAvailableCell)"

section \<open>Success alerts\<close>

datatype success_alert = GatewayRenamedAlert string | GatewayDeletedAlert string

definition success_alerts :: "string option \<Rightarrow> string option \<Rightarrow> success_alert list" where
  "success_alerts deletedGatewayName renamedGatewayName =
     (case keep_truthy renamedGatewayName of Some n \<Rightarrow> [GatewayRenamedAlert n] | None \<Rightarrow> []) @
     (case keep_truthy deletedGatewayName of Some n \<Rightarrow> [GatewayDeletedAlert n] | None \<Rightarrow> [])"

section \<open>The page of the gateways\<close>

text \<open>
  One run of the query function: the control plane is asked, then every gateway of the answer is
  converted and shown to the wait tracker. \<open>clock\<close> gives the two times read for each gateway.
\<close>

fun observe_gateways ::
    "(nat \<Rightarrow> instant \<times> instant) \<Rightarrow> nat \<Rightarrow> gateway_record list \<Rightarrow> wait_starts \<Rightarrow> bool list \<times> wait_starts" where
  "observe_gateways clock i [] starts = ([], starts)"
| "observe_gateways clock i (g # gs) starts =
     (let (start, starts1) = track (gr_id g) g (fst (clock i)) starts;
          needs = gatewayNeedsStatusPolling g start (snd (clock i));
          (rest, starts2) = observe_gateways clock (Suc i) gs starts1
      in (needs # rest, starts2))"

record list_data =
  ld_items :: "gateway_connection list"
  ld_page :: int
  ld_size :: int
  ld_total :: int
  ld_should_poll :: bool

definition list_query ::
    "'w gateway_operations \<Rightarrow> string \<Rightarrow> (nat \<Rightarrow> instant \<times> instant) \<Rightarrow> gateway_list_request \<Rightarrow> nat \<Rightarrow>
     ('w \<times> wait_starts, js_error, list_data) act" where
  "list_query ops hub clock request signal = (\<lambda>(w, starts).
     case go_list_gateways ops request (Some signal) w of
       (Inl e, w') \<Rightarrow> (Inl e, (w', starts))
     | (Inr result, w') \<Rightarrow>
         let (needs, starts') = observe_gateways clock 0 (gp_items result) starts
         in (Inr \<lparr>ld_items = map (\<lambda>g. toGatewayConnection g hub) (gp_items result),
                  ld_page = gp_page result, ld_size = gp_size result, ld_total = gp_total result,
                  ld_should_poll = list_ex (\<lambda>b. b) needs\<rparr>, (w', starts')))"

definition list_refetchInterval :: "list_data option \<Rightarrow> int option" where
  "list_refetchInterval data =
     (case data of None \<Rightarrow> None
      | Some d \<Rightarrow> if ld_should_poll d then Some gatewayStatusPollMilliseconds else None)"

text \<open>
  The state of the page; its list state is the host's where the host gives one. \<open>gateways_props\<close> are
  the properties it is mounted with.
\<close>

record gateways_props =
  gs_collection :: "gateway_list_request option"
  gs_deleted_name :: "string option"
  gs_gateways :: "gateway_connection list option"
  gs_hosted :: bool

record gateways_state =
  gs_deleted :: "string option"
  gs_dismissed :: bool
  gs_renamed :: "string option"
  gs_local :: gateway_list_request

definition gateways_init :: gateways_state where
  "gateways_init = \<lparr>gs_deleted = None, gs_dismissed = False, gs_renamed = None,
     gs_local = defaultGatewayListRequest\<rparr>"

definition currentCollectionState :: "gateways_props \<Rightarrow> gateways_state \<Rightarrow> gateway_list_request" where
  "currentCollectionState p s = (case gs_collection p of Some r \<Rightarrow> r | None \<Rightarrow> gs_local s)"

definition gatewayRequest :: "gateways_props \<Rightarrow> gateways_state \<Rightarrow> string \<Rightarrow> gateway_list_request" where
  "gatewayRequest p s debouncedGatewaySearch =
     (currentCollectionState p s)\<lparr>lr_search := debouncedGatewaySearch\<rparr>"

definition visiblePage :: "gateways_props \<Rightarrow> gateways_state \<Rightarrow> list_data query \<Rightarrow> gateway_connection gateway_page option" where
  "visiblePage p s q =
     (case gs_gateways p of
        Some gateways \<Rightarrow> Some \<lparr>gp_items = gateways, gp_page = lr_page (currentCollectionState p s),
          gp_size = lr_size (currentCollectionState p s), gp_total = int (length gateways)\<rparr>
      | None \<Rightarrow> map_option (\<lambda>d. \<lparr>gp_items = ld_items d, gp_page = ld_page d, gp_size = ld_size d,
          gp_total = ld_total d\<rparr>) (qy_data q))"

definition placementClusterIds :: "gateway_connection list \<Rightarrow> string list" where
  "placementClusterIds items =
     sort (remdups (map cluster_id_or_empty
       (filter (\<lambda>g. truthy (gc_cluster_id g) \<and> trim (gc_cluster_name g) = []) items)))"

text \<open>A \<open>Map\<close> of the pairs: a later pair replaces an earlier one.\<close>

definition placementNames :: "gateway_placement list option \<Rightarrow> (string \<rightharpoonup> string)" where
  "placementNames data =
     (case data of None \<Rightarrow> Map.empty | Some ps \<Rightarrow> foldl (\<lambda>m p. m(pl_id p \<mapsto> pl_name p)) Map.empty ps)"

definition isGatewaySortField :: "string \<Rightarrow> gateway_sort_field option" where
  "isGatewaySortField value =
     find (\<lambda>f. gateway_sort_field_str f = value)
       [SortCluster, SortCreated, SortEndpoint, SortName, SortOwner, SortStatus]"

definition gateways_table_state :: "gateway_list_request \<Rightarrow> table_state" where
  "gateways_table_state r =
     \<lparr>ts_page = lr_page r, ts_page_size = lr_size r, ts_query = lr_search r,
      ts_sort_column = gateway_sort_field_str (lr_sort_field r), ts_sort_direction = lr_sort_direction r\<rparr>"

definition next_collection_state :: "table_state \<Rightarrow> gateway_list_request" where
  "next_collection_state t =
     \<lparr>lr_page = ts_page t, lr_search = ts_query t, lr_size = ts_page_size t,
      lr_sort_direction = ts_sort_direction t,
      lr_sort_field = (case isGatewaySortField (ts_sort_column t) of Some f \<Rightarrow> f | None \<Rightarrow> SortName)\<rparr>"

text \<open>\<open>changeTableState\<close>: the host's handler, or the page's own state.\<close>

definition changeTableState ::
    "gateways_props \<Rightarrow> table_state \<Rightarrow> change_reason \<Rightarrow> gateways_state \<Rightarrow>
     gateways_state \<times> (gateway_list_request \<times> change_reason) option" where
  "changeTableState p nextState reason s =
     (if gs_hosted p then (s, Some (next_collection_state nextState, reason))
      else (s\<lparr>gs_local := next_collection_state nextState\<rparr>, None))"

definition gateways_columns ::
    "(string \<Rightarrow> string) \<Rightarrow> (string \<Rightarrow> instant) \<Rightarrow> (int \<Rightarrow> string) \<Rightarrow> (int \<Rightarrow> string) \<Rightarrow> bool \<Rightarrow> (string \<rightharpoonup> string) \<Rightarrow>
     (gateway_connection, cell) table_column list" where
  "gateways_columns detailHref parseDate formatDate showNumber isLoading names =
     [\<lparr>tc_id = ''name'', tc_label = ''gatewayName'',
       tc_render = (\<lambda>g. LinkCell (detailHref (gc_id g)) (gc_name g)), tc_sortable = None\<rparr>,
      \<lparr>tc_id = ''activeSandboxes'', tc_label = ''activeSandboxes'',
       tc_render = (\<lambda>g. case gc_active_sandboxes g of Some n \<Rightarrow> TextCell (showNumber n) | None \<Rightarrow> NotAvailableCell),
       tc_sortable = Some False\<rparr>,
      \<lparr>tc_id = ''cluster'', tc_label = ''cluster'',
       tc_render = collection_cluster_name isLoading names, tc_sortable = None\<rparr>,
      \<lparr>tc_id = ''status'', tc_label = ''status'', tc_render = (\<lambda>g. StatusCell (gc_status g)), tc_sortable = None\<rparr>,
      \<lparr>tc_id = ''created'', tc_label = ''created'',
       tc_render = (\<lambda>g. gateway_created_date parseDate formatDate (gc_created_at g)), tc_sortable = None\<rparr>,
      \<lparr>tc_id = ''owner'', tc_label = ''owner'',
       tc_render = (\<lambda>g. case gc_created_by g of Some s \<Rightarrow> TextCell s | None \<Rightarrow> NotAvailableCell),
       tc_sortable = None\<rparr>,
      \<lparr>tc_id = ''endpoint'', tc_label = ''gatewayEndpoint'',
       tc_render = (\<lambda>g. case gc_endpoint g of Some s \<Rightarrow> TextCell s | None \<Rightarrow> NotAvailableCell),
       tc_sortable = None\<rparr>]"

definition gateways_table ::
    "(gateway_connection, cell) table_column list \<Rightarrow> gateway_list_request \<Rightarrow>
     gateway_connection gateway_page option \<Rightarrow> (gateway_connection, cell) table_props" where
  "gateways_table columns r page =
     \<lparr>tp_columns = columns, tp_has_active_filters = None,
      tp_item_count = (case page of None \<Rightarrow> 0 | Some v \<Rightarrow> gp_total v), tp_clears_filters = False,
      tp_page_sizes = gatewayListPageSizes, tp_rows = (case page of None \<Rightarrow> [] | Some v \<Rightarrow> gp_items v),
      tp_row_key = gc_id, tp_state = gateways_table_state r\<rparr>"

datatype gateways_view = GatewaysLoad bool | GatewaysTable "success_alert list" bool "cell table_body"

text \<open>\<open>onRefresh\<close> is there for a host's list, or the query's own; the button waits for the fetch.\<close>

definition shown_deleted_name :: "gateways_props \<Rightarrow> gateways_state \<Rightarrow> string option" where
  "shown_deleted_name p s =
     (case gs_deleted s of Some n \<Rightarrow> Some n
      | None \<Rightarrow> if gs_dismissed s then None else gs_deleted_name p)"

definition dismiss_deleted :: "gateways_state \<Rightarrow> gateways_state" where
  "dismiss_deleted s = s\<lparr>gs_deleted := None, gs_dismissed := True\<rparr>"

definition gateways_view ::
    "(gateway_connection, cell) table_column list \<Rightarrow> bool \<Rightarrow> gateways_props \<Rightarrow> gateways_state \<Rightarrow> list_data query \<Rightarrow>
     gateways_view" where
  "gateways_view columns has_onRefresh p s q =
     (let page = visiblePage p s q
      in if page = None \<and> qy_pending q then GatewaysLoad False
         else if page = None \<and> qy_error q then GatewaysLoad True
         else GatewaysTable (success_alerts (shown_deleted_name p s) (gs_renamed s))
           (gs_gateways p = None \<or> has_onRefresh)
           (table_body (gateways_table columns (currentCollectionState p s) page)))"

section \<open>The page of one gateway\<close>

datatype detail_tab = ConnectionTab | DetailsTab | ServiceAccountsTab

fun detail_tab_str :: "detail_tab \<Rightarrow> string" where
  "detail_tab_str ConnectionTab = ''connection''"
| "detail_tab_str DetailsTab = ''details''"
| "detail_tab_str ServiceAccountsTab = ''service-accounts''"

definition gatewayDetailTabs :: "detail_tab list" where
  "gatewayDetailTabs = [ConnectionTab, ServiceAccountsTab, DetailsTab]"

definition toGatewayDetailTab :: "string option \<Rightarrow> detail_tab" where
  "toGatewayDetailTab value =
     (case keep_truthy value of
        None \<Rightarrow> ConnectionTab
      | Some s \<Rightarrow> (case find (\<lambda>t. detail_tab_str t = s) gatewayDetailTabs of Some t \<Rightarrow> t | None \<Rightarrow> ConnectionTab))"

text \<open>
  One evaluation of the refetch interval: the tracker sees the gateway, and the page polls or not.
\<close>

definition detail_refetchInterval ::
    "gateway_record option \<Rightarrow> instant \<Rightarrow> instant \<Rightarrow> wait_starts \<Rightarrow> int option \<times> wait_starts" where
  "detail_refetchInterval data trackNow now starts =
     (case data of
        None \<Rightarrow> (None, starts)
      | Some g \<Rightarrow>
          let (start, starts') = track (gr_id g) g trackNow starts
          in (if gatewayNeedsStatusPolling g start now then Some gatewayStatusPollMilliseconds else None, starts'))"

text \<open>
  The host's gateway or the query's; the loading state, the failed state, or the page with the
  gateway's connection and the start of its wait.
\<close>

datatype detail_view = DetailLoad bool | DetailPage gateway_connection "instant option"

definition detail_view ::
    "string \<Rightarrow> gateway_record option \<Rightarrow> gateway_record query \<Rightarrow> instant \<Rightarrow> wait_starts \<Rightarrow> detail_view \<times> wait_starts" where
  "detail_view hub gateway q now starts =
     (case (case gateway of Some g \<Rightarrow> Some g | None \<Rightarrow> qy_data q) of
        None \<Rightarrow> (if qy_pending q then DetailLoad False else DetailLoad True, starts)
      | Some visible \<Rightarrow>
          let (start, starts') = track (gr_id visible) visible now starts
          in (DetailPage (toGatewayConnection visible hub) start, starts'))"

text \<open>
  The tabs with the create dialog of the service accounts: the dialog while it is mounted, whose guard
  is then the registered one, and the tabs that open leave decisions would apply. The decisions of the
  host's route blocker have no tab.
\<close>

record detail_page =
  dt_tab :: detail_tab
  dt_deleting :: bool
  dt_dialog :: "dialog option"
  dt_decisions :: "(nat \<times> detail_tab) list"
  dt_next :: nat

definition detail_init :: detail_page where
  "detail_init = \<lparr>dt_tab = ConnectionTab, dt_deleting = False, dt_dialog = None, dt_decisions = [], dt_next = 0\<rparr>"

text \<open>\<open>applyTab\<close>; a tab that is left unmounts what it holds.\<close>

definition applyTab :: "detail_tab \<Rightarrow> detail_page \<Rightarrow> detail_page" where
  "applyTab tab p =
     p\<lparr>dt_tab := tab, dt_dialog := (if tab = ServiceAccountsTab then dt_dialog p else None)\<rparr>"

definition change_tab :: "detail_tab \<Rightarrow> detail_page \<Rightarrow> detail_page" where
  "change_tab tab p =
     (case dt_dialog p of
        None \<Rightarrow> applyTab tab p
      | Some guard \<Rightarrow>
          if tab \<noteq> dt_tab p \<and> shouldBlock guard
          then p\<lparr>dt_dialog := Some (confirmLeave (dt_next p) guard),
                 dt_decisions := (dt_next p, tab) # dt_decisions p, dt_next := Suc (dt_next p)\<rparr>
          else applyTab tab p)"

text \<open>The answers a dialog gives to decisions: a confirmed one applies its tab.\<close>

definition answer :: "nat \<times> bool \<Rightarrow> detail_page \<Rightarrow> detail_page" where
  "answer a p =
     (case (snd a, map_of (dt_decisions p) (fst a)) of
        (True, Some tab) \<Rightarrow> applyTab tab p
      | _ \<Rightarrow> p)"

text \<open>An event of the dialog; a closed dialog is unmounted by the page.\<close>

definition dialog_event_on :: "dialog_event \<Rightarrow> dialog \<Rightarrow> detail_page \<Rightarrow> detail_page" where
  "dialog_event_on e d p =
     (let d' = dialog_apply e d
      in fold answer (drop (length (dg_resolved d)) (dg_resolved d'))
           (p\<lparr>dt_dialog := (if dg_open d' then Some d' else None)\<rparr>))"

datatype page_event =
  SelectTab detail_tab | OpenCreate | DialogEvent dialog_event | HostLeaves | GatewayDeleting

text \<open>
  The tab of the service accounts is disabled, and its page gone, while the gateway is being deleted
  (\<open>dt_deleting\<close>); a deletion is not taken back.
\<close>

fun page_enabled :: "detail_page \<Rightarrow> page_event \<Rightarrow> bool" where
  "page_enabled p (SelectTab tab) = (\<not> (tab = ServiceAccountsTab \<and> dt_deleting p))"
| "page_enabled p OpenCreate =
     (dt_tab p = ServiceAccountsTab \<and> \<not> dt_deleting p \<and> dt_dialog p = None)"
| "page_enabled p (DialogEvent e) =
     (case dt_dialog p of
        None \<Rightarrow> False
      | Some d \<Rightarrow> dialog_enabled d e \<and> (case e of OpenDialog \<Rightarrow> False | LeaveRequested _ \<Rightarrow> False | _ \<Rightarrow> True))"
| "page_enabled p HostLeaves = (case dt_dialog p of None \<Rightarrow> False | Some d \<Rightarrow> shouldBlock d)"
| "page_enabled p GatewayDeleting = True"

fun page_apply :: "page_event \<Rightarrow> detail_page \<Rightarrow> detail_page" where
  "page_apply (SelectTab tab) p = change_tab tab p"
| "page_apply OpenCreate p = p\<lparr>dt_dialog := Some (dialog_apply OpenDialog dialog_init)\<rparr>"
| "page_apply (DialogEvent e) p =
     (case dt_dialog p of None \<Rightarrow> p | Some d \<Rightarrow> dialog_event_on e d p)"
| "page_apply HostLeaves p =
     (case dt_dialog p of
        None \<Rightarrow> p
      | Some d \<Rightarrow> p\<lparr>dt_dialog := Some (confirmLeave (dt_next p) d), dt_next := Suc (dt_next p)\<rparr>)"
| "page_apply GatewayDeleting p = p\<lparr>dt_deleting := True, dt_dialog := None\<rparr>"

fun page_run :: "page_event list \<Rightarrow> detail_page \<Rightarrow> detail_page option" where
  "page_run [] p = Some p"
| "page_run (e # es) p = (if page_enabled p e then page_run es (page_apply e p) else None)"

section \<open>Every gateway of a page is observed\<close>

text \<open>The observations one run of the query function makes, in order.\<close>

definition page_observations :: "(nat \<Rightarrow> instant \<times> instant) \<Rightarrow> nat \<Rightarrow> gateway_record list \<Rightarrow> observation list" where
  "page_observations clock i gs = map (\<lambda>(k, g). (gr_id g, g, fst (clock k))) (enumerate i gs)"

lemma observe_gateways_starts:
  "snd (observe_gateways clock i gs starts) = track_all (page_observations clock i gs) starts"
proof (induction gs arbitrary: i starts)
  case (Cons g gs)
  have "snd (observe_gateways clock i (g # gs) starts)
      = snd (observe_gateways clock (Suc i) gs (snd (track (gr_id g) g (fst (clock i)) starts)))"
    by (simp add: Let_def split: prod.split)
  also have "\<dots> = track_all (page_observations clock (Suc i) gs) (snd (track (gr_id g) g (fst (clock i)) starts))"
    by (rule Cons.IH)
  also have "\<dots> = track_all (page_observations clock i (g # gs)) starts"
    by (simp add: page_observations_def track_all_def)
  finally show ?case .
qed (simp add: page_observations_def track_all_def)

lemma track_all_append: "track_all (xs @ ys) starts = track_all ys (track_all xs starts)"
  by (simp add: track_all_def)

lemma observe_gateways_quiet:
  "\<not> list_ex (\<lambda>b. b) (fst (observe_gateways clock i gs starts)) \<Longrightarrow> g \<in> set gs \<Longrightarrow> settled g"
proof (induction gs arbitrary: i starts)
  case (Cons g0 gs)
  obtain start starts1 where t: "track (gr_id g0) g0 (fst (clock i)) starts = (start, starts1)"
    by (cases "track (gr_id g0) g0 (fst (clock i)) starts")
  obtain rest starts2 where o: "observe_gateways clock (Suc i) gs starts1 = (rest, starts2)"
    by (cases "observe_gateways clock (Suc i) gs starts1")
  from Cons.prems(1) have q: "\<not> gatewayNeedsStatusPolling g0 start (snd (clock i))" "\<not> list_ex (\<lambda>b. b) rest"
    by (simp_all add: t o)
  show ?case
  proof (cases "g = g0")
    case True
    then show ?thesis using q(1) by (simp add: needs_polling_iff)
  next
    case False
    then show ?thesis using Cons.IH [of "Suc i" starts1] Cons.prems(2) q(2) by (simp add: o)
  qed
qed simp

section \<open>The sort controls\<close>

lemma sort_field_of_str: "isGatewaySortField (gateway_sort_field_str f) = Some f"
  by (cases f) (simp_all add: isGatewaySortField_def)

lemma sort_field_str_of: "isGatewaySortField s = Some f \<Longrightarrow> gateway_sort_field_str f = s"
  unfolding isGatewaySortField_def find_Some_iff by auto

lemma table_state_next:
  "isGatewaySortField (ts_sort_column t) = Some f \<Longrightarrow> gateways_table_state (next_collection_state t) = t"
  by (rule table_state.equality)
    (simp_all add: gateways_table_state_def next_collection_state_def sort_field_str_of)

lemma next_table_state: "next_collection_state (gateways_table_state r) = r"
  by (rule gateway_list_request.equality)
    (simp_all add: gateways_table_state_def next_collection_state_def sort_field_of_str)

lemma column_ids:
  "map tc_id (gateways_columns detailHref parseDate formatDate showNumber l names) =
     [''name'', ''activeSandboxes'', ''cluster'', ''status'', ''created'', ''owner'', ''endpoint'']"
  "map tc_sortable (gateways_columns detailHref parseDate formatDate showNumber l names) =
     [None, Some False, None, None, None, None, None]"
  by (simp_all add: gateways_columns_def)

lemma columns_sort_or_count:
  "list_all (\<lambda>c. if tc_sortable c = Some False then tc_id c = ''activeSandboxes''
      else isGatewaySortField (tc_id c) \<noteq> None)
    (gateways_columns detailHref parseDate formatDate showNumber l names)"
  by (simp add: gateways_columns_def isGatewaySortField_def)

lemma unsortable_column:
  "c \<in> set (gateways_columns detailHref parseDate formatDate showNumber l names) \<Longrightarrow>
     tc_sortable c = Some False \<Longrightarrow> tc_id c = ''activeSandboxes''"
  using columns_sort_or_count unfolding list_all_iff by fastforce

lemma sortable_column:
  "c \<in> set (gateways_columns detailHref parseDate formatDate showNumber l names) \<Longrightarrow>
     tc_sortable c \<noteq> Some False \<Longrightarrow> isGatewaySortField (tc_id c) \<noteq> None"
  using columns_sort_or_count unfolding list_all_iff by fastforce

section \<open>What is protected stays mounted\<close>

text \<open>A mounted dialog is open, on its tab, and holds one secret at most.\<close>

definition mounted_inv :: "detail_page \<Rightarrow> bool" where
  "mounted_inv p \<longleftrightarrow>
     (case dt_dialog p of None \<Rightarrow> True
      | Some d \<Rightarrow> one_secret d \<and> dg_open d \<and> dt_tab p = ServiceAccountsTab)"

lemma mounted_applyTab: "mounted_inv p \<Longrightarrow> mounted_inv (applyTab tab p)"
  by (cases "tab = ServiceAccountsTab"; cases "dt_dialog p") (simp_all add: mounted_inv_def applyTab_def)

lemma mounted_answers: "mounted_inv p \<Longrightarrow> mounted_inv (fold answer as p)"
proof (induction as arbitrary: p)
  case (Cons a as)
  have "mounted_inv (answer a p)"
    using Cons.prems mounted_applyTab by (simp add: answer_def split: option.split bool.split)
  then show ?case by (simp add: Cons.IH)
qed simp

lemma leave_closes: "\<not> dg_open (dialog_apply LeaveSetup d)"
  by (simp add: resolve_def clearAndClose_def split: option.split)

lemma one_secret_confirm: "one_secret d \<Longrightarrow> one_secret (confirmLeave n d)"
  by (simp add: one_secret_def confirmLeave_def)

lemma mounted_apply:
  assumes "mounted_inv p" and "page_enabled p e"
  shows "mounted_inv (page_apply e p)"
proof (cases e)
  case (SelectTab tab)
  note ap = mounted_applyTab [OF assms(1), of tab]
  show ?thesis
  proof (cases "dt_dialog p")
    case None
    then show ?thesis using ap by (simp add: SelectTab change_tab_def)
  next
    case (Some d)
    then have "one_secret (confirmLeave (dt_next p) d)" "dg_open (confirmLeave (dt_next p) d)"
      "dt_tab p = ServiceAccountsTab"
      using assms(1) by (simp_all add: mounted_inv_def one_secret_confirm) (simp add: confirmLeave_def)
    then have "mounted_inv (p\<lparr>dt_dialog := Some (confirmLeave (dt_next p) d),
        dt_decisions := (dt_next p, tab) # dt_decisions p, dt_next := Suc (dt_next p)\<rparr>)"
      by (simp add: mounted_inv_def)
    then show ?thesis using ap Some by (simp add: SelectTab change_tab_def)
  qed
next
  case (DialogEvent ev)
  then obtain d where d: "dt_dialog p = Some d" "dialog_enabled d ev"
    using assms(2) by (auto split: option.splits)
  have inv: "one_secret d" "dt_tab p = ServiceAccountsTab" using assms(1) d by (simp_all add: mounted_inv_def)
  have "dg_open (dialog_apply ev d) \<Longrightarrow> staying ev" using leave_closes by (auto simp: staying_def)
  then have "mounted_inv (p\<lparr>dt_dialog := (if dg_open (dialog_apply ev d) then Some (dialog_apply ev d) else None)\<rparr>)"
    using inv one_secret_apply [OF inv(1) d(2)] by (simp add: mounted_inv_def)
  then show ?thesis
    by (simp add: DialogEvent d dialog_event_on_def Let_def mounted_answers)
next
  case HostLeaves
  then show ?thesis
    using assms by (auto simp: mounted_inv_def one_secret_def confirmLeave_def split: option.splits)
next
  case OpenCreate
  then show ?thesis using assms by (simp add: mounted_inv_def one_secret_def dialog_init_def)
qed (simp add: mounted_inv_def)

lemma mounted_run: "mounted_inv p \<Longrightarrow> page_run es p = Some p' \<Longrightarrow> mounted_inv p'"
  by (induction es arbitrary: p) (auto split: if_splits intro: mounted_apply)

text \<open>The page holds the secret of a result.\<close>

definition holds_secret :: "account_create_result \<Rightarrow> detail_page \<Rightarrow> bool" where
  "holds_secret r p \<longleftrightarrow>
     (case dt_dialog p of None \<Rightarrow> False | Some d \<Rightarrow> dg_handoff d = Some r \<and> \<not> dg_ack d)"

lemmas page_simps = detail_init_def change_tab_def applyTab_def dialog_event_on_def answer_def holds_secret_def
  dialog_init_def dialog_simps

text \<open>Events that neither confirm leaving, nor acknowledge, nor take the gateway away.\<close>

definition page_staying :: "page_event \<Rightarrow> bool" where
  "page_staying e \<longleftrightarrow>
     (case e of
        DialogEvent ev \<Rightarrow> ev \<noteq> LeaveSetup \<and> ev \<noteq> Acknowledge True
      | GatewayDeleting \<Rightarrow> False | _ \<Rightarrow> True)"

lemma secret_stays_unacknowledged:
  assumes "dialog_enabled d ev" "ev \<noteq> LeaveSetup" "ev \<noteq> Acknowledge True" "one_secret d"
    and "dg_handoff d = Some r" "\<not> dg_ack d" "dg_open d"
  shows "dg_handoff (dialog_apply ev d) = Some r \<and> \<not> dg_ack (dialog_apply ev d) \<and> dg_open (dialog_apply ev d)"
proof -
  have un: "unacknowledged d" using assms(5,6) by (simp add: unacknowledged_def)
  have "dg_handoff (dialog_apply ev d) = Some r" "dg_open (dialog_apply ev d)"
    using secret_kept [OF assms(4) assms(1)] assms(2,5,7) un by (auto simp: staying_def)
  moreover have "\<not> dg_ack (dialog_apply ev d)"
    using assms(2,3,6) calculation(1)
    by (cases ev) (auto simp: requestClose_def clearAndClose_def resolve_def confirmLeave_def split: option.splits)
  ultimately show ?thesis by blast
qed

lemma no_confirmation:
  assumes "ev \<noteq> LeaveSetup"
  shows "fold answer (drop (length (dg_resolved d)) (dg_resolved (dialog_apply ev d))) p = p"
  using assms by (cases ev) (auto simp: requestClose_def clearAndClose_def resolve_def confirmLeave_def
      answer_def split: option.splits)

lemma holds_secret_apply:
  assumes inv: "mounted_inv p" and en: "page_enabled p e" and "page_staying e" and hold: "holds_secret r p"
  shows "holds_secret r (page_apply e p)"
proof -
  from hold obtain d where d: "dt_dialog p = Some d" "dg_handoff d = Some r" "\<not> dg_ack d"
    by (auto simp: holds_secret_def split: option.splits)
  have inv': "one_secret d" "dg_open d" "dt_tab p = ServiceAccountsTab"
    using inv by (simp_all add: mounted_inv_def d)
  have block: "shouldBlock d" using d by (simp add: shouldBlock_def isProtected_def unacknowledged_def)
  show ?thesis
  proof (cases e)
    case (SelectTab tab)
    then show ?thesis
      using d inv' block by (auto simp: change_tab_def applyTab_def holds_secret_def confirmLeave_def)
  next
    case (DialogEvent ev)
    then have ev: "ev \<noteq> LeaveSetup" "ev \<noteq> Acknowledge True" "dialog_enabled d ev"
      using assms(3) en d by (auto simp: page_staying_def)
    from secret_stays_unacknowledged [OF ev(3,1,2) inv'(1) d(2,3) inv'(2)] no_confirmation [OF ev(1)]
    show ?thesis by (simp add: DialogEvent d dialog_event_on_def Let_def holds_secret_def)
  qed (use assms d in \<open>simp_all add: holds_secret_def page_staying_def confirmLeave_def\<close>)
qed

lemma holds_secret_run:
  "mounted_inv p \<Longrightarrow> holds_secret r p \<Longrightarrow> list_all page_staying es \<Longrightarrow> page_run es p = Some p' \<Longrightarrow>
     holds_secret r p' \<and> mounted_inv p'"
  by (induction es arbitrary: p) (auto split: if_splits intro: mounted_apply holds_secret_apply)

section \<open>Properties\<close>

text \<open>
  Every gateway of a fetched page is shown to the wait tracker, whatever the others need: after
  the fetch the tracker holds for each gateway the start of its current wait over all observations so
  far. The page stops polling only when all its gateways are settled; a failed fetch changes nothing.
\<close>

lemma fetched_page_is_observed:
  "case list_query ops hub clock request signal (w, track_all obs Map.empty) of
     (Inl e, (w', starts)) \<Rightarrow> go_list_gateways ops request (Some signal) w = (Inl e, w') \<and>
       starts = track_all obs Map.empty
   | (Inr d, (w', starts)) \<Rightarrow>
       (\<exists>result. go_list_gateways ops request (Some signal) w = (Inr result, w') \<and>
          starts = (\<lambda>i. waiting_since i (obs @ page_observations clock 0 (gp_items result))) \<and>
          map gc_id (ld_items d) = map gr_id (gp_items result) \<and>
          (list_refetchInterval (Some d) = Some gatewayStatusPollMilliseconds \<or>
           list_all settled (gp_items result)))"
proof (cases "go_list_gateways ops request (Some signal) w")
  case (Pair r w')
  show ?thesis
  proof (cases r)
    case (Inl e)
    then show ?thesis by (simp add: list_query_def Pair)
  next
    case (Inr result)
    let ?o = "observe_gateways clock 0 (gp_items result) (track_all obs Map.empty)"
    have starts: "snd ?o = (\<lambda>i. waiting_since i (obs @ page_observations clock 0 (gp_items result)))"
      by (rule ext) (simp add: observe_gateways_starts track_all_append [symmetric] track_all_waiting_since)
    have ids: "map (gc_id \<circ> (\<lambda>g. toGatewayConnection g hub)) gs = map gr_id gs" for gs
      by (simp add: toGatewayConnection_def Let_def)
    obtain needs s' where o: "?o = (needs, s')" by (cases ?o)
    have quiet: "\<not> list_ex (\<lambda>b. b) needs \<Longrightarrow> list_all settled (gp_items result)"
      using observe_gateways_quiet [of clock 0 "gp_items result" "track_all obs Map.empty"]
      by (auto simp: o list_all_iff)
    show ?thesis
      using starts quiet by (auto simp: list_query_def Pair Inr o ids list_refetchInterval_def)
  qed
qed

text \<open>
  The table sorts by the column that is pressed: a sort control of the page asks for the first page
  sorted by its own column, in the direction given and with the search kept, and the next rendering
  marks that very column. The only column without a control is the number of sandboxes.
\<close>

lemma sort_control_sorts_its_column:
  "let columns = gateways_columns detailHref parseDate formatDate showNumber l names;
       table = gateways_table columns r page
   in list_all (\<lambda>i.
        case column_sort table i of
          None \<Rightarrow> tc_id (columns ! i) = ''activeSandboxes''
        | Some sp \<Rightarrow>
            (case onSort table (sp_column_index sp) d of
               None \<Rightarrow> False
             | Some (t, reason) \<Rightarrow>
                 let r' = next_collection_state t
                 in reason = SortReason \<and> lr_page r' = 1 \<and> lr_search r' = lr_search r \<and> lr_size r' = lr_size r \<and>
                    lr_sort_direction r' = d \<and> gateway_sort_field_str (lr_sort_field r') = tc_id (columns ! i) \<and>
                    activeSortIndex columns (gateways_table_state r') = i)) [0..<length columns]"
proof -
  let ?cs = "gateways_columns detailHref parseDate formatDate showNumber l names"
  let ?t = "gateways_table ?cs r page"
  have props: "tp_columns ?t = ?cs" "tp_state ?t = gateways_table_state r"
    by (simp_all add: gateways_table_def)
  have one: "case column_sort ?t i of
      None \<Rightarrow> tc_id (?cs ! i) = ''activeSandboxes''
    | Some sp \<Rightarrow>
        (case onSort ?t (sp_column_index sp) d of
           None \<Rightarrow> False
         | Some (t, reason) \<Rightarrow>
             let r' = next_collection_state t
             in reason = SortReason \<and> lr_page r' = 1 \<and> lr_search r' = lr_search r \<and> lr_size r' = lr_size r \<and>
                lr_sort_direction r' = d \<and> gateway_sort_field_str (lr_sort_field r') = tc_id (?cs ! i) \<and>
                activeSortIndex ?cs (gateways_table_state r') = i)" if i: "i < length ?cs" for i
  proof (cases "tc_sortable (?cs ! i) = Some False")
    case True
    then show ?thesis using unsortable_column [OF nth_mem [OF i]] by (simp add: column_sort_def props)
  next
    case False
    let ?n = "(tp_state ?t)\<lparr>ts_page := 1, ts_sort_column := tc_id (?cs ! i), ts_sort_direction := d\<rparr>"
    obtain f where f: "isGatewaySortField (tc_id (?cs ! i)) = Some f"
      using sortable_column [OF nth_mem [OF i]] False by auto
    then have "gateways_table_state (next_collection_state ?n) = ?n" by (intro table_state_next) simp
    moreover have "activeSortIndex ?cs ?n = i"
      by (rule activeSortIndex_distinct) (use i in \<open>simp_all add: column_ids\<close>)
    moreover have "gateway_sort_field_str f = tc_id (?cs ! i)" by (rule sort_field_str_of [OF f])
    ultimately show ?thesis
      using False i f by (simp add: column_sort_def props getSortParams_def onSort_def Let_def)
        (simp add: next_collection_state_def gateways_table_state_def)
  qed
  then show ?thesis by (simp add: list_all_iff Let_def)
qed

text \<open>
  However the tabs are pressed and the host tries to leave, a one-time secret that was handed over
  stays on the page, on its tab, until it is acknowledged, leaving is confirmed, or the gateway itself
  goes away.
\<close>

lemma tabs_do_not_discard_a_secret:
  assumes "page_run evs detail_init = Some p" and "holds_secret r p"
    and "list_all page_staying es" and "page_run es p = Some p'"
  shows "holds_secret r p' \<and> dt_tab p' = ServiceAccountsTab"
proof -
  have "mounted_inv detail_init" by (simp add: mounted_inv_def detail_init_def)
  from holds_secret_run [OF mounted_run [OF this assms(1)] assms(2,3,4)]
  show ?thesis by (auto simp: mounted_inv_def holds_secret_def split: option.splits)
qed

lemma tabs_do_not_discard_a_secret_witness:
  "\<exists>p'. page_run [SelectTab ServiceAccountsTab, OpenCreate, DialogEvent Submit,
       DialogEvent (RequestReturns sample_result), SelectTab DetailsTab, DialogEvent ReturnToSetup,
       SelectTab ConnectionTab, DialogEvent Settled] detail_init = Some p' \<and>
     holds_secret sample_result p' \<and> dt_tab p' = ServiceAccountsTab"
proof -
  let ?evs = "[SelectTab ServiceAccountsTab, OpenCreate, DialogEvent Submit, DialogEvent (RequestReturns sample_result)]"
  let ?es = "[SelectTab DetailsTab, DialogEvent ReturnToSetup, SelectTab ConnectionTab, DialogEvent Settled]"
  let ?p = "the (page_run ?evs detail_init)"
  let ?p' = "the (page_run ?es ?p)"
  have p: "page_run ?evs detail_init = Some ?p" by (simp add: page_simps)
  have p': "page_run ?es ?p = Some ?p'" by (simp add: page_simps)
  have "holds_secret sample_result ?p" by (simp add: page_simps)
  from tabs_do_not_discard_a_secret [OF p this _ p'] have "holds_secret sample_result ?p' \<and> dt_tab ?p' = ServiceAccountsTab"
    by (simp add: page_staying_def)
  moreover have "page_run (?evs @ ?es) detail_init = Some ?p'" by (simp add: page_simps)
  ultimately show ?thesis by (intro exI [of _ ?p']) simp
qed

text \<open>
  The gateway going away does discard it: when the gateway turns to being deleted, the page of the
  service accounts is unmounted with the dialog, and the guard is not asked.
\<close>

lemma deletion_discards_a_secret:
  "\<exists>p. page_run [SelectTab ServiceAccountsTab, OpenCreate, DialogEvent Submit,
       DialogEvent (RequestReturns result)] detail_init = Some p \<and>
     holds_secret result p \<and> \<not> holds_secret result (page_apply GatewayDeleting p) \<and>
     page_enabled p GatewayDeleting"
  by (simp add: page_simps)

end
