(* ===== verification/Account_Pages.thy ===== *)
theory Account_Pages
  imports Gateway_Pages
begin

text \<open>
  \<open>service-accounts/service-account-data.ts\<close>, \<open>service-accounts-page.tsx\<close> and
  \<open>service-account-row-actions.tsx\<close>: the query keys and polling of the service accounts, their page,
  and the menu and dialogs of one account.
\<close>

section \<open>Polling and keys\<close>

definition serviceAccountStatusPollMilliseconds :: int where "serviceAccountStatusPollMilliseconds = 5000"

definition transitionalStatuses :: "account_status set" where
  "transitionalStatuses = {StDegraded, StDeleting, StProvisioning, StRevoking}"

definition serviceAccountNeedsPolling :: "account_record \<Rightarrow> bool" where
  "serviceAccountNeedsPolling account \<longleftrightarrow> ac_status account \<in> transitionalStatuses"

definition serviceAccountListQueryRoot :: "string \<Rightarrow> key_part list" where
  "serviceAccountListQueryRoot gatewayId =
     [KText ''gateways'', KText ''detail'', KText gatewayId, KText ''service-accounts'', KText ''list'']"

definition serviceAccountListQueryKey :: "string \<Rightarrow> account_list_request \<Rightarrow> key_part list" where
  "serviceAccountListQueryKey gatewayId request =
     [KText ''gateways'', KText ''detail'', KText gatewayId, KText ''service-accounts'', KText ''list'',
      KNumber (alr_page request), KNumber (alr_size request), KText (alr_search request),
      KText (case alr_status request of None \<Rightarrow> ''all'' | Some s \<Rightarrow> account_status_str s),
      KText (account_sort_field_str (alr_sort request)), KText (sort_direction_str (alr_order request))]"

definition serviceAccountQueryKey :: "string \<Rightarrow> string \<Rightarrow> key_part list" where
  "serviceAccountQueryKey gatewayId serviceAccountId =
     [KText ''gateways'', KText ''detail'', KText gatewayId, KText ''service-accounts'', KText ''detail'',
      KText serviceAccountId]"

text \<open>What an invalidation of everything under a key reaches.\<close>

definition under_key :: "key_part list \<Rightarrow> key_part list \<Rightarrow> bool" where
  "under_key root key \<longleftrightarrow> prefix root key"

section \<open>The page\<close>

definition isSortField :: "string \<Rightarrow> account_sort_field option" where
  "isSortField value =
     find (\<lambda>f. account_sort_field_str f = value) [AccCreatedAt, AccExpiresAt, AccName, AccRole, AccStatus]"

definition local_date :: "(string \<Rightarrow> instant) \<Rightarrow> (int \<Rightarrow> string) \<Rightarrow> string \<Rightarrow> cell" where
  "local_date parseDate formatDate value =
     (case parseDate value of NaN \<Rightarrow> NotAvailableCell | Ms t \<Rightarrow> TimeCell value (formatDate t))"

text \<open>The details under a name: description, client, subject and creation.\<close>

definition account_details ::
    "(string \<Rightarrow> instant) \<Rightarrow> (int \<Rightarrow> string) \<Rightarrow> account_record \<Rightarrow> (string \<times> cell) list" where
  "account_details parseDate formatDate account =
     [(''serviceAccountDescription'',
       case ac_description account of Some d \<Rightarrow> TextCell d | None \<Rightarrow> NotAvailableCell),
      (''clientId'', TextCell (ac_client_id account)),
      (''subject'', TextCell (ac_subject account)),
      (''created'', local_date parseDate formatDate (ac_created_at account))]"

record accounts_state =
  as_create_open :: bool
  as_local :: account_list_request

definition accounts_init :: accounts_state where
  "accounts_init = \<lparr>as_create_open = False, as_local = defaultServiceAccountListRequest\<rparr>"

definition accounts_current :: "account_list_request option \<Rightarrow> accounts_state \<Rightarrow> account_list_request" where
  "accounts_current collectionState s = (case collectionState of Some r \<Rightarrow> r | None \<Rightarrow> as_local s)"

definition accounts_request :: "account_list_request \<Rightarrow> string \<Rightarrow> account_list_request" where
  "accounts_request current debouncedSearch = current\<lparr>alr_search := debouncedSearch\<rparr>"

definition accounts_refetchInterval :: "bool \<Rightarrow> account_page option \<Rightarrow> int option" where
  "accounts_refetchInterval isActive data =
     (case data of
        None \<Rightarrow> None
      | Some page \<Rightarrow>
          if isActive \<and> list_ex serviceAccountNeedsPolling (ap_items page)
          then Some serviceAccountStatusPollMilliseconds else None)"

definition accounts_retry :: "int \<Rightarrow> js_error \<Rightarrow> bool" where
  "accounts_retry failureCount error \<longleftrightarrow>
     failureCount < 1 \<and>
     (case error of OperationFailure e \<Rightarrow> oe_kind e = Unavailable | _ \<Rightarrow> True)"

definition accounts_table_state :: "account_list_request \<Rightarrow> table_state" where
  "accounts_table_state r =
     \<lparr>ts_page = alr_page r, ts_page_size = alr_size r, ts_query = alr_search r,
      ts_sort_column = account_sort_field_str (alr_sort r), ts_sort_direction = alr_order r\<rparr>"

definition accounts_next_state :: "account_list_request \<Rightarrow> table_state \<Rightarrow> account_list_request" where
  "accounts_next_state current t =
     current\<lparr>alr_order := ts_sort_direction t, alr_page := ts_page t, alr_search := ts_query t,
       alr_size := ts_page_size t,
       alr_sort := (case isSortField (ts_sort_column t) of Some f \<Rightarrow> f | None \<Rightarrow> AccCreatedAt)\<rparr>"

definition accounts_clear_filters :: "account_list_request \<Rightarrow> account_list_request" where
  "accounts_clear_filters current = current\<lparr>alr_page := 1, alr_search := [], alr_status := None\<rparr>"

text \<open>\<open>changeState\<close>: the host's handler, or the page's own state.\<close>

definition accounts_change ::
    "bool \<Rightarrow> account_list_request \<Rightarrow> change_reason \<Rightarrow> accounts_state \<Rightarrow>
     accounts_state \<times> (account_list_request \<times> change_reason) option" where
  "accounts_change hosted next reason s =
     (if hosted then (s, Some (next, reason)) else (s\<lparr>as_local := next\<rparr>, None))"

text \<open>The host's request after a call of the table.\<close>

fun accounts_table_call :: "account_list_request \<Rightarrow> table_call \<Rightarrow> (account_list_request \<times> change_reason) option" where
  "accounts_table_call current (StateChange t reason) = Some (accounts_next_state current t, reason)"
| "accounts_table_call current ClearFilters = Some (accounts_clear_filters current, FilterReason)"
| "accounts_table_call current NoCall = None"

definition accounts_columns ::
    "(string \<Rightarrow> instant) \<Rightarrow> (int \<Rightarrow> string) \<Rightarrow> (account_record, cell) table_column list" where
  "accounts_columns parseDate formatDate =
     [\<lparr>tc_id = ''name'', tc_label = ''serviceAccountName'', tc_render = (\<lambda>a. TextCell (ac_name a)), tc_sortable = None\<rparr>,
      \<lparr>tc_id = ''role'', tc_label = ''serviceAccountRole'',
       tc_render = (\<lambda>a. TextCell (account_role_str (ac_role a))), tc_sortable = None\<rparr>,
      \<lparr>tc_id = ''status'', tc_label = ''status'',
       tc_render = (\<lambda>a. StatusCell (account_status_str (ac_status a))), tc_sortable = None\<rparr>,
      \<lparr>tc_id = ''expires_at'', tc_label = ''expiration'',
       tc_render = (\<lambda>a. local_date parseDate formatDate (ac_expires_at a)), tc_sortable = None\<rparr>]"

definition accounts_table ::
    "(account_record, cell) table_column list \<Rightarrow> account_list_request \<Rightarrow> account_page \<Rightarrow>
     (account_record, cell) table_props" where
  "accounts_table columns current page =
     \<lparr>tp_columns = columns,
      tp_has_active_filters = Some (0 < length (trim (alr_search current)) \<or> alr_status current \<noteq> None),
      tp_item_count = ap_total page, tp_clears_filters = True,
      tp_page_sizes = openShellGatewayServiceAccountPageSizes, tp_rows = ap_items page, tp_row_key = ac_id,
      tp_state = accounts_table_state current\<rparr>"

text \<open>What the page shows beside its table.\<close>

datatype accounts_notice = OwnScope | CreateDenied | LoadFailed | LoadingAccounts

definition accounts_notices :: "account_page query \<Rightarrow> accounts_notice list" where
  "accounts_notices accounts =
     (case qy_data accounts of
        None \<Rightarrow> []
      | Some page \<Rightarrow>
          (if \<not> cap_can_manage_all (ap_capabilities page) then [OwnScope] else []) @
          (if \<not> cap_can_create (ap_capabilities page) then [CreateDenied] else [])) @
     (if qy_error accounts then [LoadFailed] else []) @
     (if qy_data accounts = None \<and> qy_pending accounts then [LoadingAccounts] else [])"

definition create_button_enabled :: "account_page query \<Rightarrow> bool" where
  "create_button_enabled accounts =
     (case qy_data accounts of None \<Rightarrow> False | Some page \<Rightarrow> cap_can_create (ap_capabilities page))"

definition create_dialog_mounted :: "account_page query \<Rightarrow> accounts_state \<Rightarrow> bool" where
  "create_dialog_mounted accounts s \<longleftrightarrow> as_create_open s \<and> qy_data accounts \<noteq> None"

section \<open>The menu of an account\<close>

datatype lifecycle_action = DeleteAccount | RevokeAccount

datatype account_item = ViewSetup | RevokeItem | DeleteAccountItem

definition canRevoke :: "account_record \<Rightarrow> bool" where
  "canRevoke account \<longleftrightarrow> ac_status account \<notin> {StDeleting, StExpired, StRevoked, StRevoking}"

definition account_items :: "account_record \<Rightarrow> account_item list" where
  "account_items account =
     (if ac_status account = StReady then [ViewSetup] else []) @
     (if canRevoke account then [RevokeItem] else []) @
     (if ac_status account \<noteq> StDeleting then [DeleteAccountItem] else [])"

datatype account_effect =
    RequestRevokeAccount string string
  | RequestDeleteAccount string string
  | InvalidateAccounts "key_part list"

record account_row =
  ar_action :: "lifecycle_action option"
  ar_menu_open :: bool
  ar_setup_open :: bool
  ar_mutation :: mutation

definition account_row_init :: account_row where
  "account_row_init = \<lparr>ar_action = None, ar_menu_open = False, ar_setup_open = False, ar_mutation = MIdle\<rparr>"

text \<open>\<open>mutationFn\<close> and \<open>onSuccess\<close> of the lifecycle dialog.\<close>

definition lifecycle_request :: "string \<Rightarrow> account_record \<Rightarrow> lifecycle_action \<Rightarrow> account_effect" where
  "lifecycle_request gatewayId account action =
     (case action of
        RevokeAccount \<Rightarrow> RequestRevokeAccount gatewayId (ac_id account)
      | DeleteAccount \<Rightarrow> RequestDeleteAccount gatewayId (ac_id account))"

definition lifecycle_onSuccess :: "string \<Rightarrow> account_effect list" where
  "lifecycle_onSuccess gatewayId = [InvalidateAccounts (serviceAccountListQueryRoot gatewayId)]"

datatype account_event =
    ToggleAccountMenu
  | AccountMenuChange bool
  | ChooseSetup
  | CloseSetup
  | ChooseAction lifecycle_action
  | ConfirmAction
  | ActionReturns
  | ActionThrows js_error
  | CloseAction

text \<open>
  The lifecycle dialog is mounted while there is an action; it keeps the user from the menu. The
  view of an existing account has nothing to protect and closes at will.
\<close>

fun account_enabled :: "account_record \<Rightarrow> account_row \<Rightarrow> account_event \<Rightarrow> bool" where
  "account_enabled a s ToggleAccountMenu = (ar_action s = None \<and> \<not> ar_setup_open s)"
| "account_enabled a s (AccountMenuChange b) = ar_menu_open s"
| "account_enabled a s ChooseSetup = (ar_menu_open s \<and> ViewSetup \<in> set (account_items a))"
| "account_enabled a s CloseSetup = ar_setup_open s"
| "account_enabled a s (ChooseAction action) =
     (ar_menu_open s \<and>
      (case action of RevokeAccount \<Rightarrow> RevokeItem | DeleteAccount \<Rightarrow> DeleteAccountItem) \<in> set (account_items a))"
| "account_enabled a s ConfirmAction = (ar_action s \<noteq> None \<and> \<not> mutation_pending (ar_mutation s))"
| "account_enabled a s ActionReturns = (ar_action s \<noteq> None \<and> ar_mutation s = MPending)"
| "account_enabled a s (ActionThrows e) = (ar_action s \<noteq> None \<and> ar_mutation s = MPending)"
| "account_enabled a s CloseAction = (ar_action s \<noteq> None \<and> \<not> mutation_pending (ar_mutation s))"

text \<open>A dialog that closes is unmounted, with its mutation.\<close>

fun account_handle :: "string \<Rightarrow> account_record \<Rightarrow> account_event \<Rightarrow> account_row \<Rightarrow> account_row \<times> account_effect list" where
  "account_handle gatewayId a ToggleAccountMenu s = (s\<lparr>ar_menu_open := \<not> ar_menu_open s\<rparr>, [])"
| "account_handle gatewayId a (AccountMenuChange b) s = (s\<lparr>ar_menu_open := b\<rparr>, [])"
| "account_handle gatewayId a ChooseSetup s = (s\<lparr>ar_menu_open := False, ar_setup_open := True\<rparr>, [])"
| "account_handle gatewayId a CloseSetup s = (s\<lparr>ar_setup_open := False\<rparr>, [])"
| "account_handle gatewayId a (ChooseAction action) s =
     (s\<lparr>ar_menu_open := False, ar_action := Some action\<rparr>, [])"
| "account_handle gatewayId a ConfirmAction s =
     (case ar_action s of
        None \<Rightarrow> (s, [])
      | Some action \<Rightarrow> (s\<lparr>ar_mutation := MPending\<rparr>, [lifecycle_request gatewayId a action]))"
| "account_handle gatewayId a ActionReturns s =
     (s\<lparr>ar_mutation := MIdle, ar_action := None\<rparr>, lifecycle_onSuccess gatewayId)"
| "account_handle gatewayId a (ActionThrows e) s = (s\<lparr>ar_mutation := MError e\<rparr>, [])"
| "account_handle gatewayId a CloseAction s = (s\<lparr>ar_mutation := MIdle, ar_action := None\<rparr>, [])"

text \<open>The setup of an existing account: loading, failed with a retry, or its instructions.\<close>

datatype setup_body = SetupLoading | SetupFailed | SetupShown account_record account_connection

definition existing_setup_body :: "account_detail query \<Rightarrow> setup_body" where
  "existing_setup_body detail =
     (if qy_pending detail then SetupLoading
      else if qy_error detail then SetupFailed
      else case qy_data detail of
             None \<Rightarrow> SetupFailed | Some d \<Rightarrow> SetupShown (ad_account d) (ad_connection d))"

definition account_run ::
    "string \<Rightarrow> (account_record \<times> account_event) list \<Rightarrow> (account_row \<times> account_effect list) option" where
  "account_run gatewayId evs = log_run account_enabled (account_handle gatewayId) account_row_init evs"

section \<open>Requests of a run\<close>

fun is_lifecycle :: "account_effect \<Rightarrow> bool" where
  "is_lifecycle (InvalidateAccounts _) = False"
| "is_lifecycle _ = True"

fun lifecycle_answer :: "account_event \<Rightarrow> bool" where
  "lifecycle_answer ActionReturns = True"
| "lifecycle_answer (ActionThrows _) = True"
| "lifecycle_answer _ = False"

definition lifecycle_waiting :: "account_row \<Rightarrow> bool" where
  "lifecycle_waiting s \<longleftrightarrow> ar_mutation s = MPending"

text \<open>An action was chosen where the account's menu offered it.\<close>

definition chosen :: "lifecycle_action \<Rightarrow> (account_record \<times> account_event) list \<Rightarrow> bool" where
  "chosen action evs \<longleftrightarrow>
     list_ex (\<lambda>ae. snd ae = ChooseAction action \<and>
       (case action of RevokeAccount \<Rightarrow> canRevoke (fst ae) | DeleteAccount \<Rightarrow> ac_status (fst ae) \<noteq> StDeleting)) evs"

definition confirmed :: "(account_record \<times> account_event) list \<Rightarrow> string \<Rightarrow> bool" where
  "confirmed evs accountId \<longleftrightarrow> list_ex (\<lambda>ae. snd ae = ConfirmAction \<and> ac_id (fst ae) = accountId) evs"

definition account_inv ::
    "string \<Rightarrow> (account_record \<times> account_event) list \<Rightarrow> account_row \<Rightarrow> account_effect list \<Rightarrow> bool" where
  "account_inv gatewayId evs s log \<longleftrightarrow>
     balanced is_lifecycle lifecycle_answer lifecycle_waiting evs s log \<and>
     (\<forall>g i. RequestRevokeAccount g i \<in> set log \<longrightarrow> g = gatewayId \<and> chosen RevokeAccount evs \<and> confirmed evs i) \<and>
     (\<forall>g i. RequestDeleteAccount g i \<in> set log \<longrightarrow> g = gatewayId \<and> chosen DeleteAccount evs \<and> confirmed evs i) \<and>
     (\<forall>action. ar_action s = Some action \<longrightarrow> chosen action evs) \<and>
     (ar_action s = None \<longrightarrow> ar_mutation s = MIdle) \<and>
     (ar_action s \<noteq> None \<longrightarrow> \<not> ar_menu_open s)"

lemma lifecycle_request_is [simp]: "is_lifecycle (lifecycle_request g a action)"
  by (cases action) (simp_all add: lifecycle_request_def)

lemma RequestRevoke_iff:
  "RequestRevokeAccount g' i = lifecycle_request g a action \<longleftrightarrow> action = RevokeAccount \<and> g' = g \<and> i = ac_id a"
  "RequestDeleteAccount g' i = lifecycle_request g a action \<longleftrightarrow> action = DeleteAccount \<and> g' = g \<and> i = ac_id a"
  by (cases action; auto simp: lifecycle_request_def)+

lemma account_balance:
  assumes "account_enabled a s e"
  shows "length (filter is_lifecycle (snd (account_handle gatewayId a e s))) + (if lifecycle_waiting s then 1 else 0)
    = (if lifecycle_answer e then 1 else 0) +
      (if lifecycle_waiting (fst (account_handle gatewayId a e s)) then 1 else (0::nat))"
  using assms
  by (cases e) (auto simp: lifecycle_waiting_def mutation_pending_def lifecycle_onSuccess_def split: option.splits)

lemma chosen_snoc: "chosen action evs \<Longrightarrow> chosen action (evs @ [x])"
  by (simp add: chosen_def)

lemma chosen_more: "chosen action [x] \<Longrightarrow> chosen action (evs @ [x])"
  by (simp add: chosen_def)

lemma confirmed_snoc: "confirmed evs i \<Longrightarrow> confirmed (evs @ [x]) i"
  by (simp add: confirmed_def)

lemma account_effects:
  assumes "account_enabled a s e" and "account_handle gatewayId a e s = (s', xs)"
  shows "(\<forall>x \<in> set xs. is_lifecycle x \<longrightarrow> e = ConfirmAction \<and>
      (\<exists>action. ar_action s = Some action \<and> x = lifecycle_request gatewayId a action)) \<and>
    (ar_action s' = ar_action s \<or> ar_action s' = None \<and> ar_mutation s' = MIdle \<or>
      (\<exists>action. e = ChooseAction action \<and> ar_action s' = Some action \<and> \<not> ar_menu_open s' \<and>
        chosen action [(a, e)]))"
  using assms
  by (cases e) (auto simp: lifecycle_onSuccess_def chosen_def account_items_def split: option.splits
      lifecycle_action.splits if_splits)

lemma account_inv_step:
  assumes inv: "account_inv gatewayId evs s log" and en: "account_enabled a s e"
    and ap: "account_handle gatewayId a e s = (s', xs)"
  shows "account_inv gatewayId (evs @ [(a, e)]) s' (log @ xs)"
proof -
  have eqs: "fst (account_handle gatewayId a e s) = s'" "snd (account_handle gatewayId a e s) = xs"
    using ap by simp_all
  note parts = inv [unfolded account_inv_def]
  note eff = account_effects [OF en ap]
  have conf: "e = ConfirmAction \<Longrightarrow> confirmed (evs @ [(a, e)]) (ac_id a)" by (simp add: confirmed_def)
  have old: "chosen action (evs @ [(a, e)])" if "ar_action s = Some action" for action
    using parts that chosen_snoc by blast
  show ?thesis
    unfolding account_inv_def
  proof (intro conjI allI impI)
    show "balanced is_lifecycle lifecycle_answer lifecycle_waiting (evs @ [(a, e)]) s' (log @ xs)"
      using parts account_balance [OF en, of gatewayId, unfolded eqs] by (intro balanced_step) blast+
  next
    fix g i
    assume "RequestRevokeAccount g i \<in> set (log @ xs)"
    then show "g = gatewayId" "chosen RevokeAccount (evs @ [(a, e)])" "confirmed (evs @ [(a, e)]) i"
      using parts eff old conf chosen_snoc confirmed_snoc by (fastforce simp: RequestRevoke_iff)+
  next
    fix g i
    assume "RequestDeleteAccount g i \<in> set (log @ xs)"
    then show "g = gatewayId" "chosen DeleteAccount (evs @ [(a, e)])" "confirmed (evs @ [(a, e)]) i"
      using parts eff old conf chosen_snoc confirmed_snoc by (fastforce simp: RequestRevoke_iff)+
  next
    fix action
    assume "ar_action s' = Some action"
    then consider "ar_action s = Some action" | "chosen action [(a, e)]" using eff by force
    then show "chosen action (evs @ [(a, e)])"
      using old chosen_more by cases blast+
  next
    assume "ar_action s' = None"
    then show "ar_mutation s' = MIdle"
      using parts en ap by (cases e) (auto split: option.splits)
  next
    assume "ar_action s' \<noteq> None"
    then show "\<not> ar_menu_open s'"
      using parts en ap by (cases e) (auto split: option.splits)
  qed
qed

interpretation accounts: logged_invariant account_enabled "account_handle gatewayId" account_row_init
  "account_inv gatewayId" for gatewayId
proof unfold_locales
  show "account_inv gatewayId [] account_row_init []" for gatewayId
    by (simp add: account_inv_def balanced_def account_row_init_def lifecycle_waiting_def)
qed (rule account_inv_step)

section \<open>Lemmas on keys\<close>

lemma account_keys_apart:
  "\<not> under_key (serviceAccountListQueryRoot g) (serviceAccountQueryKey g' i)"
  by (simp add: under_key_def serviceAccountListQueryRoot_def serviceAccountQueryKey_def)

lemma account_list_under_root:
  "under_key (serviceAccountListQueryRoot g) (serviceAccountListQueryKey g' r) \<longleftrightarrow> g = g'"
  by (auto simp: under_key_def serviceAccountListQueryRoot_def serviceAccountListQueryKey_def)

lemma account_status_str_all [simp]: "account_status_str s \<noteq> ''all''" "''all'' \<noteq> account_status_str s"
  by (cases s; simp)+

lemma account_list_key_inj:
  "serviceAccountListQueryKey g r = serviceAccountListQueryKey g' r' \<longleftrightarrow> g = g' \<and> r = r'"
proof
  assume "serviceAccountListQueryKey g r = serviceAccountListQueryKey g' r'"
  then have "g = g'" and eqs: "alr_page r = alr_page r'" "alr_size r = alr_size r'" "alr_search r = alr_search r'"
    "(case alr_status r of None \<Rightarrow> ''all'' | Some s \<Rightarrow> account_status_str s) =
     (case alr_status r' of None \<Rightarrow> ''all'' | Some s \<Rightarrow> account_status_str s)"
    "alr_sort r = alr_sort r'" "alr_order r = alr_order r'"
    by (simp_all add: serviceAccountListQueryKey_def)
  moreover have "alr_status r = alr_status r'"
    using eqs(4) by (cases "alr_status r"; cases "alr_status r'") simp_all
  ultimately show "g = g' \<and> r = r'" by simp
qed simp

section \<open>Properties\<close>

text \<open>
  C14. A service account is revoked or deleted only after that was chosen in its menu while the account's
  status allowed it and then confirmed in the dialog, never twice at once, and for no other gateway.
\<close>

theorem account_actions_are_confirmed:
  "case account_run gatewayId evs of
     None \<Rightarrow> True
   | Some (s, log) \<Rightarrow>
       balanced is_lifecycle lifecycle_answer lifecycle_waiting evs s log \<and>
       list_all (\<lambda>x. case x of
           RequestRevokeAccount g i \<Rightarrow> g = gatewayId \<and> chosen RevokeAccount evs \<and> confirmed evs i
         | RequestDeleteAccount g i \<Rightarrow> g = gatewayId \<and> chosen DeleteAccount evs \<and> confirmed evs i
         | InvalidateAccounts _ \<Rightarrow> True) log"
proof (cases "account_run gatewayId evs")
  case (Some r)
  obtain s log where r: "r = (s, log)" by (cases r)
  have "account_inv gatewayId evs s log"
    using accounts.holds [of gatewayId evs s log] Some r by (simp add: account_run_def)
  then show ?thesis
    unfolding Some r option.case prod.case
    by (intro conjI) (auto simp: account_inv_def list_all_iff split: account_effect.split)
qed simp

text \<open>
  The cache keeps two lists of service accounts apart exactly when their gateways or requests
  differ, and what a revocation or deletion invalidates is every list of that gateway, no other list
  and no account's details.
\<close>

lemma account_invalidation_reaches_the_lists:
  "(serviceAccountListQueryKey g r = serviceAccountListQueryKey g' r') = (g = g' \<and> r = r') \<and>
   (case lifecycle_onSuccess g of
      [InvalidateAccounts root] \<Rightarrow>
        under_key root (serviceAccountListQueryKey g' r) = (g = g') \<and>
        \<not> under_key root (serviceAccountQueryKey g' i) \<and> \<not> under_key root (gatewayQueryKey g') \<and>
        \<not> under_key root (gatewayListQueryKey list_request)
    | _ \<Rightarrow> False)"
  by (simp add: account_list_key_inj lifecycle_onSuccess_def account_keys_apart account_list_under_root)
    (simp add: under_key_def serviceAccountListQueryRoot_def gatewayQueryKey_def gatewayListQueryKey_def
      gatewayListQueryRoot_def)

text \<open>
  The default order of the service accounts, by creation, has no column: the table marks the column
  of the names as the sorted one, until a column is pressed.
\<close>

lemma default_account_sort_marks_the_names:
  "let columns = accounts_columns parseDate formatDate;
       table = accounts_table columns defaultServiceAccountListRequest page
   in alr_sort defaultServiceAccountListRequest = AccCreatedAt \<and>
      list_all (\<lambda>c. tc_id c \<noteq> ts_sort_column (tp_state table)) columns \<and>
      tc_id (columns ! activeSortIndex columns (tp_state table)) = ''name''"
  by (simp add: accounts_columns_def accounts_table_def accounts_table_state_def Let_def
      defaultServiceAccountListRequest_def activeSortIndex_def)

end
