(* ===== verification/Browser_Text.thy ===== *)
theory Browser_Text
  imports JS_Prelude "HOL-Library.Word" "HOL-Library.Code_Target_Nat"
begin

text \<open>
  Text as the browser session client reads it: a JavaScript string is a list of 16-bit code units.
  Holds the client's \<open>unicode\<close> check, the code points a string iterates over, UTF-16 as the reference
  for the check, and the length of the UTF-8 text of a string.
\<close>

type_synonym js_text = "16 word list"

definition unit_of :: "char \<Rightarrow> 16 word" where
  "unit_of c = of_nat (of_char c)"

definition units :: "string \<Rightarrow> js_text" where
  "units s = map unit_of s"

lemma units_simps [simp]:
  "units [] = []" "units (c # s) = unit_of c # units s" "units (s @ t) = units s @ units t"
  "length (units s) = length s"
  by (simp_all add: units_def)

definition is_high :: "16 word \<Rightarrow> bool" where "is_high c \<longleftrightarrow> 0xD800 \<le> c \<and> c \<le> 0xDBFF"

definition is_low :: "16 word \<Rightarrow> bool" where "is_low c \<longleftrightarrow> 0xDC00 \<le> c \<and> c \<le> 0xDFFF"

lemma high_not_low: "is_high c \<Longrightarrow> \<not> is_low c"
  unfolding is_high_def is_low_def word_le_nat_alt by auto

section \<open>The unicode check\<close>

fun unicode :: "js_text \<Rightarrow> bool" where
  "unicode [] = True"
| "unicode (c # s) =
     (if is_high c then (case s of [] \<Rightarrow> False | d # s' \<Rightarrow> is_low d \<and> unicode s')
      else if is_low c then False
      else unicode s)"

text \<open>\<open>for (const c of s)\<close> and \<open>[...s]\<close>: the code points of a string, a lone surrogate its own.\<close>

definition pair_point :: "16 word \<Rightarrow> 16 word \<Rightarrow> nat" where
  "pair_point c d = 0x10000 + (unat c - 0xD800) * 0x400 + (unat d - 0xDC00)"

fun code_points :: "js_text \<Rightarrow> nat list" where
  "code_points [] = []"
| "code_points [c] = [unat c]"
| "code_points (c # d # s) =
     (if is_high c \<and> is_low d then pair_point c d # code_points s else unat c # code_points (d # s))"

section \<open>UTF-16\<close>

definition scalar :: "nat \<Rightarrow> bool" where
  "scalar n \<longleftrightarrow> n < 0x110000 \<and> \<not> (0xD800 \<le> n \<and> n \<le> 0xDFFF)"

definition utf16_point :: "nat \<Rightarrow> js_text" where
  "utf16_point n =
     (if n < 0x10000 then [of_nat n]
      else [of_nat (0xD800 + (n - 0x10000) div 0x400), of_nat (0xDC00 + (n - 0x10000) mod 0x400)])"

definition utf16 :: "nat list \<Rightarrow> js_text" where
  "utf16 ps = concat (map utf16_point ps)"

lemma unat_of_nat_16: "n < 0x10000 \<Longrightarrow> unat (of_nat n :: 16 word) = n"
  by (simp add: unsigned_of_nat take_bit_nat_eq_self)

lemma unit_cases: "is_high c \<longleftrightarrow> 0xD800 \<le> unat c \<and> unat c \<le> 0xDBFF"
  "is_low c \<longleftrightarrow> 0xDC00 \<le> unat c \<and> unat c \<le> 0xDFFF"
  by (simp_all add: is_high_def is_low_def word_le_nat_alt)

lemma unat_lt_16: "unat (c :: 16 word) < 0x10000"
  using unsigned_less [of c, where ?'a = nat] by simp

lemma utf16_pair_point:
  assumes "is_high c" "is_low d"
  shows "utf16_point (pair_point c d) = [c, d]" "scalar (pair_point c d)"
proof -
  obtain a b where a: "unat c = 0xD800 + a" "a < 0x400" and b: "unat d = 0xDC00 + b" "b < 0x400"
    using assms by (auto simp: unit_cases dest!: le_Suc_ex)
  have p: "pair_point c d = 0x10000 + (a * 0x400 + b)" by (simp add: pair_point_def a b)
  have q: "(a * 0x400 + b) div 0x400 = a" "(a * 0x400 + b) mod 0x400 = b" using b by simp_all
  have "utf16_point (pair_point c d) = [of_nat (0xD800 + a), of_nat (0xDC00 + b)]"
    unfolding p utf16_point_def using q by simp
  also have "\<dots> = [c, d]" unfolding a(1) [symmetric] b(1) [symmetric] by simp
  finally show "utf16_point (pair_point c d) = [c, d]" .
  show "scalar (pair_point c d)" using a b by (simp add: p scalar_def)
qed

lemma utf16_unit: "utf16_point (unat c) = [c]"
  by (simp add: utf16_point_def unat_lt_16)

lemma scalar_unit: "scalar (unat c) \<longleftrightarrow> \<not> is_high c \<and> \<not> is_low c"
proof -
  have "unat c < 0x110000" using unat_lt_16 [of c] by simp
  then show ?thesis unfolding scalar_def unit_cases by linarith
qed

lemma utf16_code_points: "utf16 (code_points s) = s"
  by (induction s rule: code_points.induct) (simp_all add: utf16_def utf16_unit utf16_pair_point)

lemma unicode_scalars: "unicode s \<longleftrightarrow> list_all scalar (code_points s)"
proof (induction s rule: code_points.induct)
  case (3 c d s)
  then show ?case
    by (cases "is_high c"; cases "is_low d")
      (auto simp: utf16_pair_point scalar_unit dest: high_not_low)
qed (auto simp: scalar_unit)

lemma code_points_utf16: "list_all scalar ps \<Longrightarrow> code_points (utf16 ps) = ps"
proof (induction ps)
  case Nil
  then show ?case by (simp add: utf16_def)
next
  case (Cons n ps)
  then have IH: "code_points (utf16 ps) = ps" and n: "scalar n" by simp_all
  show ?case
  proof (cases "n < 0x10000")
    case True
    have u: "unat (of_nat n :: 16 word) = n" by (rule unat_of_nat_16 [OF True])
    then have nh: "\<not> is_high (of_nat n)" using n scalar_unit [of "of_nat n"] by simp
    have "code_points (of_nat n # utf16 ps) = n # code_points (utf16 ps)"
      using u nh by (cases "utf16 ps") simp_all
    then show ?thesis using True IH by (simp add: utf16_def utf16_point_def)
  next
    case False
    define a where "a = (n - 0x10000) div 0x400"
    define b where "b = (n - 0x10000) mod 0x400"
    have ab: "a < 0x400" "b < 0x400" "n = 0x10000 + (a * 0x400 + b)"
      using False n by (auto simp: a_def b_def scalar_def)
    have ua: "unat (of_nat (0xD800 + a) :: 16 word) = 0xD800 + a"
      and ub: "unat (of_nat (0xDC00 + b) :: 16 word) = 0xDC00 + b"
      using ab unat_of_nat_16 [of "0xD800 + a"] unat_of_nat_16 [of "0xDC00 + b"] by simp_all
    have hl: "is_high (of_nat (0xD800 + a))" "is_low (of_nat (0xDC00 + b))"
      unfolding unit_cases ua ub using ab by simp_all
    have "pair_point (of_nat (0xD800 + a)) (of_nat (0xDC00 + b)) = n"
      unfolding pair_point_def ua ub using ab(3) by simp
    moreover have "utf16 (n # ps) = of_nat (0xD800 + a) # of_nat (0xDC00 + b) # utf16 ps"
      using False by (simp add: utf16_def utf16_point_def a_def b_def)
    ultimately show ?thesis using hl IH by simp
  qed
qed

section \<open>UTF-8\<close>

text \<open>\<open>new TextEncoder().encode(s).length\<close>; a lone surrogate becomes U+FFFD.\<close>

definition utf8_size :: "nat \<Rightarrow> nat" where
  "utf8_size n = (if n < 0x80 then 1 else if n < 0x800 then 2 else if n < 0x10000 then 3 else 4)"

definition utf8_length :: "js_text \<Rightarrow> nat" where
  "utf8_length s = sum_list (map utf8_size (code_points s))"

lemma code_points_length: "length (code_points s) \<le> length s"
  by (induction s rule: code_points.induct) auto

lemma utf8_length_ge: "length (code_points s) \<le> utf8_length s"
proof -
  have "sum_list (map (\<lambda>_. 1) ps) \<le> sum_list (map utf8_size ps)" for ps
    by (rule sum_list_mono) (simp add: utf8_size_def)
  then show ?thesis by (simp add: utf8_length_def sum_list_triv)
qed

end
