(* ===== verification/JS_Double.thy ===== *)
theory JS_Double
  imports Complex_Main
begin

text \<open>
  The finite numbers of JavaScript: the rounding of a rational to the nearest double (ties to even,
  overflow to an infinity), which \<open>Number(text)\<close> applies to a decimal. A finite double is the rational
  it stands for, so \<open>0\<close> and \<open>-0\<close> are one value here.
\<close>

fun bit_length :: "nat \<Rightarrow> nat" where
  "bit_length n = (if n = 0 then 0 else Suc (bit_length (n div 2)))"

declare bit_length.simps [simp del]

lemma bit_length_upper: "n < 2 ^ bit_length n"
proof (induction n rule: bit_length.induct)
  case (1 n)
  show ?case
  proof (cases "n = 0")
    case False
    then have "n div 2 < 2 ^ bit_length (n div 2)" using 1 by simp
    then have "n < 2 * 2 ^ bit_length (n div 2)" by linarith
    then show ?thesis using False by (subst bit_length.simps) simp
  qed simp
qed

lemma bit_length_lower: "0 < n \<Longrightarrow> 2 ^ bit_length n \<le> 2 * n"
proof (induction n rule: bit_length.induct)
  case (1 n)
  show ?case
  proof (cases "n div 2 = 0")
    case True
    then have "n = 1" using 1 by simp
    then show ?thesis by (simp add: bit_length.simps)
  next
    case False
    then have "2 ^ bit_length (n div 2) \<le> 2 * (n div 2)" using 1 by simp
    then have "2 * 2 ^ bit_length (n div 2) \<le> 2 * n" by linarith
    then show ?thesis using 1(2) by (subst bit_length.simps) simp
  qed
qed

text \<open>The exponent of the leading binary digit of a positive rational.\<close>

definition floor_log2 :: "rat \<Rightarrow> int" where
  "floor_log2 q =
     (let (a, b) = quotient_of q; e = int (bit_length (nat a)) - int (bit_length (nat b))
      in if 2 powi e \<le> q then e else e - 1)"

definition round_even :: "rat \<Rightarrow> int" where
  "round_even x =
     (let f = \<lfloor>x\<rfloor>; r = x - of_int f
      in if r < 1 / 2 then f else if 1 / 2 < r then f + 1 else if even f then f else f + 1)"

text \<open>53 significant bits, exponents from -1022 to 1023, and subnormals down to \<open>2\<^sup>-\<^sup>1\<^sup>0\<^sup>7\<^sup>4\<close>\<close>

definition round_positive :: "rat \<Rightarrow> rat option" where
  "round_positive q =
     (let e = max (- 1074) (floor_log2 q - 52); v = of_int (round_even (q / 2 powi e)) * 2 powi e
      in if floor_log2 v < 1024 then Some v else None)"

text \<open>The double nearest to a rational, or nothing when it is an infinity.\<close>

definition round_double :: "rat \<Rightarrow> rat option" where
  "round_double q =
     (if q = 0 then Some 0
      else if q < 0 then map_option uminus (round_positive (- q)) else round_positive q)"

text \<open>\<open>Number.isInteger\<close>, \<open>Number.isSafeInteger\<close> of a finite number\<close>

definition is_integer :: "rat \<Rightarrow> bool" where
  "is_integer q \<longleftrightarrow> of_int \<lfloor>q\<rfloor> = q"

definition max_safe :: int where "max_safe = 9007199254740991"

definition is_safe_int :: "rat \<Rightarrow> bool" where
  "is_safe_int q \<longleftrightarrow> is_integer q \<and> \<bar>\<lfloor>q\<rfloor>\<bar> \<le> max_safe"

lemma is_integer_of_int [simp]: "is_integer (of_int n)"
  by (simp add: is_integer_def)

lemma is_integerE: "is_integer q \<Longrightarrow> (\<And>n. q = of_int n \<Longrightarrow> P) \<Longrightarrow> P"
  unfolding is_integer_def by metis

lemma is_safe_of_int [simp]: "is_safe_int (of_int n) \<longleftrightarrow> \<bar>n\<bar> \<le> max_safe"
  by (simp add: is_safe_int_def)

lemma floor_log2_bounds:
  assumes "0 < q"
  shows "2 powi floor_log2 q \<le> q" "q < 2 * 2 powi floor_log2 q"
proof -
  obtain a b where ab: "quotient_of q = (a, b)" by (cases "quotient_of q")
  have b: "0 < b" and q: "q = of_int a / of_int b"
    using quotient_of_denom_pos [OF ab] quotient_of_div [OF ab] by auto
  have a: "0 < a" using assms b by (simp add: q zero_less_divide_iff)
  define A where "A = bit_length (nat a)"
  define B where "B = bit_length (nat b)"
  have "rat_of_nat (nat a) < rat_of_nat (2 ^ A)" "rat_of_nat (2 ^ A) \<le> rat_of_nat (2 * nat a)"
    "rat_of_nat (nat b) < rat_of_nat (2 ^ B)" "rat_of_nat (2 ^ B) \<le> rat_of_nat (2 * nat b)"
    unfolding of_nat_less_iff of_nat_le_iff A_def B_def
    using a b bit_length_upper bit_length_lower by simp_all
  then have n: "of_int a < (2::rat) ^ A" "2 ^ A \<le> 2 * rat_of_int a" "of_int b < (2::rat) ^ B" "2 ^ B \<le> 2 * rat_of_int b"
    using a b by simp_all
  let ?e = "int A - int B"
  have e: "2 powi ?e = (2::rat) ^ A / 2 ^ B" by (simp add: power_int_diff)
  have up: "q < 2 * 2 powi ?e"
  proof -
    have "of_int a * 2 ^ B < (2::rat) ^ A * 2 ^ B" using n(1) by simp
    also have "\<dots> \<le> 2 ^ A * (2 * of_int b)" using n(4) by (intro mult_left_mono) simp_all
    finally show ?thesis using b by (simp add: q e field_simps)
  qed
  have lo: "2 powi ?e \<le> 2 * q"
  proof -
    have "(2::rat) ^ A * of_int b \<le> 2 * of_int a * of_int b" using n(2) b by (intro mult_right_mono) simp_all
    also have "\<dots> \<le> 2 * of_int a * 2 ^ B" using n(3) a by (intro mult_left_mono) simp_all
    finally show ?thesis using b by (simp add: q e field_simps)
  qed
  have half: "2 * 2 powi (?e - 1) = (2::rat) powi ?e" by (simp add: power_int_diff)
  show "2 powi floor_log2 q \<le> q" "q < 2 * 2 powi floor_log2 q"
    using up lo half by (auto simp: floor_log2_def ab Let_def A_def B_def)
qed

lemma floor_log2_less: "0 < q \<Longrightarrow> q < 2 powi n \<Longrightarrow> floor_log2 q < n"
proof (rule ccontr)
  assume "0 < q" "q < 2 powi n" "\<not> floor_log2 q < n"
  then have "(2::rat) powi n \<le> 2 powi floor_log2 q" by (intro power_int_increasing) auto
  then show False using floor_log2_bounds(1) [OF \<open>0 < q\<close>] \<open>q < 2 powi n\<close> by simp
qed

lemma floor_log2_ge: "0 < q \<Longrightarrow> 2 powi n \<le> q \<Longrightarrow> n \<le> floor_log2 q"
proof (rule ccontr)
  assume "0 < q" "2 powi n \<le> q" "\<not> n \<le> floor_log2 q"
  then have "(2::rat) powi (floor_log2 q + 1) \<le> 2 powi n" by (intro power_int_increasing) auto
  then show False using floor_log2_bounds(2) [OF \<open>0 < q\<close>] \<open>2 powi n \<le> q\<close>
    by (simp add: power_int_add)
qed

lemma round_even_of_int [simp]: "round_even (of_int n) = n"
  by (simp add: round_even_def)

lemma round_even_ge: "of_int n \<le> x \<Longrightarrow> n \<le> round_even x"
  unfolding round_even_def Let_def by (simp add: le_floor_iff) linarith

text \<open>A whole number below \<open>2\<^sup>5\<^sup>3\<close> is a double; at least \<open>2\<^sup>5\<^sup>3\<close> stays at least \<open>2\<^sup>5\<^sup>3\<close>.\<close>

lemma round_positive_scaled:
  assumes "q = of_int m * 2 powi max (- 1074) (floor_log2 q - 52)" "floor_log2 q < 1024"
  shows "round_positive q = Some q"
proof -
  define e where "e = max (- 1074) (floor_log2 q - 52)"
  have q: "q = of_int m * 2 powi e" using assms(1) by (simp only: e_def)
  have "q / 2 powi e = of_int m" by (subst q) simp
  then have "of_int (round_even (q / 2 powi e)) * 2 powi e = q" by (simp flip: q)
  then show ?thesis
    using assms(2) unfolding round_positive_def e_def [symmetric] Let_def by simp
qed

lemma scale_down: "e \<le> 0 \<Longrightarrow> rat_of_int n = of_int (n * 2 ^ nat (- e)) * 2 powi e"
proof -
  assume "e \<le> 0"
  then have "e = - int (nat (- e))" by simp
  then have "(2::rat) powi e = inverse (2 ^ nat (- e))" by (metis power_int_minus power_int_of_nat)
  then show ?thesis by simp
qed

lemma round_small_integer:
  assumes "0 < n" "n < 2 ^ 53"
  shows "round_positive (of_int n) = Some (of_int n)"
proof (rule round_positive_scaled)
  have "rat_of_int n < of_int (2 ^ 53)" using assms(2) by (simp only: of_int_less_iff)
  then have lt: "rat_of_int n < 2 ^ 53" by (simp only: of_int_power of_int_numeral)
  have "rat_of_int n < 2 powi 53" using lt by (simp only: power_int_numeral)
  then have "floor_log2 (of_int n) < 53"
    using assms(1) by (intro floor_log2_less) (simp_all only: of_int_0_less_iff)
  then show "floor_log2 (rat_of_int n) < 1024" by simp
  have "max (- 1074) (floor_log2 (rat_of_int n) - 52) \<le> 0" using \<open>floor_log2 (of_int n) < 53\<close> by simp
  then show "rat_of_int n = of_int (n * 2 ^ nat (- max (- 1074) (floor_log2 (rat_of_int n) - 52))) *
      2 powi max (- 1074) (floor_log2 (rat_of_int n) - 52)"
    by (rule scale_down)
qed

lemma round_large:
  assumes "2 ^ 53 \<le> q" "round_positive q = Some v"
  shows "2 ^ 53 \<le> v"
proof -
  have q: "0 < q" using assms(1) by (rule less_le_trans [rotated]) simp
  define l where "l = floor_log2 q"
  have "53 \<le> l" unfolding l_def using assms(1) q by (intro floor_log2_ge) simp_all
  then have e: "max (- 1074) (floor_log2 q - 52) = l - 52" by (simp add: l_def)
  have "2 powi l = (2::rat) ^ 52 * 2 powi (l - 52)" by (simp add: power_int_diff)
  then have "of_int (2 ^ 52) \<le> q / 2 powi (l - 52)"
    using floor_log2_bounds(1) [OF q] by (simp add: l_def [symmetric] pos_le_divide_eq)
  then have "2 ^ 52 \<le> round_even (q / 2 powi (l - 52))" by (rule round_even_ge)
  then have "rat_of_int (2 ^ 52) \<le> of_int (round_even (q / 2 powi (l - 52)))" unfolding of_int_le_iff .
  then have m: "2 ^ 52 \<le> rat_of_int (round_even (q / 2 powi (l - 52)))" by simp
  have "(2::rat) powi 1 \<le> 2 powi (l - 52)" using \<open>53 \<le> l\<close> by (intro power_int_increasing) simp_all
  then have "(2::rat) ^ 52 * 2 \<le> of_int (round_even (q / 2 powi (l - 52))) * 2 powi (l - 52)"
    using m by (intro mult_mono) simp_all
  also have "\<dots> = v" using assms(2) by (simp add: round_positive_def e Let_def split: if_splits)
  finally show ?thesis by simp
qed

text \<open>Rounding neither moves a safe integer nor moves another whole number onto one.\<close>

lemma round_safe: "\<bar>n\<bar> \<le> max_safe \<Longrightarrow> round_double (of_int n) = Some (of_int n)"
proof -
  assume n: "\<bar>n\<bar> \<le> max_safe"
  consider "n = 0" | "0 < n" | "n < 0" by linarith
  then show ?thesis
  proof cases
    case 3
    have "round_positive (of_int (- n)) = Some (of_int (- n))"
      using 3 n by (intro round_small_integer) (simp_all add: max_safe_def)
    then show ?thesis using 3 by (simp add: round_double_def)
  qed (use n in \<open>simp_all add: round_double_def round_small_integer max_safe_def\<close>)
qed

lemma round_safe_integer:
  assumes "round_double (of_int n) = Some q" "is_safe_int q"
  shows "q = of_int n"
proof (cases "\<bar>n\<bar> \<le> max_safe")
  case True
  then show ?thesis using assms(1) by (simp add: round_safe)
next
  case False
  define r :: rat where "r = of_int \<bar>n\<bar>"
  have r: "2 ^ 53 \<le> r"
  proof -
    have "rat_of_int (2 ^ 53) \<le> of_int \<bar>n\<bar>" unfolding of_int_le_iff using False by (simp add: max_safe_def)
    then show ?thesis by (simp add: r_def)
  qed
  have "n \<noteq> 0" using False by (auto simp: max_safe_def)
  then obtain v where v: "round_positive r = Some v" "q = v \<or> q = - v"
    using assms(1) by (auto simp: round_double_def r_def split: if_splits)
  obtain k where k: "q = of_int k" "\<bar>k\<bar> \<le> max_safe"
    using assms(2) by (auto simp: is_safe_int_def elim!: is_integerE)
  have "v = of_int \<bar>k\<bar>" if "0 < v" using v(2) that by (auto simp: k)
  moreover have "2 ^ 53 \<le> v" by (rule round_large [OF r v(1)])
  ultimately have "rat_of_int (2 ^ 53) \<le> of_int \<bar>k\<bar>" by simp
  then show ?thesis using k(2) unfolding of_int_le_iff by (simp add: max_safe_def)
qed

end
