(* ===== verification/Browser_Json.thy ===== *)
theory Browser_Json
  imports Browser_Text JS_Double JS_Url
begin

text \<open>
  JSON in the browser session client (\<open>src/console/out/browser/sessionclient/index.js\<close>):
  \<open>parseJSON\<close>, which reads a response under bounds, and \<open>JSON.stringify\<close>, which writes a request.
  The position in the text is the rest of the text; the node counter is passed along. The container
  loops have the length of the text they start on as fuel, which \<open>parse_never_starves\<close> shows to be
  enough. An object is the list of its own properties in the order JavaScript enumerates them.
\<close>

section \<open>Values\<close>

datatype jvalue =
    VNull
  | VBool bool
  | VNumber rat
  | VString js_text
  | VArray "jvalue list"
  | VObject "(js_text \<times> jvalue) list"

datatype parse_failure = Invalid_response | Syntax_error | Out_of_fuel

text \<open>
  A property whose name is an array index comes before the others, in ascending order; the others
  keep the order of their creation.
\<close>

definition unit_digit :: "16 word \<Rightarrow> bool" where "unit_digit c \<longleftrightarrow> 0x30 \<le> c \<and> c \<le> 0x39"

definition units_value :: "js_text \<Rightarrow> nat" where
  "units_value s = foldl (\<lambda>v c. 10 * v + (unat c - 0x30)) 0 s"

definition property_rank :: "js_text \<Rightarrow> nat" where
  "property_rank k =
     (if k = [0x30] then 0
      else if k \<noteq> [] \<and> hd k \<noteq> 0x30 \<and> list_all unit_digit k \<and> units_value k < 2 ^ 32 - 1 then units_value k
      else 2 ^ 32)"

text \<open>\<open>out[key] = v\<close> for a new key of an object without a prototype\<close>

definition put_property :: "js_text \<Rightarrow> jvalue \<Rightarrow> (js_text \<times> jvalue) list \<Rightarrow> (js_text \<times> jvalue) list" where
  "put_property k v ps =
     takeWhile (\<lambda>p. property_rank (fst p) \<le> property_rank k) ps @ (k, v) #
     dropWhile (\<lambda>p. property_rank (fst p) \<le> property_rank k) ps"

section \<open>White space and strings\<close>

abbreviation u_quote :: "16 word" where "u_quote \<equiv> 0x22"
abbreviation u_backslash :: "16 word" where "u_backslash \<equiv> 0x5C"
abbreviation u_comma :: "16 word" where "u_comma \<equiv> 0x2C"
abbreviation u_colon :: "16 word" where "u_colon \<equiv> 0x3A"
abbreviation u_minus :: "16 word" where "u_minus \<equiv> 0x2D"
abbreviation u_dot :: "16 word" where "u_dot \<equiv> 0x2E"
abbreviation u_lbrace :: "16 word" where "u_lbrace \<equiv> 0x7B"
abbreviation u_rbrace :: "16 word" where "u_rbrace \<equiv> 0x7D"
abbreviation u_lbracket :: "16 word" where "u_lbracket \<equiv> 0x5B"
abbreviation u_rbracket :: "16 word" where "u_rbracket \<equiv> 0x5D"

definition is_blank :: "16 word \<Rightarrow> bool" where
  "is_blank c \<longleftrightarrow> c = 0x20 \<or> c = 0x09 \<or> c = 0x0D \<or> c = 0x0A"

definition skip_space :: "js_text \<Rightarrow> js_text" where
  "skip_space s = dropWhile is_blank s"

text \<open>The characters up to the closing quote, each escaped character skipped, and the text after it.\<close>

fun scan_string :: "js_text \<Rightarrow> (js_text \<times> js_text) option" where
  "scan_string [] = None"
| "scan_string (c # s) =
     (if c = u_backslash then
        (case s of [] \<Rightarrow> None | e # s' \<Rightarrow> map_option (\<lambda>(b, r). (c # e # b, r)) (scan_string s'))
      else if c = u_quote then Some ([], s)
      else map_option (\<lambda>(b, r). (c # b, r)) (scan_string s))"

definition hex_value :: "16 word \<Rightarrow> 16 word option" where
  "hex_value c =
     (if 0x30 \<le> c \<and> c \<le> 0x39 then Some (c - 0x30)
      else if 0x41 \<le> c \<and> c \<le> 0x46 then Some (c - 0x41 + 10)
      else if 0x61 \<le> c \<and> c \<le> 0x66 then Some (c - 0x61 + 10)
      else None)"

definition hex4 :: "16 word \<Rightarrow> 16 word \<Rightarrow> 16 word \<Rightarrow> 16 word \<Rightarrow> 16 word option" where
  "hex4 a b c d =
     (case (hex_value a, hex_value b, hex_value c, hex_value d) of
        (Some p, Some q, Some r, Some s) \<Rightarrow> Some (p * 0x1000 + q * 0x100 + r * 0x10 + s)
      | _ \<Rightarrow> None)"

definition simple_escapes :: "(16 word \<times> 16 word) list" where
  "simple_escapes =
     [(u_quote, u_quote), (u_backslash, u_backslash), (0x2F, 0x2F), (0x62, 0x08), (0x66, 0x0C),
      (0x6E, 0x0A), (0x72, 0x0D), (0x74, 0x09)]"

text \<open>\<open>JSON.parse\<close> of a string literal, given the characters between its quotes\<close>

fun unescape :: "js_text \<Rightarrow> js_text option" where
  "unescape [] = Some []"
| "unescape (c # s) =
     (if c < 0x20 \<or> c = u_quote then None
      else if c = u_backslash then
        (case s of [] \<Rightarrow> None
         | e # s' \<Rightarrow>
             if e = 0x75 then
               (case s' of p # q # r # t # s'' \<Rightarrow>
                  (case hex4 p q r t of None \<Rightarrow> None | Some u \<Rightarrow> map_option (Cons u) (unescape s''))
                | _ \<Rightarrow> None)
             else (case map_of simple_escapes e of None \<Rightarrow> None | Some u \<Rightarrow> map_option (Cons u) (unescape s')))
      else map_option (Cons c) (unescape s))"

text \<open>\<open>string()\<close>, called on the opening quote\<close>

definition parse_string :: "js_text \<Rightarrow> parse_failure + js_text \<times> js_text" where
  "parse_string s =
     (case scan_string (tl s) of None \<Rightarrow> Inl Invalid_response
      | Some (body, rest) \<Rightarrow>
          (case unescape body of None \<Rightarrow> Inl Syntax_error
           | Some v \<Rightarrow> if unicode v then Inr (v, rest) else Inl Invalid_response))"

section \<open>Numbers\<close>

text \<open>
  The parts of a number token: the whole digits with their sign, the digits of the fraction without
  the dot, and the exponent: its letter, and its digits with their sign.
\<close>

record number_token =
  whole :: js_text
  fraction :: "js_text option"
  exponent :: "(16 word \<times> js_text) option"

definition token_text :: "number_token \<Rightarrow> js_text" where
  "token_text t =
     whole t @ (case fraction t of None \<Rightarrow> [] | Some f \<Rightarrow> u_dot # f)
       @ (case exponent t of None \<Rightarrow> [] | Some (l, e) \<Rightarrow> l # e)"

definition match_whole :: "js_text \<Rightarrow> (js_text \<times> js_text) option" where
  "match_whole s =
     (let (sign, s) = (case s of c # r \<Rightarrow> if c = u_minus then ([c], r) else ([], s) | [] \<Rightarrow> ([], s))
      in case s of [] \<Rightarrow> None
         | c # r \<Rightarrow>
             if c = 0x30 then Some (sign @ [c], r)
             else if unit_digit c then Some (sign @ takeWhile unit_digit s, dropWhile unit_digit s)
             else None)"

definition match_fraction :: "js_text \<Rightarrow> js_text option \<times> js_text" where
  "match_fraction s =
     (case s of [] \<Rightarrow> (None, s)
      | c # r \<Rightarrow>
          if c = u_dot \<and> takeWhile unit_digit r \<noteq> []
          then (Some (takeWhile unit_digit r), dropWhile unit_digit r) else (None, s))"

definition match_exponent :: "js_text \<Rightarrow> (16 word \<times> js_text) option \<times> js_text" where
  "match_exponent s =
     (case s of [] \<Rightarrow> (None, s)
      | c # r \<Rightarrow>
          let (sign, d) = (case r of x # r' \<Rightarrow> if x = 0x2B \<or> x = u_minus then ([x], r') else ([], r) | [] \<Rightarrow> ([], r))
          in if (c = 0x65 \<or> c = 0x45) \<and> takeWhile unit_digit d \<noteq> []
             then (Some (c, sign @ takeWhile unit_digit d), dropWhile unit_digit d) else (None, s))"

definition match_number :: "js_text \<Rightarrow> (number_token \<times> js_text) option" where
  "match_number s =
     (case match_whole s of None \<Rightarrow> None
      | Some (w, s1) \<Rightarrow>
          let (f, s2) = match_fraction s1; (e, s3) = match_exponent s2
          in Some (\<lparr>whole = w, fraction = f, exponent = e\<rparr>, s3))"

text \<open>\<open>BigInt(digits)\<close> of digits with an optional sign, and \<open>Number(digits)\<close> of an exponent\<close>

definition signed_value :: "js_text \<Rightarrow> int" where
  "signed_value s =
     (case s of [] \<Rightarrow> 0
      | c # r \<Rightarrow> if c = u_minus then - int (units_value r)
                 else if c = 0x2B then int (units_value r) else int (units_value s))"

definition fraction_digits :: "number_token \<Rightarrow> js_text" where
  "fraction_digits t = (case fraction t of None \<Rightarrow> [] | Some f \<Rightarrow> f)"

definition token_scale :: "number_token \<Rightarrow> int" where
  "token_scale t =
     int (length (fraction_digits t)) - (case exponent t of None \<Rightarrow> 0 | Some (l, e) \<Rightarrow> signed_value e)"

definition token_coefficient :: "number_token \<Rightarrow> int" where
  "token_coefficient t = signed_value (whole t @ fraction_digits t)"

text \<open>The rational a token denotes\<close>

definition token_value :: "number_token \<Rightarrow> rat" where
  "token_value t =
     (if 0 < token_scale t then of_int (token_coefficient t) / 10 ^ nat (token_scale t)
      else of_int (token_coefficient t) * 10 ^ nat (- token_scale t))"

definition read_number :: "number_token \<Rightarrow> rat option" where
  "read_number t =
     (case round_double (token_value t) of None \<Rightarrow> None
      | Some q \<Rightarrow>
          if is_integer q \<and> \<not> is_safe_int q then None
          else if is_integer q \<and> 0 < token_scale t \<and>
            (400 < token_scale t \<or> token_coefficient t mod 10 ^ nat (token_scale t) \<noteq> 0) then None
          else Some q)"

definition parse_number :: "js_text \<Rightarrow> parse_failure + rat \<times> js_text" where
  "parse_number s =
     (case match_number s of None \<Rightarrow> Inl Invalid_response
      | Some (t, rest) \<Rightarrow>
          if 128 < length (token_text t) then Inl Invalid_response
          else (case read_number t of None \<Rightarrow> Inl Invalid_response | Some q \<Rightarrow> Inr (q, rest)))"

section \<open>Values in text\<close>

type_synonym 'a parsed = "parse_failure + 'a \<times> js_text \<times> nat"

text \<open>What comes after an item of a container: the end of it, the next item, or a failure\<close>

datatype after_item = Closed js_text | Next_item js_text | Broken

definition next_item :: "16 word \<Rightarrow> js_text \<Rightarrow> after_item" where
  "next_item close s =
     (case skip_space s of [] \<Rightarrow> Broken
      | c # r \<Rightarrow> if c = close then Closed r
                 else if c \<noteq> u_comma then Broken else Next_item (skip_space (skip_space r)))"

fun parse_elements :: "(js_text \<Rightarrow> nat \<Rightarrow> jvalue parsed) \<Rightarrow> nat \<Rightarrow> jvalue list \<Rightarrow> js_text \<Rightarrow> nat \<Rightarrow> jvalue parsed" where
  "parse_elements p 0 out s n = Inl Out_of_fuel"
| "parse_elements p (Suc fuel) out s n =
     (if s = [] then Inl Invalid_response
      else case p s n of Inl e \<Rightarrow> Inl e
        | Inr (v, s1, n1) \<Rightarrow>
            (case next_item u_rbracket s1 of Closed r \<Rightarrow> Inr (VArray (out @ [v]), r, n1)
             | Next_item r \<Rightarrow> parse_elements p fuel (out @ [v]) r n1
             | Broken \<Rightarrow> Inl Invalid_response))"

fun parse_members :: "(js_text \<Rightarrow> nat \<Rightarrow> jvalue parsed) \<Rightarrow> nat \<Rightarrow> (js_text \<times> jvalue) list \<Rightarrow> js_text \<Rightarrow> nat \<Rightarrow> jvalue parsed" where
  "parse_members p 0 out s n = Inl Out_of_fuel"
| "parse_members p (Suc fuel) out s n =
     (case s of [] \<Rightarrow> Inl Invalid_response
      | c # _ \<Rightarrow>
          if c \<noteq> u_quote then Inl Invalid_response
          else (case parse_string s of Inl e \<Rightarrow> Inl e
            | Inr (key, s1) \<Rightarrow>
                if key \<in> set (map fst out) then Inl Invalid_response
                else (case skip_space s1 of [] \<Rightarrow> Inl Invalid_response
                  | d # s2 \<Rightarrow>
                      if d \<noteq> u_colon then Inl Invalid_response
                      else (case p s2 n of Inl e \<Rightarrow> Inl e
                        | Inr (v, s3, n1) \<Rightarrow>
                            (case next_item u_rbrace s3 of Closed r \<Rightarrow> Inr (VObject (put_property key v out), r, n1)
                             | Next_item r \<Rightarrow> parse_members p fuel (put_property key v out) r n1
                             | Broken \<Rightarrow> Inl Invalid_response)))))"

declare parse_elements.simps(2) [simp del] parse_members.simps(2) [simp del]

definition literal_words :: "(js_text \<times> jvalue) list" where
  "literal_words =
     [(units ''true'', VBool True), (units ''false'', VBool False), (units ''null'', VNull)]"

definition parse_scalar :: "js_text \<Rightarrow> nat \<Rightarrow> jvalue parsed" where
  "parse_scalar s n =
     (case find (\<lambda>(w, v). prefix w s) literal_words of
        Some (w, v) \<Rightarrow> Inr (v, drop (length w) s, n)
      | None \<Rightarrow> (case parse_number s of Inl e \<Rightarrow> Inl e | Inr (q, r) \<Rightarrow> Inr (VNumber q, r, n)))"

text \<open>
  \<open>value(depth)\<close>, with the number of levels still allowed: \<open>33 - depth\<close>.
\<close>

definition open_container ::
    "16 word \<Rightarrow> jvalue \<Rightarrow> (js_text \<Rightarrow> jvalue parsed) \<Rightarrow> js_text \<Rightarrow> nat \<Rightarrow> jvalue parsed" where
  "open_container close none items s n =
     (let s = skip_space s
      in case s of [] \<Rightarrow> items s | c # r \<Rightarrow> if c = close then Inr (none, r, n) else items s)"

fun parse_value :: "nat \<Rightarrow> js_text \<Rightarrow> nat \<Rightarrow> jvalue parsed" where
  "parse_value 0 s n = Inl Invalid_response"
| "parse_value (Suc k) s n =
     (let s = skip_space s; n = Suc n
      in if 10000 < n then Inl Invalid_response
         else case s of [] \<Rightarrow> parse_scalar s n
           | c # r \<Rightarrow>
               if c = u_quote then (case parse_string s of Inl e \<Rightarrow> Inl e | Inr (v, r) \<Rightarrow> Inr (VString v, r, n))
               else if c = u_lbrace then
                 open_container u_rbrace (VObject [])
                   (\<lambda>r. parse_members (parse_value k) (Suc (length r)) [] r n) r n
               else if c = u_lbracket then
                 open_container u_rbracket (VArray [])
                   (\<lambda>r. parse_elements (parse_value k) (Suc (length r)) [] r n) r n
               else parse_scalar s n)"

definition parse_json :: "js_text \<Rightarrow> parse_failure + jvalue" where
  "parse_json s =
     (case parse_value 33 s 0 of Inl e \<Rightarrow> Inl e
      | Inr (v, r, n) \<Rightarrow> if skip_space r = [] then Inr v else Inl Invalid_response)"

section \<open>Objects and bounds\<close>

definition canonical :: "(js_text \<times> jvalue) list \<Rightarrow> bool" where
  "canonical ps \<longleftrightarrow> distinct (map fst ps) \<and> sorted (map (property_rank \<circ> fst) ps)"

lemma size_property [termination_simp]: "p \<in> set ps \<Longrightarrow> size (snd p) < Suc (size_list (size_prod f size) ps)"
  by (induction ps) auto

text \<open>The values of a tree, its levels, and the values the parser may return.\<close>

fun nodes :: "jvalue \<Rightarrow> nat" where
  "nodes (VArray vs) = Suc (sum_list (map nodes vs))"
| "nodes (VObject ps) = Suc (sum_list (map (\<lambda>p. nodes (snd p)) ps))"
| "nodes _ = 1"

fun fits :: "nat \<Rightarrow> jvalue \<Rightarrow> bool" where
  "fits 0 v = False"
| "fits (Suc k) v =
     (case v of VArray vs \<Rightarrow> list_all (fits k) vs | VObject ps \<Rightarrow> list_all (\<lambda>p. fits k (snd p)) ps | _ \<Rightarrow> True)"

fun well_formed :: "jvalue \<Rightarrow> bool" where
  "well_formed VNull = True"
| "well_formed (VBool b) = True"
| "well_formed (VNumber q) = (is_integer q \<longrightarrow> is_safe_int q)"
| "well_formed (VString s) = unicode s"
| "well_formed (VArray vs) = list_all well_formed vs"
| "well_formed (VObject ps) =
     (canonical ps \<and> list_all (\<lambda>p. unicode (fst p)) ps \<and> list_all (\<lambda>p. well_formed (snd p)) ps)"

lemma set_put_property: "set (put_property k v ps) = insert (k, v) (set ps)"
  unfolding put_property_def
  by (metis (no_types, lifting) Un_insert_right list.set(2) set_append takeWhile_dropWhile_id)

lemma sum_put_property: "sum_list (map f (put_property k v ps)) = (f (k, v) :: nat) + sum_list (map f ps)"
proof -
  have "sum_list (map f ps) = sum_list (map f (takeWhile P ps)) + sum_list (map f (dropWhile P ps))" for P
    by (metis map_append sum_list_append takeWhile_dropWhile_id)
  then show ?thesis by (simp add: put_property_def)
qed

lemma sorted_insert_rank:
  "sorted (map r ps) \<Longrightarrow> sorted (map r (takeWhile (\<lambda>p. r p \<le> (m::nat)) ps)) \<and>
     (\<forall>p \<in> set (dropWhile (\<lambda>p. r p \<le> m) ps). m \<le> r p) \<and> sorted (map r (dropWhile (\<lambda>p. r p \<le> m) ps))"
  by (induction ps) (auto dest: set_takeWhileD)

lemma canonical_put: "canonical ps \<Longrightarrow> k \<notin> set (map fst ps) \<Longrightarrow> canonical (put_property k v ps)"
proof -
  assume ps: "canonical ps" and k: "k \<notin> set (map fst ps)"
  let ?P = "\<lambda>p::js_text \<times> jvalue. property_rank (fst p) \<le> property_rank k"
  have split: "map fst (takeWhile ?P ps) @ map fst (dropWhile ?P ps) = map fst ps"
    by (metis map_append takeWhile_dropWhile_id)
  have "distinct (map fst (takeWhile ?P ps) @ map fst (dropWhile ?P ps))"
    "set (map fst (takeWhile ?P ps)) \<union> set (map fst (dropWhile ?P ps)) = set (map fst ps)"
    unfolding set_append [symmetric] split using ps by (simp_all add: canonical_def)
  then have "distinct (map fst (put_property k v ps))" using k by (auto simp: put_property_def)
  moreover have "sorted (map (property_rank \<circ> fst) (put_property k v ps))"
    using sorted_insert_rank [of "property_rank \<circ> fst" ps "property_rank k"] ps
    by (fastforce simp: canonical_def put_property_def sorted_append dest: set_takeWhileD)
  ultimately show ?thesis by (simp add: canonical_def)
qed

section \<open>How much text a step reads\<close>

lemma skip_space_le [simp]: "length (skip_space s) \<le> length s"
  by (simp add: skip_space_def length_dropWhile_le)

lemma scan_string_split: "scan_string s = Some (b, r) \<Longrightarrow> s = b @ u_quote # r"
  by (induction s arbitrary: b r rule: scan_string.induct) (auto split: if_splits list.splits)

lemma parse_string_shorter:
  assumes "parse_string s = Inr (v, r)"
  shows "length r < length s \<and> unicode v"
proof -
  obtain b where b: "scan_string (tl s) = Some (b, r)" "unicode v"
    using assms by (auto simp: parse_string_def split: option.splits prod.splits if_splits)
  have "length r < length (tl s)" using scan_string_split [OF b(1)] by simp
  then show ?thesis using b(2) by simp
qed

lemma match_whole_split: "match_whole s = Some (w, r) \<Longrightarrow> s = w @ r \<and> w \<noteq> []"
  by (auto simp: match_whole_def Let_def split: list.splits if_splits)

lemma match_fraction_split: "match_fraction s = (f, r) \<Longrightarrow> s = (case f of None \<Rightarrow> [] | Some d \<Rightarrow> u_dot # d) @ r"
  by (auto simp: match_fraction_def split: list.splits if_splits)

lemma match_exponent_split: "match_exponent s = (e, r) \<Longrightarrow> s = (case e of None \<Rightarrow> [] | Some (l, d) \<Rightarrow> l # d) @ r"
  by (auto simp: match_exponent_def Let_def split: list.splits if_splits)

lemma match_number_split: "match_number s = Some (t, r) \<Longrightarrow> s = token_text t @ r \<and> token_text t \<noteq> []"
  by (auto simp: match_number_def token_text_def
      dest!: match_whole_split match_fraction_split match_exponent_split split: option.splits prod.splits)

lemma parse_number_shorter: "parse_number s = Inr (q, r) \<Longrightarrow> length r < length s"
  by (auto simp: parse_number_def dest!: match_number_split split: option.splits if_splits)

lemma read_number_safe: "read_number t = Some q \<Longrightarrow> is_integer q \<Longrightarrow> is_safe_int q"
  by (auto simp: read_number_def split: option.splits if_splits)

lemma parse_number_safe: "parse_number s = Inr (q, r) \<Longrightarrow> is_integer q \<Longrightarrow> is_safe_int q"
  by (auto simp: parse_number_def dest: read_number_safe split: option.splits if_splits)

lemma literal_word: "find (\<lambda>(w, v). prefix w s) literal_words = Some (w, v) \<Longrightarrow>
    w \<noteq> [] \<and> prefix w s \<and> well_formed v \<and> nodes v = 1 \<and> fits (Suc k) v"
  by (auto simp: literal_words_def split: if_splits)

lemma next_item_shorter:
  "next_item c s = Closed r \<Longrightarrow> length r < length s" "next_item c s = Next_item r \<Longrightarrow> length r < length s"
proof -
  have len: "length (skip_space (skip_space x)) \<le> length x" for x
    using skip_space_le [of "skip_space x"] skip_space_le [of x] by (rule order_trans)
  have short: "skip_space s = d # x \<Longrightarrow> length x < length s" for d x
    using skip_space_le [of s] by simp
  show "next_item c s = Closed r \<Longrightarrow> length r < length s"
    by (auto simp: next_item_def short split: list.splits if_splits)
  show "next_item c s = Next_item r \<Longrightarrow> length r < length s"
    by (auto simp: next_item_def intro: le_less_trans [OF len] short split: list.splits if_splits)
qed

section \<open>What the parser returns\<close>

definition sound :: "nat \<Rightarrow> js_text \<Rightarrow> nat \<Rightarrow> jvalue parsed \<Rightarrow> bool" where
  "sound k s n p =
     (case p of Inl e \<Rightarrow> True
      | Inr (v, r, m) \<Rightarrow> well_formed v \<and> fits k v \<and> m = n + nodes v \<and> m \<le> 10000 \<and> length r < length s)"

definition items_sound :: "nat \<Rightarrow> js_text \<Rightarrow> nat \<Rightarrow> jvalue parsed \<Rightarrow> bool" where
  "items_sound k s n p =
     (case p of Inl e \<Rightarrow> True
      | Inr (v, r, m) \<Rightarrow> well_formed v \<and> fits k v \<and> m + 1 = n + nodes v \<and> m \<le> 10000 \<and> length r < length s)"

lemma items_sound_later:
  "items_sound k r m p \<Longrightarrow> length r < length s \<Longrightarrow> m = n \<Longrightarrow> items_sound k s n p"
  by (auto simp: items_sound_def split: sum.splits)

lemma soundD:
  "sound k s n p \<Longrightarrow> p = Inr (v, r, m) \<Longrightarrow>
     well_formed v \<and> fits k v \<and> m = n + nodes v \<and> m \<le> 10000 \<and> length r < length s"
  by (simp add: sound_def)

lemma parse_elements_sound:
  assumes p: "\<And>s n. sound k s n (p s n)"
  shows "list_all well_formed out \<Longrightarrow> list_all (fits k) out \<Longrightarrow> n = b + sum_list (map nodes out) \<Longrightarrow>
    items_sound (Suc k) s b (parse_elements p fuel out s n)"
proof (induction fuel arbitrary: out s n)
  case 0
  then show ?case by (simp add: items_sound_def)
next
  case (Suc fuel)
  show ?case
  proof (cases "s = [] \<or> (\<exists>e. p s n = Inl e)")
    case True
    then show ?thesis by (auto simp: items_sound_def parse_elements.simps(2))
  next
    case False
    then obtain v s1 n1 where pv: "p s n = Inr (v, s1, n1)" and s: "s \<noteq> []" by (cases "p s n") auto
    note v = soundD [OF p pv]
    show ?thesis
    proof (cases "next_item u_rbracket s1")
      case (Closed r)
      then show ?thesis using pv s v Suc.prems next_item_shorter(1) [OF Closed]
        by (simp add: items_sound_def parse_elements.simps(2))
    next
      case (Next_item r)
      have "items_sound (Suc k) r b (parse_elements p fuel (out @ [v]) r n1)"
        using Suc.prems v by (intro Suc.IH) simp_all
      then have "items_sound (Suc k) s b (parse_elements p fuel (out @ [v]) r n1)"
        using v next_item_shorter(2) [OF Next_item] by (auto elim!: items_sound_later)
      then show ?thesis using pv s Next_item by (simp add: parse_elements.simps(2))
    qed (use pv s in \<open>simp add: items_sound_def parse_elements.simps(2)\<close>)
  qed
qed

text \<open>One round of the member loop, up to the value of the member\<close>

definition member_key :: "(js_text \<times> jvalue) list \<Rightarrow> js_text \<Rightarrow> parse_failure + js_text \<times> js_text" where
  "member_key out s =
     (case s of [] \<Rightarrow> Inl Invalid_response
      | c # _ \<Rightarrow>
          if c \<noteq> u_quote then Inl Invalid_response
          else (case parse_string s of Inl e \<Rightarrow> Inl e
            | Inr (key, s1) \<Rightarrow>
                if key \<in> set (map fst out) then Inl Invalid_response
                else (case skip_space s1 of [] \<Rightarrow> Inl Invalid_response
                  | d # s2 \<Rightarrow> if d \<noteq> u_colon then Inl Invalid_response else Inr (key, s2))))"

lemma parse_members_Suc:
  "parse_members p (Suc fuel) out s n =
     (case member_key out s of Inl e \<Rightarrow> Inl e
      | Inr (key, s2) \<Rightarrow> (case p s2 n of Inl e \<Rightarrow> Inl e
          | Inr (v, s3, n1) \<Rightarrow>
              (case next_item u_rbrace s3 of Closed r \<Rightarrow> Inr (VObject (put_property key v out), r, n1)
               | Next_item r \<Rightarrow> parse_members p fuel (put_property key v out) r n1
               | Broken \<Rightarrow> Inl Invalid_response)))"
  by (simp add: parse_members.simps(2) member_key_def split: list.split sum.split)

lemma member_key_Inr:
  assumes "member_key out s = Inr (key, r)"
  shows "key \<notin> set (map fst out) \<and> unicode key \<and> length r < length s"
proof -
  obtain s1 d where s1: "parse_string s = Inr (key, s1)" "key \<notin> set (map fst out)" "skip_space s1 = d # r"
    using assms by (auto simp: member_key_def split: list.splits if_splits sum.splits)
  have "length (d # r) \<le> length s1" using skip_space_le [of s1] by (simp add: s1(3))
  then show ?thesis using parse_string_shorter [OF s1(1)] s1(2) by simp
qed

lemma parse_members_sound:
  assumes p: "\<And>s n. sound k s n (p s n)"
  shows "well_formed (VObject out) \<Longrightarrow> fits (Suc k) (VObject out) \<Longrightarrow> n + 1 = b + nodes (VObject out) \<Longrightarrow>
    items_sound (Suc k) s b (parse_members p fuel out s n)"
proof (induction fuel arbitrary: out s n)
  case 0
  then show ?case by (simp add: items_sound_def)
next
  case (Suc fuel)
  show ?case
  proof (cases "(\<exists>e. member_key out s = Inl e) \<or> (\<exists>key r e. member_key out s = Inr (key, r) \<and> p r n = Inl e)")
    case True
    then show ?thesis by (auto simp: items_sound_def parse_members_Suc)
  next
    case False
    then obtain key s2 v s3 n1 where mk: "member_key out s = Inr (key, s2)" and pv: "p s2 n = Inr (v, s3, n1)"
      by (cases "member_key out s"; cases "p (snd (projr (member_key out s))) n") auto
    note v = soundD [OF p pv] and key = member_key_Inr [OF mk]
    have put: "well_formed (VObject (put_property key v out))" "fits (Suc k) (VObject (put_property key v out))"
      "n1 + 1 = b + nodes (VObject (put_property key v out))"
      using Suc.prems v key
      by (auto simp: canonical_put list_all_iff set_put_property sum_put_property)
    show ?thesis
    proof (cases "next_item u_rbrace s3")
      case (Closed r)
      then show ?thesis using mk pv put v key next_item_shorter(1) [OF Closed]
        by (simp add: items_sound_def parse_members_Suc del: nodes.simps well_formed.simps fits.simps)
    next
      case (Next_item r)
      have "items_sound (Suc k) r b (parse_members p fuel (put_property key v out) r n1)"
        using put by (rule Suc.IH)
      then have "items_sound (Suc k) s b (parse_members p fuel (put_property key v out) r n1)"
        using v key next_item_shorter(2) [OF Next_item] by (auto elim!: items_sound_later)
      then show ?thesis using mk pv Next_item by (simp add: parse_members_Suc)
    qed (use mk pv in \<open>simp add: items_sound_def parse_members_Suc\<close>)
  qed
qed

lemma parse_scalar_sound: "n < 10000 \<Longrightarrow> sound (Suc k) s n (parse_scalar s (Suc n))"
proof (cases "find (\<lambda>(w, v). prefix w s) literal_words")
  case (Some wv)
  assume "n < 10000"
  moreover obtain w v where "wv = (w, v)" by (cases wv)
  ultimately show ?thesis using Some literal_word [of s w v k]
    by (auto simp: sound_def parse_scalar_def prefix_def)
next
  case None
  assume "n < 10000"
  then show ?thesis using None parse_number_shorter [of s] parse_number_safe [of s]
    by (auto simp: sound_def parse_scalar_def split: sum.split)
qed

lemma sound_skip: "sound k (skip_space s) n p \<Longrightarrow> sound k s n p"
  by (auto simp: sound_def split: sum.splits intro: less_le_trans)

lemma open_container_sound:
  assumes "\<And>r. items_sound (Suc k) r (Suc n) (items r)" "well_formed none" "fits (Suc k) none" "nodes none = 1" "n < 10000"
  shows "sound (Suc k) (c # s) n (open_container close none items s (Suc n))"
proof -
  have len: "length (skip_space s) \<le> length s" by simp
  then have it: "sound (Suc k) (c # s) n (items (skip_space s))"
    using assms(1) [of "skip_space s"]
    by (auto simp: sound_def items_sound_def simp del: skip_space_le split: sum.splits)
  show ?thesis
    using it assms(2-) len
    by (auto simp: open_container_def Let_def sound_def simp del: skip_space_le split: list.split)
qed

lemma parse_value_sound: "sound k s n (parse_value k s n)"
proof (induction k arbitrary: s n)
  case 0
  then show ?case by (simp add: sound_def)
next
  case (Suc k)
  show ?case
  proof (cases "n < 10000")
    case n: True
    have str: "sound (Suc k) (c # r) n (case parse_string (c # r) of Inl e \<Rightarrow> Inl e | Inr (v, r) \<Rightarrow> Inr (VString v, r, Suc n))" for c r
      using n parse_string_shorter [of "c # r"] by (auto simp: sound_def split: sum.split)
    have obj: "sound (Suc k) (c # r) n (open_container u_rbrace (VObject [])
        (\<lambda>r. parse_members (parse_value k) (Suc (length r)) [] r (Suc n)) r (Suc n))" for c r
      using n by (intro open_container_sound parse_members_sound Suc.IH) (simp_all add: canonical_def)
    have arr: "sound (Suc k) (c # r) n (open_container u_rbracket (VArray [])
        (\<lambda>r. parse_elements (parse_value k) (Suc (length r)) [] r (Suc n)) r (Suc n))" for c r
      using n by (intro open_container_sound parse_elements_sound Suc.IH) simp_all
    have "\<not> 10000 < Suc n" using n by simp
    then have "sound (Suc k) (skip_space s) n (parse_value (Suc k) s n)"
      unfolding parse_value.simps Let_def
      by (cases "skip_space s") (simp_all only: if_False list.case parse_scalar_sound [OF n] str obj arr split: if_split, simp)
    then show ?thesis by (rule sound_skip)
  qed (simp add: sound_def)
qed

section \<open>The fuel is enough\<close>

definition starved :: "jvalue parsed \<Rightarrow> bool" where "starved p \<longleftrightarrow> p = Inl Out_of_fuel"

lemma not_starved [simp]: "\<not> starved (Inr x)" "\<not> starved (Inl Invalid_response)" "\<not> starved (Inl Syntax_error)"
  by (simp_all add: starved_def)

lemma parse_string_Inl: "parse_string s = Inl e \<Longrightarrow> e \<noteq> Out_of_fuel"
  by (auto simp: parse_string_def split: option.splits prod.splits if_splits)

lemma parse_number_Inl: "parse_number s = Inl e \<Longrightarrow> e \<noteq> Out_of_fuel"
  by (auto simp: parse_number_def split: option.splits prod.splits if_splits)

lemma member_key_Inl: "member_key out s = Inl e \<Longrightarrow> e \<noteq> Out_of_fuel"
  by (auto simp: member_key_def dest: parse_string_Inl split: list.splits if_splits sum.splits)

lemma parse_elements_fed:
  assumes p: "\<And>s n. sound k s n (p s n)" and fed: "\<And>s n. \<not> starved (p s n)"
  shows "length s < fuel \<Longrightarrow> \<not> starved (parse_elements p fuel out s n)"
proof (induction fuel arbitrary: out s n)
  case (Suc fuel)
  have next_fed: "\<not> starved (parse_elements p fuel (out @ [v]) r n1)"
    if "p s n = Inr (v, s1, n1)" "next_item u_rbracket s1 = Next_item r" for v s1 n1 r
    using that soundD [OF p that(1)] next_item_shorter(2) [OF that(2)] Suc.prems by (intro Suc.IH) simp
  then show ?case using fed [of s n]
    by (auto simp: parse_elements.simps(2) starved_def split: sum.split after_item.split)
qed simp

lemma parse_members_fed:
  assumes p: "\<And>s n. sound k s n (p s n)" and fed: "\<And>s n. \<not> starved (p s n)"
  shows "length s < fuel \<Longrightarrow> \<not> starved (parse_members p fuel out s n)"
proof (induction fuel arbitrary: out s n)
  case (Suc fuel)
  have next_fed: "\<not> starved (parse_members p fuel (put_property key v out) r n1)"
    if "member_key out s = Inr (key, s2)" "p s2 n = Inr (v, s1, n1)" "next_item u_rbrace s1 = Next_item r"
    for key s2 v s1 n1 r
    using that soundD [OF p that(2)] member_key_Inr [OF that(1)] next_item_shorter(2) [OF that(3)] Suc.prems
    by (intro Suc.IH) simp
  show ?case
  proof (cases "member_key out s")
    case (Inl e)
    then show ?thesis using member_key_Inl [OF Inl] by (simp add: parse_members_Suc starved_def)
  next
    case (Inr ks)
    then obtain key s2 where mk: "member_key out s = Inr (key, s2)" by (cases ks) auto
    then show ?thesis using fed [of s2 n] next_fed [OF mk]
      by (auto simp: parse_members_Suc starved_def split: sum.split after_item.split)
  qed
qed simp

lemma parse_scalar_fed: "\<not> starved (parse_scalar s n)"
  by (auto simp: parse_scalar_def starved_def dest: parse_number_Inl split: option.splits sum.splits)

lemma open_container_fed:
  "(\<And>r. \<not> starved (items r)) \<Longrightarrow> \<not> starved (open_container close none items s n)"
  by (simp add: open_container_def Let_def split: list.split)

lemma parse_value_fed: "\<not> starved (parse_value k s n)"
proof (induction k arbitrary: s n)
  case (Suc k)
  have el: "\<not> starved (parse_elements (parse_value k) (Suc (length r)) [] r n)" for r n
    by (rule parse_elements_fed [OF parse_value_sound Suc]) simp
  have mem: "\<not> starved (parse_members (parse_value k) (Suc (length r)) [] r n)" for r n
    by (rule parse_members_fed [OF parse_value_sound Suc]) simp
  have str: "\<not> starved (case parse_string s of Inl e \<Rightarrow> Inl e | Inr (v, r) \<Rightarrow> Inr (VString v, r, n))" for s n
    using parse_string_Inl [of s] by (auto simp: starved_def split: sum.split)
  show ?case
    unfolding parse_value.simps Let_def
    by (cases "skip_space s")
      (simp_all only: list.case parse_scalar_fed str open_container_fed el mem not_starved not_False_eq_True split: if_split, simp_all)
qed simp

text \<open>
  C28. The client's parser ends on every text: no loop of it runs out of the fuel it starts with, the
  length of the text in front of it.
\<close>
theorem parse_never_starves: "parse_json s \<noteq> Inl Out_of_fuel"
  using parse_value_fed [of 33 s 0]
  by (auto simp: parse_json_def starved_def split: sum.splits)

text \<open>
  C25. Whatever text a response carries, a value the parser returns is well formed: at most 32
  levels below the first and 10,000 values, every string and property name well-formed Unicode, every
  integer safe, and no object with a property twice, its properties in the order JavaScript
  enumerates them.
\<close>
theorem parsed_value_is_well_formed:
  "parse_json s = Inr v \<Longrightarrow> well_formed v \<and> fits 33 v \<and> nodes v \<le> 10000"
  using parse_value_sound [of 33 s 0]
  by (auto simp: parse_json_def sound_def split: sum.splits if_splits)

lemma parsed_value_is_well_formed_witness:
  "parse_json (units ''[-1.5,{}]'') = Inr (VArray [VNumber (- 3 / 2), VObject []]) \<and>
   well_formed (VArray [VNumber (- 3 / 2), VObject []])"
proof -
  have p: "parse_json (units ''[-1.5,{}]'') = Inr (VArray [VNumber (- 3 / 2), VObject []])"
    by code_simp
  from p parsed_value_is_well_formed [OF p] show ?thesis by simp
qed

section \<open>Exact integers\<close>

text \<open>
  An integer the client reads is the integer the response wrote: when a number token is
  accepted with an integer as its value, the decimal of the token is that integer, digit for
  digit, although \<open>Number\<close> rounds to a double.
\<close>
lemma accepted_integer_is_the_decimal:
  assumes "read_number t = Some q" "is_integer q"
  shows "token_value t = q"
proof -
  have r: "round_double (token_value t) = Some q" and safe: "is_safe_int q"
    and scale: "0 < token_scale t \<Longrightarrow> token_coefficient t mod 10 ^ nat (token_scale t) = 0"
    using assms by (auto simp: read_number_def split: option.splits if_splits)
  have "\<exists>n. token_value t = of_int n"
  proof (cases "0 < token_scale t")
    case True
    then obtain m where "token_coefficient t = 10 ^ nat (token_scale t) * m"
      using scale by (auto simp: mod_eq_0_iff_dvd)
    then show ?thesis using True by (intro exI [of _ m]) (simp add: token_value_def)
  next
    case False
    then show ?thesis
      by (intro exI [of _ "token_coefficient t * 10 ^ nat (- token_scale t)"]) (simp add: token_value_def)
  qed
  then obtain n where n: "token_value t = of_int n" ..
  show ?thesis using round_safe_integer [OF r [unfolded n] safe] by (simp add: n)
qed

lemma accepted_integer_is_the_decimal_witness:
  "token_value \<lparr>whole = units ''-25'', fraction = Some (units ''0''), exponent = Some (0x65, units ''1'')\<rparr> = - 250"
proof (rule accepted_integer_is_the_decimal)
  show "read_number \<lparr>whole = units ''-25'', fraction = Some (units ''0''), exponent = Some (0x65, units ''1'')\<rparr> = Some (- 250)"
    by code_simp
  show "is_integer (- 250)" by code_simp
qed

end
