(* ===== verification/Browser_Encode.thy ===== *)
theory Browser_Encode
  imports Browser_Json
begin

text \<open>
  \<open>JSON.stringify\<close> as the browser session client uses it, for the bodies of requests and to compare
  the values of an enumeration, and the round trip through the client's own parser. How a number
  that is not an integer prints is a parameter.
\<close>

section \<open>Strings\<close>

definition hex_unit :: "nat \<Rightarrow> 16 word" where
  "hex_unit n = (if n < 10 then of_nat (0x30 + n) else of_nat (0x57 + n))"

definition unicode_escape :: "16 word \<Rightarrow> js_text" where
  "unicode_escape c =
     (let n = unat c
      in [u_backslash, 0x75, hex_unit (n div 0x1000), hex_unit (n div 0x100 mod 0x10),
          hex_unit (n div 0x10 mod 0x10), hex_unit (n mod 0x10)])"

definition escape_unit :: "16 word \<Rightarrow> js_text" where
  "escape_unit c =
     (if c = 0x08 then [u_backslash, 0x62]
      else if c = 0x09 then [u_backslash, 0x74]
      else if c = 0x0A then [u_backslash, 0x6E]
      else if c = 0x0C then [u_backslash, 0x66]
      else if c = 0x0D then [u_backslash, 0x72]
      else if c = u_quote \<or> c = u_backslash then [u_backslash, c]
      else if c < 0x20 then unicode_escape c
      else [c])"

fun escape :: "js_text \<Rightarrow> js_text" where
  "escape [] = []"
| "escape [c] = (if is_high c \<or> is_low c then unicode_escape c else escape_unit c)"
| "escape (c # d # s) =
     (if is_high c \<and> is_low d then c # d # escape s
      else (if is_high c \<or> is_low c then unicode_escape c else escape_unit c) @ escape (d # s))"

definition quoted :: "js_text \<Rightarrow> js_text" where "quoted s = u_quote # escape s @ [u_quote]"

lemma hex_unit_value: "n < 16 \<Longrightarrow> hex_value (hex_unit n) = Some (of_nat n)"
proof -
  assume "n < 16"
  then have "n \<in> set [0..<16]" by simp
  moreover have "list_all (\<lambda>n. hex_value (hex_unit n) = Some (of_nat n)) [0..<16]" by code_simp
  ultimately show ?thesis by (simp only: list_all_iff)
qed

lemma hex_unit_plain: "n < 16 \<Longrightarrow> hex_unit n \<noteq> u_quote \<and> hex_unit n \<noteq> u_backslash \<and> 0x20 \<le> hex_unit n"
proof -
  assume "n < 16"
  then have "n \<in> set [0..<16]" by simp
  moreover have "list_all (\<lambda>n. hex_unit n \<noteq> u_quote \<and> hex_unit n \<noteq> u_backslash \<and> 0x20 \<le> hex_unit n) [0..<16]"
    by code_simp
  ultimately show ?thesis unfolding list_all_iff by (rule bspec [rotated])
qed

lemma hex_digits: "n div 0x1000 * 0x1000 + n div 0x100 mod 0x10 * 0x100 + n div 0x10 mod 0x10 * 0x10 + n mod 0x10 = (n::nat)"
proof -
  have d: "n div 0x100 = n div 16 div 16" "n div 0x1000 = n div 16 div 16 div 16"
    using div_mult2_eq [of n 16 16] div_mult2_eq [of "n div 16" 16 16] div_mult2_eq [of n 16 256] by simp_all
  have "n div 16 div 16 div 16 * 16 + n div 16 div 16 mod 16 = n div 16 div 16"
    "n div 16 div 16 * 16 + n div 16 mod 16 = n div 16" "n div 16 * 16 + n mod 16 = n"
    by (simp_all only: div_mult_mod_eq)
  then show ?thesis unfolding d by linarith
qed

text \<open>Text that stands for one code unit in a string literal\<close>

definition encodes :: "js_text \<Rightarrow> 16 word \<Rightarrow> bool" where
  "encodes e c \<longleftrightarrow>
     (\<forall>s. unescape (e @ s) = map_option (Cons c) (unescape s)) \<and>
     (\<forall>s b r. scan_string s = Some (b, r) \<longrightarrow> scan_string (e @ s) = Some (e @ b, r))"

lemma plain_encodes: "\<not> c < 0x20 \<Longrightarrow> c \<noteq> u_quote \<Longrightarrow> c \<noteq> u_backslash \<Longrightarrow> encodes [c] c"
  by (simp add: encodes_def)

lemma simple_encodes: "map_of simple_escapes e = Some c \<Longrightarrow> e \<noteq> 0x75 \<Longrightarrow> encodes [u_backslash, e] c"
  by (simp add: encodes_def)

lemma hex4_unit:
  "hex4 (hex_unit (unat c div 0x1000)) (hex_unit (unat c div 0x100 mod 0x10))
     (hex_unit (unat c div 0x10 mod 0x10)) (hex_unit (unat c mod 0x10)) = Some c"
proof -
  have "unat c div 0x1000 < 16" using unat_lt_16 [of c] by (simp add: less_mult_imp_div_less)
  then have "hex4 (hex_unit (unat c div 0x1000)) (hex_unit (unat c div 0x100 mod 0x10))
      (hex_unit (unat c div 0x10 mod 0x10)) (hex_unit (unat c mod 0x10)) =
    Some (of_nat (unat c div 0x1000 * 0x1000 + unat c div 0x100 mod 0x10 * 0x100 +
      unat c div 0x10 mod 0x10 * 0x10 + unat c mod 0x10))"
    unfolding hex4_def by (simp only: hex_unit_value mod_less_divisor prod.case option.case zero_less_numeral)
      (simp only: of_nat_add of_nat_mult of_nat_numeral)
  also have "unat c div 0x1000 * 0x1000 + unat c div 0x100 mod 0x10 * 0x100 +
      unat c div 0x10 mod 0x10 * 0x10 + unat c mod 0x10 = unat c" by (rule hex_digits)
  finally show ?thesis by simp
qed

lemma unicode_encodes: "encodes (unicode_escape c) c"
proof -
  have "unat c div 0x1000 < 16" using unat_lt_16 [of c] by (simp add: less_mult_imp_div_less)
  then have plain: "hex_unit n \<noteq> u_quote \<and> hex_unit n \<noteq> u_backslash"
    if "n \<in> {unat c div 0x1000, unat c div 0x100 mod 0x10, unat c div 0x10 mod 0x10, unat c mod 0x10}" for n
    using that hex_unit_plain [of n] by auto
  show ?thesis
    unfolding encodes_def unicode_escape_def Let_def by (simp add: hex4_unit plain)
qed

lemma escape_unit_encodes: "encodes (escape_unit c) c"
  by (auto simp: escape_unit_def intro!: simple_encodes plain_encodes unicode_encodes)
    (simp_all add: simple_escapes_def)

lemma surrogate_plain: "is_high c \<or> is_low c \<Longrightarrow> encodes [c] c"
proof -
  assume c: "is_high c \<or> is_low c"
  then have "0xD800 \<le> c" by (auto simp: unit_cases word_le_nat_alt)
  then have "\<not> c < 0x20" "c \<noteq> u_quote" "c \<noteq> u_backslash" by (auto simp: word_le_nat_alt word_less_nat_alt)
  then show ?thesis by (rule plain_encodes)
qed

lemma encodesD:
  assumes "encodes e c"
  shows "unescape (e @ s) = map_option (Cons c) (unescape s)"
    "scan_string s = Some (b, r) \<Longrightarrow> scan_string (e @ s) = Some (e @ b, r)"
  using assms by (simp_all add: encodes_def)

lemma escape_one: "encodes (if is_high c \<or> is_low c then unicode_escape c else escape_unit c) c"
  by (simp add: unicode_encodes escape_unit_encodes)

text \<open>How \<open>escape\<close> goes on: with a pair of surrogates as they are, or with one code unit.\<close>

lemma escape_steps:
  "is_high c \<and> is_low d \<Longrightarrow> escape (c # d # s) = [c] @ [d] @ escape s"
  "\<not> (is_high c \<and> is_low d) \<Longrightarrow>
     escape (c # d # s) = (if is_high c \<or> is_low c then unicode_escape c else escape_unit c) @ escape (d # s)"
  by auto

lemma unescape_escape: "unescape (escape s) = Some s"
proof (induction s rule: escape.induct)
  case (2 c)
  then show ?case using encodesD(1) [OF escape_one [of c], of "[]"] by simp
next
  case (3 c d s)
  show ?case
  proof (cases "is_high c \<and> is_low d")
    case True
    then have "encodes [c] c" "encodes [d] d" using surrogate_plain by blast+
    then show ?thesis by (simp only: escape_steps(1) [OF True] encodesD(1) 3(1) [OF True] option.map)
  next
    case False
    then show ?thesis
      by (simp only: escape_steps(2) [OF False] encodesD(1) [OF escape_one] 3(2) [OF False] option.map)
  qed
qed simp

lemma scan_escape: "scan_string (escape s @ u_quote # r) = Some (escape s, r)"
proof (induction s rule: escape.induct)
  case (2 c)
  then show ?case using encodesD(2) [OF escape_one [of c], of "u_quote # r" "[]" r] by simp
next
  case (3 c d s)
  show ?case
  proof (cases "is_high c \<and> is_low d")
    case True
    then have "encodes [c] c" "encodes [d] d" using surrogate_plain by blast+
    then show ?thesis unfolding escape_steps(1) [OF True] append_assoc by (intro encodesD(2) 3(1) [OF True])
  next
    case False
    then show ?thesis unfolding escape_steps(2) [OF False] append_assoc
      by (intro encodesD(2) [OF escape_one] 3(2) [OF False])
  qed
qed simp

lemma parse_quoted: "unicode s \<Longrightarrow> parse_string (quoted s @ r) = Inr (s, r)"
  by (simp add: parse_string_def quoted_def scan_escape unescape_escape)

section \<open>Values\<close>

fun comma_list :: "js_text list \<Rightarrow> js_text" where
  "comma_list [] = []"
| "comma_list [x] = x"
| "comma_list (x # y # xs) = x @ u_comma # comma_list (y # xs)"

definition number_text :: "(rat \<Rightarrow> js_text) \<Rightarrow> rat \<Rightarrow> js_text" where
  "number_text show_fraction q =
     (if is_integer q then units (show_int \<lfloor>q\<rfloor>) else show_fraction q)"

fun stringify :: "(rat \<Rightarrow> js_text) \<Rightarrow> jvalue \<Rightarrow> js_text" where
  "stringify sf VNull = units ''null''"
| "stringify sf (VBool b) = (if b then units ''true'' else units ''false'')"
| "stringify sf (VNumber q) = number_text sf q"
| "stringify sf (VString s) = quoted s"
| "stringify sf (VArray vs) = u_lbracket # comma_list (map (stringify sf) vs) @ [u_rbracket]"
| "stringify sf (VObject ps) =
     u_lbrace # comma_list (map (\<lambda>p. quoted (fst p) @ u_colon # stringify sf (snd p)) ps) @ [u_rbrace]"

text \<open>
  What the text of a fraction is: one number token, short enough, that reads as the same double. The
  standard's \<open>Number::toString\<close> gives the shortest digits that do.
\<close>

definition prints_number :: "(rat \<Rightarrow> js_text) \<Rightarrow> rat \<Rightarrow> bool" where
  "prints_number sf q \<longleftrightarrow>
     is_integer q \<or>
     (case match_number (sf q) of None \<Rightarrow> False
      | Some (t, r) \<Rightarrow> r = [] \<and> length (token_text t) \<le> 128 \<and> read_number t = Some q)"

fun prints_all :: "(rat \<Rightarrow> js_text) \<Rightarrow> jvalue \<Rightarrow> bool" where
  "prints_all sf (VNumber q) = prints_number sf q"
| "prints_all sf (VArray vs) = list_all (prints_all sf) vs"
| "prints_all sf (VObject ps) = list_all (\<lambda>p. prints_all sf (snd p)) ps"
| "prints_all sf _ = True"

text \<open>What may follow a value in the text\<close>

definition ends_value :: "js_text \<Rightarrow> bool" where
  "ends_value r \<longleftrightarrow> r = [] \<or> hd r = u_comma \<or> hd r = u_rbrace \<or> hd r = u_rbracket"

lemma ends_value_simps [simp]:
  "ends_value []" "ends_value (u_comma # r)" "ends_value (u_rbrace # r)" "ends_value (u_rbracket # r)"
  by (simp_all add: ends_value_def)

lemma ends_value_cases:
  assumes "ends_value (c # r)"
  shows "\<not> unit_digit c" "c \<noteq> u_dot" "c \<noteq> 0x65" "c \<noteq> 0x45" "\<not> is_blank c"
  using assms by (auto simp: ends_value_def unit_digit_def is_blank_def word_le_nat_alt)

subsection \<open>Numbers in front of the end of a value\<close>

lemma takeWhile_ends:
  assumes "ends_value r"
  shows "takeWhile unit_digit (s @ r) = takeWhile unit_digit s"
    "dropWhile unit_digit (s @ r) = dropWhile unit_digit s @ r"
proof -
  have r: "takeWhile unit_digit r = []" "dropWhile unit_digit r = r"
    using assms ends_value_cases(1) by (cases r; auto)+
  show "takeWhile unit_digit (s @ r) = takeWhile unit_digit s" "dropWhile unit_digit (s @ r) = dropWhile unit_digit s @ r"
    by (induction s) (simp_all add: r)
qed

lemma match_whole_ends:
  assumes r: "ends_value r" and w: "match_whole s = Some (w, x)"
  shows "match_whole (s @ r) = Some (w, x @ r)"
proof -
  note t = takeWhile_ends [OF r]
  obtain c d where s: "s = c # d" using w by (cases s) (simp_all add: match_whole_def)
  show ?thesis
  proof (cases "c = u_minus")
    case True
    then obtain e f where "d = e # f" using w s by (cases d) (simp_all add: match_whole_def)
    then show ?thesis using w True by (auto simp: s match_whole_def t split: if_splits)
  next
    case False
    then show ?thesis using w by (auto simp: s match_whole_def t split: if_splits)
  qed
qed

lemma match_fraction_ends:
  assumes r: "ends_value r" and f: "match_fraction s = (f, x)"
  shows "match_fraction (s @ r) = (f, x @ r)"
proof (cases s)
  case Nil
  then show ?thesis using r f ends_value_cases(2) by (cases r) (auto simp: match_fraction_def split: if_splits)
next
  case (Cons c d)
  then show ?thesis using f by (auto simp: match_fraction_def takeWhile_ends [OF r] split: if_splits)
qed

lemma match_exponent_ends: "ends_value r \<Longrightarrow> match_exponent s = (e, x) \<Longrightarrow> match_exponent (s @ r) = (e, x @ r)"
proof (cases s)
  case Nil
  then show "ends_value r \<Longrightarrow> match_exponent s = (e, x) \<Longrightarrow> match_exponent (s @ r) = (e, x @ r)"
    using ends_value_cases(3,4) by (cases r) (auto simp: match_exponent_def split: if_splits)
next
  case (Cons c d)
  assume r: "ends_value r" and e: "match_exponent s = (e, x)"
  have sign: "\<not> (hd r = 0x2B \<or> hd r = u_minus)" if "r \<noteq> []" using r that by (auto simp: ends_value_def)
  show ?thesis
  proof (cases d)
    case Nil
    then show ?thesis using Cons e sign takeWhile_ends [OF r, of "[]"]
      by (cases r) (auto simp: match_exponent_def Let_def split: if_splits)
  next
    case (Cons y z)
    then show ?thesis using \<open>s = c # d\<close> e takeWhile_ends [OF r, of z] takeWhile_ends [OF r, of "y # z"]
      by (auto simp: match_exponent_def Let_def split: if_splits)
  qed
qed

lemma match_number_ends:
  assumes r: "ends_value r" and t: "match_number s = Some (t, x)"
  shows "match_number (s @ r) = Some (t, x @ r)"
proof -
  obtain w s1 f s2 e where "match_whole s = Some (w, s1)" "match_fraction s1 = (f, s2)" "match_exponent s2 = (e, x)"
    "t = \<lparr>whole = w, fraction = f, exponent = e\<rparr>"
    using t by (auto simp: match_number_def split: option.splits prod.splits)
  then show ?thesis
    by (simp add: match_number_def match_whole_ends [OF r] match_fraction_ends [OF r] match_exponent_ends [OF r])
qed

subsection \<open>Integers\<close>

lemma unat_unit_of: "unat (unit_of c) = code_unit c"
proof -
  have "of_char c < (0x10000 :: nat)" using nat_of_char_less_256 [of c] by linarith
  then show ?thesis unfolding unit_of_def code_unit_def by (rule unat_of_nat_16)
qed

lemma unit_digit_unit_of: "unit_digit (unit_of c) \<longleftrightarrow> is_digit c"
  by (simp add: unit_digit_def is_digit_def word_le_nat_alt unat_unit_of)

lemma units_value_units: "units_value (units s) = digits_value s"
  by (simp add: units_value_def digits_value_def units_def foldl_map unat_unit_of digit_value_def)

lemma unit_of_zero: "unit_of c = 0x30 \<longleftrightarrow> c = CHR ''0''"
proof
  assume "unit_of c = 0x30"
  then have "code_unit c = code_unit (CHR ''0'')" using unat_unit_of [of c] by (simp add: code_unit_def)
  then show "c = CHR ''0''" by (metis char_of_code_unit)
qed (simp add: unit_of_def)

lemma digits_units: "list_all unit_digit (units (decimal m))"
  using decimal_digits [of m] by (simp add: units_def list_all_iff unit_digit_unit_of)

lemma decimal_length: "0 < k \<Longrightarrow> m < 10 ^ k \<Longrightarrow> length (decimal m) \<le> k"
proof (induction k arbitrary: m)
  case (Suc k)
  show ?case
  proof (cases "m < 10")
    case False
    then have "0 < k" using Suc.prems by (cases k) simp_all
    moreover have "m div 10 < 10 ^ k" using Suc.prems(2) by (simp add: div_less_iff_less_mult mult.commute)
    ultimately show ?thesis using Suc.IH [of "m div 10"] False by (subst decimal.simps) simp
  qed (subst decimal.simps, simp)
qed simp

lemma match_whole_digits:
  assumes "units (decimal m) = c # d"
  shows "c \<noteq> u_minus" "c = 0x30 \<Longrightarrow> d = []" "unit_digit c" "list_all unit_digit d"
proof -
  have "list_all unit_digit (c # d)" using digits_units [of m] by (simp only: assms)
  then show "unit_digit c" "list_all unit_digit d" by simp_all
  then show "c \<noteq> u_minus" by (auto simp: unit_digit_def word_le_nat_alt)
  show "d = []" if "c = 0x30"
  proof -
    have "hd (decimal m) = CHR ''0''"
      using assms that by (cases "decimal m") (auto simp: unit_of_zero)
    then have "m = 0" using decimal_head [of m] by auto
    then show ?thesis using assms by (simp add: decimal.simps [of 0])
  qed
qed

lemma match_whole_integer: "match_whole (units (show_int n)) = Some (units (show_int n), [])"
proof -
  have minus: "unit_of (CHR ''-'') = u_minus" by code_simp
  obtain c d where cd: "units (decimal (nat \<bar>n\<bar>)) = c # d" by (cases "units (decimal (nat \<bar>n\<bar>))") (auto simp: units_def)
  note cd' = match_whole_digits [OF cd]
  have t: "takeWhile unit_digit d = d" "dropWhile unit_digit d = []"
    using cd'(4) by (simp_all add: list_all_iff)
  show ?thesis
    using cd cd' t by (cases "n < 0") (auto simp: show_int_def match_whole_def minus)
qed

lemma signed_value_integer: "signed_value (units (show_int n)) = n"
proof -
  have minus: "unit_of (CHR ''-'') = u_minus" by code_simp
  obtain c d where cd: "units (decimal (nat \<bar>n\<bar>)) = c # d" by (cases "units (decimal (nat \<bar>n\<bar>))") (auto simp: units_def)
  have plus: "c \<noteq> 0x2B" using match_whole_digits(3) [OF cd] by (auto simp: unit_digit_def word_le_nat_alt)
  have v: "units_value (c # d) = nat \<bar>n\<bar>" unfolding cd [symmetric] by (simp add: units_value_units digits_value_decimal)
  show ?thesis
    using cd match_whole_digits(1) [OF cd] plus v
    by (cases "n < 0") (auto simp: show_int_def signed_value_def minus)
qed

definition integer_token :: "int \<Rightarrow> number_token" where
  "integer_token n = \<lparr>whole = units (show_int n), fraction = None, exponent = None\<rparr>"

lemma match_integer: "match_number (units (show_int n)) = Some (integer_token n, [])"
  by (simp add: match_number_def match_whole_integer match_fraction_def match_exponent_def integer_token_def)

lemma integer_token_facts:
  assumes "\<bar>n\<bar> \<le> max_safe"
  shows "length (token_text (integer_token n)) \<le> 128" "read_number (integer_token n) = Some (of_int n)"
proof -
  have "nat \<bar>n\<bar> < 10 ^ 16" using assms by (simp add: max_safe_def)
  then have "length (decimal (nat \<bar>n\<bar>)) \<le> 16" by (intro decimal_length) simp_all
  then show "length (token_text (integer_token n)) \<le> 128"
    by (cases "n < 0") (simp_all add: token_text_def integer_token_def show_int_def)
  have "token_scale (integer_token n) = 0" "token_coefficient (integer_token n) = n"
    by (simp_all add: token_scale_def token_coefficient_def fraction_digits_def integer_token_def signed_value_integer)
  then show "read_number (integer_token n) = Some (of_int n)"
    using assms by (simp add: read_number_def token_value_def round_safe)
qed

lemma number_text_parses:
  assumes "is_integer q \<longrightarrow> is_safe_int q" "prints_number sf q" "ends_value r"
  shows "parse_number (number_text sf q @ r) = Inr (q, r)"
proof (cases "is_integer q")
  case True
  then obtain n where q: "q = of_int n" and n: "\<bar>n\<bar> \<le> max_safe" using assms(1) by (auto elim!: is_integerE)
  show ?thesis
    using integer_token_facts [OF n] match_number_ends [OF assms(3) match_integer, of n]
    by (simp add: parse_number_def number_text_def q)
next
  case False
  then obtain t where "match_number (sf q) = Some (t, [])" "length (token_text t) \<le> 128" "read_number t = Some q"
    using assms(2) by (auto simp: prints_number_def split: option.splits)
  then show ?thesis using match_number_ends [OF assms(3)] False
    by (simp add: parse_number_def number_text_def)
qed

text \<open>The first code unit of a number is a digit or the sign.\<close>

lemma number_text_start:
  assumes "parse_number s = Inr x"
  shows "\<exists>c d. s = c # d \<and> (c = u_minus \<or> unit_digit c)"
proof -
  obtain w y where "match_whole s = Some (w, y)"
    using assms by (auto simp: parse_number_def match_number_def split: option.splits)
  then show ?thesis by (cases s) (auto simp: match_whole_def unit_digit_def split: if_splits)
qed

section \<open>Round trip\<close>

text \<open>A parser that reads back the text of a value in front of the end of a value\<close>

definition reads_back :: "(js_text \<Rightarrow> nat \<Rightarrow> jvalue parsed) \<Rightarrow> (rat \<Rightarrow> js_text) \<Rightarrow> jvalue \<Rightarrow> bool" where
  "reads_back p sf v \<longleftrightarrow>
     (\<forall>r n. ends_value r \<longrightarrow> n + nodes v \<le> 10000 \<longrightarrow> p (stringify sf v @ r) n = Inr (v, r, n + nodes v))"

text \<open>The first code unit of the text of a value: neither blank nor the end of a container.\<close>

definition starts_value :: "js_text \<Rightarrow> bool" where
  "starts_value s \<longleftrightarrow> s \<noteq> [] \<and> \<not> is_blank (hd s) \<and> hd s \<noteq> u_rbracket \<and> hd s \<noteq> u_rbrace"

lemma starts_skip [simp]: "starts_value s \<Longrightarrow> skip_space (s @ r) = s @ r"
  by (cases s) (simp_all add: starts_value_def skip_space_def)

lemma quoted_starts [simp]: "starts_value (quoted s)" "starts_value (quoted s @ r)"
  by (simp_all add: quoted_def starts_value_def is_blank_def)

lemma skip_ends [simp]: "skip_space (u_comma # r) = u_comma # r" "skip_space (u_rbrace # r) = u_rbrace # r"
  "skip_space (u_rbracket # r) = u_rbracket # r" "skip_space (u_colon # r) = u_colon # r"
  by (simp_all add: skip_space_def is_blank_def)

lemma next_item_ends:
  "c = u_rbrace \<or> c = u_rbracket \<Longrightarrow> next_item c (c # r) = Closed r"
  "c \<noteq> u_comma \<Longrightarrow> starts_value s \<Longrightarrow> next_item c (u_comma # s @ r) = Next_item (s @ r)"
  by (auto simp: next_item_def)

lemma comma_list_Cons: "comma_list (x # xs) = x @ (if xs = [] then [] else u_comma # comma_list xs)"
  by (cases xs) simp_all

lemma comma_list_length: "(\<And>x. x \<in> set xs \<Longrightarrow> x \<noteq> []) \<Longrightarrow> length xs \<le> length (comma_list xs)"
proof (induction xs)
  case (Cons x xs)
  then have "1 \<le> length x" by (cases x) auto
  then show ?case using Cons by (auto simp: comma_list_Cons)
qed simp

lemma comma_list_starts: "xs \<noteq> [] \<Longrightarrow> starts_value (hd xs) \<Longrightarrow> starts_value (comma_list xs)"
  by (cases xs) (auto simp: comma_list_Cons starts_value_def hd_append)

lemma parse_elements_text:
  assumes "vs \<noteq> []" "list_all (reads_back p sf) vs" "list_all (\<lambda>v. starts_value (stringify sf v)) vs"
    "n + sum_list (map nodes vs) \<le> 10000" "length vs \<le> fuel"
  shows "parse_elements p fuel out (comma_list (map (stringify sf) vs) @ u_rbracket # r) n =
    Inr (VArray (out @ vs), r, n + sum_list (map nodes vs))"
  using assms
proof (induction vs arbitrary: fuel out n)
  case (Cons v vs)
  then obtain fuel' where fuel: "fuel = Suc fuel'" by (cases fuel) auto
  have rb: "ends_value x \<Longrightarrow> p (stringify sf v @ x) n = Inr (v, x, n + nodes v)" for x
    using Cons.prems by (simp add: reads_back_def)
  have ne: "stringify sf v \<noteq> []" using Cons.prems by (auto simp: starts_value_def)
  show ?case
  proof (cases "vs = []")
    case True
    then show ?thesis using ne by (simp add: fuel parse_elements.simps(2) rb next_item_ends(1))
  next
    case False
    have st: "starts_value (comma_list (map (stringify sf) vs))"
      using False Cons.prems(3) by (intro comma_list_starts) (cases vs; simp)+
    have "parse_elements p fuel' (out @ [v]) (comma_list (map (stringify sf) vs) @ u_rbracket # r) (n + nodes v) =
        Inr (VArray ((out @ [v]) @ vs), r, (n + nodes v) + sum_list (map nodes vs))"
      using False Cons.prems fuel by (intro Cons.IH) simp_all
    then show ?thesis
      using False ne st by (simp add: fuel parse_elements.simps(2) comma_list_Cons rb next_item_ends(2))
  qed
qed simp

definition member_text :: "(rat \<Rightarrow> js_text) \<Rightarrow> js_text \<times> jvalue \<Rightarrow> js_text" where
  "member_text sf p = quoted (fst p) @ u_colon # stringify sf (snd p)"

lemma member_text_starts: "starts_value (member_text sf p)"
  by (simp add: member_text_def)

lemma member_key_text:
  assumes "unicode k" "k \<notin> set (map fst out)"
  shows "member_key out (member_text sf (k, v) @ x) = Inr (k, stringify sf v @ x)"
proof -
  have "\<exists>y. member_text sf (k, v) @ x = u_quote # y" by (simp add: member_text_def quoted_def)
  then show ?thesis
    using assms parse_quoted [OF assms(1), of "u_colon # stringify sf v @ x"]
    by (auto simp: member_key_def member_text_def)
qed

lemma put_property_last:
  "canonical (out @ (k, v) # ps) \<Longrightarrow> put_property k v out = out @ [(k, v)]"
  by (auto simp: canonical_def put_property_def sorted_append)

lemma parse_members_text:
  assumes "ps \<noteq> []" "list_all (\<lambda>q. reads_back p sf (snd q)) ps" "list_all (\<lambda>q. unicode (fst q)) ps"
    "canonical (out @ ps)"
    "n + sum_list (map (\<lambda>q. nodes (snd q)) ps) \<le> 10000" "length ps \<le> fuel"
  shows "parse_members p fuel out (comma_list (map (member_text sf) ps) @ u_rbrace # r) n =
    Inr (VObject (out @ ps), r, n + sum_list (map (\<lambda>q. nodes (snd q)) ps))"
  using assms
proof (induction ps arbitrary: fuel out n)
  case (Cons q ps)
  obtain k v where q: "q = (k, v)" by (cases q)
  obtain fuel' where fuel: "fuel = Suc fuel'" using Cons.prems by (cases fuel) auto
  have rb: "ends_value x \<Longrightarrow> p (stringify sf v @ x) n = Inr (v, x, n + nodes v)" for x
    using Cons.prems by (simp add: reads_back_def q)
  have put: "put_property k v out = out @ [(k, v)]"
    using Cons.prems(4) unfolding q by (rule put_property_last)
  have key: "member_key out (member_text sf (k, v) @ x) = Inr (k, stringify sf v @ x)" for x
    using Cons.prems(3,4) by (intro member_key_text) (auto simp: q canonical_def)
  show ?case
  proof (cases "ps = []")
    case True
    then show ?thesis by (simp add: q fuel parse_members_Suc key rb next_item_ends(1) put)
  next
    case False
    have st: "starts_value (comma_list (map (member_text sf) ps))"
      using False by (intro comma_list_starts) (cases ps; simp add: member_text_starts)+
    have "parse_members p fuel' (out @ [(k, v)]) (comma_list (map (member_text sf) ps) @ u_rbrace # r) (n + nodes v) =
        Inr (VObject ((out @ [(k, v)]) @ ps), r, (n + nodes v) + sum_list (map (\<lambda>q. nodes (snd q)) ps))"
      using False Cons.prems fuel by (intro Cons.IH) (simp_all add: q)
    then show ?thesis
      using False st by (simp add: q fuel parse_members_Suc comma_list_Cons key rb next_item_ends(2) put)
  qed
qed simp

lemma parse_scalar_number:
  assumes "parse_number s = Inr (q, r)"
  shows "parse_scalar s n = Inr (VNumber q, r, n)" "starts_value s" "hd s \<noteq> u_quote"
    "hd s \<noteq> u_lbrace" "hd s \<noteq> u_lbracket"
proof -
  obtain c d where s: "s = c # d" and c: "c = u_minus \<or> unit_digit c" using number_text_start [OF assms] by blast
  have c': "c \<noteq> unit_of (CHR ''t'')" "c \<noteq> unit_of (CHR ''f'')" "c \<noteq> unit_of (CHR ''n'')"
    using c by (auto simp: unit_of_def unit_digit_def word_le_nat_alt)
  then have "find (\<lambda>(w, v). prefix w s) literal_words = None"
    by (auto simp: literal_words_def s)
  then show "parse_scalar s n = Inr (VNumber q, r, n)" by (simp add: parse_scalar_def assms)
  show "starts_value s" "hd s \<noteq> u_quote" "hd s \<noteq> u_lbrace" "hd s \<noteq> u_lbracket"
    using c by (auto simp: s starts_value_def is_blank_def unit_digit_def word_le_nat_alt)
qed

lemma word_starts: "starts_value (units ''null'')" "starts_value (units ''true'')" "starts_value (units ''false'')"
  by code_simp+

lemma word_heads:
  "hd (units ''null'') = 0x6E" "hd (units ''true'') = 0x74" "hd (units ''false'') = 0x66"
  by code_simp+

lemma parse_scalar_words:
  "parse_scalar (units ''null'' @ r) n = Inr (VNull, r, n)"
  "parse_scalar (units ''true'' @ r) n = Inr (VBool True, r, n)"
  "parse_scalar (units ''false'' @ r) n = Inr (VBool False, r, n)"
  by (simp_all add: parse_scalar_def literal_words_def unit_of_def)

lemma number_text_starts:
  assumes "is_integer q \<longrightarrow> is_safe_int q" "prints_number sf q"
  shows "starts_value (number_text sf q)"
  using parse_scalar_number(2) [OF number_text_parses [OF assms ends_value_simps(1)]] by simp

lemma stringify_starts:
  "well_formed v \<Longrightarrow> prints_all sf v \<Longrightarrow> starts_value (stringify sf v)"
  by (cases v) (auto simp: number_text_starts word_starts starts_value_def [of "u_lbracket # s" for s]
      starts_value_def [of "u_lbrace # s" for s] is_blank_def simp del: units_simps)

lemma parse_value_scalar:
  assumes "starts_value s" "hd s \<noteq> u_quote" "hd s \<noteq> u_lbrace" "hd s \<noteq> u_lbracket" "n < 10000"
  shows "parse_value (Suc k) (s @ r) n = parse_scalar (s @ r) (Suc n)"
  using assms by (cases s) (simp_all add: starts_value_def skip_space_def Let_def)

lemma reads_back_scalar:
  assumes "\<And>r n. ends_value r \<Longrightarrow> parse_scalar (stringify sf v @ r) n = Inr (v, r, n)"
    "starts_value (stringify sf v)" "hd (stringify sf v) \<noteq> u_quote" "hd (stringify sf v) \<noteq> u_lbrace"
    "hd (stringify sf v) \<noteq> u_lbracket" "nodes v = 1"
  shows "reads_back (parse_value (Suc k)) sf v"
  using assms by (auto simp: reads_back_def parse_value_scalar simp del: parse_value.simps)

lemma parse_value_quoted:
  assumes "unicode s" "n < 10000"
  shows "parse_value (Suc k) (quoted s @ r) n = Inr (VString s, r, Suc n)"
proof -
  obtain y where y: "quoted s @ r = u_quote # y" by (simp add: quoted_def)
  have "parse_string (u_quote # y) = Inr (s, r)" using parse_quoted [OF assms(1), of r] by (simp add: y)
  then show ?thesis using assms(2) by (simp add: y skip_space_def is_blank_def)
qed

lemma reads_back_array:
  assumes "\<And>v. v \<in> set vs \<Longrightarrow> reads_back (parse_value k) sf v"
    "\<And>v. v \<in> set vs \<Longrightarrow> starts_value (stringify sf v)"
  shows "reads_back (parse_value (Suc k)) sf (VArray vs)"
  unfolding reads_back_def
proof (intro allI impI)
  fix r n
  assume r: "ends_value r" and n: "n + nodes (VArray vs) \<le> 10000"
  let ?s = "comma_list (map (stringify sf) vs) @ u_rbracket # r"
  have "parse_value (Suc k) (stringify sf (VArray vs) @ r) n =
      open_container u_rbracket (VArray [])
        (\<lambda>r. parse_elements (parse_value k) (Suc (length r)) [] r (Suc n)) ?s (Suc n)"
    using n by (simp add: skip_space_def is_blank_def)
  also have "\<dots> = Inr (VArray vs, r, n + nodes (VArray vs))"
  proof (cases "vs = []")
    case True
    then show ?thesis by (simp add: open_container_def)
  next
    case False
    have st: "starts_value (comma_list (map (stringify sf) vs))"
      using False assms(2) by (intro comma_list_starts) (cases vs; simp)+
    have "length (map (stringify sf) vs) \<le> length (comma_list (map (stringify sf) vs))"
      using assms(2) by (intro comma_list_length) (auto simp: starts_value_def)
    then have "parse_elements (parse_value k) (Suc (length ?s)) [] ?s (Suc n) =
        Inr (VArray ([] @ vs), r, Suc n + sum_list (map nodes vs))"
      using False assms n by (intro parse_elements_text) (auto simp: list_all_iff)
    then show ?thesis
      using st by (cases "comma_list (map (stringify sf) vs)")
        (auto simp: open_container_def Let_def starts_value_def skip_space_def)
  qed
  finally show "parse_value (Suc k) (stringify sf (VArray vs) @ r) n = Inr (VArray vs, r, n + nodes (VArray vs))" .
qed

lemma stringify_object:
  "stringify sf (VObject ps) = u_lbrace # comma_list (map (member_text sf) ps) @ [u_rbrace]"
  by (simp add: member_text_def [abs_def])

lemma reads_back_object:
  assumes "\<And>p. p \<in> set ps \<Longrightarrow> reads_back (parse_value k) sf (snd p)" "\<And>p. p \<in> set ps \<Longrightarrow> unicode (fst p)"
    "canonical ps"
  shows "reads_back (parse_value (Suc k)) sf (VObject ps)"
  unfolding reads_back_def
proof (intro allI impI)
  fix r n
  assume r: "ends_value r" and n: "n + nodes (VObject ps) \<le> 10000"
  let ?s = "comma_list (map (member_text sf) ps) @ u_rbrace # r"
  have "parse_value (Suc k) (stringify sf (VObject ps) @ r) n =
      open_container u_rbrace (VObject [])
        (\<lambda>r. parse_members (parse_value k) (Suc (length r)) [] r (Suc n)) ?s (Suc n)"
    using n unfolding stringify_object by (simp add: skip_space_def is_blank_def)
  also have "\<dots> = Inr (VObject ps, r, n + nodes (VObject ps))"
  proof (cases "ps = []")
    case True
    then show ?thesis by (simp add: open_container_def)
  next
    case False
    have st: "starts_value (comma_list (map (member_text sf) ps))"
      using False by (intro comma_list_starts) (cases ps; simp add: member_text_starts)+
    have "length (map (member_text sf) ps) \<le> length (comma_list (map (member_text sf) ps))"
      by (intro comma_list_length) (auto simp: member_text_def quoted_def)
    then have "parse_members (parse_value k) (Suc (length ?s)) [] ?s (Suc n) =
        Inr (VObject ([] @ ps), r, Suc n + sum_list (map (\<lambda>q. nodes (snd q)) ps))"
      using False assms n by (intro parse_members_text) (auto simp: list_all_iff)
    then show ?thesis
      using st by (cases "comma_list (map (member_text sf) ps)")
        (auto simp: open_container_def Let_def starts_value_def skip_space_def)
  qed
  finally show "parse_value (Suc k) (stringify sf (VObject ps) @ r) n = Inr (VObject ps, r, n + nodes (VObject ps))" .
qed

lemma stringify_reads_back:
  "well_formed v \<Longrightarrow> prints_all sf v \<Longrightarrow> fits k v \<Longrightarrow> reads_back (parse_value k) sf v"
proof (induction v arbitrary: k)
  case (VNumber q)
  then obtain k' where "k = Suc k'" by (cases k) auto
  moreover have "reads_back (parse_value (Suc k')) sf (VNumber q)"
    using VNumber.prems number_text_parses [of q sf] parse_scalar_number [OF number_text_parses [of q sf "[]"]]
    by (intro reads_back_scalar) (simp_all add: parse_scalar_number(1))
  ultimately show ?case by (simp only:)
next
  case (VString s)
  then show ?case by (cases k) (auto simp: reads_back_def parse_value_quoted simp del: parse_value.simps)
next
  case (VArray vs)
  then obtain k' where k: "k = Suc k'" by (cases k) auto
  have "reads_back (parse_value (Suc k')) sf (VArray vs)"
    using VArray by (intro reads_back_array) (auto simp: k list_all_iff stringify_starts)
  then show ?case by (simp only: k)
next
  case (VObject ps)
  then obtain k' where k: "k = Suc k'" by (cases k) auto
  have "reads_back (parse_value (Suc k')) sf (VObject ps)"
    using VObject.prems
    by (intro reads_back_object VObject.IH [OF _ snds.intros]) (auto simp: k list_all_iff)
  then show ?case by (simp only: k)
next
  case VNull
  then obtain k' where k: "k = Suc k'" by (cases k) auto
  show ?case unfolding k
    by (rule reads_back_scalar) (simp_all add: parse_scalar_words word_starts word_heads del: units_simps)
next
  case (VBool b)
  then obtain k' where k: "k = Suc k'" by (cases k) auto
  show ?case unfolding k
    by (rule reads_back_scalar; cases b) (simp_all add: parse_scalar_words word_starts word_heads del: units_simps)
qed

lemma encoded_value_reads_back:
  assumes "well_formed v" "fits 33 v" "nodes v \<le> 10000" "prints_all sf v"
  shows "parse_json (stringify sf v) = Inr v"
proof -
  have "parse_value 33 (stringify sf v @ []) 0 = Inr (v, [], 0 + nodes v)"
    using stringify_reads_back [OF assms(1,4,2)] assms(3) ends_value_simps(1)
    unfolding reads_back_def by (metis add_0)
  then have "parse_value 33 (stringify sf v) 0 = Inr (v, [], nodes v)" by (simp del: parse_value.simps)
  then show ?thesis unfolding parse_json_def by (simp add: skip_space_def del: parse_value.simps)
qed

end
