(* ===== verification/Browser_Schema.thy ===== *)
theory Browser_Schema
  imports Browser_Encode
begin

text \<open>
  The checks of the browser session client against its contract
  (\<open>src/console/out/browser/sessionclient/index.js\<close>): \<open>dateTime\<close>, \<open>annotation\<close>, \<open>validate\<close> and
  \<open>boundedInput\<close>. The budget \<open>validate\<close> shares between all its calls is the state of an action, and a
  \<open>TypeError\<close> its throw. The contract is generated with the client: its models are a parameter, as are
  the text of a fraction and the verdict of \<open>new URL\<close>.
\<close>

section \<open>Dates\<close>

definition take_number :: "nat \<Rightarrow> js_text \<Rightarrow> (nat \<times> js_text) option" where
  "take_number n s =
     (if n \<le> length s \<and> list_all unit_digit (take n s) then Some (units_value (take n s), drop n s) else None)"

definition expect :: "16 word list \<Rightarrow> js_text \<Rightarrow> js_text option" where
  "expect cs s = (case s of [] \<Rightarrow> None | c # r \<Rightarrow> if c \<in> set cs then Some r else None)"

definition take_after :: "16 word list \<Rightarrow> nat \<Rightarrow> js_text \<Rightarrow> (nat \<times> js_text) option" where
  "take_after cs n s = Option.bind (expect cs s) (take_number n)"

text \<open>\<open>(?:\.\d+)?\<close>\<close>

definition skip_fraction :: "js_text \<Rightarrow> js_text" where
  "skip_fraction s =
     (case s of [] \<Rightarrow> s
      | c # r \<Rightarrow> if c = u_dot \<and> takeWhile unit_digit r \<noteq> [] then dropWhile unit_digit r else s)"

text \<open>\<open>(?:[Zz]|[+-](\d{2}):(\d{2}))$\<close>: the hours and minutes of the offset, if it is written.\<close>

definition take_offset :: "js_text \<Rightarrow> (nat \<times> nat) option option" where
  "take_offset s =
     (if s = [0x5A] \<or> s = [0x7A] then Some None
      else Option.bind (take_after [0x2B, u_minus] 2 s) (\<lambda>(h, s).
        Option.bind (take_after [u_colon] 2 s) (\<lambda>(m, s). if s = [] then Some (Some (h, m)) else None)))"

definition leap_year :: "nat \<Rightarrow> bool" where
  "leap_year y \<longleftrightarrow> y mod 4 = 0 \<and> (y mod 100 \<noteq> 0 \<or> y mod 400 = 0)"

definition month_days :: "nat \<Rightarrow> nat list" where
  "month_days y = [31, if leap_year y then 29 else 28, 31, 30, 31, 30, 31, 31, 30, 31, 30, 31]"

definition date_time :: "js_text \<Rightarrow> bool" where
  "date_time s =
     (case Option.bind (take_number 4 s) (\<lambda>(year, s).
           Option.bind (take_after [u_minus] 2 s) (\<lambda>(month, s).
           Option.bind (take_after [u_minus] 2 s) (\<lambda>(day, s).
           Option.bind (take_after [0x54, 0x74] 2 s) (\<lambda>(hour, s).
           Option.bind (take_after [u_colon] 2 s) (\<lambda>(minute, s).
           Option.bind (take_after [u_colon] 2 s) (\<lambda>(second, s).
           Option.bind (take_offset (skip_fraction s)) (\<lambda>offset.
             Some (year, month, day, hour, minute, second, offset)))))))) of
        None \<Rightarrow> False
      | Some (year, month, day, hour, minute, second, offset) \<Rightarrow>
          1 \<le> month \<and> month \<le> 12 \<and> 1 \<le> day \<and> day \<le> month_days year ! (month - 1) \<and>
          hour < 24 \<and> minute < 60 \<and> second \<le> 60 \<and>
          (case offset of None \<Rightarrow> True | Some (h, m) \<Rightarrow> h < 24 \<and> m < 60))"

section \<open>Schemas\<close>

text \<open>The keywords of a schema that hold no other schema; an absent flag is \<open>False\<close>.\<close>

record schema_keywords =
  sc_ref :: "js_text option"
  sc_enum :: "jvalue list option"
  sc_type :: "js_text option"
  sc_nullable :: bool
  sc_minLength :: "nat option"
  sc_maxLength :: "nat option"
  sc_format :: "js_text option"
  sc_minimum :: "rat option"
  sc_exclusiveMinimum :: bool
  sc_maximum :: "rat option"
  sc_exclusiveMaximum :: bool
  sc_minItems :: "nat option"
  sc_maxItems :: "nat option"
  sc_minProperties :: "nat option"
  sc_maxProperties :: "nat option"
  sc_required :: "js_text list option"
  sc_readOnly :: bool
  sc_writeOnly :: bool

datatype 's additional = Any_property | Allowed bool | Described 's

datatype schema = Schema
  (keys_of: schema_keywords)
  (all_of: "schema list option")
  (any_of: "schema list option")
  (one_of: "schema list option")
  (items_of: "schema option")
  (properties_of: "(js_text \<times> schema) list option")
  (additional_of: "schema additional")

record contract =
  models :: "(js_text \<times> schema) list"
  fraction_text :: "rat \<Rightarrow> js_text"
  parses_url :: "js_text \<Rightarrow> bool"

datatype direction = Request | Response

text \<open>\<open>contract.models[schema.$ref.slice("#/components/schemas/".length)]\<close>\<close>

definition model_of :: "contract \<Rightarrow> js_text \<Rightarrow> schema option" where
  "model_of c ref = map_of (models c) (drop (length ''#/components/schemas/'') ref)"

definition ref_of :: "schema \<Rightarrow> js_text option" where
  "ref_of s = (case sc_ref (keys_of s) of None \<Rightarrow> None | Some r \<Rightarrow> if r = [] then None else Some r)"

text \<open>
  \<open>annotation\<close>: the schema at the end of a chain of references. The fuel is one more than the models of
  the contract, which is enough for every chain that ends.
\<close>

fun follow :: "nat \<Rightarrow> contract \<Rightarrow> schema option \<Rightarrow> schema option option" where
  "follow 0 c s = (case Option.bind s ref_of of None \<Rightarrow> Some s | Some r \<Rightarrow> None)"
| "follow (Suc fuel) c s =
     (case Option.bind s ref_of of None \<Rightarrow> Some s | Some r \<Rightarrow> follow fuel c (model_of c r))"

definition annotation :: "contract \<Rightarrow> schema option \<Rightarrow> schema option option" where
  "annotation c s = follow (Suc (length (models c))) c s"

section \<open>Validation\<close>

record budget =
  node_budget :: int
  char_budget :: int

definition start_budget :: budget where
  "start_budget = \<lparr>node_budget = 100000, char_budget = 8 * 4 * 2 ^ 20\<rparr>"

text \<open>A \<open>TypeError\<close>, or a chain of references that never ends\<close>

datatype validation_error = Type_error | Endless_reference

type_synonym check = "(budget, validation_error, bool) act"

definition act_and :: "check \<Rightarrow> check \<Rightarrow> check" where
  "act_and a b = act_bind a (\<lambda>x. if x then b else act_return False)"

text \<open>\<open>xs.every(f)\<close>, \<open>xs.some(f)\<close>, \<open>xs.filter(f).length\<close>\<close>

fun act_every :: "('a \<Rightarrow> check) \<Rightarrow> 'a list \<Rightarrow> check" where
  "act_every f [] = act_return True"
| "act_every f (x # xs) = act_bind (f x) (\<lambda>r. if r then act_every f xs else act_return False)"

fun act_some :: "('a \<Rightarrow> check) \<Rightarrow> 'a list \<Rightarrow> check" where
  "act_some f [] = act_return False"
| "act_some f (x # xs) = act_bind (f x) (\<lambda>r. if r then act_return True else act_some f xs)"

fun act_count :: "('a \<Rightarrow> check) \<Rightarrow> 'a list \<Rightarrow> (budget, validation_error, nat) act" where
  "act_count f [] = act_return 0"
| "act_count f (x # xs) =
     act_bind (f x) (\<lambda>r. act_bind (act_count f xs) (\<lambda>n. act_return (if r then Suc n else n)))"

text \<open>\<open>for (const _ of data) { length++; if (--budget.chars < 0) return false; }\<close>\<close>

fun spend_chars :: "nat \<Rightarrow> check" where
  "spend_chars 0 b = (Inr True, b)"
| "spend_chars (Suc n) b =
     (let b = b\<lparr>char_budget := char_budget b - 1\<rparr>
      in if char_budget b < 0 then (Inr False, b) else spend_chars n b)"

definition spend_node :: check where
  "spend_node b = (let b = b\<lparr>node_budget := node_budget b - 1\<rparr> in (Inr (0 \<le> node_budget b), b))"

definition in_limits :: "'a::linorder option \<Rightarrow> 'a option \<Rightarrow> 'a \<Rightarrow> bool" where
  "in_limits lo hi x \<longleftrightarrow>
     (case lo of None \<Rightarrow> True | Some l \<Rightarrow> l \<le> x) \<and> (case hi of None \<Rightarrow> True | Some h \<Rightarrow> x \<le> h)"

text \<open>\<open>/[^A-Za-z0-9\-._~:/?#\[\]@!$&'()*+,;=%]/\<close> and \<open>/%(?![0-9A-Fa-f]{2})/\<close>\<close>

definition uri_units :: "16 word list" where
  "uri_units = units ''ABCDEFGHIJKLMNOPQRSTUVWXYZabcdefghijklmnopqrstuvwxyz0123456789-._~:/?#[]@!$&()*+,;=%'' @ [0x27]"

fun percent_escapes :: "js_text \<Rightarrow> bool" where
  "percent_escapes [] = True"
| "percent_escapes (c # s) =
     ((c = 0x25 \<longrightarrow> (case s of p # q # _ \<Rightarrow> hex_value p \<noteq> None \<and> hex_value q \<noteq> None | _ \<Rightarrow> False)) \<and>
      percent_escapes s)"

definition is_uri :: "contract \<Rightarrow> js_text \<Rightarrow> bool" where
  "is_uri c s \<longleftrightarrow> list_all (\<lambda>u. u \<in> set uri_units) s \<and> percent_escapes s \<and> parses_url c s"

definition format_is :: "schema_keywords \<Rightarrow> string \<Rightarrow> bool" where
  "format_is k f \<longleftrightarrow> sc_format k = Some (units f)"

definition check_string :: "contract \<Rightarrow> schema_keywords \<Rightarrow> jvalue \<Rightarrow> check" where
  "check_string c k v =
     (case v of VString s \<Rightarrow>
        if \<not> unicode s then act_return False
        else act_and (spend_chars (length (code_points s)))
          (act_return (in_limits (sc_minLength k) (sc_maxLength k) (length (code_points s)) \<and>
            (format_is k ''date-time'' \<longrightarrow> date_time s) \<and> (format_is k ''uri'' \<longrightarrow> is_uri c s)))
      | _ \<Rightarrow> act_return False)"

definition check_number :: "schema_keywords \<Rightarrow> bool \<Rightarrow> jvalue \<Rightarrow> bool" where
  "check_number k integer v =
     (case v of VNumber q \<Rightarrow>
        (integer \<longrightarrow> is_safe_int q) \<and>
        (format_is k ''int32'' \<longrightarrow> is_integer q \<and> - 2147483648 \<le> q \<and> q \<le> 2147483647) \<and>
        (case sc_minimum k of None \<Rightarrow> True | Some m \<Rightarrow> \<not> (q < m \<or> sc_exclusiveMinimum k \<and> q = m)) \<and>
        (case sc_maximum k of None \<Rightarrow> True | Some m \<Rightarrow> \<not> (m < q \<or> sc_exclusiveMaximum k \<and> q = m))
      | _ \<Rightarrow> False)"

text \<open>A field the direction hides: read-only in a request, write-only in a response.\<close>

definition hidden :: "direction \<Rightarrow> schema \<Rightarrow> bool" where
  "hidden d s \<longleftrightarrow> (d = Request \<and> sc_readOnly (keys_of s)) \<or> (d = Response \<and> sc_writeOnly (keys_of s))"

definition find_field :: "contract \<Rightarrow> schema option \<Rightarrow> (budget, validation_error, schema option) act" where
  "find_field c s =
     (case annotation c s of None \<Rightarrow> act_throw Endless_reference | Some f \<Rightarrow> act_return f)"

definition props_of :: "schema \<Rightarrow> (js_text \<times> schema) list" where
  "props_of s = (case properties_of s of None \<Rightarrow> [] | Some ps \<Rightarrow> ps)"

definition check_required :: "contract \<Rightarrow> direction \<Rightarrow> schema \<Rightarrow> (js_text \<times> jvalue) list \<Rightarrow> js_text \<Rightarrow> check" where
  "check_required c d s ps name =
     act_bind (find_field c (map_of (props_of s) name)) (\<lambda>f.
       if (case f of None \<Rightarrow> False | Some f \<Rightarrow> hidden d f) then act_return True
       else act_return (name \<in> set (map fst ps)))"

definition check_property ::
    "(schema option \<Rightarrow> jvalue \<Rightarrow> check) \<Rightarrow> contract \<Rightarrow> direction \<Rightarrow> schema \<Rightarrow> js_text \<times> jvalue \<Rightarrow> check" where
  "check_property val c d s p =
     (case map_of (props_of s) (fst p) of
        Some ps \<Rightarrow>
          act_bind (find_field c (Some ps)) (\<lambda>f.
            case f of None \<Rightarrow> act_throw Type_error
            | Some f \<Rightarrow> if hidden d f then act_return False else val (Some f) (snd p))
      | None \<Rightarrow>
          (case additional_of s of
             Allowed b \<Rightarrow> act_return b | Any_property \<Rightarrow> act_return True
           | Described a \<Rightarrow> val (Some a) (snd p)))"

definition check_object ::
    "(schema option \<Rightarrow> jvalue \<Rightarrow> check) \<Rightarrow> contract \<Rightarrow> direction \<Rightarrow> schema \<Rightarrow> jvalue \<Rightarrow> check" where
  "check_object val c d s v =
     (case v of VObject ps \<Rightarrow>
        if \<not> in_limits (sc_minProperties (keys_of s)) (sc_maxProperties (keys_of s)) (length ps) then act_return False
        else act_and
          (act_every (check_required c d s ps) (case sc_required (keys_of s) of None \<Rightarrow> [] | Some r \<Rightarrow> r))
          (act_every (check_property val c d s) ps)
      | _ \<Rightarrow> act_return False)"

definition check_array :: "(schema option \<Rightarrow> jvalue \<Rightarrow> check) \<Rightarrow> schema \<Rightarrow> jvalue \<Rightarrow> check" where
  "check_array val s v =
     (case v of VArray vs \<Rightarrow>
        if \<not> in_limits (sc_minItems (keys_of s)) (sc_maxItems (keys_of s)) (length vs) then act_return False
        else act_every (val (items_of s)) vs
      | _ \<Rightarrow> act_return False)"

text \<open>The checks of one type, once the combinations and the enumeration have passed\<close>

definition check_type ::
    "(schema option \<Rightarrow> jvalue \<Rightarrow> check) \<Rightarrow> contract \<Rightarrow> direction \<Rightarrow> schema \<Rightarrow> jvalue \<Rightarrow> check" where
  "check_type val c d s v =
     (let k = keys_of s; type = sc_type k
      in if v = VNull then act_return (type = None \<or> sc_nullable k)
         else if type = Some (units ''string'') then check_string c k v
         else if type = Some (units ''number'') \<or> type = Some (units ''integer'')
           then act_return (check_number k (type = Some (units ''integer'')) v)
         else if type = Some (units ''boolean'') then act_return (case v of VBool _ \<Rightarrow> True | _ \<Rightarrow> False)
         else if type = Some (units ''array'') then check_array val s v
         else if type = Some (units ''object'') then check_object val c d s v
         else act_return True)"

definition in_enum :: "contract \<Rightarrow> schema \<Rightarrow> jvalue \<Rightarrow> bool" where
  "in_enum c s v =
     (case sc_enum (keys_of s) of None \<Rightarrow> True
      | Some vs \<Rightarrow> list_ex (\<lambda>x. stringify (fraction_text c) x = stringify (fraction_text c) v) vs)"

definition check_combinations :: "(schema option \<Rightarrow> jvalue \<Rightarrow> check) \<Rightarrow> schema \<Rightarrow> jvalue \<Rightarrow> check" where
  "check_combinations val s v =
     act_and (case all_of s of None \<Rightarrow> act_return True | Some ss \<Rightarrow> act_every (\<lambda>x. val (Some x) v) ss)
     (act_and (case any_of s of None \<Rightarrow> act_return True | Some ss \<Rightarrow> act_some (\<lambda>x. val (Some x) v) ss)
       (case one_of s of None \<Rightarrow> act_return True
        | Some ss \<Rightarrow> act_bind (act_count (\<lambda>x. val (Some x) v) ss) (\<lambda>n. act_return (n = 1))))"

text \<open>\<open>validate(schema, data, direction, depth)\<close>, with the levels still allowed: \<open>49 - depth\<close>\<close>

fun validate :: "nat \<Rightarrow> contract \<Rightarrow> direction \<Rightarrow> schema option \<Rightarrow> jvalue \<Rightarrow> check" where
  "validate 0 c d s v = act_return False"
| "validate (Suc k) c d s v =
     (case s of None \<Rightarrow> act_return False
      | Some s \<Rightarrow>
          act_and spend_node
            (case ref_of s of Some r \<Rightarrow> validate k c d (model_of c r) v
             | None \<Rightarrow>
                 act_and (check_combinations (validate k c d) s v)
                   (if in_enum c s v then check_type (validate k c d) c d s v else act_return False)))"

definition validates :: "contract \<Rightarrow> direction \<Rightarrow> schema option \<Rightarrow> jvalue option \<Rightarrow> validation_error + bool" where
  "validates c d s v = (case v of None \<Rightarrow> Inr False | Some v \<Rightarrow> fst (validate 49 c d s v start_budget))"

section \<open>Chains of references\<close>

lemma follow_None: "follow n c None = Some None"
  by (cases n) simp_all

lemma follow_more: "follow n c s = Some f \<Longrightarrow> follow (n + m) c s = Some f"
proof (induction n c s rule: follow.induct)
  case (1 c s)
  then show ?case by (cases m) (auto split: option.splits)
next
  case (2 n c s)
  then show ?case by (auto split: option.splits)
qed

text \<open>The steps a chain takes; each model on it has its own number of steps left.\<close>

definition ends_in :: "contract \<Rightarrow> nat \<Rightarrow> schema option \<Rightarrow> bool" where
  "ends_in c n s \<longleftrightarrow> follow n c s \<noteq> None \<and> (\<forall>m < n. follow m c s = None)"

lemma ends_in_least: "follow n c s \<noteq> None \<Longrightarrow> \<exists>m \<le> n. ends_in c m s"
proof -
  assume f: "follow n c s \<noteq> None"
  let ?m = "LEAST m. follow m c s \<noteq> None"
  have "ends_in c ?m s" unfolding ends_in_def
    using LeastI [of "\<lambda>m. follow m c s \<noteq> None", OF f] not_less_Least [of _ "\<lambda>m. follow m c s \<noteq> None"] by blast
  moreover have "?m \<le> n" using f by (rule Least_le)
  ultimately show ?thesis by blast
qed

lemma ends_in_unique: "ends_in c m s \<Longrightarrow> ends_in c n s \<Longrightarrow> m = n"
  unfolding ends_in_def by (metis linorder_neqE_nat)

lemma ends_in_step:
  assumes e: "ends_in c (Suc n) (Some s)"
  shows "\<exists>r. ref_of s = Some r \<and> ends_in c n (model_of c r)"
proof -
  have early: "follow m c (Some s) = None" if "m \<le> n" for m
    using e that unfolding ends_in_def by simp
  have none: "follow 0 c (Some s) = None" by (rule early) simp
  then obtain r where r: "ref_of s = Some r" by (cases "ref_of s") auto
  then have step: "follow (Suc m) c (Some s) = follow m c (model_of c r)" for m by simp
  have "follow m c (model_of c r) = None" if "m < n" for m
    using early [of "Suc m"] that step [of m] by simp
  moreover have "follow (Suc n) c (Some s) \<noteq> None" using e unfolding ends_in_def by (rule conjunct1)
  ultimately have "ends_in c n (model_of c r)" unfolding ends_in_def step by simp
  then show ?thesis using r by simp
qed

lemma model_of_models: "model_of c r \<in> insert None (Some ` set (map snd (models c)))"
proof (cases "model_of c r")
  case (Some s)
  then have "s \<in> set (map snd (models c))" unfolding model_of_def by (force dest: map_of_SomeD)
  then show ?thesis using Some by simp
qed simp

lemma ends_in_models:
  "ends_in c n s \<Longrightarrow> m < n \<Longrightarrow> \<exists>t. t \<in> insert None (Some ` set (map snd (models c))) \<and> ends_in c m t"
proof (induction n arbitrary: s)
  case (Suc n)
  have "\<not> ends_in c (Suc n) None" unfolding ends_in_def by (metis follow_None option.simps(3) zero_less_Suc)
  then obtain s' where s: "s = Some s'" using Suc.prems(1) by (cases s) simp_all
  obtain r where r: "ends_in c n (model_of c r)" using ends_in_step [OF Suc.prems(1) [unfolded s]] by blast
  show ?case
  proof (cases "m = n")
    case True
    then show ?thesis using r model_of_models by blast
  next
    case False
    then show ?thesis using Suc.IH [OF r] Suc.prems(2) by simp
  qed
qed simp

lemma distinct_values_bound:
  fixes n :: nat
  assumes "finite M" "\<And>m. m < n \<Longrightarrow> f m \<in> M" "\<And>i j. i < n \<Longrightarrow> j < n \<Longrightarrow> f i = f j \<Longrightarrow> i = j"
  shows "n \<le> card M"
proof -
  have "inj_on f {..<n}" using assms(3) by (auto intro!: inj_onI)
  moreover have "f ` {..<n} \<subseteq> M" using assms(2) by auto
  ultimately have "card {..<n} \<le> card M" using assms(1) by (intro card_inj_on_le)
  then show ?thesis by simp
qed

lemma models_card: "card (insert None (Some ` set (map snd (models c)))) \<le> Suc (length (models c))"
proof -
  have "card (Some ` set (map snd (models c))) \<le> card (set (map snd (models c)))"
    by (rule card_image_le) (rule finite_set)
  also have "\<dots> \<le> length (map snd (models c))" by (rule card_length)
  finally show ?thesis by (simp add: card_insert_if)
qed

lemma ends_in_bound:
  assumes e: "ends_in c n s"
  shows "n \<le> Suc (length (models c))"
proof -
  let ?M = "insert None (Some ` set (map snd (models c)))"
  define f where "f m = (SOME t. t \<in> ?M \<and> ends_in c m t)" for m
  have f: "f m \<in> ?M \<and> ends_in c m (f m)" if "m < n" for m
    unfolding f_def by (rule someI_ex) (rule ends_in_models [OF e that])
  have "n \<le> card ?M"
  proof (rule distinct_values_bound)
    show "finite ?M" by simp
    show "f m \<in> ?M" if "m < n" for m using f [OF that] by (rule conjunct1)
    show "i = j" if ij: "i < n" "j < n" "f i = f j" for i j
    proof (rule ends_in_unique)
      show "ends_in c i (f i)" using f [OF ij(1)] by (rule conjunct2)
      show "ends_in c j (f i)" unfolding ij(3) using f [OF ij(2)] by (rule conjunct2)
    qed
  qed
  then show ?thesis using models_card by (rule le_trans)
qed

text \<open>
  The fuel of the model of \<open>annotation\<close> is enough: a chain of references that ends, after any
  number of steps, ends within the fuel and gives the same schema, so the model gives no schema only
  where the code's loop runs forever.
\<close>
lemma reference_chains_are_followed:
  "follow n c s = Some f \<Longrightarrow> annotation c s = Some f"
proof -
  assume f: "follow n c s = Some f"
  obtain m where m: "m \<le> n" "ends_in c m s" using ends_in_least [of n c s] f by auto
  obtain g where g: "follow m c s = Some g" using m(2) by (auto simp: ends_in_def)
  have "g = f" using follow_more [OF g, of "n - m"] m(1) f by simp
  then show ?thesis
    using follow_more [OF g, of "Suc (length (models c)) - m"] ends_in_bound [OF m(2)]
    by (simp add: annotation_def del: follow.simps)
qed

section \<open>Conformance\<close>

text \<open>
  What the contract means, without a budget: the reference the validator is measured against. A field
  is looked up through its references, and one that resolves to nothing conforms to nothing.
\<close>

definition resolved :: "contract \<Rightarrow> schema option \<Rightarrow> schema option" where
  "resolved c s = (case annotation c s of None \<Rightarrow> None | Some f \<Rightarrow> f)"

definition required_conforms :: "contract \<Rightarrow> direction \<Rightarrow> schema \<Rightarrow> (js_text \<times> jvalue) list \<Rightarrow> js_text \<Rightarrow> bool" where
  "required_conforms c d s ps name \<longleftrightarrow>
     (case resolved c (map_of (props_of s) name) of None \<Rightarrow> False | Some f \<Rightarrow> hidden d f) \<or> name \<in> set (map fst ps)"

definition property_conforms ::
    "(schema option \<Rightarrow> jvalue \<Rightarrow> bool) \<Rightarrow> contract \<Rightarrow> direction \<Rightarrow> schema \<Rightarrow> js_text \<times> jvalue \<Rightarrow> bool" where
  "property_conforms ok c d s p =
     (case map_of (props_of s) (fst p) of
        Some ps \<Rightarrow> (case resolved c (Some ps) of None \<Rightarrow> False | Some f \<Rightarrow> \<not> hidden d f \<and> ok (Some f) (snd p))
      | None \<Rightarrow>
          (case additional_of s of Allowed b \<Rightarrow> b | Any_property \<Rightarrow> True | Described a \<Rightarrow> ok (Some a) (snd p)))"

definition type_conforms ::
    "(schema option \<Rightarrow> jvalue \<Rightarrow> bool) \<Rightarrow> contract \<Rightarrow> direction \<Rightarrow> schema \<Rightarrow> jvalue \<Rightarrow> bool" where
  "type_conforms ok c d s v =
     (let k = keys_of s; type = sc_type k
      in if v = VNull then type = None \<or> sc_nullable k
         else if type = Some (units ''string'') then
           (case v of VString t \<Rightarrow>
              unicode t \<and> in_limits (sc_minLength k) (sc_maxLength k) (length (code_points t)) \<and>
              (format_is k ''date-time'' \<longrightarrow> date_time t) \<and> (format_is k ''uri'' \<longrightarrow> is_uri c t)
            | _ \<Rightarrow> False)
         else if type = Some (units ''number'') \<or> type = Some (units ''integer'')
           then check_number k (type = Some (units ''integer'')) v
         else if type = Some (units ''boolean'') then (case v of VBool _ \<Rightarrow> True | _ \<Rightarrow> False)
         else if type = Some (units ''array'') then
           (case v of VArray vs \<Rightarrow> in_limits (sc_minItems k) (sc_maxItems k) (length vs) \<and> list_all (ok (items_of s)) vs
            | _ \<Rightarrow> False)
         else if type = Some (units ''object'') then
           (case v of VObject ps \<Rightarrow>
              in_limits (sc_minProperties k) (sc_maxProperties k) (length ps) \<and>
              list_all (required_conforms c d s ps) (case sc_required k of None \<Rightarrow> [] | Some r \<Rightarrow> r) \<and>
              list_all (property_conforms ok c d s) ps
            | _ \<Rightarrow> False)
         else True)"

definition combinations_conform :: "(schema option \<Rightarrow> jvalue \<Rightarrow> bool) \<Rightarrow> schema \<Rightarrow> jvalue \<Rightarrow> bool" where
  "combinations_conform ok s v \<longleftrightarrow>
     (case all_of s of None \<Rightarrow> True | Some ss \<Rightarrow> list_all (\<lambda>x. ok (Some x) v) ss) \<and>
     (case any_of s of None \<Rightarrow> True | Some ss \<Rightarrow> list_ex (\<lambda>x. ok (Some x) v) ss) \<and>
     (case one_of s of None \<Rightarrow> True | Some ss \<Rightarrow> length (filter (\<lambda>x. ok (Some x) v) ss) = 1)"

fun conforms :: "nat \<Rightarrow> contract \<Rightarrow> direction \<Rightarrow> schema option \<Rightarrow> jvalue \<Rightarrow> bool" where
  "conforms 0 c d s v = False"
| "conforms (Suc k) c d s v =
     (case s of None \<Rightarrow> False
      | Some s \<Rightarrow>
          (case ref_of s of Some r \<Rightarrow> conforms k c d (model_of c r) v
           | None \<Rightarrow>
               combinations_conform (conforms k c d) s v \<and> in_enum c s v \<and> type_conforms (conforms k c d) c d s v))"

section \<open>The budget\<close>

text \<open>
  The contract of a check that shares a budget: it never gives any of it back, and unless the budget
  was overdrawn its result is the one it stands for.
\<close>

definition solvent :: "budget \<Rightarrow> bool" where
  "solvent b \<longleftrightarrow> 0 \<le> node_budget b \<and> 0 \<le> char_budget b"

definition spends :: "(budget, 'e, 'a) act \<Rightarrow> bool" where
  "spends m \<longleftrightarrow> (\<forall>b x b'. m b = (x, b') \<longrightarrow> node_budget b' \<le> node_budget b \<and> char_budget b' \<le> char_budget b)"

definition means :: "(budget, 'e, 'a) act \<Rightarrow> 'a \<Rightarrow> bool" where
  "means m r \<longleftrightarrow> spends m \<and> (\<forall>b x b'. m b = (Inr x, b') \<longrightarrow> solvent b' \<longrightarrow> x = r)"

named_theorems budget_rules \<open>rules for checks under a budget\<close>

lemma means_spends: "means m r \<Longrightarrow> spends m"
  by (simp add: means_def)

lemma spends_solvent: "spends m \<Longrightarrow> m b = (x, b') \<Longrightarrow> solvent b' \<Longrightarrow> solvent b"
  unfolding spends_def solvent_def by (metis order_trans)

lemma means_return [budget_rules]: "means (act_return r) r"
  by (simp add: means_def spends_def act_return_def)

lemma means_throw: "means (act_throw e) r"
  by (simp add: means_def spends_def act_throw_def)

lemma means_eq: "means m p \<Longrightarrow> p = q \<Longrightarrow> means m q" by simp

lemma means_if: "means a p \<Longrightarrow> means b q \<Longrightarrow> means (if c then a else b) (if c then p else q)" by simp

lemma spends_bind:
  assumes "spends m" "\<And>x. spends (k x)"
  shows "spends (act_bind m k)"
  unfolding spends_def
proof (intro allI impI)
  fix b x b'
  assume run: "act_bind m k b = (x, b')"
  obtain y b1 where m: "m b = (y, b1)" by (cases "m b")
  have 1: "node_budget b1 \<le> node_budget b \<and> char_budget b1 \<le> char_budget b"
    using assms(1) m by (auto simp: spends_def)
  have 2: "node_budget b' \<le> node_budget b1 \<and> char_budget b' \<le> char_budget b1"
    using run m assms(2) by (cases y) (auto simp: act_bind_def spends_def)
  from 1 2 show "node_budget b' \<le> node_budget b \<and> char_budget b' \<le> char_budget b" by auto
qed

lemma means_bind:
  assumes "means m r" "\<And>x. spends (k x)" "means (k r) q"
  shows "means (act_bind m k) q"
  unfolding means_def
proof (intro conjI allI impI)
  show "spends (act_bind m k)" using assms(1,2) by (intro spends_bind) (simp_all add: means_spends)
  fix b x b'
  assume run: "act_bind m k b = (Inr x, b')" and s: "solvent b'"
  obtain y b1 where m: "m b = (Inr y, b1)" and k: "k y b1 = (Inr x, b')"
    using run by (auto simp: act_bind_Inr)
  have "solvent b1" using spends_solvent [OF assms(2) k s] .
  then have "y = r" using assms(1) m by (auto simp: means_def)
  then show "x = q" using assms(3) k s by (auto simp: means_def)
qed

lemma means_and [budget_rules]: "means m p \<Longrightarrow> means n q \<Longrightarrow> means (act_and m n) (p \<and> q)"
  unfolding act_and_def
  by (rule means_bind) (auto intro: means_spends means_return)

lemma means_every [budget_rules]: "(\<And>x. x \<in> set xs \<Longrightarrow> means (f x) (P x)) \<Longrightarrow> means (act_every f xs) (list_all P xs)"
proof (induction xs)
  case (Cons x xs)
  then have IH: "means (act_every f xs) (list_all P xs)" and x: "means (f x) (P x)" by simp_all
  show ?case unfolding act_every.simps
    by (rule means_bind [OF x]) (auto intro: means_spends means_return IH)
qed (simp add: means_return)

lemma means_some [budget_rules]: "(\<And>x. x \<in> set xs \<Longrightarrow> means (f x) (P x)) \<Longrightarrow> means (act_some f xs) (list_ex P xs)"
proof (induction xs)
  case (Cons x xs)
  then have IH: "means (act_some f xs) (list_ex P xs)" and x: "means (f x) (P x)" by simp_all
  show ?case unfolding act_some.simps
    by (rule means_bind [OF x]) (auto intro: means_spends means_return IH)
qed (simp add: means_return)

lemma means_count: "(\<And>x. x \<in> set xs \<Longrightarrow> means (f x) (P x)) \<Longrightarrow> means (act_count f xs) (length (filter P xs))"
proof (induction xs)
  case (Cons x xs)
  then have IH: "means (act_count f xs) (length (filter P xs))" and x: "means (f x) (P x)" by simp_all
  have rest: "means (act_bind (act_count f xs) (\<lambda>n. act_return (if r then Suc n else n)))
      (if r then Suc (length (filter P xs)) else length (filter P xs))" for r
    by (rule means_bind [OF IH]) (auto intro: means_spends means_return)
  have "means (act_bind (f x) (\<lambda>r. act_bind (act_count f xs) (\<lambda>n. act_return (if r then Suc n else n))))
      (if P x then Suc (length (filter P xs)) else length (filter P xs))"
    by (rule means_bind [OF x means_spends [OF rest] rest])
  then show ?case unfolding act_count.simps by (rule means_eq) simp
qed (simp add: means_return)

lemma means_spend_chars [budget_rules]: "means (spend_chars n) True"
proof (induction n)
  case (Suc n)
  then show ?case
    by (force simp: means_def spends_def solvent_def Let_def split: if_splits)
qed (simp add: means_def spends_def)

lemma means_spend_node [budget_rules]: "means spend_node True"
  by (auto simp: means_def spends_def solvent_def spend_node_def Let_def)


lemma act_bind_throw [simp]: "act_bind (act_throw e) k = act_throw e"
  by (simp add: act_bind_def act_throw_def)

lemma act_and_True [simp]: "act_and (act_return True) m = m" "act_and (act_return False) m = act_return False"
  by (simp_all add: act_and_def)

lemma means_required: "means (check_required c d s ps name) (required_conforms c d s ps name)"
  unfolding check_required_def find_field_def required_conforms_def resolved_def
  by (auto intro: means_throw means_return means_eq split: option.split)

lemma means_property:
  assumes "\<And>s v. means (val s v) (ok s v)"
  shows "means (check_property val c d s p) (property_conforms ok c d s p)"
  unfolding check_property_def find_field_def property_conforms_def resolved_def
  by (auto intro: means_throw means_return assms means_eq split: option.split additional.split)

lemma means_object:
  assumes "\<And>s v. means (val s v) (ok s v)"
  shows "means (check_object val c d s v)
    (case v of VObject ps \<Rightarrow>
       in_limits (sc_minProperties (keys_of s)) (sc_maxProperties (keys_of s)) (length ps) \<and>
       list_all (required_conforms c d s ps) (case sc_required (keys_of s) of None \<Rightarrow> [] | Some r \<Rightarrow> r) \<and>
       list_all (property_conforms ok c d s) ps
     | _ \<Rightarrow> False)"
proof (cases v)
  case (VObject ps)
  show ?thesis
  proof (cases "in_limits (sc_minProperties (keys_of s)) (sc_maxProperties (keys_of s)) (length ps)")
    case True
    then show ?thesis unfolding check_object_def VObject
      by (simp only: jvalue.case not_True_eq_False if_False simp_thms)
        (intro means_and means_every means_required means_property assms)
  qed (simp add: check_object_def VObject means_return)
qed (simp_all add: check_object_def means_return)

lemma means_array:
  assumes "\<And>s v. means (val s v) (ok s v)"
  shows "means (check_array val s v)
    (case v of VArray vs \<Rightarrow>
       in_limits (sc_minItems (keys_of s)) (sc_maxItems (keys_of s)) (length vs) \<and> list_all (ok (items_of s)) vs
     | _ \<Rightarrow> False)"
  by (cases v) (auto simp: check_array_def intro!: means_return means_every assms)

lemma means_string:
  "means (check_string c k v)
    (case v of VString t \<Rightarrow>
       unicode t \<and> in_limits (sc_minLength k) (sc_maxLength k) (length (code_points t)) \<and>
       (format_is k ''date-time'' \<longrightarrow> date_time t) \<and> (format_is k ''uri'' \<longrightarrow> is_uri c t)
     | _ \<Rightarrow> False)"
proof (cases v)
  case (VString t)
  show ?thesis
  proof (cases "unicode t")
    case True
    show ?thesis unfolding check_string_def VString
      by (rule means_eq, simp only: jvalue.case True not_True_eq_False if_False,
          rule means_and, rule means_spend_chars, rule means_return) (simp add: True)
  qed (simp add: check_string_def VString means_return)
qed (simp_all add: check_string_def means_return)

lemma means_type:
  assumes "\<And>s v. means (val s v) (ok s v)"
  shows "means (check_type val c d s v) (type_conforms ok c d s v)"
  unfolding check_type_def type_conforms_def Let_def
  by (intro means_if means_return means_string means_array means_object assms)

lemma means_combinations:
  assumes "\<And>s v. means (val s v) (ok s v)"
  shows "means (check_combinations val s v) (combinations_conform ok s v)"
  unfolding check_combinations_def combinations_conform_def
proof (intro means_and)
  show "means (case all_of s of None \<Rightarrow> act_return True | Some ss \<Rightarrow> act_every (\<lambda>x. val (Some x) v) ss)
      (case all_of s of None \<Rightarrow> True | Some ss \<Rightarrow> list_all (\<lambda>x. ok (Some x) v) ss)"
    by (auto intro: means_return means_every assms split: option.split)
  show "means (case any_of s of None \<Rightarrow> act_return True | Some ss \<Rightarrow> act_some (\<lambda>x. val (Some x) v) ss)
      (case any_of s of None \<Rightarrow> True | Some ss \<Rightarrow> list_ex (\<lambda>x. ok (Some x) v) ss)"
    by (auto intro: means_return means_some assms split: option.split)
  show "means (case one_of s of None \<Rightarrow> act_return True
        | Some ss \<Rightarrow> act_bind (act_count (\<lambda>x. val (Some x) v) ss) (\<lambda>n. act_return (n = 1)))
      (case one_of s of None \<Rightarrow> True | Some ss \<Rightarrow> length (filter (\<lambda>x. ok (Some x) v) ss) = 1)"
  proof (cases "one_of s")
    case (Some ss)
    have "means (act_count (\<lambda>x. val (Some x) v) ss) (length (filter (\<lambda>x. ok (Some x) v) ss))"
      by (rule means_count) (rule assms)
    then show ?thesis unfolding Some option.case
      by (rule means_bind) (rule means_spends [OF means_return], rule means_return)
  qed (simp add: means_return)
qed

lemma means_validate: "means (validate k c d s v) (conforms k c d s v)"
proof (induction k arbitrary: s v)
  case (Suc k)
  show ?case
  proof (cases s)
    case (Some s')
    have rest: "means (case ref_of s' of Some r \<Rightarrow> validate k c d (model_of c r) v
        | None \<Rightarrow> act_and (check_combinations (validate k c d) s' v)
            (if in_enum c s' v then check_type (validate k c d) c d s' v else act_return False))
      (conforms (Suc k) c d (Some s') v)"
    proof (cases "ref_of s'")
      case None
      have "means (if in_enum c s' v then check_type (validate k c d) c d s' v else act_return False)
          (in_enum c s' v \<and> type_conforms (conforms k c d) c d s' v)"
        using means_type [where val = "validate k c d" and ok = "conforms k c d" and c = c and d = d, OF Suc]
        by (simp add: means_return)
      then show ?thesis unfolding conforms.simps None option.case
        by (rule means_and [OF means_combinations [OF Suc]])
    qed (simp add: Suc)
    have "means (validate (Suc k) c d (Some s') v) (True \<and> conforms (Suc k) c d (Some s') v)"
      unfolding validate.simps option.case by (rule means_and [OF means_spend_node rest])
    then show ?thesis using Some by simp
  qed (simp add: means_return)
qed (simp add: means_return)


definition no_keywords :: schema_keywords where
  "no_keywords = \<lparr>sc_ref = None, sc_enum = None, sc_type = None, sc_nullable = False, sc_minLength = None,
     sc_maxLength = None, sc_format = None, sc_minimum = None, sc_exclusiveMinimum = False, sc_maximum = None,
     sc_exclusiveMaximum = False, sc_minItems = None, sc_maxItems = None, sc_minProperties = None,
     sc_maxProperties = None, sc_required = None, sc_readOnly = False, sc_writeOnly = False\<rparr>"

definition plain_schema :: "schema_keywords \<Rightarrow> schema" where
  "plain_schema k = Schema k None None None None None Any_property"

definition example_contract :: contract where
  "example_contract =
     \<lparr>models = [(units ''Role'', plain_schema (no_keywords\<lparr>sc_type := Some (units ''string''), sc_enum := Some [VString (units ''user'')]\<rparr>))],
      fraction_text = (\<lambda>_. []), parses_url = (\<lambda>_. False)\<rparr>"

definition example_schema :: schema where
  "example_schema = Schema (no_keywords\<lparr>sc_type := Some (units ''object''), sc_required := Some [units ''role'', units ''id'']\<rparr>)
     None None None None
     (Some [(units ''role'', plain_schema (no_keywords\<lparr>sc_ref := Some (units ''#/components/schemas/Role'')\<rparr>)),
            (units ''id'', plain_schema (no_keywords\<lparr>sc_type := Some (units ''string''), sc_readOnly := True\<rparr>))])
     (Allowed False)"

definition example_value :: jvalue where
  "example_value = VObject [(units ''role'', VString (units ''user''))]"

lemma example_validates:
  "validate 49 example_contract Request (Some example_schema) example_value start_budget =
     (Inr True, \<lparr>node_budget = 99998, char_budget = 33554428\<rparr>)"
  by code_simp


section \<open>What an accepted object holds\<close>

lemma act_and_True_iff: "act_and m n b = (Inr True, b') \<longleftrightarrow> (\<exists>b1. m b = (Inr True, b1) \<and> n b1 = (Inr True, b'))"
  by (auto simp: act_and_def act_bind_def act_return_def split: sum.splits prod.splits if_splits)

lemma act_every_True: "act_every f xs b = (Inr True, b') \<Longrightarrow> x \<in> set xs \<Longrightarrow> \<exists>c c'. f x c = (Inr True, c')"
proof (induction xs arbitrary: b)
  case (Cons y ys)
  then obtain c where c: "f y b = (Inr True, c)" "act_every f ys c = (Inr True, b')"
    by (auto simp: act_bind_def act_return_def split: sum.splits prod.splits if_splits)
  then show ?case using Cons.IH [OF c(2)] Cons.prems(2) by auto
qed simp

lemma check_required_True:
  "check_required c d s ps name b = (Inr True, b') \<Longrightarrow> required_conforms c d s ps name"
  by (auto simp: check_required_def find_field_def required_conforms_def resolved_def act_simps
      split: option.splits if_splits)

definition visible_property :: "contract \<Rightarrow> direction \<Rightarrow> schema \<Rightarrow> js_text \<Rightarrow> bool" where
  "visible_property c d s name \<longleftrightarrow>
     (case map_of (props_of s) name of
        Some p \<Rightarrow> (case resolved c (Some p) of None \<Rightarrow> False | Some f \<Rightarrow> \<not> hidden d f)
      | None \<Rightarrow> additional_of s \<noteq> Allowed False)"

lemma check_property_True:
  "check_property val c d s p b = (Inr True, b') \<Longrightarrow> visible_property c d s (fst p)"
  by (auto simp: check_property_def find_field_def visible_property_def resolved_def act_simps
      split: option.splits if_splits additional.splits)

text \<open>
  Whatever the budget, an object the validator accepts against an object schema holds no
  property its direction hides (a read-only one in a request, a write-only one in a response), none the
  schema forbids, and every required one that is not hidden.
\<close>
lemma accepted_object_hides_nothing:
  assumes "validates c d (Some s) (Some v) = Inr True" "ref_of s = None"
    "sc_type (keys_of s) = Some (units ''object'')" "v \<noteq> VNull"
  shows "case v of VObject ps \<Rightarrow>
      list_all (visible_property c d s \<circ> fst) ps \<and>
      list_all (required_conforms c d s ps) (case sc_required (keys_of s) of None \<Rightarrow> [] | Some r \<Rightarrow> r)
    | _ \<Rightarrow> False"
proof -
  obtain b where "validate (Suc 48) c d (Some s) v start_budget = (Inr True, b)"
    using assms(1) by (cases "validate 49 c d (Some s) v start_budget") (simp add: validates_def)
  then obtain b1 where t: "check_type (validate 48 c d) c d s v b1 = (Inr True, b)"
    using assms(2) unfolding validate.simps option.case
    by (auto simp: act_and_True_iff act_return_def simp del: validate.simps split: if_splits)
  have type: "units ''object'' \<noteq> units ''string''" "units ''object'' \<noteq> units ''number''"
    "units ''object'' \<noteq> units ''integer''" "units ''object'' \<noteq> units ''boolean''" "units ''object'' \<noteq> units ''array''"
    by code_simp+
  have o: "check_object (validate 48 c d) c d s v b1 = (Inr True, b)"
    using t assms(3,4) type by (simp add: check_type_def del: units_simps validate.simps)
  show ?thesis
  proof (cases v)
    case (VObject ps)
    obtain b2 where "act_every (check_required c d s ps) (case sc_required (keys_of s) of None \<Rightarrow> [] | Some r \<Rightarrow> r) b1 = (Inr True, b2)"
      "act_every (check_property (validate 48 c d) c d s) ps b2 = (Inr True, b)"
      using o by (auto simp: check_object_def VObject act_and_True_iff act_return_def simp del: validate.simps split: if_splits)
    note every = act_every_True [OF this(1)] act_every_True [OF this(2)]
    have "list_all (visible_property c d s \<circ> fst) ps"
      using every(2) by (auto simp: list_all_iff simp del: validate.simps dest: check_property_True)
    moreover have "list_all (required_conforms c d s ps) (case sc_required (keys_of s) of None \<Rightarrow> [] | Some r \<Rightarrow> r)"
      unfolding list_all_iff using every(1) check_required_True by blast
    ultimately show ?thesis unfolding VObject by simp
  qed (use o in \<open>simp_all add: check_object_def act_return_def\<close>)
qed

lemma accepted_object_hides_nothing_witness:
  "list_all (visible_property example_contract Request example_schema \<circ> fst) [(units ''role'', VString (units ''user''))]"
proof -
  have "case example_value of VObject ps \<Rightarrow>
      list_all (visible_property example_contract Request example_schema \<circ> fst) ps \<and>
      list_all (required_conforms example_contract Request example_schema ps)
        (case sc_required (keys_of example_schema) of None \<Rightarrow> [] | Some r \<Rightarrow> r)
    | _ \<Rightarrow> False"
  proof (rule accepted_object_hides_nothing)
    show "validates example_contract Request (Some example_schema) (Some example_value) = Inr True"
      unfolding validates_def option.case example_validates by simp
  qed code_simp+
  then show ?thesis by (simp only: example_value_def jvalue.case)
qed

end
