(* ===== verification/Browser_Input.thy ===== *)
theory Browser_Input
  imports Browser_Encode
begin

text \<open>
  The inputs a caller hands to the browser session client: \<open>boundedInput\<close> of
  \<open>src/console/out/browser/sessionclient/index.js\<close>, which refuses what \<open>JSON.stringify\<close> would drop, change
  or write without bound. An input is what the check can tell apart: its type, its own enumerable
  properties and whether its prototype is a plain one. Getters and proxies are not modelled.
\<close>

text \<open>
  \<open>IOther\<close> is \<open>undefined\<close>, a function, a symbol or a bigint; \<open>INumber None\<close> is \<open>NaN\<close> or an infinity; an
  array has its elements, \<open>IHole\<close> for an absent one, and its further properties.
\<close>

datatype js_input =
    IOther
  | IHole
  | INull
  | IBool bool
  | INumber "rat option"
  | IString js_text
  | IArray "js_input list" "(js_text \<times> js_input) list"
  | IObject bool "(js_text \<times> js_input) list"

record input_count =
  seen_nodes :: nat
  seen_text :: nat

definition max_request :: nat where "max_request = 2 ^ 20"

type_synonym input_check = "(input_count, unit, unit) act"

text \<open>\<open>count.text += s.length; if (count.text > maxRequest || !unicode(s)) fail("invalid_input")\<close>\<close>

definition count_input_text :: "js_text \<Rightarrow> input_check" where
  "count_input_text s c =
     (let c = c\<lparr>seen_text := seen_text c + length s\<rparr>
      in if max_request < seen_text c \<or> \<not> unicode s then (Inl (), c) else (Inr (), c))"

definition count_input_node :: input_check where
  "count_input_node c =
     (let c = c\<lparr>seen_nodes := seen_nodes c + 1\<rparr> in if 10000 < seen_nodes c then (Inl (), c) else (Inr (), c))"

fun check_members :: "(js_input \<Rightarrow> input_check) \<Rightarrow> (js_text \<times> js_input) list \<Rightarrow> input_check" where
  "check_members f [] = act_return ()"
| "check_members f (p # ps) =
     act_bind (count_input_text (fst p)) (\<lambda>_. act_bind (f (snd p)) (\<lambda>_. check_members f ps))"

text \<open>The enumerable properties of an array: its elements under their indices, then the others.\<close>

definition array_members :: "js_input list \<Rightarrow> (js_text \<times> js_input) list" where
  "array_members es =
     filter (\<lambda>p. snd p \<noteq> IHole) (map (\<lambda>i. (units (decimal i), es ! i)) [0..<length es])"

text \<open>\<open>boundedInput(value, depth)\<close>, with the levels still allowed: \<open>33 - depth\<close>\<close>

fun bounded_input :: "nat \<Rightarrow> js_input \<Rightarrow> input_check" where
  "bounded_input 0 v = act_throw ()"
| "bounded_input (Suc k) v =
     act_bind count_input_node (\<lambda>_.
       case v of
         INull \<Rightarrow> act_return ()
       | IBool b \<Rightarrow> act_return ()
       | IString s \<Rightarrow> count_input_text s
       | INumber None \<Rightarrow> act_throw ()
       | INumber (Some q) \<Rightarrow> if is_integer q \<and> \<not> is_safe_int q then act_throw () else act_return ()
       | IOther \<Rightarrow> act_throw ()
       | IHole \<Rightarrow> act_throw ()
       | IObject plain ps \<Rightarrow> if \<not> plain then act_throw () else check_members (bounded_input k) ps
       | IArray es ps \<Rightarrow>
           if 10000 < length es \<or> length (array_members es @ ps) \<noteq> length es then act_throw ()
           else if IHole \<in> set es then act_throw ()
           else check_members (bounded_input k) (array_members es @ ps))"

definition accepts_input :: "js_input \<Rightarrow> bool" where
  "accepts_input v \<longleftrightarrow> fst (bounded_input 33 v \<lparr>seen_nodes = 0, seen_text = 0\<rparr>) = Inr ()"

section \<open>The value an input stands for\<close>

lemma size_member [termination_simp]: "p \<in> set ps \<Longrightarrow> size (snd p) < Suc (size_list (size_prod f size) ps)"
  by (induction ps) auto

lemma size_member2 [termination_simp]: "p \<in> set ps \<Longrightarrow> size (snd p) < Suc (n + size_list (size_prod f size) ps)"
  by (induction ps) auto

text \<open>What \<open>JSON.stringify\<close> reads of an accepted input\<close>

fun input_value :: "js_input \<Rightarrow> jvalue" where
  "input_value (IBool b) = VBool b"
| "input_value (INumber (Some q)) = VNumber q"
| "input_value (IString s) = VString s"
| "input_value (IArray es ps) = VArray (map input_value es)"
| "input_value (IObject plain ps) = VObject (map (\<lambda>p. (fst p, input_value (snd p))) ps)"
| "input_value _ = VNull"

text \<open>The properties of an object are listed once each, in the order JavaScript enumerates them.\<close>

fun enumerated :: "js_input \<Rightarrow> bool" where
  "enumerated (IArray es ps) = list_all enumerated es"
| "enumerated (IObject plain ps) =
     (distinct (map fst ps) \<and> sorted (map (property_rank \<circ> fst) ps) \<and> list_all (\<lambda>p. enumerated (snd p)) ps)"
| "enumerated _ = True"

definition input_sound :: "nat \<Rightarrow> js_input \<Rightarrow> input_count \<Rightarrow> input_count \<Rightarrow> bool" where
  "input_sound k v c c' \<longleftrightarrow>
     well_formed (input_value v) \<and> fits k (input_value v) \<and>
     seen_nodes c' = seen_nodes c + nodes (input_value v) \<and> seen_nodes c' \<le> 10000"

lemma count_input_text_Inr:
  "count_input_text s c = (Inr (), c') \<Longrightarrow> unicode s \<and> seen_nodes c' = seen_nodes c"
  by (auto simp: count_input_text_def Let_def split: if_splits)

lemma count_input_node_Inr:
  "count_input_node c = (Inr (), c') \<Longrightarrow> seen_nodes c' = Suc (seen_nodes c) \<and> seen_nodes c' \<le> 10000"
  by (auto simp: count_input_node_def Let_def split: if_splits)

lemma check_members_sound:
  assumes f: "\<And>v c c'. f v c = (Inr (), c') \<Longrightarrow> enumerated v \<Longrightarrow> input_sound k v c c'"
  shows "check_members f ps c = (Inr (), c') \<Longrightarrow> list_all (\<lambda>p. enumerated (snd p)) ps \<Longrightarrow> seen_nodes c \<le> 10000 \<Longrightarrow>
    list_all (\<lambda>p. unicode (fst p) \<and> well_formed (input_value (snd p)) \<and> fits k (input_value (snd p))) ps \<and>
    seen_nodes c' = seen_nodes c + sum_list (map (\<lambda>p. nodes (input_value (snd p))) ps) \<and> seen_nodes c' \<le> 10000"
proof (induction ps arbitrary: c)
  case Nil
  then show ?case by (simp add: act_return_def)
next
  case (Cons p ps)
  obtain c1 c2 where c: "count_input_text (fst p) c = (Inr (), c1)" "f (snd p) c1 = (Inr (), c2)"
    "check_members f ps c2 = (Inr (), c')"
    using Cons.prems(1) by (auto simp: act_bind_Inr)
  have "input_sound k (snd p) c1 c2" using f [OF c(2)] Cons.prems(2) by simp
  then show ?case
    using Cons.IH [OF c(3)] Cons.prems(2) count_input_text_Inr [OF c(1)] by (simp add: input_sound_def)
qed

lemma array_members_values:
  assumes "IHole \<notin> set es"
  shows "array_members es = map (\<lambda>i. (units (decimal i), es ! i)) [0..<length es]" "map snd (array_members es) = es"
proof -
  show m: "array_members es = map (\<lambda>i. (units (decimal i), es ! i)) [0..<length es]"
    unfolding array_members_def using assms by (auto simp: filter_id_conv) (metis nth_mem)
  show "map snd (array_members es) = es" unfolding m by (simp add: comp_def map_nth)
qed

lemma bounded_input_sound:
  "bounded_input k v c = (Inr (), c') \<Longrightarrow> enumerated v \<Longrightarrow> input_sound k v c c'"
proof (induction k arbitrary: v c c')
  case 0
  then show ?case by (simp add: act_throw_def)
next
  case (Suc k)
  obtain c1 where c1: "count_input_node c = (Inr (), c1)"
    using Suc.prems(1) by (auto simp: act_bind_Inr)
  note n = count_input_node_Inr [OF c1]
  note members = check_members_sound [where f = "bounded_input k", OF Suc.IH]
  show ?case
  proof (cases v)
    case (IArray es ps)
    have h: "IHole \<notin> set es" "length (array_members es @ ps) = length es"
      and run: "check_members (bounded_input k) (array_members es @ ps) c1 = (Inr (), c')"
      using Suc.prems(1) c1 by (auto simp: IArray act_bind_def act_throw_def split: if_splits)
    have ps: "ps = []" using h(2) by (simp add: array_members_values(1) [OF h(1)])
    define ms where "ms = array_members es"
    have es: "es = map snd ms" using array_members_values(2) [OF h(1)] by (simp add: ms_def)
    have "check_members (bounded_input k) ms c1 = (Inr (), c')" using run by (simp add: ps ms_def)
    moreover have "list_all (\<lambda>p. enumerated (snd p)) ms"
      using Suc.prems(2) by (simp add: IArray es list.pred_map comp_def)
    ultimately have "list_all (\<lambda>p. unicode (fst p) \<and> well_formed (input_value (snd p)) \<and> fits k (input_value (snd p))) ms"
      "seen_nodes c' = seen_nodes c1 + sum_list (map (\<lambda>p. nodes (input_value (snd p))) ms)" "seen_nodes c' \<le> 10000"
      using members n by blast+
    then show ?thesis
      using n by (simp add: IArray input_sound_def es list_all_iff comp_def)
  next
    case (IObject plain ps)
    have run: "check_members (bounded_input k) ps c1 = (Inr (), c')"
      using Suc.prems(1) c1 by (auto simp: IObject act_bind_def act_throw_def split: if_splits)
    have "list_all (\<lambda>p. enumerated (snd p)) ps" using Suc.prems(2) by (simp add: IObject)
    then have "list_all (\<lambda>p. unicode (fst p) \<and> well_formed (input_value (snd p)) \<and> fits k (input_value (snd p))) ps"
      "seen_nodes c' = seen_nodes c1 + sum_list (map (\<lambda>p. nodes (input_value (snd p))) ps)" "seen_nodes c' \<le> 10000"
      using members run n by blast+
    then show ?thesis
      using n Suc.prems(2) by (simp add: IObject input_sound_def canonical_def list_all_iff comp_def)
  next
    case (IString s)
    then have "count_input_text s c1 = (Inr (), c')" using Suc.prems(1) c1 by (simp add: act_bind_def)
    then show ?thesis using n by (simp add: IString input_sound_def count_input_text_Inr)
  qed (use Suc.prems(1) c1 n in \<open>auto simp: input_sound_def act_bind_def act_throw_def act_return_def
      split: option.splits if_splits\<close>)
qed

text \<open>
  C24. What a caller may send arrives unchanged: an input the client accepts is written by
  \<open>JSON.stringify\<close> as text that the client's own bounded parser reads back as the same value. Nothing
  is dropped, no integer loses digits and no limit of the parser is exceeded.
\<close>
theorem accepted_input_reads_back:
  assumes "accepts_input v" "enumerated v" "prints_all sf (input_value v)"
  shows "parse_json (stringify sf (input_value v)) = Inr (input_value v)"
proof -
  obtain c' where "bounded_input 33 v \<lparr>seen_nodes = 0, seen_text = 0\<rparr> = (Inr (), c')"
    using assms(1) by (cases "bounded_input 33 v \<lparr>seen_nodes = 0, seen_text = 0\<rparr>")
      (simp add: accepts_input_def del: bounded_input.simps)
  from bounded_input_sound [OF this assms(2)] have s: "well_formed (input_value v)" "fits 33 (input_value v)"
    "nodes (input_value v) \<le> 10000"
    by (simp_all add: input_sound_def del: fits.simps)
  show ?thesis by (rule encoded_value_reads_back [OF s assms(3)])
qed

definition example_input :: js_input where
  "example_input = IObject True [(units ''name'', IString (units ''a b'')), (units ''sizes'', IArray [INumber (Some 3), INull] [])]"

lemma accepted_input_reads_back_witness:
  "parse_json (stringify (\<lambda>_. []) (input_value example_input)) = Inr (input_value example_input)"
  by (rule accepted_input_reads_back) code_simp+

end
