(* ===== verification/Browser_Client.thy ===== *)
theory Browser_Client
  imports Browser_Schema Browser_Input Event_Runs
begin

text \<open>
  The browser session client: \<open>createBrowserClient\<close> of
  \<open>src/console/out/browser/sessionclient/index.js\<close>. A call is an action on the network: the requests
  sent so far, and the outcomes of the coming ones in order. \<open>run\<close> bounds the calls in flight and turns
  every failure into an \<open>SDKError\<close>; its counter is a machine whose calls overlap. The URL parser, the text
  decoder and the URI functions are the platform's, a parameter.
\<close>

section \<open>Errors\<close>

record sdk_failure =
  sdk_code :: string
  sdk_status :: nat
  sdk_api_code :: "js_text option"

datatype failure = Sdk sdk_failure | Exception

definition sdk_fail :: "string \<Rightarrow> nat \<Rightarrow> failure" where
  "sdk_fail code status = Sdk \<lparr>sdk_code = code, sdk_status = status, sdk_api_code = None\<rparr>"

abbreviation invalid_input :: failure where "invalid_input \<equiv> sdk_fail ''invalid_input'' 0"
abbreviation invalid_response :: failure where "invalid_response \<equiv> sdk_fail ''invalid_response'' 0"

section \<open>The platform and the network\<close>

record url =
  url_origin :: js_text
  url_pathname :: js_text
  url_search :: js_text
  url_href :: js_text
  url_username :: js_text
  url_password :: js_text
  url_hash :: js_text

text \<open>\<open>new URL(path, base)\<close>, a fatal \<open>TextDecoder\<close> with its state, and the URI functions\<close>

record 'd platform =
  parse_url :: "js_text \<Rightarrow> js_text \<Rightarrow> url option"
  decoder :: 'd
  decode_chunk :: "'d \<Rightarrow> 8 word list \<Rightarrow> (js_text \<times> 'd) option"
  decode_end :: "'d \<Rightarrow> js_text option"
  decode_component :: "js_text \<Rightarrow> js_text option"
  encode_component :: "js_text \<Rightarrow> js_text"
  encode_query :: "(js_text \<times> js_text) list \<Rightarrow> js_text"

record http_request =
  rq_method :: string
  rq_href :: js_text
  rq_accept :: string
  rq_traceparent :: "string option"
  rq_content_type :: "string option"
  rq_csrf :: "js_text option"
  rq_body :: "js_text option"

text \<open>A response: the chunks a reader of its body gives, if it has one, and then fails when \<open>rs_broken\<close>.\<close>

record http_response =
  rs_status :: nat
  rs_content_type :: "string option"
  rs_etag :: "string option"
  rs_chunks :: "8 word list list option"
  rs_broken :: bool

datatype outcome = Rejected | Answered http_response

record network =
  sent :: "http_request list"
  outcomes :: "outcome list"

type_synonym 'a call = "(network, failure, 'a) act"

text \<open>\<open>await fetcher(...)\<close>: with no outcome left the request fails.\<close>

definition send :: "http_request \<Rightarrow> http_response call" where
  "send rq n =
     (let n' = n\<lparr>sent := sent n @ [rq], outcomes := tl (outcomes n)\<rparr>
      in case outcomes n of Answered rs # _ \<Rightarrow> (Inr rs, n') | _ \<Rightarrow> (Inl Exception, n'))"

section \<open>Requests\<close>

record client_contract = contract +
  error_codes :: "js_text list"
  api_prefix :: "js_text option"

definition max_response :: nat where "max_response = 4 * 2 ^ 20"

text \<open>The loop over the chunks of a body, with the bytes and the text read before\<close>

fun read_chunks :: "'d platform \<Rightarrow> nat \<Rightarrow> js_text \<Rightarrow> 'd \<Rightarrow> bool \<Rightarrow> 8 word list list \<Rightarrow> failure + js_text" where
  "read_chunks p len text d broken [] =
     (if broken then Inl Exception
      else case decode_end p d of None \<Rightarrow> Inl Exception | Some t \<Rightarrow> Inr (text @ t))"
| "read_chunks p len text d broken (c # cs) =
     (let len = len + length c
      in if max_response < len then Inl (sdk_fail ''response_limit'' 0)
         else case decode_chunk p d c of None \<Rightarrow> Inl Exception
           | Some (t, d') \<Rightarrow> read_chunks p len (text @ t) d' broken cs)"

text \<open>\<open>(response.headers.get("Content-Type") ?? "").split(";")[0].trim().toLowerCase() === "application/json"\<close>\<close>

definition is_json :: "http_response \<Rightarrow> bool" where
  "is_json rs \<longleftrightarrow>
     to_lower (trim (takeWhile (\<lambda>c. c \<noteq> CHR '';'') (case rs_content_type rs of None \<Rightarrow> [] | Some t \<Rightarrow> t)))
       = ''application/json''"

definition response_ok :: "http_response \<Rightarrow> bool" where
  "response_ok rs \<longleftrightarrow> 200 \<le> rs_status rs \<and> rs_status rs \<le> 299"

text \<open>The own property of a parsed value\<close>

definition own_property :: "jvalue \<Rightarrow> string \<Rightarrow> jvalue option" where
  "own_property v k = (case v of VObject ps \<Rightarrow> map_of ps (units k) | _ \<Rightarrow> None)"

definition api_code_of :: "client_contract \<Rightarrow> http_response \<Rightarrow> js_text \<Rightarrow> js_text option" where
  "api_code_of ct rs data =
     (if rs_status rs \<noteq> 401 \<and> is_json rs then
        (case parse_json data of Inl _ \<Rightarrow> None
         | Inr v \<Rightarrow>
             (case own_property v ''code'' of
                Some (VString code) \<Rightarrow> if code \<in> set (error_codes ct) then Some code else None
              | _ \<Rightarrow> None))
      else None)"

record reply =
  rp_status :: nat
  rp_body :: "jvalue option"
  rp_etag :: "string option"

definition read_reply :: "client_contract \<Rightarrow> http_response \<Rightarrow> js_text \<Rightarrow> failure + reply" where
  "read_reply ct rs data =
     (if \<not> response_ok rs then
        Inl (Sdk \<lparr>sdk_code = if rs_status rs = 401 then ''reauth_required'' else ''http_error'',
          sdk_status = rs_status rs, sdk_api_code = api_code_of ct rs data\<rparr>)
      else if data = [] then Inr \<lparr>rp_status = rs_status rs, rp_body = None, rp_etag = rs_etag rs\<rparr>
      else if \<not> is_json rs then Inl invalid_response
      else case parse_json data of Inl _ \<Rightarrow> Inl invalid_response
        | Inr v \<Rightarrow> Inr \<lparr>rp_status = rs_status rs, rp_body = Some v, rp_etag = rs_etag rs\<rparr>)"

definition target_allowed :: "js_text \<Rightarrow> url \<Rightarrow> bool" where
  "target_allowed origin u \<longleftrightarrow>
     url_origin u = origin \<and> url_username u = [] \<and> url_password u = [] \<and> url_hash u = [] \<and>
     length (url_href u) \<le> 8192"

definition request ::
    "'d platform \<Rightarrow> client_contract \<Rightarrow> js_text \<Rightarrow> string \<Rightarrow> js_text \<Rightarrow> js_text option \<Rightarrow> js_text option \<Rightarrow>
     string option \<Rightarrow> reply call" where
  "request p ct origin meth path body csrf traceparent =
     (case parse_url p path origin of None \<Rightarrow> act_throw Exception
      | Some u \<Rightarrow>
          if \<not> target_allowed origin u then act_throw invalid_input
          else if (case body of None \<Rightarrow> False | Some b \<Rightarrow> max_request < utf8_length b) then act_throw invalid_input
          else act_bind
            (send \<lparr>rq_method = meth, rq_href = url_href u, rq_accept = ''application/json'',
               rq_traceparent = traceparent,
               rq_content_type = map_option (\<lambda>_. ''application/json'') body,
               rq_csrf = csrf, rq_body = body\<rparr>) (\<lambda>rs.
          act_bind (act_lift (case rs_chunks rs of None \<Rightarrow> Inr []
              | Some cs \<Rightarrow> read_chunks p 0 [] (decoder p) (rs_broken rs) cs)) (\<lambda>data.
          act_lift (read_reply ct rs data))))"

section \<open>The session\<close>

definition short_string :: "nat \<Rightarrow> jvalue \<Rightarrow> bool" where
  "short_string n v = (case v of VString s \<Rightarrow> length s \<le> n | _ \<Rightarrow> False)"

text \<open>\<open>/^[A-Za-z0-9_-]{43}$/\<close>\<close>

definition token_unit :: "16 word \<Rightarrow> bool" where
  "token_unit c \<longleftrightarrow>
     0x41 \<le> c \<and> c \<le> 0x5A \<or> 0x61 \<le> c \<and> c \<le> 0x7A \<or> unit_digit c \<or> c = 0x5F \<or> c = u_minus"

definition is_token :: "js_text \<Rightarrow> bool" where
  "is_token s \<longleftrightarrow> length s = 43 \<and> list_all token_unit s"

definition session_keys :: "js_text list" where
  "session_keys = map units [''authenticated'', ''roles'', ''user'', ''expires_at'', ''csrf_token'']"

definition user_keys :: "js_text list" where
  "user_keys = map units [''sub'', ''email'', ''name'', ''preferred_username'']"

definition valid_user :: "jvalue \<Rightarrow> bool" where
  "valid_user u =
     (case u of VObject ps \<Rightarrow> list_all (\<lambda>p. fst p \<in> set user_keys \<and> short_string 1024 (snd p)) ps | _ \<Rightarrow> False)"

definition session_token :: "jvalue \<Rightarrow> js_text option" where
  "session_token v = (case own_property v ''csrf_token'' of Some (VString t) \<Rightarrow> Some t | _ \<Rightarrow> None)"

definition authenticated :: "jvalue \<Rightarrow> bool" where
  "authenticated v \<longleftrightarrow> own_property v ''authenticated'' = Some (VBool True)"

definition valid_session :: "reply \<Rightarrow> jvalue \<Rightarrow> bool" where
  "valid_session r v \<longleftrightarrow>
     rp_status r = 200 \<and>
     (case own_property v ''authenticated'' of Some (VBool _) \<Rightarrow> True | _ \<Rightarrow> False) \<and>
     (case own_property v ''roles'' of
        Some (VArray rs) \<Rightarrow> length rs \<le> 64 \<and> list_all (short_string 128) rs | _ \<Rightarrow> False) \<and>
     (authenticated v \<longrightarrow> (case session_token v of None \<Rightarrow> False | Some t \<Rightarrow> is_token t)) \<and>
     (case v of VObject ps \<Rightarrow> list_all (\<lambda>p. fst p \<in> set session_keys) ps | _ \<Rightarrow> False) \<and>
     (case own_property v ''expires_at'' of None \<Rightarrow> True
      | Some (VNumber q) \<Rightarrow> is_safe_int q \<and> 0 \<le> q | _ \<Rightarrow> False) \<and>
     (case own_property v ''user'' of None \<Rightarrow> True | Some u \<Rightarrow> valid_user u) \<and>
     (authenticated v \<longrightarrow>
        own_property v ''expires_at'' \<noteq> None \<and>
        (case own_property v ''user'' of None \<Rightarrow> False
         | Some u \<Rightarrow> (case own_property u ''sub'' of Some (VString s) \<Rightarrow> s \<noteq> [] | _ \<Rightarrow> False)))"

definition session :: "'d platform \<Rightarrow> client_contract \<Rightarrow> js_text \<Rightarrow> string option \<Rightarrow> jvalue call" where
  "session p ct origin traceparent =
     act_bind (request p ct origin ''GET'' (units ''/auth/session'') None None traceparent) (\<lambda>r.
       case rp_body r of None \<Rightarrow> act_throw invalid_response
       | Some v \<Rightarrow> if valid_session r v then act_return v else act_throw invalid_response)"

text \<open>\<open>client.session\<close>: the session without its token\<close>

definition public_session :: "'d platform \<Rightarrow> client_contract \<Rightarrow> js_text \<Rightarrow> string option \<Rightarrow> jvalue call" where
  "public_session p ct origin traceparent =
     act_bind (session p ct origin traceparent) (\<lambda>v.
       act_return (case v of VObject ps \<Rightarrow> VObject (filter (\<lambda>q. fst q \<noteq> units ''csrf_token'') ps) | _ \<Rightarrow> v))"

text \<open>\<open>client.logout\<close> of a contract without an API prefix\<close>

definition logout :: "'d platform \<Rightarrow> client_contract \<Rightarrow> js_text \<Rightarrow> string option \<Rightarrow> unit call" where
  "logout p ct origin traceparent =
     act_bind (session p ct origin traceparent) (\<lambda>v.
       if \<not> authenticated v then act_return ()
       else act_bind (request p ct origin ''POST'' (units ''/auth/logout'') None (session_token v) traceparent) (\<lambda>r.
         if rp_status r \<noteq> 204 then act_throw invalid_response else act_return ()))"

text \<open>The token of a mutating request: that of a session read for it.\<close>

definition mutating :: "string \<Rightarrow> bool" where "mutating m \<longleftrightarrow> m \<noteq> ''GET'' \<and> m \<noteq> ''HEAD''"

definition fresh_token :: "'d platform \<Rightarrow> client_contract \<Rightarrow> js_text \<Rightarrow> string \<Rightarrow> string option \<Rightarrow> js_text option call" where
  "fresh_token p ct origin meth traceparent =
     (if mutating meth then
        act_bind (session p ct origin traceparent) (\<lambda>v.
          if \<not> authenticated v then act_throw (sdk_fail ''reauth_required'' 401) else act_return (session_token v))
      else act_return None)"

section \<open>Paths and operations\<close>

text \<open>\<open>/[\\\s\x00-\x1f\x7f#]/\<close> and \<open>/[\\\x00-\x1f\x7f]/\<close>\<close>

definition is_control :: "16 word \<Rightarrow> bool" where
  "is_control c \<longleftrightarrow> c < 0x20 \<or> c = 0x7F \<or> c = u_backslash"

definition is_js_space :: "16 word \<Rightarrow> bool" where
  "is_js_space c \<longleftrightarrow>
     0x09 \<le> c \<and> c \<le> 0x0D \<or>
     c \<in> {0x20, 0xA0, 0x1680, 0x2028, 0x2029, 0x202F, 0x205F, 0x3000, 0xFEFF} \<or> 0x2000 \<le> c \<and> c \<le> 0x200A"

text \<open>\<open>s.split(c)\<close> for one character\<close>

fun split_units :: "16 word \<Rightarrow> js_text \<Rightarrow> js_text list" where
  "split_units c [] = [[]]"
| "split_units c (x # s) =
     (if x = c then [] # split_units c s
      else case split_units c s of [] \<Rightarrow> [[x]] | p # ps \<Rightarrow> (x # p) # ps)"

definition lower_unit :: "16 word \<Rightarrow> 16 word" where
  "lower_unit c = (if 0x41 \<le> c \<and> c \<le> 0x5A then c + 0x20 else c)"

text \<open>\<open>/%(?:2f|5c|25)/i\<close>\<close>

fun encoded_separator :: "js_text \<Rightarrow> bool" where
  "encoded_separator (a # b # c # s) =
     (a = 0x25 \<and> [b, lower_unit c] \<in> {units ''2f'', units ''5c'', units ''25''} \<or> encoded_separator (b # c # s))"
| "encoded_separator _ = False"

definition api_methods :: "string list" where
  "api_methods = [''GET'', ''HEAD'', ''POST'', ''PUT'', ''PATCH'', ''DELETE'']"

definition u_slash :: "16 word" where "u_slash = 0x2F"

text \<open>The pathname of a target, with every segment decoded\<close>

definition pathname_allowed :: "'d platform \<Rightarrow> js_text \<Rightarrow> bool" where
  "pathname_allowed p path \<longleftrightarrow>
     \<not> encoded_separator path \<and>
     (case decode_component p path of None \<Rightarrow> False | Some t \<Rightarrow> \<not> list_ex is_control t) \<and>
     list_all (\<lambda>part. case decode_component p part of None \<Rightarrow> False | Some t \<Rightarrow> t \<noteq> units ''.'' \<and> t \<noteq> units ''..'')
       (split_units u_slash path)"

definition path_allowed :: "'d platform \<Rightarrow> js_text \<Rightarrow> js_text \<Rightarrow> string \<Rightarrow> js_text \<Rightarrow> bool" where
  "path_allowed p prefix_path origin meth path \<longleftrightarrow>
     meth \<in> set api_methods \<and> length path \<le> 8192 \<and> (case path of [] \<Rightarrow> False | c # _ \<Rightarrow> c = u_slash) \<and>
     \<not> list_ex (\<lambda>c. is_control c \<or> is_js_space c \<or> c = 0x23) path \<and>
     (case parse_url p path origin of None \<Rightarrow> False
      | Some u \<Rightarrow>
          url_origin u = origin \<and> url_pathname u @ url_search u = path \<and>
          (url_pathname u = prefix_path \<or> prefix (prefix_path @ [u_slash]) (url_pathname u)) \<and>
          pathname_allowed p (url_pathname u) \<and> decode_component p (url_search u) \<noteq> None)"

text \<open>The JSON text of a body that is a caller's input\<close>

definition encode_body :: "client_contract \<Rightarrow> js_input \<Rightarrow> failure + js_text" where
  "encode_body ct v =
     (if \<not> accepts_input v then Inl invalid_input
      else let t = stringify (fraction_text ct) (input_value v)
           in if max_request < utf8_length t then Inl invalid_input else Inr t)"

text \<open>The action of \<open>client.request\<close>\<close>

definition api_request ::
    "'d platform \<Rightarrow> client_contract \<Rightarrow> js_text \<Rightarrow> js_text \<Rightarrow> string \<Rightarrow> js_text \<Rightarrow> js_input option \<Rightarrow> string option \<Rightarrow>
     reply call" where
  "api_request p ct prefix_path origin meth path body traceparent =
     (if \<not> path_allowed p prefix_path origin meth path then act_throw invalid_input
      else if body \<noteq> None \<and> \<not> mutating meth then act_throw invalid_input
      else act_bind (act_lift (case body of None \<Rightarrow> Inr None
                               | Some v \<Rightarrow> (case encode_body ct v of Inl e \<Rightarrow> Inl e | Inr t \<Rightarrow> Inr (Some t)))) (\<lambda>encoded.
           act_bind (fresh_token p ct origin meth traceparent) (\<lambda>csrf.
           request p ct origin meth path encoded csrf traceparent)))"

text \<open>The operations of a contract\<close>

datatype parameter_place = In_path | In_query

record op_parameter =
  pm_name :: js_text
  pm_place :: parameter_place
  pm_required :: bool
  pm_schema :: schema

record operation =
  op_method :: string
  op_path :: js_text
  op_parameters :: "op_parameter list"
  op_body :: "schema option"
  op_required :: bool
  op_responses :: "(string \<times> schema option) list"

text \<open>\<open>String(value)\<close> of a value that passed a parameter's schema\<close>

fun string_of :: "client_contract \<Rightarrow> jvalue \<Rightarrow> js_text" where
  "string_of ct (VString s) = s"
| "string_of ct (VNumber q) = number_text (fraction_text ct) q"
| "string_of ct (VBool b) = units (if b then ''true'' else ''false'')"
| "string_of ct VNull = units ''null''"
| "string_of ct (VArray vs) = comma_list (map (\<lambda>v. if v = VNull then [] else string_of ct v) vs)"
| "string_of ct (VObject ps) = units ''[object Object]''"

text \<open>\<open>path.split(marker).join(r)\<close>\<close>

fun replace_units :: "nat \<Rightarrow> js_text \<Rightarrow> js_text \<Rightarrow> js_text \<Rightarrow> js_text" where
  "replace_units skip m r [] = []"
| "replace_units (Suc skip) m r (c # s) = replace_units skip m r s"
| "replace_units 0 m r (c # s) =
     (if prefix m (c # s) then r @ replace_units (length m - 1) m r s else c # replace_units 0 m r s)"

definition marker :: "js_text \<Rightarrow> js_text" where "marker name = u_lbrace # name @ [u_rbrace]"

text \<open>\<open>params.set(name, value)\<close> of \<open>URLSearchParams\<close> for names of distinct parameters\<close>

definition query_set :: "(js_text \<times> js_text) list \<Rightarrow> js_text \<Rightarrow> js_text \<Rightarrow> (js_text \<times> js_text) list" where
  "query_set q n v =
     (if n \<in> set (map fst q) then map (\<lambda>(m, x). if m = n then (m, v) else (m, x)) q else q @ [(n, v)])"

text \<open>The loop over the parameters, with the path and the query built so far\<close>

fun fill_parameters ::
    "'d platform \<Rightarrow> client_contract \<Rightarrow> (js_text \<times> jvalue) list \<Rightarrow> op_parameter list \<Rightarrow> js_text \<Rightarrow>
     (js_text \<times> js_text) list \<Rightarrow> failure + js_text \<times> (js_text \<times> js_text) list" where
  "fill_parameters p ct input [] path query = Inr (path, query)"
| "fill_parameters p ct input (pm # pms) path query =
     (case map_of input (pm_name pm) of
        None \<Rightarrow> if pm_required pm then Inl invalid_input else fill_parameters p ct input pms path query
      | Some v \<Rightarrow>
          (case validates (contract.truncate ct) Request (Some (pm_schema pm)) (Some v) of
             Inl _ \<Rightarrow> Inl Exception
           | Inr False \<Rightarrow> Inl invalid_input
           | Inr True \<Rightarrow>
               let t = string_of ct v
               in case pm_place pm of
                    In_path \<Rightarrow>
                      if t = [] \<or> t = units ''.'' \<or> t = units ''..'' then Inl invalid_input
                      else fill_parameters p ct input pms
                        (replace_units 0 (marker (pm_name pm)) (encode_component p t) path) query
                  | In_query \<Rightarrow> fill_parameters p ct input pms path (query_set query (pm_name pm) t)))"

text \<open>The input of an operation: an object with its parameters and \<open>body\<close>, and nothing else.\<close>

definition input_members :: "operation \<Rightarrow> js_input \<Rightarrow> failure + (js_text \<times> jvalue) list" where
  "input_members op v =
     (if \<not> accepts_input v then Inl invalid_input
      else case input_value v of
        VObject ps \<Rightarrow>
          if list_all (\<lambda>q. fst q \<in> set (map pm_name (op_parameters op)) \<or>
               fst q = units ''body'' \<and> op_body op \<noteq> None) ps
          then Inr ps else Inl invalid_input
      | _ \<Rightarrow> Inl invalid_input)"

definition check_body :: "client_contract \<Rightarrow> operation \<Rightarrow> (js_text \<times> jvalue) list \<Rightarrow> failure + jvalue option" where
  "check_body ct op input =
     (case map_of input (units ''body'') of
        None \<Rightarrow> if op_required op then Inl invalid_input else Inr None
      | Some b \<Rightarrow>
          (case op_body op of None \<Rightarrow> Inl invalid_input
           | Some s \<Rightarrow>
               (case validates (contract.truncate ct) Request (Some s) (Some b) of
                  Inl _ \<Rightarrow> Inl Exception | Inr False \<Rightarrow> Inl invalid_input | Inr True \<Rightarrow> Inr (Some b))))"

text \<open>The check of a result: its status is one of the operation's, and its body is what the status promises.\<close>

definition check_reply :: "client_contract \<Rightarrow> operation \<Rightarrow> reply \<Rightarrow> failure + reply" where
  "check_reply ct op r =
     (case map_of (op_responses op) (show_int (int (rp_status r))) of
        None \<Rightarrow> Inl invalid_response
      | Some None \<Rightarrow> if rp_body r \<noteq> None then Inl invalid_response else Inr r
      | Some (Some s) \<Rightarrow>
          (case validates (contract.truncate ct) Response (Some s) (rp_body r) of
             Inl _ \<Rightarrow> Inl Exception | Inr False \<Rightarrow> Inl invalid_response | Inr True \<Rightarrow> Inr r))"

definition run_operation ::
    "'d platform \<Rightarrow> client_contract \<Rightarrow> js_text \<Rightarrow> operation \<Rightarrow> js_input \<Rightarrow> string option \<Rightarrow> reply call" where
  "run_operation p ct origin op input traceparent =
     act_bind (act_lift (input_members op input)) (\<lambda>ps.
     act_bind (act_lift (fill_parameters p ct ps (op_parameters op) (op_path op) [])) (\<lambda>(path, query).
     act_bind (act_lift (check_body ct op ps)) (\<lambda>body.
     let suffix = encode_query p query; path = (if suffix = [] then path else path @ units ''?'' @ suffix)
     in case parse_url p path origin of None \<Rightarrow> act_throw Exception
        | Some u \<Rightarrow>
            if url_origin u \<noteq> origin \<or> 8192 < length (url_href u) then act_throw invalid_input
            else let text = map_option (stringify (fraction_text ct)) body
              in if (case text of None \<Rightarrow> False | Some t \<Rightarrow> max_request < utf8_length t) then act_throw invalid_input
                 else act_bind (fresh_token p ct origin (op_method op) traceparent) (\<lambda>csrf.
                      act_bind (request p ct origin (op_method op) path text csrf traceparent) (\<lambda>r.
                      act_lift (check_reply ct op r))))))"

section \<open>What a call sends\<close>

text \<open>The token of the authenticated session the next outcome carries\<close>

definition answered_session :: "'d platform \<Rightarrow> client_contract \<Rightarrow> outcome list \<Rightarrow> jvalue option" where
  "answered_session p ct outs =
     (case outs of Answered rs # _ \<Rightarrow>
        (case (case rs_chunks rs of None \<Rightarrow> Inr [] | Some cs \<Rightarrow> read_chunks p 0 [] (decoder p) (rs_broken rs) cs) of
           Inl _ \<Rightarrow> None
         | Inr data \<Rightarrow>
             (case read_reply ct rs data of Inl _ \<Rightarrow> None
              | Inr r \<Rightarrow> (case rp_body r of None \<Rightarrow> None | Some v \<Rightarrow> if valid_session r v then Some v else None)))
      | _ \<Rightarrow> None)"

definition same_origin :: "js_text \<Rightarrow> 'd platform \<Rightarrow> http_request \<Rightarrow> bool" where
  "same_origin origin p rq \<longleftrightarrow> (\<exists>path u. parse_url p path origin = Some u \<and> target_allowed origin u \<and> rq_href rq = url_href u)"

lemma send_sent: "send rq n = (r, n') \<Longrightarrow> sent n' = sent n @ [rq] \<and> outcomes n' = tl (outcomes n)"
  by (auto simp: send_def Let_def split: list.splits outcome.splits)

lemma request_sent:
  assumes "request p ct origin meth path body csrf tp n = (res, n')"
  shows "n' = n \<or> (\<exists>rq. sent n' = sent n @ [rq] \<and> outcomes n' = tl (outcomes n) \<and> rq_method rq = meth \<and>
    rq_csrf rq = csrf \<and> rq_traceparent rq = tp \<and> rq_body rq = body \<and> same_origin origin p rq)"
proof (cases "parse_url p path origin")
  case None
  then show ?thesis using assms by (simp add: request_def act_throw_def)
next
  case (Some u)
  let ?rq = "\<lparr>rq_method = meth, rq_href = url_href u, rq_accept = ''application/json'', rq_traceparent = tp,
    rq_content_type = map_option (\<lambda>_. ''application/json'') body, rq_csrf = csrf, rq_body = body\<rparr>"
  obtain rs n1 where s: "send ?rq n = (rs, n1)" by (cases "send ?rq n")
  note sent = send_sent [OF s]
  show ?thesis
  proof (cases "target_allowed origin u \<and> \<not> (case body of None \<Rightarrow> False | Some b \<Rightarrow> max_request < utf8_length b)")
    case True
    then have "n' = n1" using assms Some s by (auto simp: request_def act_simps split: sum.splits)
    moreover have "same_origin origin p ?rq" using Some True by (auto simp: same_origin_def)
    ultimately show ?thesis using sent by (intro disjI2 exI [of _ ?rq]) simp
  qed (use assms Some in \<open>auto simp: request_def act_throw_def split: if_splits\<close>)
qed

lemma request_unsent:
  assumes "request p ct origin meth path body csrf tp n = (res, n)"
  shows "\<exists>e. res = Inl e"
proof -
  have no: "send rq n \<noteq> (r, n)" for rq r
    using send_sent [of rq n r n] by (metis append_self_conv not_Cons_self2)
  show ?thesis
    using assms no
    by (auto simp: request_def act_bind_def act_throw_def act_lift_def split: option.splits if_splits prod.splits sum.splits)
qed

lemma session_run:
  "session p ct origin tp n =
     (case request p ct origin ''GET'' (units ''/auth/session'') None None tp n of
        (Inl e, n') \<Rightarrow> (Inl e, n')
      | (Inr r, n') \<Rightarrow>
          ((case rp_body r of None \<Rightarrow> Inl invalid_response
            | Some v \<Rightarrow> if valid_session r v then Inr v else Inl invalid_response), n'))"
  by (simp add: session_def act_bind_def act_throw_def act_return_def del: units_simps split: sum.split prod.split option.split)

lemma answered_request:
  assumes "request p ct origin meth path body csrf tp n = (Inr r, n')" "rp_body r = Some v" "valid_session r v"
  shows "answered_session p ct (outcomes n) = Some v"
  using assms
  by (auto simp: request_def answered_session_def send_def Let_def act_bind_def act_lift_def act_throw_def
      split: option.splits if_splits list.splits outcome.splits sum.splits)

lemma session_sent:
  assumes "session p ct origin tp n = (res, n')"
  shows "n' = n \<and> (\<exists>e. res = Inl e) \<or>
    (\<exists>rq. sent n' = sent n @ [rq] \<and> outcomes n' = tl (outcomes n) \<and> rq_method rq = ''GET'' \<and> rq_csrf rq = None \<and>
      same_origin origin p rq \<and> (case res of Inr v \<Rightarrow> answered_session p ct (outcomes n) = Some v | Inl _ \<Rightarrow> True))"
proof -
  obtain r n1 where r: "request p ct origin ''GET'' (units ''/auth/session'') None None tp n = (r, n1)"
    by (cases "request p ct origin ''GET'' (units ''/auth/session'') None None tp n")
  have n1: "n' = n1" and res: "res = (case r of Inl e \<Rightarrow> Inl e
      | Inr r \<Rightarrow> (case rp_body r of None \<Rightarrow> Inl invalid_response
            | Some v \<Rightarrow> if valid_session r v then Inr v else Inl invalid_response))"
    using assms unfolding session_run r by (auto split: sum.splits)
  have ans: "case res of Inr v \<Rightarrow> answered_session p ct (outcomes n) = Some v | Inl _ \<Rightarrow> True"
    using answered_request [of p ct origin "''GET''" _ None None tp n] r
    by (auto simp: res simp del: units_simps split: sum.splits option.splits if_splits)
  from request_sent [OF r] show ?thesis
  proof
    assume "n1 = n"
    then have "\<exists>e. r = Inl e" using request_unsent r by blast
    then show ?thesis using \<open>n1 = n\<close> n1 res by auto
  qed (use ans n1 in blast)
qed

text \<open>
  The requests a call may send: none, a read, or for a change the session and then the change, which
  carries the token of that session.
\<close>

definition guarded_sends ::
    "'d platform \<Rightarrow> client_contract \<Rightarrow> js_text \<Rightarrow> string \<Rightarrow> outcome list \<Rightarrow> http_request list \<Rightarrow> bool" where
  "guarded_sends p ct origin meth outs rqs \<longleftrightarrow>
     (case rqs of
        [] \<Rightarrow> True
      | [rq] \<Rightarrow> same_origin origin p rq \<and> \<not> mutating (rq_method rq) \<and> rq_csrf rq = None
      | [s, rq] \<Rightarrow>
          same_origin origin p s \<and> \<not> mutating (rq_method s) \<and> rq_csrf s = None \<and>
          same_origin origin p rq \<and> rq_method rq = meth \<and> mutating meth \<and>
          (case answered_session p ct outs of None \<Rightarrow> False
           | Some v \<Rightarrow> authenticated v \<and> rq_csrf rq \<noteq> None \<and> rq_csrf rq = session_token v)
      | _ \<Rightarrow> False)"

lemma answered_session_valid: "answered_session p ct outs = Some v \<Longrightarrow> \<exists>r. valid_session r v"
  by (auto simp: answered_session_def split: list.splits outcome.splits sum.splits option.splits if_splits)

lemma authenticated_token: "valid_session r v \<Longrightarrow> authenticated v \<Longrightarrow> \<exists>t. session_token v = Some t \<and> is_token t"
  by (auto simp: valid_session_def split: option.splits)

lemma fresh_token_sent:
  assumes "fresh_token p ct origin meth tp n = (res, n')"
  shows "\<exists>rqs. sent n' = sent n @ rqs \<and> guarded_sends p ct origin meth (outcomes n) rqs \<and>
    (case res of Inl _ \<Rightarrow> True
     | Inr csrf \<Rightarrow>
         if mutating meth then
           (\<exists>rq v. rqs = [rq] \<and> answered_session p ct (outcomes n) = Some v \<and> authenticated v \<and> csrf \<noteq> None \<and> csrf = session_token v)
         else rqs = [] \<and> csrf = None)"
proof (cases "mutating meth")
  case False
  then have "n' = n \<and> res = Inr None" using assms by (simp add: fresh_token_def act_return_def)
  then show ?thesis using False by (intro exI [of _ "[]"]) (simp add: guarded_sends_def)
next
  case True
  obtain r n1 where r: "session p ct origin tp n = (r, n1)" by (cases "session p ct origin tp n")
  have n1: "n' = n1" using assms True r by (auto simp: fresh_token_def act_simps split: sum.splits if_splits)
  show ?thesis
  proof (cases r)
    case (Inl e)
    then have res: "res = Inl e" using assms True r by (simp add: fresh_token_def act_simps)
    from session_sent [OF r] show ?thesis
      by (elim disjE exE) (force simp: n1 res guarded_sends_def mutating_def)+
  next
    case (Inr v)
    obtain rq where rq: "sent n1 = sent n @ [rq]" "rq_method rq = ''GET''" "rq_csrf rq = None" "same_origin origin p rq"
      "answered_session p ct (outcomes n) = Some v"
      using session_sent [OF r] by (auto simp: Inr)
    obtain rp where "valid_session rp v" using answered_session_valid [OF rq(5)] by blast
    then have tok: "authenticated v \<Longrightarrow> session_token v \<noteq> None" using authenticated_token by fastforce
    have "guarded_sends p ct origin meth (outcomes n) [rq]" using rq by (simp add: guarded_sends_def mutating_def)
    then show ?thesis using assms True r rq tok
      by (intro exI [of _ "[rq]"]) (auto simp: fresh_token_def act_simps n1 Inr split: if_splits)
  qed
qed

text \<open>A token and then the request it is for\<close>

lemma guarded_request:
  assumes "fresh_token p ct origin meth tp n = (Inr csrf, n1)"
    and "request p ct origin meth path body csrf tp n1 = (res, n2)"
  shows "\<exists>rqs. sent n2 = sent n @ rqs \<and> guarded_sends p ct origin meth (outcomes n) rqs"
proof -
  obtain rqs where t: "sent n1 = sent n @ rqs" "guarded_sends p ct origin meth (outcomes n) rqs"
    and c: "if mutating meth then
        (\<exists>rq v. rqs = [rq] \<and> answered_session p ct (outcomes n) = Some v \<and> authenticated v \<and> csrf \<noteq> None \<and> csrf = session_token v)
      else rqs = [] \<and> csrf = None"
    using fresh_token_sent [OF assms(1)] by auto
  from request_sent [OF assms(2)] show ?thesis
  proof
    assume "n2 = n1"
    then show ?thesis using t by blast
  next
    assume "\<exists>rq. sent n2 = sent n1 @ [rq] \<and> outcomes n2 = tl (outcomes n1) \<and> rq_method rq = meth \<and>
      rq_csrf rq = csrf \<and> rq_traceparent rq = tp \<and> rq_body rq = body \<and> same_origin origin p rq"
    then obtain rq where rq: "sent n2 = sent n1 @ [rq]" "rq_method rq = meth" "rq_csrf rq = csrf" "same_origin origin p rq"
      by blast
    have "guarded_sends p ct origin meth (outcomes n) (rqs @ [rq])"
      using t(2) c rq by (auto simp: guarded_sends_def split: if_splits dest: sym)
    then show ?thesis using rq(1) t(1) by (intro exI [of _ "rqs @ [rq]"]) simp
  qed
qed

lemma guarded_nothing: "\<exists>rqs. sent n = sent n @ rqs \<and> guarded_sends p ct origin meth outs rqs"
  by (rule exI [of _ "[]"]) (simp add: guarded_sends_def)

lemma api_request_guarded:
  assumes "api_request p ct pre origin meth path body tp n = (res, n')"
  shows "\<exists>rqs. sent n' = sent n @ rqs \<and> guarded_sends p ct origin meth (outcomes n) rqs"
proof -
  consider "n' = n" | enc where
    "act_bind (fresh_token p ct origin meth tp) (\<lambda>csrf. request p ct origin meth path enc csrf tp) n = (res, n')"
    using assms by (auto simp: api_request_def act_simps split: if_splits sum.splits)
  then show ?thesis
  proof cases
    case 2
    obtain c n1 where c: "fresh_token p ct origin meth tp n = (c, n1)" by (cases "fresh_token p ct origin meth tp n")
    show ?thesis
    proof (cases c)
      case (Inl e)
      then show ?thesis using 2 c fresh_token_sent [OF c] by (auto simp: act_bind_def)
    next
      case (Inr csrf)
      then show ?thesis using 2 c guarded_request [of p ct origin meth tp n csrf n1] by (auto simp: act_bind_def)
    qed
  qed (simp only: guarded_nothing)
qed

lemma act_bind_lift: "act_bind (act_lift r) k = (case r of Inl e \<Rightarrow> act_throw e | Inr x \<Rightarrow> k x)"
  by (cases r) (simp_all add: act_simps)

text \<open>An operation is its input's checks, a guarded request, and the check of the result.\<close>

lemma run_operation_cases:
  assumes "run_operation p ct origin op input tp n = (res, n')"
  obtains e where "n' = n" "res = Inl e"
  | path body where
    "act_bind (fresh_token p ct origin (op_method op) tp) (\<lambda>csrf.
       act_bind (request p ct origin (op_method op) path body csrf tp) (\<lambda>r. act_lift (check_reply ct op r))) n = (res, n')"
  using assms
  by (auto simp: run_operation_def act_bind_lift act_throw_def Let_def
      split: sum.splits prod.splits option.splits if_splits)

lemma run_operation_guarded:
  assumes "run_operation p ct origin op input tp n = (res, n')"
  shows "\<exists>rqs. sent n' = sent n @ rqs \<and> guarded_sends p ct origin (op_method op) (outcomes n) rqs"
  using assms
proof (cases rule: run_operation_cases)
  case (1 e)
  then show ?thesis by (simp only: guarded_nothing)
next
  case (2 path body)
  obtain c n1 where c: "fresh_token p ct origin (op_method op) tp n = (c, n1)"
    by (cases "fresh_token p ct origin (op_method op) tp n")
  show ?thesis
  proof (cases c)
    case (Inl e)
    then show ?thesis using 2 c fresh_token_sent [OF c] by (auto simp: act_bind_def)
  next
    case (Inr csrf)
    obtain r n2 where r: "request p ct origin (op_method op) path body csrf tp n1 = (r, n2)"
      by (cases "request p ct origin (op_method op) path body csrf tp n1")
    then have "n' = n2" using 2 c Inr by (auto simp: act_bind_def act_lift_def split: sum.splits)
    then show ?thesis using guarded_request [OF c [unfolded Inr] r] by simp
  qed
qed

text \<open>
  C20. Every request the client's calls send stays on the page's origin, and no change is ever sent
  without the token of the session read for it just before: a call, whether of the API or of a
  contract's operation, sends nothing, or one read, or the session and then the change with the
  token of that authenticated session. This holds for every answer of the network.
\<close>
theorem changes_carry_a_fresh_token:
  assumes "api_request p ct pre origin meth path body tp n = (res, n') \<or>
    meth = op_method op \<and> run_operation p ct origin op input tp n = (res, n')"
  shows "\<exists>rqs. sent n' = sent n @ rqs \<and> guarded_sends p ct origin meth (outcomes n) rqs"
  using assms
proof
  assume "api_request p ct pre origin meth path body tp n = (res, n')"
  then show ?thesis by (rule api_request_guarded)
next
  assume "meth = op_method op \<and> run_operation p ct origin op input tp n = (res, n')"
  then show ?thesis using run_operation_guarded [of p ct origin op input tp n res n'] by simp
qed

text \<open>A platform whose URLs are a path on the page's origin, and text in ASCII\<close>

definition ascii_text :: "8 word list \<Rightarrow> js_text" where "ascii_text bs = map ucast bs"

definition simple_platform :: "unit platform" where
  "simple_platform =
     \<lparr>parse_url = (\<lambda>path origin. Some \<lparr>url_origin = origin, url_pathname = path, url_search = [],
        url_href = origin @ path, url_username = [], url_password = [], url_hash = []\<rparr>),
      decoder = (), decode_chunk = (\<lambda>_ bs. Some (ascii_text bs, ())), decode_end = (\<lambda>_. Some []),
      decode_component = Some, encode_component = id, encode_query = (\<lambda>_. [])\<rparr>"

definition simple_contract :: client_contract where
  "simple_contract = \<lparr>models = [], fraction_text = (\<lambda>_. []), parses_url = (\<lambda>_. True), error_codes = [], api_prefix = None\<rparr>"

definition empty_answer :: outcome where
  "empty_answer = Answered \<lparr>rs_status = 204, rs_content_type = None, rs_etag = None, rs_chunks = None, rs_broken = False\<rparr>"

lemma changes_carry_a_fresh_token_witness:
  "\<exists>rqs. sent (snd (api_request simple_platform simple_contract (units ''/a'') (units ''h'') ''DELETE''
       (units ''/a/1'') None None \<lparr>sent = [], outcomes = [Rejected]\<rparr>)) = rqs \<and>
     length rqs = 1 \<and> guarded_sends simple_platform simple_contract (units ''h'') ''DELETE'' [Rejected] rqs"
proof -
  let ?n = "\<lparr>sent = [], outcomes = [Rejected]\<rparr>"
  let ?call = "api_request simple_platform simple_contract (units ''/a'') (units ''h'') ''DELETE'' (units ''/a/1'') None None ?n"
  have one: "length (sent (snd ?call)) = 1" by code_simp
  have "?call = (fst ?call, snd ?call) \<or>
      ''DELETE'' = op_method undefined \<and> run_operation simple_platform simple_contract (units ''h'') undefined undefined None ?n = (fst ?call, snd ?call)"
    by (rule disjI1) (rule prod.collapse [symmetric])
  from changes_carry_a_fresh_token [OF this] one show ?thesis
    by (auto simp del: units_simps)
qed

section \<open>Operations\<close>

lemma run_operation_checked:
  assumes "run_operation p ct origin op input tp n = (Inr r, n')"
  shows "check_reply ct op r = Inr r"
  using assms
proof (cases rule: run_operation_cases)
  case (2 path body)
  have same: "check_reply ct op x = Inr r \<Longrightarrow> x = r" for x
    by (auto simp: check_reply_def split: option.splits sum.splits if_splits bool.splits)
  obtain x where "check_reply ct op x = Inr r" using 2 by (auto simp: act_bind_Inr act_lift_def)
  then show ?thesis using same by blast
qed simp

text \<open>
  C26. What an operation returns is what its contract promises: its status is one the operation
  lists, a status without a schema comes without a body, and any other body passed the validation
  of a response against the schema of that very status.
\<close>
theorem operation_result_is_promised:
  assumes "run_operation p ct origin op input tp n = (Inr r, n')"
  shows "case map_of (op_responses op) (show_int (int (rp_status r))) of
      None \<Rightarrow> False
    | Some None \<Rightarrow> rp_body r = None
    | Some (Some s) \<Rightarrow> validates (contract.truncate ct) Response (Some s) (rp_body r) = Inr True"
  using run_operation_checked [OF assms]
  by (auto simp: check_reply_def split: option.splits sum.splits if_splits bool.splits)

definition read_operation :: operation where
  "read_operation = \<lparr>op_method = ''GET'', op_path = units ''/{id}'',
     op_parameters = [\<lparr>pm_name = units ''id'', pm_place = In_path, pm_required = True,
       pm_schema = plain_schema (no_keywords\<lparr>sc_type := Some (units ''string''), sc_minLength := Some 1\<rparr>)\<rparr>],
     op_body = None, op_required = False, op_responses = [(''204'', None)]\<rparr>"

definition empty_reply :: reply where
  "empty_reply = \<lparr>rp_status = 204, rp_body = None, rp_etag = None\<rparr>"

lemma operation_result_is_promised_witness:
  "case map_of (op_responses read_operation) (show_int (int (rp_status empty_reply))) of
      None \<Rightarrow> False
    | Some None \<Rightarrow> rp_body empty_reply = None
    | Some (Some s) \<Rightarrow> validates (contract.truncate simple_contract) Response (Some s) (rp_body empty_reply) = Inr True"
proof -
  let ?call = "run_operation simple_platform simple_contract (units ''h'') read_operation
     (IObject True [(units ''id'', IString (units ''7''))]) None \<lparr>sent = [], outcomes = [empty_answer]\<rparr>"
  have "fst ?call = Inr empty_reply" by code_simp
  then have "?call = (Inr empty_reply, snd ?call)" by (metis prod.collapse)
  then show ?thesis by (rule operation_result_is_promised)
qed

end
