(* ===== verification/Browser_Calls.thy ===== *)
theory Browser_Calls
  imports Browser_Client
begin

text \<open>
  The calls of the browser session client in flight together: \<open>run\<close> of
  \<open>src/console/out/browser/sessionclient/index.js\<close>, with the options it checks and the errors it maps, as a
  machine over the shared counter \<open>activeRequests\<close>; and \<open>login\<close>, which leaves the page.
\<close>

section \<open>Options\<close>

datatype call_option = Option_undefined | Option_text string | Option_signal bool | Option_other

text \<open>No options, a value that is no object, or the own properties of an object.\<close>

datatype call_options = No_options | Bad_options | Options "(string \<times> call_option) list"

definition lower_hex :: "char \<Rightarrow> bool" where
  "lower_hex c \<longleftrightarrow> is_digit c \<or> 97 \<le> code_unit c \<and> code_unit c \<le> 102"

text \<open>\<open>/^00-[0-9a-f]{32}-[0-9a-f]{16}-0[01]$/\<close> of 55 characters, with neither identifier all zeros\<close>

definition valid_traceparent :: "string \<Rightarrow> bool" where
  "valid_traceparent s \<longleftrightarrow>
     length s = 55 \<and> take 3 s = ''00-'' \<and> list_all lower_hex (take 32 (drop 3 s)) \<and>
     take 1 (drop 35 s) = ''-'' \<and> list_all lower_hex (take 16 (drop 36 s)) \<and>
     drop 52 s \<in> {''-00'', ''-01''} \<and>
     take 32 (drop 3 s) \<noteq> replicate 32 (CHR ''0'') \<and> take 16 (drop 36 s) \<noteq> replicate 16 (CHR ''0'')"

definition client_error :: "string \<Rightarrow> sdk_failure" where
  "client_error code = \<lparr>sdk_code = code, sdk_status = 0, sdk_api_code = None\<rparr>"

text \<open>The checks at the head of \<open>run\<close>: the trace context to send, unless the call ends at once.\<close>

definition check_options :: "call_options \<Rightarrow> sdk_failure + string option" where
  "check_options opts =
     (case opts of
        No_options \<Rightarrow> Inr None
      | Bad_options \<Rightarrow> Inl (client_error ''invalid_input'')
      | Options ps \<Rightarrow>
          if \<not> list_all (\<lambda>p. fst p \<in> {''signal'', ''traceparent''}) ps then Inl (client_error ''invalid_input'')
          else
            (case (case map_of ps ''traceparent'' of
                None \<Rightarrow> Inr None | Some Option_undefined \<Rightarrow> Inr None
              | Some (Option_text t) \<Rightarrow>
                  if valid_traceparent t then Inr (Some t) else Inl (client_error ''invalid_input'')
              | Some _ \<Rightarrow> Inl (client_error ''invalid_input'')) of
               Inl e \<Rightarrow> Inl e
             | Inr tp \<Rightarrow>
                 (case map_of ps ''signal'' of
                    None \<Rightarrow> Inr tp | Some Option_undefined \<Rightarrow> Inr tp
                  | Some (Option_signal aborted) \<Rightarrow>
                      if aborted then Inl (client_error ''cancelled'') else Inr tp
                  | Some _ \<Rightarrow> Inl (client_error ''invalid_input''))))"

text \<open>The \<open>catch\<close> of \<open>run\<close>, given whether the timer fired and whether the call was aborted by then.\<close>

definition settle :: "bool \<Rightarrow> bool \<Rightarrow> failure + 'a \<Rightarrow> sdk_failure + 'a" where
  "settle timed_out aborted r =
     (case r of Inr x \<Rightarrow> Inr x
      | Inl (Sdk e) \<Rightarrow> Inl e
      | Inl Exception \<Rightarrow>
          Inl (client_error (if timed_out then ''timeout'' else if aborted then ''cancelled'' else ''request_failed'')))"

section \<open>Calls in flight\<close>

record calls =
  active_requests :: int
  in_flight :: "nat list"

text \<open>A call is made, or the action of one in flight ends.\<close>

datatype 'a call_event = Call nat call_options | End nat bool bool "failure + 'a"

datatype 'a call_effect = Refused nat sdk_failure | Begun nat "string option" | Finished nat "sdk_failure + 'a"

definition call_enabled :: "unit \<Rightarrow> calls \<Rightarrow> 'a call_event \<Rightarrow> bool" where
  "call_enabled u s e = (case e of Call i opts \<Rightarrow> i \<notin> set (in_flight s) | End i t a r \<Rightarrow> i \<in> set (in_flight s))"

fun handle_call :: "unit \<Rightarrow> 'a call_event \<Rightarrow> calls \<Rightarrow> calls \<times> 'a call_effect list" where
  "handle_call u (Call i opts) s =
     (if 16 \<le> active_requests s then (s, [Refused i (client_error ''busy'')])
      else
        let s = s\<lparr>active_requests := active_requests s + 1\<rparr>
        in case check_options opts of
             Inl e \<Rightarrow> (s\<lparr>active_requests := active_requests s - 1\<rparr>, [Refused i e])
           | Inr tp \<Rightarrow> (s\<lparr>in_flight := i # in_flight s\<rparr>, [Begun i tp]))"
| "handle_call u (End i timed_out aborted r) s =
     (s\<lparr>active_requests := active_requests s - 1, in_flight := remove1 i (in_flight s)\<rparr>,
      [Finished i (settle timed_out aborted r)])"

definition no_calls :: calls where "no_calls = \<lparr>active_requests = 0, in_flight = []\<rparr>"

definition is_started :: "'a call_effect \<Rightarrow> bool" where
  "is_started x = (case x of Begun i tp \<Rightarrow> True | _ \<Rightarrow> False)"

definition is_settled :: "'a call_effect \<Rightarrow> bool" where
  "is_settled x = (case x of Finished i r \<Rightarrow> True | _ \<Rightarrow> False)"

definition is_answer :: "'a call_effect \<Rightarrow> bool" where
  "is_answer x = (case x of Begun i tp \<Rightarrow> False | _ \<Rightarrow> True)"

definition is_call :: "'a call_event \<Rightarrow> bool" where
  "is_call e = (case e of Call i opts \<Rightarrow> True | End i t a r \<Rightarrow> False)"

text \<open>
  The invariant over the history: the counter is the number of calls in flight, each once, at most 16;
  every call made is in flight or has been answered; and what was started is in flight or settled.
\<close>

definition calls_inv :: "(unit \<times> 'a call_event) list \<Rightarrow> calls \<Rightarrow> 'a call_effect list \<Rightarrow> bool" where
  "calls_inv evs s trail \<longleftrightarrow>
     active_requests s = int (length (in_flight s)) \<and> length (in_flight s) \<le> 16 \<and> distinct (in_flight s) \<and>
     length (filter (is_call \<circ> snd) evs) = length (filter is_answer trail) + length (in_flight s) \<and>
     length (filter is_started trail) = length (filter is_settled trail) + length (in_flight s)"

lemma calls_inv_step:
  assumes inv: "calls_inv evs s trail" and en: "call_enabled u s e" and h: "handle_call u e s = (s', xs)"
  shows "calls_inv (evs @ [(u, e)]) s' (trail @ xs)"
proof (cases e)
  case (Call i opts)
  then show ?thesis using inv en h
    by (auto simp: calls_inv_def call_enabled_def Let_def is_call_def is_answer_def is_started_def is_settled_def
        split: if_splits sum.splits)
next
  case (End i t a r)
  then have mem: "i \<in> set (in_flight s)" using en by (simp add: call_enabled_def)
  then have "length (in_flight s) = Suc (length (remove1 i (in_flight s)))"
    by (metis Suc_pred' length_pos_if_in_set length_remove1)
  then show ?thesis using inv h End
    by (auto simp: calls_inv_def is_call_def is_answer_def is_started_def is_settled_def distinct_remove1)
qed

interpretation client_calls: logged_invariant call_enabled handle_call no_calls calls_inv
proof
  show "calls_inv [] no_calls []" by (simp add: calls_inv_def no_calls_def)
qed (rule calls_inv_step)

text \<open>
  C22. However its calls overlap, the client has at most 16 in flight, its counter is exactly their
  number, and every call made is answered once or still in flight: when none is in flight the counter
  is back at zero, after every error, timeout and cancellation.
\<close>
theorem calls_in_flight_are_bounded:
  assumes "log_run call_enabled handle_call no_calls evs = Some (s, trail)"
  shows "active_requests s = int (length (in_flight s)) \<and> active_requests s \<le> 16 \<and>
    length (filter (is_call \<circ> snd) evs) = length (filter is_answer trail) + length (in_flight s)"
  using client_calls.holds [OF assms] by (simp add: calls_inv_def)

lemma calls_in_flight_are_bounded_witness:
  "\<exists>s trail. log_run call_enabled handle_call no_calls
     [((), Call 1 No_options), ((), Call 2 Bad_options), ((), End 1 True True (Inl Exception :: failure + unit))] = Some (s, trail) \<and>
     active_requests s = 0 \<and> in_flight s = []"
proof -
  let ?evs = "[((), Call 1 No_options), ((), Call 2 Bad_options), ((), End 1 True True (Inl Exception :: failure + unit))]"
  obtain s trail where run: "log_run call_enabled handle_call no_calls ?evs = Some (s, trail)" and s: "in_flight s = []"
    by (simp add: log_run_def call_enabled_def no_calls_def check_options_def)
  from calls_in_flight_are_bounded [OF run] s run show ?thesis by auto
qed

section \<open>Leaving for the login page\<close>

text \<open>
  \<open>client.login\<close>: the address the login page returns to, from the location's path and query; an address
  \<open>new URL\<close> refuses ends the call.
\<close>

definition return_to :: "'d platform \<Rightarrow> js_text \<Rightarrow> js_text option \<Rightarrow> js_text option \<Rightarrow> sdk_failure + js_text" where
  "return_to p origin pathname search =
     (let candidate = (case pathname of None \<Rightarrow> [u_slash] | Some t \<Rightarrow> t) @ (case search of None \<Rightarrow> [] | Some t \<Rightarrow> t)
      in case parse_url p candidate origin of None \<Rightarrow> Inl (client_error ''navigation_failed'')
         | Some u \<Rightarrow>
             Inr (if prefix [u_slash] candidate \<and> \<not> prefix [u_slash, u_slash] candidate \<and>
                    \<not> list_ex (\<lambda>c. c \<in> {u_backslash, 0x0D, 0x0A, 0}) candidate \<and> length candidate \<le> 2048 \<and>
                    url_origin u = origin
                  then candidate else [u_slash]))"

text \<open>
  The address a login returns to is a path on the page's own origin: it starts with one slash, never
  two, holds no backslash or line break, and resolves to the origin it was made on, or is the root.
\<close>
lemma login_returns_to_a_local_path:
  assumes "return_to p origin pathname search = Inr t"
  shows "prefix [u_slash] t \<and> \<not> prefix [u_slash, u_slash] t \<and> u_backslash \<notin> set t \<and> length t \<le> 2048 \<and>
    (t = [u_slash] \<or> map_option url_origin (parse_url p t origin) = Some origin)"
proof -
  define cand where "cand = (case pathname of None \<Rightarrow> [u_slash] | Some t \<Rightarrow> t) @ (case search of None \<Rightarrow> [] | Some t \<Rightarrow> t)"
  obtain u where u: "parse_url p cand origin = Some u"
    using assms by (auto simp: return_to_def cand_def [symmetric] Let_def split: option.splits)
  let ?ok = "prefix [u_slash] cand \<and> \<not> prefix [u_slash, u_slash] cand \<and>
    \<not> list_ex (\<lambda>c. c \<in> {u_backslash, 0x0D, 0x0A, 0}) cand \<and> length cand \<le> 2048 \<and> url_origin u = origin"
  have t: "t = (if ?ok then cand else [u_slash])"
    using assms u by (simp only: return_to_def cand_def [symmetric] Let_def option.case sum.inject)
  show ?thesis
  proof (cases ?ok)
    case True
    have "t = cand" using t if_P [OF True] by (rule trans)
    moreover have "u_backslash \<notin> set cand" using True by (auto simp: list_ex_iff)
    ultimately show ?thesis using True u by simp
  next
    case False
    have "t = [u_slash]" using t if_not_P [OF False] by (rule trans)
    then show ?thesis by (simp add: u_slash_def)
  qed
qed

lemma login_returns_to_a_local_path_witness:
  "prefix [u_slash] [u_slash, 0x61] \<and> \<not> prefix [u_slash, u_slash] [u_slash, 0x61]"
proof -
  have "return_to simple_platform (units ''h'') (Some [u_slash, 0x61]) None = Inr [u_slash, 0x61]" by code_simp
  from login_returns_to_a_local_path [OF this] show ?thesis by blast
qed

end
