(* ===== verification/Browser_Meter.thy ===== *)
theory Browser_Meter
  imports Browser_Calls
begin

text \<open>
  \<open>boundedMeter\<close> and \<open>boundedLogger\<close> of \<open>console/out/browsertelemetry/index.js\<close>: what an application
  may ask of the OpenTelemetry meter and logger. Instruments, callbacks and observations are counted, and
  what is not valid is reported and dropped. The meter of the SDK is known by the calls it gets.
\<close>

section \<open>Values\<close>

text \<open>A number of JavaScript; only whether it is finite matters, and its value when it is.\<close>

datatype double = Finite rat | Not_finite

definition is_finite :: "double \<Rightarrow> bool" where "is_finite x \<longleftrightarrow> x \<noteq> Not_finite"

datatype attribute = Attr_text js_text | Attr_bool bool | Attr_number double | Attr_other

text \<open>No attributes, a value that is no plain object, or its entries\<close>

datatype attributes = Attributes_undefined | Attributes_invalid | Attributes "(js_text \<times> attribute) list"

definition valid_attribute :: "js_text \<times> attribute \<Rightarrow> bool" where
  "valid_attribute kv \<longleftrightarrow>
     length (fst kv) \<le> 64 \<and> length (fst kv) > 0 \<and>
     (case snd kv of
        Attr_text value \<Rightarrow> length value \<le> 256
      | Attr_bool b \<Rightarrow> True
      | Attr_number x \<Rightarrow> is_finite x
      | Attr_other \<Rightarrow> False)"

definition validAttributes :: "attributes \<Rightarrow> bool" where
  "validAttributes as =
     (case as of
        Attributes_undefined \<Rightarrow> True
      | Attributes_invalid \<Rightarrow> False
      | Attributes entries \<Rightarrow> length entries \<le> 16 \<and> list_all valid_attribute entries)"

definition valid_point :: "double \<Rightarrow> attributes \<Rightarrow> bool" where
  "valid_point x as \<longleftrightarrow> is_finite x \<and> validAttributes as"

section \<open>The meter\<close>

datatype instrument_kind =
    Counter | UpDownCounter | Histogram | Gauge | ObservableCounter | ObservableGauge | ObservableUpDownCounter

definition is_observable :: "instrument_kind \<Rightarrow> bool" where
  "is_observable k \<longleftrightarrow> k \<in> {ObservableCounter, ObservableGauge, ObservableUpDownCounter}"

text \<open>\<open>add\<close> of the counters, \<open>record\<close> of the others; observables have neither.\<close>

definition records_points :: "instrument_kind \<Rightarrow> bool" where "records_points k \<longleftrightarrow> \<not> is_observable k"

text \<open>An instrument is known by its kind and name, a callback by a number; a batch by its callback and instruments.\<close>

type_synonym instrument = "instrument_kind \<times> string"
type_synonym callback = nat

record meter =
  mt_instruments :: "instrument list"
  mt_callbacks :: "(instrument \<times> callback) list"
  mt_batches :: "(callback \<times> instrument list) list"
  mt_callback_count :: nat

definition new_meter :: meter where
  "new_meter = \<lparr>mt_instruments = [], mt_callbacks = [], mt_batches = [], mt_callback_count = 0\<rparr>"

text \<open>The calls of the SDK's meter, and the reports of records that are not valid\<close>

datatype meter_effect =
    Create_inner instrument
  | Record_inner instrument double attributes
  | Add_inner_callback instrument callback
  | Remove_inner_callback instrument callback
  | Add_inner_batch callback "instrument list"
  | Remove_inner_batch callback "instrument list"
  | Observe_inner instrument double attributes
  | Invalid_record

text \<open>\<open>/^[a-zA-Z][a-zA-Z0-9_.-]{0,127}$/\<close>\<close>

definition letter :: "char \<Rightarrow> bool" where
  "letter c \<longleftrightarrow> (let n = code_unit c in 65 \<le> n \<and> n \<le> 90 \<or> 97 \<le> n \<and> n \<le> 122)"

definition instrument_name :: "string \<Rightarrow> bool" where
  "instrument_name s \<longleftrightarrow>
     (case s of
        [] \<Rightarrow> False
      | c # r \<Rightarrow> letter c \<and> length r \<le> 127 \<and> list_all (\<lambda>d. letter d \<or> is_digit d \<or> d \<in> set ''_.-'') r)"

text \<open>What an application gives for a name, a callback or a list of observables\<close>

datatype 'a argument = Proper 'a | Improper

text \<open>A created instrument: a bounded one, or the instrument without effect that a refused creation returns.\<close>

definition create_instrument :: "instrument_kind \<Rightarrow> string argument \<Rightarrow> meter \<Rightarrow> meter \<times> meter_effect list" where
  "create_instrument kind name m =
     (case name of
        Improper \<Rightarrow> (m, [Invalid_record])
      | Proper n \<Rightarrow>
          let known = (kind, n) \<in> set (mt_instruments m)
          in if \<not> instrument_name n \<or> (\<not> known \<and> length (mt_instruments m) \<ge> 32) then (m, [Invalid_record])
             else if known then (m, [])
             else (m\<lparr>mt_instruments := mt_instruments m @ [(kind, n)]\<rparr>, [Create_inner (kind, n)]))"

definition record_point :: "instrument \<Rightarrow> double \<Rightarrow> attributes \<Rightarrow> meter \<Rightarrow> meter \<times> meter_effect list" where
  "record_point i x as m = (m, [if valid_point x as then Record_inner i x as else Invalid_record])"

definition add_callback :: "instrument \<Rightarrow> callback argument \<Rightarrow> meter \<Rightarrow> meter \<times> meter_effect list" where
  "add_callback i callback m =
     (case callback of
        Improper \<Rightarrow> (m, [Invalid_record])
      | Proper c \<Rightarrow>
          if (i, c) \<in> set (mt_callbacks m) then (m, [])
          else if mt_callback_count m \<ge> 32 then (m, [Invalid_record])
          else (m\<lparr>mt_callbacks := mt_callbacks m @ [(i, c)], mt_callback_count := mt_callback_count m + 1\<rparr>,
                [Add_inner_callback i c]))"

definition remove_callback :: "instrument \<Rightarrow> callback argument \<Rightarrow> meter \<Rightarrow> meter \<times> meter_effect list" where
  "remove_callback i callback m =
     (case callback of
        Improper \<Rightarrow> (m, [])
      | Proper c \<Rightarrow>
          if (i, c) \<notin> set (mt_callbacks m) then (m, [])
          else (m\<lparr>mt_callbacks := removeAll (i, c) (mt_callbacks m), mt_callback_count := mt_callback_count m - 1\<rparr>,
                [Remove_inner_callback i c]))"

text \<open>
  The instruments of a list of observables of this meter, without repetitions; a list with anything else
  selects nothing.
\<close>

definition observable_of :: "meter \<Rightarrow> instrument argument \<Rightarrow> instrument option" where
  "observable_of m v =
     (case v of
        Proper i \<Rightarrow> if i \<in> set (mt_instruments m) \<and> is_observable (fst i) then Some i else None
      | Improper \<Rightarrow> None)"

definition in_order :: "'a list \<Rightarrow> 'a list" where "in_order xs = rev (remdups (rev xs))"

definition selectedObservables :: "meter \<Rightarrow> instrument argument list argument \<Rightarrow> instrument list option" where
  "selectedObservables m values =
     (case values of
        Improper \<Rightarrow> None
      | Proper vs \<Rightarrow>
          if vs = [] \<or> length vs > 32 then None
          else let found = map (observable_of m) vs
               in if None \<in> set found then None else Some (in_order (map the found)))"

definition sameSelection :: "instrument list \<Rightarrow> instrument list \<Rightarrow> bool" where
  "sameSelection left right \<longleftrightarrow> length left = length right \<and> list_all (\<lambda>v. v \<in> set right) left"

definition same_entry :: "callback \<Rightarrow> instrument list \<Rightarrow> callback \<times> instrument list \<Rightarrow> bool" where
  "same_entry c selected entry \<longleftrightarrow> fst entry = c \<and> sameSelection (snd entry) selected"

definition add_batch ::
    "callback argument \<Rightarrow> instrument argument list argument \<Rightarrow> meter \<Rightarrow> meter \<times> meter_effect list" where
  "add_batch callback values m =
     (case (callback, selectedObservables m values) of
        (Proper c, Some selected) \<Rightarrow>
          if list_ex (same_entry c selected) (mt_batches m) then (m, [])
          else if mt_callback_count m \<ge> 32 then (m, [Invalid_record])
          else (m\<lparr>mt_batches := mt_batches m @ [(c, selected)], mt_callback_count := mt_callback_count m + 1\<rparr>,
                [Add_inner_batch c selected])
      | _ \<Rightarrow> (m, [Invalid_record]))"

text \<open>\<open>splice(index, 1)\<close> at the first entry that is the same\<close>

fun splice_first :: "('a \<Rightarrow> bool) \<Rightarrow> 'a list \<Rightarrow> 'a list" where
  "splice_first P [] = []"
| "splice_first P (x # xs) = (if P x then xs else x # splice_first P xs)"

definition remove_batch ::
    "callback argument \<Rightarrow> instrument argument list argument \<Rightarrow> meter \<Rightarrow> meter \<times> meter_effect list" where
  "remove_batch callback values m =
     (case (callback, selectedObservables m values) of
        (Proper c, Some selected) \<Rightarrow>
          (case find (same_entry c selected) (mt_batches m) of
             None \<Rightarrow> (m, [])
           | Some entry \<Rightarrow>
               (m\<lparr>mt_batches := splice_first (same_entry c selected) (mt_batches m),
                  mt_callback_count := mt_callback_count m - 1\<rparr>,
                [Remove_inner_batch c selected]))
      | _ \<Rightarrow> (m, []))"

section \<open>Observations\<close>

text \<open>
  What a callback observes when the SDK collects, under the budget of one collection: points of its own
  instrument, or of the instruments of its batch.
\<close>

fun observe :: "nat \<Rightarrow> (instrument \<times> double \<times> attributes) list \<Rightarrow> meter_effect list" where
  "observe remaining [] = []"
| "observe remaining ((i, x, as) # os) =
     (if \<not> valid_point x as then Invalid_record # observe remaining os
      else case remaining of
        0 \<Rightarrow> Invalid_record # observe 0 os
      | Suc r \<Rightarrow> Observe_inner i x as # observe r os)"

definition collect_single :: "instrument \<Rightarrow> (double \<times> attributes) list \<Rightarrow> meter_effect list" where
  "collect_single i os = observe 32 (map (Pair i) os)"

fun observe_batch ::
    "meter \<Rightarrow> instrument list \<Rightarrow> nat \<Rightarrow> (instrument argument \<times> double \<times> attributes) list \<Rightarrow> meter_effect list" where
  "observe_batch m selected remaining [] = []"
| "observe_batch m selected remaining ((v, x, as) # os) =
     (case observable_of m v of
        None \<Rightarrow> Invalid_record # observe_batch m selected remaining os
      | Some i \<Rightarrow>
          if i \<notin> set selected then Invalid_record # observe_batch m selected remaining os
          else if \<not> valid_point x as then Invalid_record # observe_batch m selected remaining os
          else (case remaining of
            0 \<Rightarrow> Invalid_record # observe_batch m selected 0 os
          | Suc r \<Rightarrow> Observe_inner i x as # observe_batch m selected r os))"

definition collect_batch ::
    "meter \<Rightarrow> instrument list \<Rightarrow> (instrument argument \<times> double \<times> attributes) list \<Rightarrow> meter_effect list" where
  "collect_batch m selected os = observe_batch m selected 32 os"

section \<open>The meter as a machine\<close>

datatype meter_event =
    Create instrument_kind "string argument"
  | Record_point instrument double attributes
  | Add_callback instrument "callback argument"
  | Remove_callback instrument "callback argument"
  | Add_batch "callback argument" "instrument argument list argument"
  | Remove_batch "callback argument" "instrument argument list argument"
  | Collect_single instrument callback "(double \<times> attributes) list"
  | Collect_batch callback "instrument list" "(instrument argument \<times> double \<times> attributes) list"

text \<open>
  An instrument is used once it was created, with the methods of its kind; the SDK calls the callbacks
  that are registered with it.
\<close>

definition meter_enabled :: "unit \<Rightarrow> meter \<Rightarrow> meter_event \<Rightarrow> bool" where
  "meter_enabled u m e =
     (case e of
        Record_point i x as \<Rightarrow> i \<in> set (mt_instruments m) \<and> records_points (fst i)
      | Add_callback i c \<Rightarrow> i \<in> set (mt_instruments m) \<and> is_observable (fst i)
      | Remove_callback i c \<Rightarrow> i \<in> set (mt_instruments m) \<and> is_observable (fst i)
      | Collect_single i c os \<Rightarrow> (i, c) \<in> set (mt_callbacks m)
      | Collect_batch c selected os \<Rightarrow> (c, selected) \<in> set (mt_batches m)
      | _ \<Rightarrow> True)"

definition meter_handle :: "unit \<Rightarrow> meter_event \<Rightarrow> meter \<Rightarrow> meter \<times> meter_effect list" where
  "meter_handle u e m =
     (case e of
        Create kind name \<Rightarrow> create_instrument kind name m
      | Record_point i x as \<Rightarrow> record_point i x as m
      | Add_callback i c \<Rightarrow> add_callback i c m
      | Remove_callback i c \<Rightarrow> remove_callback i c m
      | Add_batch c vs \<Rightarrow> add_batch c vs m
      | Remove_batch c vs \<Rightarrow> remove_batch c vs m
      | Collect_single i c os \<Rightarrow> (m, collect_single i os)
      | Collect_batch c selected os \<Rightarrow> (m, collect_batch m selected os))"

section \<open>What is kept\<close>

text \<open>The callbacks and batches registered with the SDK after its calls; a batch is known by its set of instruments.\<close>

type_synonym registry = "(instrument \<times> callback) set \<times> (callback \<times> instrument set) set"

fun register :: "registry \<Rightarrow> meter_effect \<Rightarrow> registry" where
  "register (cs, bs) (Add_inner_callback i c) = (insert (i, c) cs, bs)"
| "register (cs, bs) (Remove_inner_callback i c) = (cs - {(i, c)}, bs)"
| "register (cs, bs) (Add_inner_batch c s) = (cs, insert (c, set s) bs)"
| "register (cs, bs) (Remove_inner_batch c s) = (cs, bs - {(c, set s)})"
| "register r _ = r"

definition registered :: "meter_effect list \<Rightarrow> registry" where
  "registered l = foldl register ({}, {}) l"

definition batch_key :: "callback \<times> instrument list \<Rightarrow> callback \<times> instrument set" where
  "batch_key entry = (fst entry, set (snd entry))"

definition created :: "meter_effect list \<Rightarrow> instrument list" where
  "created l = concat (map (\<lambda>x. case x of Create_inner i \<Rightarrow> [i] | _ \<Rightarrow> []) l)"

text \<open>A point that reaches the SDK is valid and of an instrument of the meter.\<close>

fun point_ok :: "instrument list \<Rightarrow> meter_effect \<Rightarrow> bool" where
  "point_ok is (Record_inner i x as) = (valid_point x as \<and> i \<in> set is)"
| "point_ok is (Observe_inner i x as) = (valid_point x as \<and> i \<in> set is)"
| "point_ok is _ = True"

definition observables :: "meter \<Rightarrow> instrument set" where
  "observables m = {i \<in> set (mt_instruments m). is_observable (fst i)}"

definition meter_ok :: "meter \<Rightarrow> bool" where
  "meter_ok m \<longleftrightarrow>
     distinct (mt_instruments m) \<and> length (mt_instruments m) \<le> 32 \<and>
     (\<forall>i \<in> set (mt_instruments m). instrument_name (snd i)) \<and>
     distinct (mt_callbacks m) \<and> fst ` set (mt_callbacks m) \<subseteq> observables m \<and>
     distinct (map batch_key (mt_batches m)) \<and>
     (\<forall>b \<in> set (mt_batches m). distinct (snd b) \<and> set (snd b) \<subseteq> observables m) \<and>
     mt_callback_count m = length (mt_callbacks m) + length (mt_batches m) \<and> mt_callback_count m \<le> 32"

definition meter_inv :: "(unit \<times> meter_event) list \<Rightarrow> meter \<Rightarrow> meter_effect list \<Rightarrow> bool" where
  "meter_inv evs m l \<longleftrightarrow>
     meter_ok m \<and> created l = mt_instruments m \<and> list_all (point_ok (mt_instruments m)) l \<and>
     registered l = (set (mt_callbacks m), batch_key ` set (mt_batches m))"

lemma in_order_simps [simp]: "set (in_order xs) = set xs" "distinct (in_order xs)"
  by (simp_all add: in_order_def)

lemma observable_of_Some: "observable_of m v = Some i \<Longrightarrow> i \<in> observables m"
  by (auto simp: observable_of_def observables_def split: argument.splits if_splits)

lemma selected_facts:
  assumes "selectedObservables m values = Some selected"
  shows "distinct selected" "set selected \<subseteq> observables m"
proof -
  obtain vs where vs: "None \<notin> set (map (observable_of m) vs)"
    and s: "selected = in_order (map the (map (observable_of m) vs))"
    using assms by (auto simp: selectedObservables_def Let_def split: argument.splits if_splits)
  show "distinct selected" by (simp add: s)
  show "set selected \<subseteq> observables m"
  proof
    fix i assume "i \<in> set selected"
    then obtain v where v: "v \<in> set vs" "i = the (observable_of m v)" by (auto simp: s)
    then have "observable_of m v \<noteq> None" using vs by (metis image_eqI set_map)
    then show "i \<in> observables m" using observable_of_Some v(2) by force
  qed
qed

lemma sameSelection_sets: "distinct l \<Longrightarrow> distinct r \<Longrightarrow> sameSelection l r \<longleftrightarrow> set l = set r"
  unfolding sameSelection_def list_all_iff
  by (metis List.finite_set card_subset_eq distinct_card subset_code(1) subset_refl)

lemma splice_first_key:
  assumes "distinct (map f xs)" "\<And>x. x \<in> set xs \<Longrightarrow> P x \<longleftrightarrow> f x = k" "find P xs = Some e"
  shows "set (map f (splice_first P xs)) = set (map f xs) - {k}" "distinct (map f (splice_first P xs))"
    "set (splice_first P xs) \<subseteq> set xs" "length xs = Suc (length (splice_first P xs))"
  using assms by (induction xs) (auto split: if_splits)

lemma same_batch:
  assumes "meter_ok m" "distinct selected" "entry \<in> set (mt_batches m)"
  shows "same_entry c selected entry \<longleftrightarrow> batch_key entry = (c, set selected)"
  using assms sameSelection_sets [of "snd entry" selected] by (auto simp: meter_ok_def batch_key_def same_entry_def)

lemma observed:
  assumes "fst ` set os \<subseteq> set is"
  shows "list_all (point_ok is) (observe n os)"
  using assms by (induction n os rule: observe.induct) (auto split: nat.split)

lemma observed_batch:
  assumes "set selected \<subseteq> set (mt_instruments m)"
  shows "list_all (point_ok (mt_instruments m)) (observe_batch m selected n os)"
  using assms by (induction m selected n os rule: observe_batch.induct) (auto split: option.split nat.split)

definition quiet :: "meter_effect \<Rightarrow> bool" where
  "quiet x \<longleftrightarrow> (case x of Record_inner i y as \<Rightarrow> True | Observe_inner i y as \<Rightarrow> True | Invalid_record \<Rightarrow> True | _ \<Rightarrow> False)"

lemma quiet_effects:
  assumes "list_all quiet xs"
  shows "foldl register r xs = r" "created xs = []"
proof -
  have "quiet x \<Longrightarrow> register r x = r" for r x by (cases r; cases x) (simp_all add: quiet_def)
  then show "foldl register r xs = r" using assms by (induction xs) simp_all
  show "created xs = []"
    using assms by (induction xs) (auto simp: created_def quiet_def split: meter_effect.splits)
qed

lemma observe_quiet: "list_all quiet (observe n os)"
  by (induction n os rule: observe.induct) (auto simp: quiet_def split: nat.split)

lemma observe_batch_quiet: "list_all quiet (observe_batch m selected n os)"
  by (induction m selected n os rule: observe_batch.induct) (auto simp: quiet_def split: option.split nat.split)

lemma quiet_step:
  "meter_inv evs m l \<Longrightarrow> list_all quiet xs \<Longrightarrow> list_all (point_ok (mt_instruments m)) xs \<Longrightarrow>
     meter_inv evs' m (l @ xs)"
  using quiet_effects [of xs] by (simp add: meter_inv_def registered_def created_def)

lemma point_ok_more: "set is \<subseteq> set js \<Longrightarrow> point_ok is x \<Longrightarrow> point_ok js x"
  by (cases x) auto

lemma refused_step:
  assumes inv: "meter_inv evs m l"
  shows "meter_inv evs' m l" "meter_inv evs' m (l @ [Invalid_record])"
  using quiet_step [OF inv, of "[]"] quiet_step [OF inv, of "[Invalid_record]"] by (simp_all add: quiet_def)

lemma create_step:
  assumes inv: "meter_inv evs m l" and h: "create_instrument kind name m = (m', xs)"
  shows "meter_inv evs' m' (l @ xs)"
proof (cases name)
  case Improper
  then show ?thesis using refused_step [OF inv] h by (auto simp: create_instrument_def)
next
  case (Proper n)
  consider "\<not> instrument_name n" | "(kind, n) \<in> set (mt_instruments m)" | "\<not> length (mt_instruments m) < 32"
    | "instrument_name n" "(kind, n) \<notin> set (mt_instruments m)" "length (mt_instruments m) < 32" by blast
  then show ?thesis
  proof cases
    case 4
    have m': "m' = m\<lparr>mt_instruments := mt_instruments m @ [(kind, n)]\<rparr>" and xs: "xs = [Create_inner (kind, n)]"
      using h 4 by (simp_all add: create_instrument_def Proper)
    have ok: "meter_ok m" using inv by (simp add: meter_inv_def)
    have obs: "observables m \<subseteq> observables m'" by (auto simp: observables_def m')
    have "meter_ok m'"
      unfolding meter_ok_def
    proof (intro conjI)
      have "fst ` set (mt_callbacks m') \<subseteq> observables m" using ok by (simp add: meter_ok_def m')
      then show "fst ` set (mt_callbacks m') \<subseteq> observables m'" using obs by (rule order_trans)
      show "\<forall>b\<in>set (mt_batches m'). distinct (snd b) \<and> set (snd b) \<subseteq> observables m'"
        using ok obs unfolding meter_ok_def m' by fastforce
    qed (use ok 4 in \<open>auto simp: meter_ok_def m'\<close>)
    moreover have "list_all (point_ok (mt_instruments m')) l"
      using inv point_ok_more [of "mt_instruments m" "mt_instruments m'"]
      by (auto simp: meter_inv_def list_all_iff m')
    ultimately show ?thesis
      using inv by (cases "registered l") (simp add: meter_inv_def m' xs created_def registered_def)
  qed (use refused_step [OF inv] h in \<open>simp_all add: create_instrument_def Proper Let_def split: if_splits\<close>)
qed

lemma add_callback_step:
  assumes inv: "meter_inv evs m l" and i: "i \<in> observables m" and h: "add_callback i callback m = (m', xs)"
  shows "meter_inv evs' m' (l @ xs)"
proof (cases callback)
  case Improper
  then show ?thesis using refused_step [OF inv] h by (auto simp: add_callback_def)
next
  case (Proper c)
  consider "(i, c) \<in> set (mt_callbacks m)" | "\<not> mt_callback_count m < 32"
    | "(i, c) \<notin> set (mt_callbacks m)" "mt_callback_count m < 32" by blast
  then show ?thesis
  proof cases
    case 3
    have m': "m' = m\<lparr>mt_callbacks := mt_callbacks m @ [(i, c)], mt_callback_count := mt_callback_count m + 1\<rparr>"
      and xs: "xs = [Add_inner_callback i c]"
      using h 3 by (simp_all add: add_callback_def Proper)
    have "observables m' = observables m" by (simp add: observables_def m')
    then have "meter_ok m'" using inv 3 i by (auto simp: meter_inv_def meter_ok_def m')
    then show ?thesis using inv by (simp add: meter_inv_def m' xs created_def registered_def)
  qed (use refused_step [OF inv] h in \<open>simp_all add: add_callback_def Proper split: if_splits\<close>)
qed

lemma remove_callback_step:
  assumes inv: "meter_inv evs m l" and h: "remove_callback i callback m = (m', xs)"
  shows "meter_inv evs' m' (l @ xs)"
proof (cases callback)
  case Improper
  then show ?thesis using refused_step [OF inv] h by (auto simp: remove_callback_def)
next
  case (Proper c)
  show ?thesis
  proof (cases "(i, c) \<in> set (mt_callbacks m)")
    case True
    have m': "m' = m\<lparr>mt_callbacks := removeAll (i, c) (mt_callbacks m), mt_callback_count := mt_callback_count m - 1\<rparr>"
      and xs: "xs = [Remove_inner_callback i c]"
      using h True by (simp_all add: remove_callback_def Proper)
    have ok: "meter_ok m" using inv by (simp add: meter_inv_def)
    then have len: "length (mt_callbacks m) = Suc (length (removeAll (i, c) (mt_callbacks m)))"
      using True length_pos_if_in_set [OF True]
      by (simp add: meter_ok_def distinct_remove1_removeAll [symmetric] length_remove1)
    have "observables m' = observables m" by (simp add: observables_def m')
    then have "meter_ok m'"
      using ok len by (auto simp: meter_ok_def m' distinct_removeAll)
    then show ?thesis
      using inv by (simp add: meter_inv_def m' xs created_def registered_def)
  qed (use refused_step [OF inv] h in \<open>simp add: remove_callback_def Proper\<close>)
qed

lemma add_batch_step:
  assumes inv: "meter_inv evs m l" and h: "add_batch callback values m = (m', xs)"
  shows "meter_inv evs' m' (l @ xs)"
proof (cases callback)
  case Improper
  then show ?thesis using refused_step [OF inv] h by (auto simp: add_batch_def)
next
  case (Proper c)
  show ?thesis
  proof (cases "selectedObservables m values")
    case None
    then show ?thesis using refused_step [OF inv] h by (auto simp: add_batch_def Proper)
  next
    case sel: (Some selected)
    note s = selected_facts [OF sel]
    consider "list_ex (same_entry c selected) (mt_batches m)" | "\<not> mt_callback_count m < 32"
      | "\<not> list_ex (same_entry c selected) (mt_batches m)" "mt_callback_count m < 32" by blast
    then show ?thesis
    proof cases
      case 3
      have m': "m' = m\<lparr>mt_batches := mt_batches m @ [(c, selected)], mt_callback_count := mt_callback_count m + 1\<rparr>"
        and xs: "xs = [Add_inner_batch c selected]"
        using h 3 by (simp_all add: add_batch_def Proper sel)
      have ok: "meter_ok m" using inv by (simp add: meter_inv_def)
      have "(c, set selected) \<notin> set (map batch_key (mt_batches m))"
        using 3(1) same_batch [OF ok s(1)] by (auto simp: list_ex_iff)
      moreover have "observables m' = observables m" by (simp add: observables_def m')
      moreover have "batch_key (c, selected) = (c, set selected)" by (simp add: batch_key_def)
      ultimately have "meter_ok m'"
        using ok s 3(2) by (auto simp: meter_ok_def m')
      then show ?thesis
        using inv by (simp add: meter_inv_def m' xs created_def registered_def batch_key_def)
    qed (use refused_step [OF inv] h in \<open>simp_all add: add_batch_def Proper sel split: if_splits\<close>)
  qed
qed

lemma remove_batch_step:
  assumes inv: "meter_inv evs m l" and h: "remove_batch callback values m = (m', xs)"
  shows "meter_inv evs' m' (l @ xs)"
proof (cases callback)
  case Improper
  then show ?thesis using refused_step [OF inv] h by (auto simp: remove_batch_def)
next
  case (Proper c)
  show ?thesis
  proof (cases "selectedObservables m values")
    case None
    then show ?thesis using refused_step [OF inv] h by (auto simp: remove_batch_def Proper)
  next
    case sel: (Some selected)
    show ?thesis
    proof (cases "find (same_entry c selected) (mt_batches m)")
      case None
      then show ?thesis using refused_step [OF inv] h by (auto simp: remove_batch_def Proper sel)
    next
      case (Some entry)
      have m': "m' = m\<lparr>mt_batches := splice_first (same_entry c selected) (mt_batches m),
          mt_callback_count := mt_callback_count m - 1\<rparr>" and xs: "xs = [Remove_inner_batch c selected]"
        using h by (simp_all add: remove_batch_def Proper sel Some)
      have ok: "meter_ok m" using inv by (simp add: meter_inv_def)
      have d: "distinct (map batch_key (mt_batches m))" using ok by (simp add: meter_ok_def)
      note sp = splice_first_key [OF d same_batch [OF ok selected_facts(1) [OF sel]] Some]
      have "observables m' = observables m" by (simp add: observables_def m')
      then have "meter_ok m'"
        using ok sp(2,3,4) by (auto simp: meter_ok_def m')
      then show ?thesis
        using inv sp(1) by (simp add: meter_inv_def m' xs created_def registered_def)
    qed
  qed
qed

lemma meter_step:
  assumes inv: "meter_inv evs m l" and en: "meter_enabled g m e" and h: "meter_handle g e m = (m', xs)"
  shows "meter_inv (evs @ [(g, e)]) m' (l @ xs)"
proof (cases e)
  case (Create kind name)
  then show ?thesis using inv h create_step by (simp add: meter_handle_def)
next
  case (Record_point i x as)
  then have "m' = m" "xs = [if valid_point x as then Record_inner i x as else Invalid_record]" "i \<in> set (mt_instruments m)"
    using h en by (simp_all add: meter_handle_def record_point_def meter_enabled_def)
  then show ?thesis using quiet_step [OF inv, of xs] by (simp add: quiet_def del: append_Cons)
next
  case (Add_callback i c)
  then show ?thesis
    using inv h en add_callback_step by (simp add: meter_handle_def meter_enabled_def observables_def)
next
  case (Remove_callback i c)
  then show ?thesis using inv h remove_callback_step by (simp add: meter_handle_def)
next
  case (Add_batch c vs)
  then show ?thesis using inv h add_batch_step by (simp add: meter_handle_def)
next
  case (Remove_batch c vs)
  then show ?thesis using inv h remove_batch_step by (simp add: meter_handle_def)
next
  case (Collect_single i c os)
  have "fst ` set (mt_callbacks m) \<subseteq> set (mt_instruments m)"
    using inv by (auto simp: meter_inv_def meter_ok_def observables_def)
  then have "i \<in> set (mt_instruments m)" using en by (force simp: Collect_single meter_enabled_def)
  then have "list_all (point_ok (mt_instruments m)) (collect_single i os)"
    unfolding collect_single_def by (intro observed) auto
  then show ?thesis
    using h quiet_step [OF inv observe_quiet] by (auto simp: Collect_single meter_handle_def collect_single_def)
next
  case (Collect_batch c selected os)
  have "set selected \<subseteq> set (mt_instruments m)"
    using inv en by (force simp: Collect_batch meter_enabled_def meter_inv_def meter_ok_def observables_def)
  from observed_batch [OF this] show ?thesis
    using h quiet_step [OF inv observe_batch_quiet] by (auto simp: Collect_batch meter_handle_def collect_batch_def)
qed

interpretation metering: logged_invariant meter_enabled meter_handle new_meter meter_inv
proof
  show "meter_inv [] new_meter []"
    by (simp add: meter_inv_def meter_ok_def new_meter_def created_def registered_def)
qed (rule meter_step)

section \<open>Properties of the meter\<close>



definition forwarded :: "meter_effect list \<Rightarrow> (instrument \<times> double \<times> attributes) list" where
  "forwarded l = concat (map (\<lambda>x. case x of Observe_inner i y as \<Rightarrow> [(i, y, as)] | _ \<Rightarrow> []) l)"

text \<open>The points of a collection that count: of an observable of the batch, and valid\<close>

definition batch_points ::
    "meter \<Rightarrow> instrument list \<Rightarrow> (instrument argument \<times> double \<times> attributes) list \<Rightarrow> (instrument \<times> double \<times> attributes) list" where
  "batch_points m selected os =
     [(i, x, as). (v, x, as) \<leftarrow> os, i \<leftarrow> (case observable_of m v of None \<Rightarrow> [] | Some i \<Rightarrow> [i]),
        i \<in> set selected, valid_point x as]"

lemma observe_forwards: "forwarded (observe n os) = take n (filter (\<lambda>(i, x, as). valid_point x as) os)"
  by (induction n os rule: observe.induct) (auto simp: forwarded_def take_Cons' split: nat.split)

lemma observe_batch_forwards: "forwarded (observe_batch m selected n os) = take n (batch_points m selected os)"
  by (induction m selected n os rule: observe_batch.induct)
    (auto simp: forwarded_def batch_points_def take_Cons' split: nat.split option.split)

text \<open>
  A collection passes on the first 32 valid observations of a callback, in order, and reports every
  other one: those over the budget, those with a number or attributes that are not valid and, for a batch,
  those of an instrument the batch was not registered for.
\<close>
lemma collection_keeps_the_first_valid_points:
  "forwarded (collect_batch m selected os) = take 32 (batch_points m selected os) \<and>
   length (filter (\<lambda>x. x = Invalid_record) (collect_batch m selected os)) + length (forwarded (collect_batch m selected os))
     = length os \<and>
   forwarded (collect_single i ps) = take 32 (map (Pair i) (filter (\<lambda>(x, as). valid_point x as) ps))"
proof -
  have "length (filter (\<lambda>x. x = Invalid_record) (observe_batch m selected n os)) +
      length (forwarded (observe_batch m selected n os)) = length os" for n
    by (induction m selected n os rule: observe_batch.induct) (auto simp: forwarded_def split: nat.split option.split)
  moreover have "filter (\<lambda>(i, x, as). valid_point x as) (map (Pair i) ps) =
      map (Pair i) (filter (\<lambda>(x, as). valid_point x as) ps)"
    by (induction ps) auto
  ultimately show ?thesis
    by (simp add: collect_batch_def collect_single_def observe_batch_forwards observe_forwards)
qed

section \<open>The logger\<close>

datatype log_body = Body_undefined | Body_text js_text | Body_other

text \<open>What an application gives to \<open>emit\<close>: nothing, or a record\<close>

datatype log_record = No_record | Log_record log_body attributes

datatype logger_effect = Emit_inner log_record | Invalid_log_record

definition emit :: "log_record \<Rightarrow> logger_effect" where
  "emit r =
     (case r of
        No_record \<Rightarrow> Invalid_log_record
      | Log_record body as \<Rightarrow>
          if (case body of Body_undefined \<Rightarrow> False | Body_text t \<Rightarrow> length t > 512 | Body_other \<Rightarrow> True) \<or> \<not> validAttributes as
          then Invalid_log_record else Emit_inner r)"

lemma emit_keeps: "emit r = Emit_inner r' \<longleftrightarrow>
    r' = r \<and> (\<exists>body as. r = Log_record body as \<and> validAttributes as \<and>
      (body = Body_undefined \<or> (\<exists>t. body = Body_text t \<and> length t \<le> 512)))"
  by (auto simp: emit_def split: log_record.split log_body.split)

end
