(* ===== verification/Browser_Telemetry.thy ===== *)
theory Browser_Telemetry
  imports Browser_Meter "HOL-Library.Multiset"
begin

text \<open>
  \<open>console/out/browsertelemetry/index.js\<close>: identifiers from the platform's entropy, the exporter with its
  bounded responses, the settings of a page and the life of a telemetry client. Entropy, the parser of the
  settings, the serializers of OpenTelemetry and the text decoder are parameters.
\<close>

section \<open>Identifiers\<close>

text \<open>\<open>x.toString(16).padStart(2, "0")\<close>\<close>

definition hex_digit :: "nat \<Rightarrow> char" where
  "hex_digit n = (if n < 10 then char_of (48 + n) else char_of (87 + n))"

definition hex_byte :: "8 word \<Rightarrow> string" where
  "hex_byte x = [hex_digit (unat x div 16), hex_digit (unat x mod 16)]"

text \<open>
  A source of entropy fills an array of a size: the bytes and the source after it. Three arrays of zeros in
  a row are a failure.
\<close>

type_synonym 'r entropy = "nat \<Rightarrow> 'r \<Rightarrow> 8 word list \<times> 'r"

datatype telemetry_error = Entropy_failed | Invalid_trace_id

fun random_attempts :: "'r entropy \<Rightarrow> nat \<Rightarrow> nat \<Rightarrow> ('r, telemetry_error, string) act" where
  "random_attempts fill_array 0 bytes = act_throw Entropy_failed"
| "random_attempts fill_array (Suc attempts) bytes =
     act_bind (act_effect (fill_array bytes)) (\<lambda>data.
       if list_ex (\<lambda>x. x \<noteq> 0) data then act_return (concat (map hex_byte data))
       else random_attempts fill_array attempts bytes)"

definition randomID :: "'r entropy \<Rightarrow> nat \<Rightarrow> ('r, telemetry_error, string) act" where
  "randomID fill_array bytes = random_attempts fill_array 3 bytes"

definition valid_trace_id :: "string \<Rightarrow> bool" where
  "valid_trace_id s \<longleftrightarrow> length s = 32 \<and> list_all lower_hex s \<and> s \<noteq> replicate 32 (CHR ''0'')"

text \<open>\<open>RootTraceIdGenerator\<close>: the identifier for the next trace, beside the source of entropy\<close>

record 'r generator =
  gn_next :: "string option"
  gn_source :: 'r

definition primeTraceId :: "string argument \<Rightarrow> ('r generator, telemetry_error, unit) act" where
  "primeTraceId argument g =
     (case argument of
        Improper \<Rightarrow> (Inl Invalid_trace_id, g)
      | Proper s \<Rightarrow> if valid_trace_id s then (Inr (), g\<lparr>gn_next := Some s\<rparr>) else (Inl Invalid_trace_id, g))"

definition from_source :: "('r, telemetry_error, 'a) act \<Rightarrow> ('r generator, telemetry_error, 'a) act" where
  "from_source a g = (case a (gn_source g) of (r, source) \<Rightarrow> (r, g\<lparr>gn_source := source\<rparr>))"

definition generateTraceId :: "'r entropy \<Rightarrow> ('r generator, telemetry_error, string) act" where
  "generateTraceId fill_array g =
     (case gn_next g of
        Some s \<Rightarrow> (Inr s, g\<lparr>gn_next := None\<rparr>)
      | None \<Rightarrow> from_source (randomID fill_array 16) g)"

definition generateSpanId :: "'r entropy \<Rightarrow> ('r generator, telemetry_error, string) act" where
  "generateSpanId fill_array = from_source (randomID fill_array 8)"

lemma hex_digits_lower: "list_all (\<lambda>n. lower_hex (hex_digit n) \<and> (hex_digit n = CHR ''0'' \<longleftrightarrow> n = 0)) [0..<16]"
  by code_simp

lemma hex_digit_facts: "n < 16 \<Longrightarrow> lower_hex (hex_digit n)" "n < 16 \<Longrightarrow> hex_digit n = CHR ''0'' \<longleftrightarrow> n = 0"
  using hex_digits_lower by (simp_all add: list_all_iff)

lemma hex_byte_facts:
  "length (hex_byte x) = 2" "list_all lower_hex (hex_byte x)"
  "hex_byte x = [CHR ''0'', CHR ''0''] \<longleftrightarrow> x = 0"
proof -
  have "unat x < 256" using unsigned_less [of x, where ?'a = nat] by simp
  then have "unat x div 16 < 16" by (simp add: less_mult_imp_div_less)
  then have d: "lower_hex (hex_digit (unat x div 16))" "hex_digit (unat x div 16) = CHR ''0'' \<longleftrightarrow> unat x div 16 = 0"
    "lower_hex (hex_digit (unat x mod 16))" "hex_digit (unat x mod 16) = CHR ''0'' \<longleftrightarrow> unat x mod 16 = 0"
    using hex_digit_facts by simp_all
  show "length (hex_byte x) = 2" "list_all lower_hex (hex_byte x)" using d by (simp_all add: hex_byte_def)
  have "unat x div 16 = 0 \<and> unat x mod 16 = 0 \<longleftrightarrow> unat x = 0"
    using div_mult_mod_eq [of "unat x" 16] by auto
  then show "hex_byte x = [CHR ''0'', CHR ''0''] \<longleftrightarrow> x = 0" using d by (simp add: hex_byte_def unat_eq_zero)
qed

lemma hex_bytes:
  "length (concat (map hex_byte data)) = 2 * length data" "list_all lower_hex (concat (map hex_byte data))"
  "concat (map hex_byte data) = replicate (2 * length data) (CHR ''0'') \<longleftrightarrow> \<not> list_ex (\<lambda>x. x \<noteq> 0) data"
proof (induction data)
  case (Cons x data)
  have two: "replicate (2 * length (x # data)) (CHR ''0'') =
      [CHR ''0'', CHR ''0''] @ replicate (2 * length data) (CHR ''0'')" by simp
  {
    case 3
    have "hex_byte x @ concat (map hex_byte data) = [CHR ''0'', CHR ''0''] @ replicate (2 * length data) (CHR ''0'') \<longleftrightarrow>
        hex_byte x = [CHR ''0'', CHR ''0''] \<and> concat (map hex_byte data) = replicate (2 * length data) (CHR ''0'')"
      by (rule append_eq_append_conv) (simp add: hex_byte_facts)
    then show ?case unfolding two using Cons(3) by (simp add: hex_byte_facts(3))
  }
  {
    case 2
    then show ?case using Cons(2) hex_byte_facts(2) [of x] by simp
  }
qed (simp_all add: hex_byte_facts)

text \<open>The entropy fills what it is asked for.\<close>

definition fills :: "'r entropy \<Rightarrow> bool" where
  "fills fill_array \<longleftrightarrow> (\<forall>n r. length (fst (fill_array n r)) = n)"

lemma random_valid:
  "fills fill_array \<Longrightarrow> random_attempts fill_array k n r = (Inr s, r') \<Longrightarrow>
     length s = 2 * n \<and> list_all lower_hex s \<and> s \<noteq> replicate (2 * n) (CHR ''0'')"
proof (induction fill_array k n arbitrary: r rule: random_attempts.induct)
  case (2 fill_array attempts n)
  obtain data r1 where d: "fill_array n r = (data, r1)" by (cases "fill_array n r")
  then have len: "length data = n" using 2(2) by (metis fills_def fst_conv)
  show ?case
  proof (cases "list_ex (\<lambda>x. x \<noteq> 0) data")
    case True
    then have s: "s = concat (map hex_byte data)" using 2(3) d by (simp add: act_simps)
    show ?thesis unfolding s using hex_bytes [of data] True len by simp
  next
    case False
    then show ?thesis using 2(1) [OF False 2(2), of r1] 2(3) d by (simp add: act_simps)
  qed
qed (simp add: act_simps)

text \<open>
  Every trace is identified properly: the identifier of a trace is the one that was primed, if it was,
  and is used once; any other is drawn from the entropy, and in either case it has 32 hexadecimal digits
  that are not all zeros, and the identifier of a span has 16; so the trace context made of them is one the
  session client accepts. The hypothesis is the platform's: \<open>getRandomValues\<close> fills the array.
\<close>
lemma generated_identifiers_are_valid:
  assumes "fills fill_array" "case gn_next g of None \<Rightarrow> True | Some s \<Rightarrow> valid_trace_id s"
    and "generateTraceId fill_array g = (Inr trace, g1)" "generateSpanId fill_array g1 = (Inr sid, g2)"
  shows "(case gn_next g of Some s \<Rightarrow> trace = s | None \<Rightarrow> True) \<and> gn_next g1 = None \<and> gn_next g2 = None \<and>
    valid_trace_id trace \<and>
    check_options (Options [(''traceparent'', Option_text (''00-'' @ trace @ ''-'' @ sid @ ''-01''))]) =
      Inr (Some (''00-'' @ trace @ ''-'' @ sid @ ''-01''))"
proof -
  have trace: "valid_trace_id trace" "case gn_next g of Some s \<Rightarrow> trace = s | None \<Rightarrow> True" "gn_next g1 = None"
    using assms(2,3) random_valid [OF assms(1), of 3 16 "gn_source g" trace]
    by (auto simp: generateTraceId_def from_source_def randomID_def valid_trace_id_def split: option.splits prod.splits)
  have sid: "length sid = 16" "list_all lower_hex sid" "sid \<noteq> replicate 16 (CHR ''0'')"
    using assms(4) random_valid [OF assms(1), of 3 8 "gn_source g1" sid]
    by (auto simp: generateSpanId_def from_source_def randomID_def split: prod.splits)
  have next2: "gn_next g2 = None"
    using assms(4) trace(3) by (auto simp: generateSpanId_def from_source_def split: prod.splits)
  have t: "length trace = 32" "list_all lower_hex trace" "trace \<noteq> replicate 32 (CHR ''0'')"
    using trace(1) by (simp_all add: valid_trace_id_def)
  have "valid_traceparent (''00-'' @ trace @ ''-'' @ sid @ ''-01'')"
    using t sid unfolding valid_traceparent_def by simp
  then show ?thesis using trace next2 by (simp add: check_options_def)
qed

definition counting_entropy :: "nat entropy" where
  "counting_entropy n r = (replicate n (of_nat r), Suc r)"

lemma generated_identifiers_are_valid_witness:
  "\<exists>trace g1 sid g2. generateTraceId counting_entropy \<lparr>gn_next = None, gn_source = 0\<rparr> = (Inr trace, g1) \<and>
     generateSpanId counting_entropy g1 = (Inr sid, g2) \<and> valid_trace_id trace"
proof -
  let ?g = "\<lparr>gn_next = None, gn_source = 0\<rparr> :: nat generator"
  have fill: "fills counting_entropy" by (simp add: fills_def counting_entropy_def)
  have "case generateTraceId counting_entropy ?g of (Inr trace, g1) \<Rightarrow>
      (case generateSpanId counting_entropy g1 of (Inr sid, g2) \<Rightarrow> True | _ \<Rightarrow> False) | _ \<Rightarrow> False" by code_simp
  then obtain trace g1 sid g2 where run: "generateTraceId counting_entropy ?g = (Inr trace, g1)"
    "generateSpanId counting_entropy g1 = (Inr sid, g2)"
    by (auto split: prod.splits sum.splits)
  show ?thesis using generated_identifiers_are_valid [OF fill _ run] run by auto
qed

section \<open>Bounded responses\<close>

definition maxBody :: nat where "maxBody = 262144"
definition maxResponse :: nat where "maxResponse = 16384"

text \<open>A response: the chunks a reader of its body gives, if it has one, and then fails when it is broken.\<close>

record response =
  er_status :: nat
  er_content_type :: "string option"
  er_content_length :: "string option"
  er_chunks :: "8 word list list option"
  er_broken :: bool

datatype body_effect = Cancel_body | Cancel_reader | Release_reader

text \<open>The loop over the chunks: the parts and the size of what was read\<close>

fun read_parts :: "nat \<Rightarrow> 8 word list list \<Rightarrow> bool \<Rightarrow> 8 word list list \<Rightarrow> (8 word list list \<times> nat) option" where
  "read_parts len parts broken [] = (if broken then None else Some (parts, len))"
| "read_parts len parts broken (c # cs) =
     (let len = len + length c
      in if maxResponse < len then None else read_parts len (parts @ [c]) broken cs)"

text \<open>\<open>bytes.set(part, offset)\<close>\<close>

definition set_part :: "8 word list \<times> nat \<Rightarrow> 8 word list \<Rightarrow> 8 word list \<times> nat" where
  "set_part bo part =
     (take (snd bo) (fst bo) @ part @ drop (snd bo + length part) (fst bo), snd bo + length part)"

definition boundedBody :: "response \<Rightarrow> 8 word list option \<times> body_effect list" where
  "boundedBody rs =
     (let refused = (case er_content_length rs of None \<Rightarrow> False
        | Some declared \<Rightarrow>
            \<not> (declared \<noteq> [] \<and> list_all is_digit declared) \<or> maxResponse < digits_value declared)
      in if refused then (None, if er_chunks rs = None then [] else [Cancel_body])
         else case er_chunks rs of None \<Rightarrow> (Some [], [])
         | Some chunks \<Rightarrow>
             (case read_parts 0 [] (er_broken rs) chunks of
                None \<Rightarrow> (None, [Cancel_reader, Release_reader])
              | Some (parts, len) \<Rightarrow> (Some (fst (foldl set_part (replicate len 0, 0) parts)), [Release_reader])))"

lemma read_parts_Some:
  "read_parts len parts broken cs = Some (ps, n) \<Longrightarrow> len \<le> maxResponse \<Longrightarrow>
     ps = parts @ cs \<and> n = len + length (concat cs) \<and> n \<le> maxResponse \<and> \<not> broken"
  by (induction len parts broken cs arbitrary: ps n rule: read_parts.induct)
    (auto simp: Let_def split: if_splits)

lemma set_parts:
  "length done + length (concat parts) \<le> length bytes \<Longrightarrow> take (length done) bytes = done \<Longrightarrow>
     fst (foldl set_part (bytes, length done) parts) =
       done @ concat parts @ drop (length done + length (concat parts)) bytes"
proof (induction parts arbitrary: "done" bytes)
  case Nil
  then show ?case by (metis append_Nil append_take_drop_id concat.simps(1) foldl_Nil fst_conv length_0_conv add.right_neutral)
next
  case (Cons p parts)
  let ?bytes = "done @ p @ drop (length done + length p) bytes"
  have "fst (foldl set_part (?bytes, length (done @ p)) parts) =
      (done @ p) @ concat parts @ drop (length (done @ p) + length (concat parts)) ?bytes"
    using Cons.prems by (intro Cons.IH) auto
  moreover have "set_part (bytes, length done) p = (?bytes, length (done @ p))"
    using Cons.prems(2) by (simp add: set_part_def)
  ultimately show ?case by (simp add: ac_simps)
qed

lemma bounded_body_bytes:
  assumes "boundedBody rs = (Some bytes, fx)"
  shows "bytes = concat (case er_chunks rs of None \<Rightarrow> [] | Some cs \<Rightarrow> cs) \<and> length bytes \<le> maxResponse \<and>
    fx = (if er_chunks rs = None then [] else [Release_reader])"
proof (cases "er_chunks rs")
  case None
  then show ?thesis using assms by (auto simp: boundedBody_def Let_def maxResponse_def split: if_splits)
next
  case chunks: (Some cs)
  obtain ps n where read: "read_parts 0 [] (er_broken rs) cs = Some (ps, n)"
    and b: "bytes = fst (foldl set_part (replicate n 0, 0) ps)" "fx = [Release_reader]"
    using assms chunks by (auto simp: boundedBody_def Let_def split: if_splits option.splits)
  have p: "ps = cs" "n = length (concat cs)" "n \<le> maxResponse" using read_parts_Some [OF read] by simp_all
  have "bytes = concat cs" using set_parts [of "[]" cs "replicate n 0"] b(1) p by simp
  then show ?thesis using chunks b(2) p by simp
qed

text \<open>
  A body is read whole or not at all: what \<open>boundedBody\<close> returns are the bytes of the chunks in order, at
  most 16384 of them, however the response is cut into chunks and whatever length it declares; a reader is
  always released, and cancelled before when the limit is passed or the body breaks.
\<close>
lemma body_is_read_whole_or_refused:
  "case boundedBody rs of
     (Some bytes, fx) \<Rightarrow>
       bytes = concat (case er_chunks rs of None \<Rightarrow> [] | Some cs \<Rightarrow> cs) \<and> length bytes \<le> maxResponse \<and>
       fx = (if er_chunks rs = None then [] else [Release_reader])
   | (None, fx) \<Rightarrow> fx \<in> {[], [Cancel_body], [Cancel_reader, Release_reader]}"
proof (cases "boundedBody rs")
  case (Pair r fx)
  show ?thesis
  proof (cases r)
    case None
    then show ?thesis using Pair by (auto simp: boundedBody_def Let_def split: if_splits option.splits prod.splits)
  next
    case (Some bytes)
    then show ?thesis using Pair bounded_body_bytes by simp
  qed
qed

section \<open>Sending a batch\<close>

datatype signal = Traces | Logs | Metrics

fun signal_str :: "signal \<Rightarrow> string" where
  "signal_str Traces = ''traces''"
| "signal_str Logs = ''logs''"
| "signal_str Metrics = ''metrics''"

record export_request =
  xr_url :: string
  xr_post :: bool
  xr_accept :: string
  xr_content_type :: "string option"
  xr_csrf :: "js_text option"
  xr_body :: "8 word list option"

text \<open>No response also stands for a request that the deadline aborted.\<close>

datatype export_outcome = No_response | Response response

record export_network =
  xn_sent :: "export_request list"
  xn_outcomes :: "export_outcome list"

type_synonym 'a export_act = "(export_network, unit, 'a) act"

definition export_fetch :: "export_request \<Rightarrow> response export_act" where
  "export_fetch rq n =
     (let n' = n\<lparr>xn_sent := xn_sent n @ [rq], xn_outcomes := tl (xn_outcomes n)\<rparr>
      in case xn_outcomes n of
           Response rs # _ \<Rightarrow> if 200 \<le> er_status rs \<and> er_status rs \<le> 299 then (Inr rs, n') else (Inl (), n')
         | _ \<Rightarrow> (Inl (), n'))"

definition media_type :: "response \<Rightarrow> string" where
  "media_type rs =
     to_lower (trim (takeWhile (\<lambda>c. c \<noteq> CHR '';'') (case er_content_type rs of None \<Rightarrow> [] | Some t \<Rightarrow> t)))"

definition session_request :: "string \<Rightarrow> export_request" where
  "session_request origin =
     \<lparr>xr_url = origin @ ''/auth/session'', xr_post = False, xr_accept = ''application/json'',
      xr_content_type = None, xr_csrf = None, xr_body = None\<rparr>"

definition telemetry_request :: "string \<Rightarrow> signal \<Rightarrow> js_text \<Rightarrow> 8 word list \<Rightarrow> export_request" where
  "telemetry_request origin sig token data =
     \<lparr>xr_url = origin @ ''/telemetry/v1/'' @ signal_str sig, xr_post = True, xr_accept = ''application/x-protobuf'',
      xr_content_type = Some ''application/x-protobuf'', xr_csrf = Some token, xr_body = Some data\<rparr>"

text \<open>The token of a parsed session that is authenticated\<close>

definition export_token :: "jvalue \<Rightarrow> js_text option" where
  "export_token v =
     (case session_token v of
        None \<Rightarrow> None
      | Some t \<Rightarrow> if authenticated v \<and> is_token t then Some t else None)"

text \<open>What a deserialized answer rejects\<close>

record partial_success =
  ps_spans :: "int option"
  ps_log_records :: "int option"
  ps_data_points :: "int option"
  ps_message :: "string option"

definition rejects :: "partial_success option \<Rightarrow> bool" where
  "rejects p =
     (case p of
        None \<Rightarrow> False
      | Some ps \<Rightarrow>
          (case ps_spans ps of None \<Rightarrow> False | Some n \<Rightarrow> n \<noteq> 0) \<or>
          (case ps_log_records ps of None \<Rightarrow> False | Some n \<Rightarrow> n \<noteq> 0) \<or>
          (case ps_data_points ps of None \<Rightarrow> False | Some n \<Rightarrow> n \<noteq> 0) \<or> truthy (ps_message ps))"

record export_codec =
  parse_session :: "8 word list \<Rightarrow> jvalue option"
  deserialize :: "8 word list \<Rightarrow> partial_success option option"

definition read_body :: "response \<Rightarrow> 8 word list export_act" where
  "read_body rs = (case fst (boundedBody rs) of None \<Rightarrow> act_throw () | Some bytes \<Rightarrow> act_return bytes)"

definition fetch_token :: "export_codec \<Rightarrow> string \<Rightarrow> js_text export_act" where
  "fetch_token codec origin =
     act_bind (export_fetch (session_request origin)) (\<lambda>rs.
       if media_type rs \<noteq> ''application/json'' then act_throw ()
       else act_bind (read_body rs) (\<lambda>bytes.
         case parse_session codec bytes of
           None \<Rightarrow> act_throw ()
         | Some v \<Rightarrow> (case export_token v of None \<Rightarrow> act_throw () | Some t \<Rightarrow> act_return t)))"

definition send_export :: "export_codec \<Rightarrow> string \<Rightarrow> signal \<Rightarrow> 8 word list \<Rightarrow> unit export_act" where
  "send_export codec origin sig data =
     act_bind (fetch_token codec origin) (\<lambda>token.
     act_bind (export_fetch (telemetry_request origin sig token data)) (\<lambda>rs.
     act_bind (read_body rs) (\<lambda>body.
       if body = [] then act_return ()
       else if media_type rs \<noteq> ''application/x-protobuf'' then act_throw ()
       else case deserialize codec body of
           None \<Rightarrow> act_throw ()
         | Some answer \<Rightarrow> if rejects answer then act_throw () else act_return ())))"

lemma fetch_token_cases:
  "fetch_token codec origin n = (r, n') \<Longrightarrow>
     xn_sent n' = xn_sent n @ [session_request origin] \<and>
     (\<forall>t. r = Inr t \<longrightarrow> (\<exists>rs rest bytes v. xn_outcomes n = Response rs # rest \<and> xn_outcomes n' = rest \<and>
        200 \<le> er_status rs \<and> er_status rs \<le> 299 \<and> fst (boundedBody rs) = Some bytes \<and>
        parse_session codec bytes = Some v \<and> authenticated v \<and> session_token v = Some t \<and> is_token t))"
  by (auto simp: fetch_token_def export_fetch_def read_body_def export_token_def act_simps Let_def
      split: list.splits export_outcome.splits option.splits if_splits)

text \<open>
  C29. Nothing is exported without a session: a send asks for the session first and posts the batch only with
  the token of an authenticated session that this send read in a bounded response; it makes no third request,
  and it succeeds only when the post was answered with success and nothing in it was rejected.
\<close>
theorem export_needs_a_session:
  assumes "send_export codec origin sig data n = (r, n')"
  shows "xn_sent n' = xn_sent n @ [session_request origin] \<and> r = Inl () \<or>
    (\<exists>rs rest bytes v t. xn_outcomes n = Response rs # rest \<and> fst (boundedBody rs) = Some bytes \<and>
      length bytes \<le> maxResponse \<and> parse_session codec bytes = Some v \<and>
      authenticated v \<and> session_token v = Some t \<and> is_token t \<and>
      xn_sent n' = xn_sent n @ [session_request origin, telemetry_request origin sig t data] \<and>
      (r = Inr () \<longrightarrow>
        (\<exists>rs2 rest2 body. rest = Response rs2 # rest2 \<and> 200 \<le> er_status rs2 \<and> er_status rs2 \<le> 299 \<and>
          fst (boundedBody rs2) = Some body \<and>
          (body = [] \<or> (\<exists>answer. deserialize codec body = Some answer \<and> \<not> rejects answer)))))"
proof -
  obtain r1 n1 where f: "fetch_token codec origin n = (r1, n1)" by (cases "fetch_token codec origin n")
  note c = fetch_token_cases [OF f]
  show ?thesis
  proof (cases r1)
    case (Inl e)
    then show ?thesis using assms c f by (simp add: send_export_def act_simps)
  next
    case (Inr t)
    then obtain rs rest bytes v where o: "xn_outcomes n = Response rs # rest" "xn_outcomes n1 = rest"
        "fst (boundedBody rs) = Some bytes" "parse_session codec bytes = Some v" "authenticated v"
        "session_token v = Some t" "is_token t"
      using c by blast
    have "length bytes \<le> maxResponse"
      using bounded_body_bytes [of rs bytes] o(3) by (cases "boundedBody rs") auto
    moreover have "xn_sent n' = xn_sent n1 @ [telemetry_request origin sig t data]"
      using assms f Inr
      by (auto simp: send_export_def export_fetch_def read_body_def act_simps Let_def
          split: list.splits export_outcome.splits option.splits if_splits)
    moreover have "\<exists>rs2 rest2 body. rest = Response rs2 # rest2 \<and> 200 \<le> er_status rs2 \<and> er_status rs2 \<le> 299 \<and>
          fst (boundedBody rs2) = Some body \<and>
          (body = [] \<or> (\<exists>answer. deserialize codec body = Some answer \<and> \<not> rejects answer))" if "r = Inr ()"
      using assms f Inr o(2) that
      by (auto simp: send_export_def export_fetch_def read_body_def act_simps Let_def
          split: list.splits export_outcome.splits option.splits if_splits)
    ultimately show ?thesis using c o by auto
  qed
qed

definition token_text_43 :: js_text where "token_text_43 = replicate 43 0x61"

definition one_session :: export_codec where
  "one_session =
     \<lparr>parse_session = (\<lambda>bytes. Some (VObject [(units ''authenticated'', VBool True), (units ''csrf_token'', VString token_text_43)])),
      deserialize = (\<lambda>bytes. None)\<rparr>"

definition json_answer :: response where
  "json_answer =
     \<lparr>er_status = 200, er_content_type = Some ''application/json'', er_content_length = None, er_chunks = Some [[1, 2]],
      er_broken = False\<rparr>"

lemma export_needs_a_session_witness:
  "\<exists>n'. send_export one_session ''o'' Logs [7] \<lparr>xn_sent = [], xn_outcomes = [Response json_answer, No_response]\<rparr> = (Inl (), n') \<and>
     xn_sent n' = [session_request ''o'', telemetry_request ''o'' Logs token_text_43 [7]]"
proof -
  let ?n = "\<lparr>xn_sent = [], xn_outcomes = [Response json_answer, No_response]\<rparr>"
  have "case send_export one_session ''o'' Logs [7] ?n of (r, n') \<Rightarrow> r = Inl () \<and> length (xn_sent n') = 2 \<and>
      map xr_csrf (xn_sent n') = [None, Some token_text_43]" by code_simp
  then obtain n' where run: "send_export one_session ''o'' Logs [7] ?n = (Inl (), n')"
    and l: "length (xn_sent n') = 2" "map xr_csrf (xn_sent n') = [None, Some token_text_43]" by auto
  show ?thesis
    using export_needs_a_session [OF run] run l by (auto simp: telemetry_request_def)
qed

section \<open>The exporter\<close>

text \<open>
  Exports are numbered in the order of their calls. A pending task is sending, has settled, or has called
  back and is about to be forgotten.
\<close>

datatype task_phase = Sending | Settled bool | Called_back

record exporter =
  ex_stopped :: bool
  ex_pending :: "(nat \<times> task_phase) list"
  ex_calls :: nat

definition exporter_init :: exporter where
  "exporter_init = \<lparr>ex_stopped = False, ex_pending = [], ex_calls = 0\<rparr>"

text \<open>An export comes with the serialized records, unless the serializer throws or gives no bytes.\<close>

datatype exporter_event =
    Export "8 word list option"
  | Send_settles nat bool
  | Calls_back nat
  | Forgotten nat
  | Stop
  | Abort_controllers

datatype exporter_effect =
    Start_send nat "8 word list"
  | Report_export_failed
  | Callback nat bool
  | Abort nat

text \<open>\<open>finish\<close>\<close>

definition finish :: "nat \<Rightarrow> bool \<Rightarrow> exporter_effect list" where
  "finish n ok = (if ok then [] else [Report_export_failed]) @ [Callback n ok]"

definition set_phase :: "nat \<Rightarrow> task_phase \<Rightarrow> (nat \<times> task_phase) list \<Rightarrow> (nat \<times> task_phase) list" where
  "set_phase n ph ts = map (\<lambda>t. if fst t = n then (n, ph) else t) ts"

definition exporter_enabled :: "unit \<Rightarrow> exporter \<Rightarrow> exporter_event \<Rightarrow> bool" where
  "exporter_enabled u x e =
     (case e of
        Export data \<Rightarrow> True
      | Send_settles n ok \<Rightarrow> (n, Sending) \<in> set (ex_pending x)
      | Calls_back n \<Rightarrow> (n, Settled True) \<in> set (ex_pending x) \<or> (n, Settled False) \<in> set (ex_pending x)
      | Forgotten n \<Rightarrow> (n, Called_back) \<in> set (ex_pending x)
      | Stop \<Rightarrow> \<not> ex_stopped x
      | Abort_controllers \<Rightarrow> ex_stopped x \<and> list_all (\<lambda>t. snd t = Called_back) (ex_pending x))"

definition export_records :: "8 word list option \<Rightarrow> exporter \<Rightarrow> exporter \<times> exporter_effect list" where
  "export_records data x =
     (let n = ex_calls x; called = x\<lparr>ex_calls := n + 1\<rparr>
      in if ex_stopped x \<or> length (ex_pending x) \<ge> 1 then (called, finish n False)
         else case data of
           None \<Rightarrow> (called, finish n False)
         | Some d \<Rightarrow>
             if length d > maxBody then (called, finish n False)
             else (called\<lparr>ex_pending := ex_pending x @ [(n, Sending)]\<rparr>, [Start_send n d]))"

definition exporter_handle :: "unit \<Rightarrow> exporter_event \<Rightarrow> exporter \<Rightarrow> exporter \<times> exporter_effect list" where
  "exporter_handle u e x =
     (case e of
        Export data \<Rightarrow> export_records data x
      | Send_settles n ok \<Rightarrow> (x\<lparr>ex_pending := set_phase n (Settled ok) (ex_pending x)\<rparr>, [])
      | Calls_back n \<Rightarrow>
          (x\<lparr>ex_pending := set_phase n Called_back (ex_pending x)\<rparr>, finish n ((n, Settled True) \<in> set (ex_pending x)))
      | Forgotten n \<Rightarrow> (x\<lparr>ex_pending := filter (\<lambda>t. fst t \<noteq> n) (ex_pending x)\<rparr>, [])
      | Stop \<Rightarrow> (x\<lparr>ex_stopped := True\<rparr>, [])
      | Abort_controllers \<Rightarrow>
          (x, map (Abort \<circ> fst) (filter (\<lambda>t. snd t = Sending) (ex_pending x))))"

definition answered :: "exporter_effect list \<Rightarrow> nat list" where
  "answered l = concat (map (\<lambda>x. case x of Callback n ok \<Rightarrow> [n] | _ \<Rightarrow> []) l)"

definition refusals :: "exporter_effect list \<Rightarrow> nat" where
  "refusals l = length (filter (\<lambda>x. case x of Callback n ok \<Rightarrow> \<not> ok | _ \<Rightarrow> False) l)"

definition reports :: "exporter_effect list \<Rightarrow> nat" where
  "reports l = length (filter (\<lambda>x. x = Report_export_failed) l)"

definition small_starts :: "exporter_effect list \<Rightarrow> bool" where
  "small_starts l \<longleftrightarrow> (\<forall>n d. Start_send n d \<in> set l \<longrightarrow> length d \<le> maxBody)"

text \<open>The calls that wait for their answer\<close>

definition waiting_calls :: "exporter \<Rightarrow> nat list" where
  "waiting_calls x = map fst (filter (\<lambda>t. snd t \<noteq> Called_back) (ex_pending x))"

definition exporter_inv :: "(unit \<times> exporter_event) list \<Rightarrow> exporter \<Rightarrow> exporter_effect list \<Rightarrow> bool" where
  "exporter_inv evs x l \<longleftrightarrow>
     length (ex_pending x) \<le> 1 \<and> mset (answered l @ waiting_calls x) = mset [0..<ex_calls x] \<and>
     reports l = refusals l \<and> small_starts l \<and> (\<forall>n. Abort n \<notin> set l)"

lemmas exporter_simps = answered_def refusals_def reports_def small_starts_def waiting_calls_def finish_def

lemma exporter_step:
  assumes inv: "exporter_inv evs x l" and en: "exporter_enabled g x e" and h: "exporter_handle g e x = (x', xs)"
  shows "exporter_inv (evs @ [(g, e)]) x' (l @ xs)"
proof (cases "ex_pending x")
  case Nil
  show ?thesis
    using inv en h Nil
    by (cases e) (auto simp: exporter_inv_def exporter_enabled_def exporter_handle_def export_records_def Let_def
        exporter_simps atLeast0_lessThan_Suc split: option.splits if_splits)
next
  case (Cons t ts)
  obtain n ph where t: "t = (n, ph)" by fastforce
  have one: "ex_pending x = [(n, ph)]" using inv Cons t by (cases ts) (simp_all add: exporter_inv_def)
  show ?thesis
    using inv en h one
    by (cases e; cases ph) (auto simp: exporter_inv_def exporter_enabled_def exporter_handle_def export_records_def Let_def
        exporter_simps set_phase_def atLeast0_lessThan_Suc split: option.splits if_splits)
qed

interpretation exporting: logged_invariant exporter_enabled exporter_handle exporter_init exporter_inv
proof
  show "exporter_inv [] exporter_init []"
    by (simp add: exporter_inv_def exporter_init_def exporter_simps)
qed (rule exporter_step)



section \<open>Loss reports of the queues\<close>

datatype loss = Queue_full | Export_failed

text \<open>
  \<open>add\<close> of the counters the batch processors get: a positive count with an error type is reported; the
  processors report only the loss of a full queue. The empty type is falsy.
\<close>

definition counted_loss :: "double \<Rightarrow> string option \<Rightarrow> loss option" where
  "counted_loss x error =
     (case (keep_truthy error, x) of
        (Some e, Finite q) \<Rightarrow> if 0 < q then Some (if e = ''queue_full'' then Queue_full else Export_failed) else None
      | _ \<Rightarrow> None)"

definition queue_report :: "loss \<Rightarrow> loss option" where
  "queue_report reason = (if reason = Queue_full then Some reason else None)"

definition healthMeter :: "double \<Rightarrow> string option \<Rightarrow> loss option" where
  "healthMeter x error = Option.bind (counted_loss x error) queue_report"

lemma healthMeter_reports:
  "healthMeter x error = Some reason \<longleftrightarrow> reason = Queue_full \<and> error = Some ''queue_full'' \<and> (\<exists>q. x = Finite q \<and> 0 < q)"
  by (auto simp: healthMeter_def counted_loss_def queue_report_def keep_truthy_Some
      split: option.splits double.splits if_splits)

section \<open>Settings\<close>

text \<open>The option \<open>sampleRatio\<close> of an application, and once it is checked\<close>

datatype ratio_option = Ratio_undefined | Ratio_null | Ratio_number double | Ratio_other

datatype override = No_override | Null_override | Override rat

text \<open>What \<open>JSON.parse\<close> gives: it throws, gives a falsy value, or a value with its own properties.\<close>

datatype config_value = Config_bool bool | Config_number double | Config_other
datatype config_data = Config_throws | Config_falsy | Config_properties "(string \<times> config_value) list"

record settings =
  st_traces :: bool
  st_logs :: bool
  st_metrics :: bool
  st_ratio :: "rat option"

definition off :: settings where
  "off = \<lparr>st_traces = False, st_logs = False, st_metrics = False, st_ratio = Some 0\<rparr>"

definition config_keys :: "string list" where
  "config_keys = [''version'', ''traces'', ''logs'', ''metrics'', ''sampleRatio'']"

definition config_flag :: "(string \<times> config_value) list \<Rightarrow> string \<Rightarrow> bool option" where
  "config_flag ps k = (case map_of ps k of Some (Config_bool b) \<Rightarrow> Some b | _ \<Rightarrow> None)"

definition config_ratio :: "(string \<times> config_value) list \<Rightarrow> rat option" where
  "config_ratio ps =
     (case map_of ps ''sampleRatio'' of
        Some (Config_number (Finite q)) \<Rightarrow> if q < 0 \<or> 1 < q then None else Some q
      | _ \<Rightarrow> None)"

definition read_config :: "override \<Rightarrow> (string \<times> config_value) list \<Rightarrow> settings" where
  "read_config override ps =
     (if length ps \<noteq> 5 \<or> list_ex (\<lambda>p. fst p \<notin> set config_keys) ps \<or>
         map_of ps ''version'' \<noteq> Some (Config_number (Finite 1)) then off
      else case (config_flag ps ''traces'', config_flag ps ''logs'', config_flag ps ''metrics'', config_ratio ps) of
        (Some traces, Some logs, Some metrics, Some q) \<Rightarrow>
          \<lparr>st_traces = traces, st_logs = logs, st_metrics = metrics,
           st_ratio = Some (if traces then min q (case override of Override r \<Rightarrow> r | _ \<Rightarrow> q) else 0)\<rparr>
      | _ \<Rightarrow> off)"

text \<open>The contents of the \<open>meta\<close> elements of the page; an element without the attribute has none.\<close>

definition browserSettings :: "(string \<Rightarrow> config_data) \<Rightarrow> string option list \<Rightarrow> override \<Rightarrow> settings" where
  "browserSettings parse metas override =
     (case metas of
        [] \<Rightarrow>
          (case override of
             No_override \<Rightarrow> off
           | Null_override \<Rightarrow> \<lparr>st_traces = True, st_logs = True, st_metrics = True, st_ratio = None\<rparr>
           | Override r \<Rightarrow> \<lparr>st_traces = True, st_logs = True, st_metrics = True, st_ratio = Some r\<rparr>)
      | [Some content] \<Rightarrow>
          if length content > 256 then off
          else (case parse content of Config_properties ps \<Rightarrow> read_config override ps | _ \<Rightarrow> off)
      | _ \<Rightarrow> off)"

lemma settings_cases:
  "metas = [] \<or> metas \<noteq> [] \<and> browserSettings parse metas override = off \<or>
   (\<exists>content ps. metas = [Some content] \<and> length content \<le> 256 \<and> parse content = Config_properties ps \<and>
      browserSettings parse metas override = read_config override ps)"
  by (cases metas rule: remdups_adj.cases) (auto simp: browserSettings_def split: option.split config_data.split)

section \<open>Creation\<close>

datatype report_option = Report_undefined | Report_function | Report_other

record telemetry_options =
  to_keys :: "string list"
  to_ratio :: ratio_option
  to_report :: report_option

definition check_telemetry_options :: "telemetry_options argument \<Rightarrow> override option" where
  "check_telemetry_options options =
     (case options of
        Improper \<Rightarrow> None
      | Proper o' \<Rightarrow>
          if list_ex (\<lambda>k. k \<noteq> ''sampleRatio'' \<and> k \<noteq> ''reportDeliveryFailure'') (to_keys o') then None
          else if to_report o' = Report_other then None
          else (case to_ratio o' of
                  Ratio_undefined \<Rightarrow> Some No_override
                | Ratio_null \<Rightarrow> Some Null_override
                | Ratio_number (Finite r) \<Rightarrow> if r < 0 \<or> 1 < r then None else Some (Override r)
                | _ \<Rightarrow> None))"

text \<open>The page: its URL, if it has a location, and the platform's functions\<close>

record page_url =
  pu_https :: bool
  pu_username :: string
  pu_password :: string

record runtime =
  rt_url :: "page_url option"
  rt_fetch :: bool
  rt_crypto :: bool
  rt_metas :: "string option list"

datatype created_telemetry = Telemetry_type_error | Telemetry_without_effect | Telemetry settings

definition createBrowserTelemetry ::
    "(string \<Rightarrow> config_data) \<Rightarrow> runtime \<Rightarrow> nat \<Rightarrow> telemetry_options argument \<Rightarrow> created_telemetry" where
  "createBrowserTelemetry parse rt instances options =
     (case check_telemetry_options options of
        None \<Rightarrow> Telemetry_type_error
      | Some override \<Rightarrow>
          (case rt_url rt of
             None \<Rightarrow> Telemetry_without_effect
           | Some u \<Rightarrow>
               if \<not> pu_https u \<or> pu_username u \<noteq> [] \<or> pu_password u \<noteq> [] \<or> \<not> rt_fetch rt \<or> \<not> rt_crypto rt \<or>
                  instances \<ge> 4
               then Telemetry_type_error
               else Telemetry (browserSettings parse (rt_metas rt) override)))"

text \<open>What a checked ratio option says, and what a read configuration keeps to\<close>

lemma checked_ratio:
  assumes "check_telemetry_options (Proper opts) = Some ov"
  shows "to_ratio opts = Ratio_number (Finite r) \<longleftrightarrow> ov = Override r" "ov = Override r \<Longrightarrow> 0 \<le> r \<and> r \<le> 1"
    "ov = Null_override \<longleftrightarrow> to_ratio opts = Ratio_null"
  using assms
  by (auto simp: check_telemetry_options_def split: if_splits ratio_option.splits double.splits)

definition lowered :: "override \<Rightarrow> settings \<Rightarrow> bool" where
  "lowered ov st \<longleftrightarrow>
     (\<exists>q. st_ratio st = Some q \<and> 0 \<le> q \<and> q \<le> 1 \<and> (\<not> st_traces st \<longrightarrow> q = 0) \<and> (\<forall>r. ov = Override r \<longrightarrow> q \<le> r))"

definition configured :: "(string \<times> config_value) list \<Rightarrow> settings \<Rightarrow> bool" where
  "configured ps st \<longleftrightarrow>
     config_flag ps ''traces'' = Some (st_traces st) \<and> config_flag ps ''logs'' = Some (st_logs st) \<and>
     config_flag ps ''metrics'' = Some (st_metrics st) \<and>
     (\<exists>q p. st_ratio st = Some q \<and> config_ratio ps = Some p \<and> q \<le> p)"

lemma read_config_lowered:
  assumes "\<And>r. ov = Override r \<Longrightarrow> 0 \<le> r \<and> r \<le> 1"
  shows "lowered ov (read_config ov ps)" "read_config ov ps = off \<or> configured ps (read_config ov ps)"
  using assms
  by (auto simp: read_config_def config_ratio_def lowered_def configured_def off_def
      split: option.splits config_value.splits double.splits if_splits override.splits)

text \<open>
  A page only lowers the sampling: telemetry is created only over HTTPS and below four instances; the
  ratio it samples with is between 0 and 1 and at most the one the application asked for, and 0 when traces
  are off; and with any configuration in the page, each signal is on only when the page's single, proper
  configuration turns it on.
\<close>
lemma page_only_lowers_the_sampling:
  assumes "createBrowserTelemetry parse rt instances (Proper opts) = Telemetry st"
  shows "instances < 4 \<and> (\<exists>u. rt_url rt = Some u \<and> pu_https u) \<and>
    (case st_ratio st of
       None \<Rightarrow> to_ratio opts = Ratio_null \<and> rt_metas rt = []
     | Some q \<Rightarrow> 0 \<le> q \<and> q \<le> 1 \<and> (\<not> st_traces st \<longrightarrow> q = 0) \<and>
         (\<forall>r. to_ratio opts = Ratio_number (Finite r) \<longrightarrow> q \<le> r)) \<and>
    (rt_metas rt \<noteq> [] \<longrightarrow> st_traces st \<or> st_logs st \<or> st_metrics st \<longrightarrow>
       (\<exists>content ps. rt_metas rt = [Some content] \<and> length content \<le> 256 \<and> parse content = Config_properties ps \<and>
          config_flag ps ''traces'' = Some (st_traces st) \<and> config_flag ps ''logs'' = Some (st_logs st) \<and>
          config_flag ps ''metrics'' = Some (st_metrics st) \<and>
          (\<exists>q p. st_ratio st = Some q \<and> config_ratio ps = Some p \<and> q \<le> p)))"
proof -
  obtain ov u where ov: "check_telemetry_options (Proper opts) = Some ov" and u: "rt_url rt = Some u" "pu_https u" "instances < 4"
    and st: "st = browserSettings parse (rt_metas rt) ov"
    using assms by (auto simp: createBrowserTelemetry_def split: option.splits if_splits)
  note ratio = checked_ratio [OF ov]
  have quiet: "\<not> (st_traces off \<or> st_logs off \<or> st_metrics off)" and low: "lowered ov off"
    using ratio(2) by (auto simp: off_def lowered_def)
  consider "rt_metas rt = []" | "rt_metas rt \<noteq> []" "st = off"
    | content ps where "rt_metas rt = [Some content]" "length content \<le> 256" "parse content = Config_properties ps"
      "st = read_config ov ps"
    using settings_cases [of "rt_metas rt" parse ov] st by blast
  then have "(if ov = Null_override \<and> rt_metas rt = [] then st_ratio st = None else lowered ov st) \<and>
    (rt_metas rt \<noteq> [] \<longrightarrow> st_traces st \<or> st_logs st \<or> st_metrics st \<longrightarrow>
       (\<exists>content ps. rt_metas rt = [Some content] \<and> length content \<le> 256 \<and> parse content = Config_properties ps \<and>
          configured ps st))"
  proof cases
    case 1
    then show ?thesis
      using ratio(2) low st by (cases ov) (simp_all add: browserSettings_def lowered_def)
  next
    case 2
    then show ?thesis using quiet low by simp
  next
    case 3
    then show ?thesis using read_config_lowered [of ov ps] ratio(2) quiet by auto
  qed
  then show ?thesis
    using u ratio(1,3) unfolding configured_def lowered_def by (auto split: if_splits)
qed

lemma page_only_lowers_the_sampling_witness:
  "\<exists>st q. createBrowserTelemetry
       (\<lambda>t. Config_properties [(''version'', Config_number (Finite 1)), (''traces'', Config_bool True),
          (''logs'', Config_bool False), (''metrics'', Config_bool False), (''sampleRatio'', Config_number (Finite 1))])
       \<lparr>rt_url = Some \<lparr>pu_https = True, pu_username = [], pu_password = []\<rparr>, rt_fetch = True, rt_crypto = True,
        rt_metas = [Some ''x'']\<rparr>
       0 (Proper \<lparr>to_keys = [''sampleRatio''], to_ratio = Ratio_number (Finite (1 / 2)), to_report = Report_undefined\<rparr>)
     = Telemetry st \<and> st_traces st \<and> st_ratio st = Some q \<and> q \<le> 1 / 2"
proof -
  let ?options = "\<lparr>to_keys = [''sampleRatio''], to_ratio = Ratio_number (Finite (1 / 2)), to_report = Report_undefined\<rparr>"
  let ?c = "createBrowserTelemetry
       (\<lambda>t. Config_properties [(''version'', Config_number (Finite 1)), (''traces'', Config_bool True),
          (''logs'', Config_bool False), (''metrics'', Config_bool False), (''sampleRatio'', Config_number (Finite 1))])
       \<lparr>rt_url = Some \<lparr>pu_https = True, pu_username = [], pu_password = []\<rparr>, rt_fetch = True, rt_crypto = True,
        rt_metas = [Some ''x'']\<rparr> 0 (Proper ?options)"
  have "case ?c of Telemetry st \<Rightarrow> st_traces st \<and> st_ratio st \<noteq> None | _ \<Rightarrow> False" by code_simp
  then obtain st q where c: "?c = Telemetry st" "st_traces st" "st_ratio st = Some q"
    by (auto split: created_telemetry.splits)
  have "\<forall>r. to_ratio ?options = Ratio_number (Finite r) \<longrightarrow> q \<le> r"
    using page_only_lowers_the_sampling [OF c(1)] unfolding c(3) option.case by blast
  then have "to_ratio ?options = Ratio_number (Finite (1 / 2)) \<longrightarrow> q \<le> 1 / 2" by (rule spec)
  then have "q \<le> 1 / 2" unfolding telemetry_options.simps by (rule mp) (rule refl)
  then show ?thesis using c by blast
qed

section \<open>The life of a telemetry client\<close>

text \<open>
  The clients of a page in the order of their creation: whether a flush runs, and how far the shutdown is.
  The page's events reach a client while it listens.
\<close>

datatype shutdown_phase = Running | Awaiting_flush | Shutting_down | Shut_down

record telemetry_client =
  tc_flushing :: bool
  tc_phase :: shutdown_phase
  tc_listening :: bool

record telemetry_world =
  tw_instances :: nat
  tw_clients :: "telemetry_client list"

definition empty_page :: telemetry_world where "empty_page = \<lparr>tw_instances = 0, tw_clients = []\<rparr>"

datatype telemetry_event =
    New_client
  | Force_flush nat
  | Page_hidden nat
  | Flush_ends nat
  | Shutdown nat
  | Shutdown_continues nat
  | Shutdown_ends nat

datatype telemetry_effect = Refused_client | Flush_providers nat | Shutdown_providers nat

definition client_at :: "telemetry_world \<Rightarrow> nat \<Rightarrow> telemetry_client option" where
  "client_at w c = (if c < length (tw_clients w) then Some (tw_clients w ! c) else None)"

definition set_client :: "nat \<Rightarrow> telemetry_client \<Rightarrow> telemetry_world \<Rightarrow> telemetry_world" where
  "set_client c t w = w\<lparr>tw_clients := (tw_clients w)[c := t]\<rparr>"

text \<open>\<open>forceFlush\<close>: the flush that runs is shared, and none starts once the shutdown began.\<close>

definition forceFlush :: "nat \<Rightarrow> telemetry_client \<Rightarrow> telemetry_world \<Rightarrow> telemetry_world \<times> telemetry_effect list" where
  "forceFlush c t w =
     (if tc_phase t \<noteq> Running \<or> tc_flushing t then (w, [])
      else (set_client c (t\<lparr>tc_flushing := True\<rparr>) w, [Flush_providers c]))"

definition shutdown :: "nat \<Rightarrow> telemetry_client \<Rightarrow> telemetry_world \<Rightarrow> telemetry_world \<times> telemetry_effect list" where
  "shutdown c t w =
     (if tc_phase t \<noteq> Running then (w, [])
      else (set_client c (t\<lparr>tc_listening := False, tc_phase := Awaiting_flush\<rparr>) w, []))"

definition telemetry_enabled :: "unit \<Rightarrow> telemetry_world \<Rightarrow> telemetry_event \<Rightarrow> bool" where
  "telemetry_enabled u w e =
     (let is = (\<lambda>c P. case client_at w c of None \<Rightarrow> False | Some t \<Rightarrow> P t)
      in case e of
        New_client \<Rightarrow> True
      | Force_flush c \<Rightarrow> is c (\<lambda>t. True)
      | Page_hidden c \<Rightarrow> is c tc_listening
      | Flush_ends c \<Rightarrow> is c tc_flushing
      | Shutdown c \<Rightarrow> is c (\<lambda>t. True)
      | Shutdown_continues c \<Rightarrow> is c (\<lambda>t. tc_phase t = Awaiting_flush \<and> \<not> tc_flushing t)
      | Shutdown_ends c \<Rightarrow> is c (\<lambda>t. tc_phase t = Shutting_down))"

definition with_client ::
    "nat \<Rightarrow> (telemetry_client \<Rightarrow> telemetry_world \<Rightarrow> telemetry_world \<times> telemetry_effect list) \<Rightarrow> telemetry_world \<Rightarrow>
     telemetry_world \<times> telemetry_effect list" where
  "with_client c f w = (case client_at w c of None \<Rightarrow> (w, []) | Some t \<Rightarrow> f t w)"

definition telemetry_handle :: "unit \<Rightarrow> telemetry_event \<Rightarrow> telemetry_world \<Rightarrow> telemetry_world \<times> telemetry_effect list" where
  "telemetry_handle u e w =
     (case e of
        New_client \<Rightarrow>
          if tw_instances w \<ge> 4 then (w, [Refused_client])
          else (w\<lparr>tw_instances := tw_instances w + 1,
                 tw_clients := tw_clients w @ [\<lparr>tc_flushing = False, tc_phase = Running, tc_listening = True\<rparr>]\<rparr>, [])
      | Force_flush c \<Rightarrow> with_client c (forceFlush c) w
      | Page_hidden c \<Rightarrow> with_client c (forceFlush c) w
      | Flush_ends c \<Rightarrow> with_client c (\<lambda>t w. (set_client c (t\<lparr>tc_flushing := False\<rparr>) w, [])) w
      | Shutdown c \<Rightarrow> with_client c (shutdown c) w
      | Shutdown_continues c \<Rightarrow>
          with_client c (\<lambda>t w. (set_client c (t\<lparr>tc_phase := Shutting_down\<rparr>) w, [Shutdown_providers c])) w
      | Shutdown_ends c \<Rightarrow>
          with_client c (\<lambda>t w. (set_client c (t\<lparr>tc_phase := Shut_down\<rparr>) (w\<lparr>tw_instances := tw_instances w - 1\<rparr>), [])) w)"

definition alive :: "telemetry_client \<Rightarrow> bool" where "alive t \<longleftrightarrow> tc_phase t \<noteq> Shut_down"

definition closing :: "telemetry_client \<Rightarrow> bool" where
  "closing t \<longleftrightarrow> tc_phase t = Shutting_down \<or> tc_phase t = Shut_down"

text \<open>The effects of one client in order\<close>

definition of_client :: "nat \<Rightarrow> telemetry_effect list \<Rightarrow> telemetry_effect list" where
  "of_client c l = filter (\<lambda>x. x = Flush_providers c \<or> x = Shutdown_providers c) l"

text \<open>Flushes of a client, and its shutdown as the last thing\<close>

definition client_ok :: "telemetry_effect list \<Rightarrow> nat \<Rightarrow> telemetry_client \<Rightarrow> bool" where
  "client_ok l c t \<longleftrightarrow>
     (tc_listening t \<longleftrightarrow> tc_phase t = Running) \<and> (closing t \<longrightarrow> \<not> tc_flushing t) \<and>
     (\<exists>k. of_client c l = replicate k (Flush_providers c) @ (if closing t then [Shutdown_providers c] else []))"

definition telemetry_inv :: "(unit \<times> telemetry_event) list \<Rightarrow> telemetry_world \<Rightarrow> telemetry_effect list \<Rightarrow> bool" where
  "telemetry_inv evs w l \<longleftrightarrow>
     tw_instances w = length (filter alive (tw_clients w)) \<and> tw_instances w \<le> 4 \<and>
     (\<forall>c < length (tw_clients w). client_ok l c (tw_clients w ! c)) \<and>
     (\<forall>c \<ge> length (tw_clients w). of_client c l = [])"

lemma count_alive:
  "c < length ts \<Longrightarrow> length (filter alive (ts[c := t])) + (if alive (ts ! c) then 1 else 0) =
     length (filter alive ts) + (if alive t then 1 else 0)"
proof (induction ts arbitrary: c)
  case (Cons x ts)
  then show ?case by (cases c) auto
qed simp

text \<open>One client changes, with effects of its own.\<close>

lemma telemetry_update:
  assumes inv: "telemetry_inv evs w l" and c: "c < length (tw_clients w)"
    and w': "tw_clients w' = (tw_clients w)[c := t]"
    and n: "tw_instances w' + (if alive (tw_clients w ! c) then 1 else 0) = tw_instances w + (if alive t then 1 else 0)"
    and gone: "\<not> alive (tw_clients w ! c) \<Longrightarrow> \<not> alive t"
    and own: "\<forall>d. d \<noteq> c \<longrightarrow> of_client d xs = []" and ok: "client_ok (l @ xs) c t"
  shows "telemetry_inv evs' w' (l @ xs)"
proof -
  have "tw_instances w' = length (filter alive (tw_clients w'))"
    using count_alive [OF c, of t] n inv unfolding w' telemetry_inv_def by linarith
  moreover have "tw_instances w' \<le> 4" using n gone inv unfolding telemetry_inv_def by (auto split: if_splits)
  moreover have "client_ok (l @ xs) d (tw_clients w' ! d)" if "d < length (tw_clients w')" for d
    using that inv own ok by (cases "d = c") (auto simp: w' telemetry_inv_def client_ok_def of_client_def)
  moreover have "of_client d (l @ xs) = []" if "length (tw_clients w') \<le> d" for d
    using that inv own c by (auto simp: w' telemetry_inv_def of_client_def)
  ultimately show ?thesis by (simp add: telemetry_inv_def)
qed

lemma client_flushes:
  assumes "client_ok l c t" "tc_phase t = Running"
  shows "client_ok (l @ [Flush_providers c]) c (t\<lparr>tc_flushing := True\<rparr>)"
proof -
  obtain k where "of_client c l = replicate k (Flush_providers c)"
    using assms by (auto simp: client_ok_def closing_def)
  then have "of_client c (l @ [Flush_providers c]) = replicate (Suc k) (Flush_providers c) @ []"
    by (simp add: of_client_def replicate_append_same)
  then have "\<exists>k. of_client c (l @ [Flush_providers c]) = replicate k (Flush_providers c) @ []" by blast
  then show ?thesis using assms unfolding client_ok_def closing_def by simp
qed

lemma client_shuts_down:
  assumes "client_ok l c t" "tc_phase t = Awaiting_flush" "\<not> tc_flushing t"
  shows "client_ok (l @ [Shutdown_providers c]) c (t\<lparr>tc_phase := Shutting_down\<rparr>)"
  using assms by (auto simp: client_ok_def closing_def of_client_def)

lemma client_keeps:
  assumes "client_ok l c t" "tc_listening t' \<longleftrightarrow> tc_phase t' = Running" "closing t' = closing t" "closing t' \<longrightarrow> \<not> tc_flushing t'"
  shows "client_ok (l @ []) c t'"
  using assms by (simp add: client_ok_def)

lemma client_facts:
  assumes "telemetry_inv evs w l" "client_at w c = Some t"
  shows "c < length (tw_clients w)" "tw_clients w ! c = t" "client_ok l c t" "tc_listening t \<longleftrightarrow> tc_phase t = Running"
proof -
  show c: "c < length (tw_clients w)" and t: "tw_clients w ! c = t"
    using assms(2) by (simp_all add: client_at_def split: if_splits)
  show ok: "client_ok l c t" using assms(1) c t unfolding telemetry_inv_def by blast
  then show "tc_listening t \<longleftrightarrow> tc_phase t = Running" by (simp add: client_ok_def)
qed

lemma telemetry_same: "telemetry_inv evs w l \<Longrightarrow> telemetry_inv evs' w l"
  by (simp add: telemetry_inv_def)

lemma set_client_simps [simp]:
  "tw_clients (set_client c t w) = (tw_clients w)[c := t]" "tw_instances (set_client c t w) = tw_instances w"
  by (simp_all add: set_client_def)

lemma flush_inv:
  assumes inv: "telemetry_inv evs w l" and t: "client_at w c = Some t" and h: "forceFlush c t w = (w', xs)"
  shows "telemetry_inv evs' w' (l @ xs)"
proof (cases "tc_phase t \<noteq> Running \<or> tc_flushing t")
  case True
  then have "w' = w" "xs = []" using h by (auto simp: forceFlush_def)
  then show ?thesis using telemetry_same [OF inv] by simp
next
  case False
  note f = client_facts [OF inv t]
  have w': "w' = set_client c (t\<lparr>tc_flushing := True\<rparr>) w" and xs: "xs = [Flush_providers c]"
    using h False by (simp_all add: forceFlush_def)
  show ?thesis
  proof (rule telemetry_update [OF inv f(1), where t = "t\<lparr>tc_flushing := True\<rparr>"])
    show "client_ok (l @ xs) c (t\<lparr>tc_flushing := True\<rparr>)" unfolding xs using False by (intro client_flushes f(3)) simp
  qed (simp_all add: w' xs f(2) alive_def of_client_def)
qed

lemma flush_ends_inv:
  assumes inv: "telemetry_inv evs w l" and t: "client_at w c = Some t"
  shows "telemetry_inv evs' (set_client c (t\<lparr>tc_flushing := False\<rparr>) w) (l @ [])"
proof -
  note f = client_facts [OF inv t]
  show ?thesis
  proof (rule telemetry_update [OF inv f(1), where t = "t\<lparr>tc_flushing := False\<rparr>"])
    show "client_ok (l @ []) c (t\<lparr>tc_flushing := False\<rparr>)"
      by (rule client_keeps [OF f(3)]) (simp_all add: f(4) closing_def)
  qed (simp_all add: f(2) alive_def of_client_def)
qed

lemma shutdown_inv:
  assumes inv: "telemetry_inv evs w l" and t: "client_at w c = Some t" and h: "shutdown c t w = (w', xs)"
  shows "telemetry_inv evs' w' (l @ xs)"
proof (cases "tc_phase t = Running")
  case False
  then have "w' = w" "xs = []" using h by (auto simp: shutdown_def)
  then show ?thesis using telemetry_same [OF inv] by simp
next
  case True
  note f = client_facts [OF inv t]
  let ?t = "t\<lparr>tc_listening := False, tc_phase := Awaiting_flush\<rparr>"
  have w': "w' = set_client c ?t w" and xs: "xs = []" using h True by (simp_all add: shutdown_def)
  show ?thesis
  proof (rule telemetry_update [OF inv f(1), where t = ?t])
    show "client_ok (l @ xs) c ?t"
      unfolding xs by (rule client_keeps [OF f(3)]) (simp_all add: True closing_def)
  qed (simp_all add: w' xs f(2) True alive_def of_client_def)
qed

lemma shutdown_continues_inv:
  assumes inv: "telemetry_inv evs w l" and t: "client_at w c = Some t"
    and ph: "tc_phase t = Awaiting_flush" "\<not> tc_flushing t"
  shows "telemetry_inv evs' (set_client c (t\<lparr>tc_phase := Shutting_down\<rparr>) w) (l @ [Shutdown_providers c])"
proof -
  note f = client_facts [OF inv t]
  show ?thesis
  proof (rule telemetry_update [OF inv f(1), where t = "t\<lparr>tc_phase := Shutting_down\<rparr>"])
    show "client_ok (l @ [Shutdown_providers c]) c (t\<lparr>tc_phase := Shutting_down\<rparr>)"
      by (rule client_shuts_down [OF f(3) ph])
  qed (simp_all add: f(2) ph alive_def of_client_def)
qed

lemma shutdown_ends_inv:
  assumes inv: "telemetry_inv evs w l" and t: "client_at w c = Some t" and ph: "tc_phase t = Shutting_down"
  shows "telemetry_inv evs' (set_client c (t\<lparr>tc_phase := Shut_down\<rparr>) (w\<lparr>tw_instances := tw_instances w - 1\<rparr>)) (l @ [])"
proof -
  note f = client_facts [OF inv t]
  have "t \<in> set (filter alive (tw_clients w))" using f(1,2) ph by (auto simp: alive_def)
  moreover have "tw_instances w = length (filter alive (tw_clients w))" using inv by (simp add: telemetry_inv_def)
  ultimately have n: "0 < tw_instances w" using length_pos_if_in_set by metis
  have nf: "\<not> tc_flushing t" "\<not> tc_listening t" using f(3) ph by (simp_all add: client_ok_def closing_def)
  show ?thesis
  proof (rule telemetry_update [OF inv f(1), where t = "t\<lparr>tc_phase := Shut_down\<rparr>"])
    show "client_ok (l @ []) c (t\<lparr>tc_phase := Shut_down\<rparr>)"
      by (rule client_keeps [OF f(3)]) (simp_all add: ph nf closing_def)
  qed (use n in \<open>simp_all add: f(2) ph alive_def of_client_def\<close>)
qed

lemma creation_inv:
  assumes inv: "telemetry_inv evs w l" and h: "telemetry_handle g New_client w = (w', xs)"
  shows "telemetry_inv evs' w' (l @ xs)"
proof (cases "tw_instances w \<ge> 4")
  case True
  then have "w' = w" "xs = [Refused_client]" using h by (auto simp: telemetry_handle_def)
  moreover have "of_client c (l @ [Refused_client]) = of_client c l" for c by (simp add: of_client_def)
  ultimately show ?thesis using inv by (simp add: telemetry_inv_def client_ok_def)
next
  case False
  let ?t = "\<lparr>tc_flushing = False, tc_phase = Running, tc_listening = True\<rparr>"
  have w': "w' = w\<lparr>tw_instances := tw_instances w + 1, tw_clients := tw_clients w @ [?t]\<rparr>" "xs = []"
    using h False by (simp_all add: telemetry_handle_def)
  have "of_client (length (tw_clients w)) l = []" using inv by (simp add: telemetry_inv_def)
  then have "client_ok l (length (tw_clients w)) ?t" by (simp add: client_ok_def closing_def)
  then show ?thesis
    using inv False by (simp add: w' telemetry_inv_def nth_append alive_def less_Suc_eq)
qed

lemma telemetry_step:
  assumes inv: "telemetry_inv evs w l" and en: "telemetry_enabled g w e" and h: "telemetry_handle g e w = (w', xs)"
  shows "telemetry_inv (evs @ [(g, e)]) w' (l @ xs)"
proof (cases e)
  case New_client
  then show ?thesis using creation_inv [OF inv] h by blast
next
  case (Force_flush c)
  then show ?thesis
    using flush_inv [OF inv] h en
    by (simp add: telemetry_handle_def telemetry_enabled_def with_client_def split: option.splits)
next
  case (Page_hidden c)
  then show ?thesis
    using flush_inv [OF inv] h en
    by (simp add: telemetry_handle_def telemetry_enabled_def with_client_def split: option.splits)
next
  case (Flush_ends c)
  then show ?thesis
    using flush_ends_inv [OF inv] h en
    by (auto simp: telemetry_handle_def telemetry_enabled_def with_client_def split: option.splits)
next
  case (Shutdown c)
  then show ?thesis
    using shutdown_inv [OF inv] h en
    by (simp add: telemetry_handle_def telemetry_enabled_def with_client_def split: option.splits)
next
  case (Shutdown_continues c)
  then show ?thesis
    using shutdown_continues_inv [OF inv] h en
    by (auto simp: telemetry_handle_def telemetry_enabled_def with_client_def split: option.splits)
next
  case (Shutdown_ends c)
  then show ?thesis
    using shutdown_ends_inv [OF inv] h en
    by (auto simp: telemetry_handle_def telemetry_enabled_def with_client_def split: option.splits)
qed

interpretation telemetry_clients: logged_invariant telemetry_enabled telemetry_handle empty_page telemetry_inv
proof
  show "telemetry_inv [] empty_page []" by (simp add: telemetry_inv_def empty_page_def of_client_def)
qed (rule telemetry_step)



end
