(* ===== verification/Editable_Command.thy ===== *)
theory Editable_Command
  imports Command_Highlight Gateway_Commands Event_Runs
begin

text \<open>
  \<open>gateways/editable-command.tsx\<close> and \<open>gateways/gateway-connection-steps.tsx\<close>: the commands of the
  connection tab, whose values are edited in place. What is shown is the highlighted template with the text of
  the editable fields; what is copied is the command built from the values.
\<close>

section \<open>Values\<close>

text \<open>\<open>value.replace(/[^A-Za-z0-9_./:@%+=,-]+/g, "")\<close>\<close>

definition sanitizeFieldValue :: "string \<Rightarrow> string" where
  "sanitizeFieldValue value = filter safe_shell_char value"

definition providerMarker :: string where "providerMarker = ''OSPROVIDERNAMEZ''"
definition modelMarker :: string where "modelMarker = ''OSMODELNAMEZ''"
definition sandboxMarker :: string where "sandboxMarker = ''OSSANDBOXNAMEZ''"

definition setupMarkers :: "string list" where "setupMarkers = [providerMarker, modelMarker]"
definition sandboxMarkers :: "string list" where "sandboxMarkers = [sandboxMarker, modelMarker]"

definition initial_values :: "string \<Rightarrow> string" where
  "initial_values m =
     (if m = providerMarker then vertexProviderName else if m = modelMarker then claudeModel
      else if m = sandboxMarker then sandboxName else [])"

text \<open>The templates with their markers, and the commands of the current values\<close>

definition setup_command :: "gateway_connection \<Rightarrow> (string \<Rightarrow> string) \<Rightarrow> string option" where
  "setup_command gateway vals =
     buildSetupScript gateway \<lparr>so_model = Some (vals modelMarker), so_provider_name = Some (vals providerMarker)\<rparr>"

definition sandbox_command :: "(string \<Rightarrow> string) \<Rightarrow> string" where
  "sandbox_command vals = buildSandboxCreateCommand (vals sandboxMarker) (vals modelMarker)"

definition setup_template :: "gateway_connection \<Rightarrow> string option" where
  "setup_template gateway = setup_command gateway id"

definition sandbox_template :: string where "sandbox_template = sandbox_command id"

section \<open>Editing\<close>

text \<open>
  The two commands of the tab. A command is plain until its template is highlighted; then its marker parts
  are fields, in order. Each field holds its own text, which React does not touch after the field's first
  rendering; an effect writes a changed value into the fields that do not have the focus.
\<close>

datatype command_block = SetupBlock | SandboxBlock

record edit_state =
  ed_text :: "command_block \<Rightarrow> string list option"
  ed_values :: "string \<Rightarrow> string"
  ed_focus :: "(command_block \<times> nat) option"

datatype edit_event =
    Highlighted command_block
  | FocusField command_block nat
  | BlurField
  | PressEnter
  | InputField command_block nat string

type_synonym marks = "command_block \<Rightarrow> string list"

definition first_rendering :: edit_state where
  "first_rendering = \<lparr>ed_text = (\<lambda>_. None), ed_values = initial_values, ed_focus = None\<rparr>"

definition field_text :: "edit_state \<Rightarrow> command_block \<Rightarrow> nat \<Rightarrow> string option" where
  "field_text s w i = (case ed_text s w of None \<Rightarrow> None | Some ts \<Rightarrow> if i < length ts then Some (ts ! i) else None)"

text \<open>The fields of a command appear, each with the value it has by then.\<close>

definition mount_fields :: "marks \<Rightarrow> command_block \<Rightarrow> edit_state \<Rightarrow> edit_state" where
  "mount_fields marks w s =
     (case ed_text s w of
        Some ts \<Rightarrow> s
      | None \<Rightarrow> s\<lparr>ed_text := (ed_text s)(w := Some (map (ed_values s) (marks w)))\<rparr>)"

definition write_field :: "command_block \<Rightarrow> nat \<Rightarrow> string \<Rightarrow> edit_state \<Rightarrow> edit_state" where
  "write_field w i t s = s\<lparr>ed_text := (ed_text s)(w := map_option (\<lambda>ts. ts[i := t]) (ed_text s w))\<rparr>"

text \<open>The effects of the fields after a rendering, with the values before it\<close>

definition sync_fields :: "marks \<Rightarrow> (string \<Rightarrow> string) \<Rightarrow> edit_state \<Rightarrow> edit_state" where
  "sync_fields marks before s =
     s\<lparr>ed_text := (\<lambda>w. map_option (\<lambda>ts.
         map (\<lambda>i.
           let value = ed_values s (marks w ! i)
           in if before (marks w ! i) \<noteq> value \<and> ed_focus s \<noteq> Some (w, i) \<and> ts ! i \<noteq> value then value else ts ! i)
         [0..<length ts]) (ed_text s w))\<rparr>"

definition onFieldChange :: "string \<Rightarrow> string \<Rightarrow> edit_state \<Rightarrow> edit_state" where
  "onFieldChange marker value s = s\<lparr>ed_values := (ed_values s)(marker := value)\<rparr>"

definition handleInput :: "marks \<Rightarrow> command_block \<Rightarrow> nat \<Rightarrow> string \<Rightarrow> edit_state \<Rightarrow> edit_state" where
  "handleInput marks w i raw s =
     (let typed = write_field w i raw s;
          clean = sanitizeFieldValue raw;
          shown = (if clean \<noteq> raw then write_field w i clean typed else typed)
      in sync_fields marks (ed_values s) (onFieldChange (marks w ! i) clean shown))"

definition edit_enabled :: "marks \<Rightarrow> unit \<Rightarrow> edit_state \<Rightarrow> edit_event \<Rightarrow> bool" where
  "edit_enabled marks u s e =
     (case e of
        FocusField w i \<Rightarrow> field_text s w i \<noteq> None
      | InputField w i raw \<Rightarrow> ed_focus s = Some (w, i)
      | _ \<Rightarrow> True)"

definition edit_handle :: "marks \<Rightarrow> unit \<Rightarrow> edit_event \<Rightarrow> edit_state \<Rightarrow> edit_state \<times> unit list" where
  "edit_handle marks u e s =
     (case e of
        Highlighted w \<Rightarrow> (mount_fields marks w s, [])
      | FocusField w i \<Rightarrow> (s\<lparr>ed_focus := Some (w, i)\<rparr>, [])
      | BlurField \<Rightarrow> (s\<lparr>ed_focus := None\<rparr>, [])
      | PressEnter \<Rightarrow> (s, [])
      | InputField w i raw \<Rightarrow> (handleInput marks w i raw s, []))"

text \<open>Every field shows its value, and every value is safe in a shell as it is.\<close>

definition fields_agree :: "marks \<Rightarrow> edit_state \<Rightarrow> bool" where
  "fields_agree marks s \<longleftrightarrow> (\<forall>w ts. ed_text s w = Some ts \<longrightarrow> ts = map (ed_values s) (marks w))"

definition edit_inv :: "marks \<Rightarrow> (unit \<times> edit_event) list \<Rightarrow> edit_state \<Rightarrow> unit list \<Rightarrow> bool" where
  "edit_inv marks evs s l \<longleftrightarrow>
     fields_agree marks s \<and> (\<forall>m c. c \<in> set (ed_values s m) \<longrightarrow> safe_shell_char c) \<and>
     (case ed_focus s of None \<Rightarrow> True | Some (w, i) \<Rightarrow> i < length (marks w))"

lemma initial_values_safe: "c \<in> set (initial_values m) \<Longrightarrow> safe_shell_char c"
proof -
  have "list_all safe_shell_char (vertexProviderName @ claudeModel @ sandboxName)" by code_simp
  then show "c \<in> set (initial_values m) \<Longrightarrow> safe_shell_char c"
    by (auto simp: initial_values_def list_all_iff split: if_splits)
qed

lemma handleInput_values:
  "ed_values (handleInput marks w i raw s) = (ed_values s)(marks w ! i := sanitizeFieldValue raw)"
  "ed_focus (handleInput marks w i raw s) = ed_focus s"
  by (simp_all add: handleInput_def Let_def sync_fields_def onFieldChange_def write_field_def)

lemma handleInput_text:
  assumes agree: "fields_agree marks s" and focus: "ed_focus s = Some (w, i)" and i: "i < length (marks w)"
  shows "fields_agree marks (handleInput marks w i raw s)"
  unfolding fields_agree_def handleInput_values
proof (intro allI impI)
  fix v ts
  let ?clean = "sanitizeFieldValue raw"
  let ?vals = "(ed_values s)(marks w ! i := ?clean)"
  assume "ed_text (handleInput marks w i raw s) v = Some ts"
  then obtain us where us: "ed_text s v = Some us"
    and ts: "ts = map (\<lambda>j. let value = ?vals (marks v ! j); t = (if v = w then us[i := ?clean] else us) ! j in
        if ed_values s (marks v ! j) \<noteq> value \<and> (w, i) \<noteq> (v, j) \<and> t \<noteq> value then value else t) [0..<length us]"
    using focus
    by (auto simp: handleInput_def Let_def sync_fields_def onFieldChange_def write_field_def
        split: if_splits cong: if_cong)
  have "us = map (ed_values s) (marks v)" using agree us by (simp add: fields_agree_def)
  then show "ts = map ?vals (marks v)"
    unfolding ts by (intro nth_equalityI) (auto simp: Let_def nth_list_update i)
qed

lemma mount_agree: "fields_agree marks s \<Longrightarrow> fields_agree marks (mount_fields marks w s)"
  by (cases "ed_text s w") (auto simp: fields_agree_def mount_fields_def split: if_splits)

lemma mount_fields_values:
  "ed_values (mount_fields marks w s) = ed_values s" "ed_focus (mount_fields marks w s) = ed_focus s"
  by (simp_all add: mount_fields_def split: option.split)

lemma edit_inv_step:
  assumes inv: "edit_inv marks evs s l" and en: "edit_enabled marks g s e" and h: "edit_handle marks g e s = (s', xs)"
  shows "edit_inv marks (evs @ [(g, e)]) s' (l @ xs)"
proof (cases e)
  case (InputField w i raw)
  have s': "s' = handleInput marks w i raw s" and focus: "ed_focus s = Some (w, i)"
    using h en by (simp_all add: InputField edit_handle_def edit_enabled_def)
  have i: "i < length (marks w)" using inv focus by (simp add: edit_inv_def)
  have agree: "fields_agree marks s" using inv by (simp add: edit_inv_def)
  show ?thesis
    using inv handleInput_text [OF agree focus i] i focus
    by (auto simp: edit_inv_def s' sanitizeFieldValue_def handleInput_values)
next
  case (FocusField w i)
  then obtain ts where ts: "ed_text s w = Some ts" "i < length ts"
    using en by (auto simp: edit_enabled_def field_text_def split: option.splits if_splits)
  have "ts = map (ed_values s) (marks w)" using inv ts(1) unfolding edit_inv_def fields_agree_def by blast
  then have "i < length (marks w)" using ts(2) by simp
  then show ?thesis
    using inv h by (auto simp: FocusField edit_inv_def edit_handle_def fields_agree_def)
next
  case (Highlighted w)
  have "fields_agree marks (mount_fields marks w s)" using inv by (intro mount_agree) (simp add: edit_inv_def)
  then show ?thesis
    using inv h by (auto simp: Highlighted edit_inv_def edit_handle_def mount_fields_values)
qed (use inv h in \<open>auto simp: edit_inv_def edit_handle_def fields_agree_def\<close>)

interpretation editing: logged_invariant "edit_enabled marks" "edit_handle marks" first_rendering "edit_inv marks"
  for marks
proof
  show "edit_inv marks [] first_rendering []"
    by (simp add: edit_inv_def fields_agree_def first_rendering_def initial_values_safe)
qed (rule edit_inv_step)

section \<open>Templates as text and slots\<close>

text \<open>Text before a slot and the slot's marker, and the text after the last slot\<close>

type_synonym slots = "(string \<times> string) list \<times> string"

definition fill :: "(string \<Rightarrow> string) \<Rightarrow> slots \<Rightarrow> string" where
  "fill vals ss = concat (map (\<lambda>p. fst p @ vals (snd p)) (fst ss)) @ snd ss"

fun merge_parts :: "string \<Rightarrow> command_part list \<Rightarrow> slots" where
  "merge_parts acc [] = ([], acc)"
| "merge_parts acc (TextPart c v # ps) = merge_parts (acc @ v) ps"
| "merge_parts acc (FieldPart c m # ps) = (case merge_parts [] ps of (ss, t) \<Rightarrow> ((acc, m) # ss, t))"

text \<open>No text holds a marker.\<close>

definition clean :: "string set \<Rightarrow> slots \<Rightarrow> bool" where
  "clean M ss \<longleftrightarrow>
     (\<forall>p \<in> set (fst ss). snd p \<in> M \<and> (\<forall>m \<in> M. \<not> sublist m (fst p))) \<and> (\<forall>m \<in> M. \<not> sublist m (snd ss))"

text \<open>The highlighter's tokens split no marker.\<close>

definition unbroken :: "string list \<Rightarrow> command_part list \<Rightarrow> bool" where
  "unbroken markers parts \<longleftrightarrow> clean (set markers) (merge_parts [] parts)"

text \<open>No two markers overlap.\<close>

definition apart :: "string set \<Rightarrow> bool" where
  "apart M \<longleftrightarrow> [] \<notin> M \<and> (\<forall>m \<in> M. \<forall>n \<in> M. \<forall>a b c. m = a @ b \<longrightarrow> n = b @ c \<longrightarrow> a \<noteq> [] \<longrightarrow> b = []) \<and>
     (\<forall>m \<in> M. \<forall>n \<in> M. sublist m n \<longrightarrow> m = n)"

lemma apart_same: "apart M \<Longrightarrow> m \<in> M \<Longrightarrow> n \<in> M \<Longrightarrow> sublist m n \<Longrightarrow> m = n"
proof -
  assume "apart M" and m: "m \<in> M" "n \<in> M" "sublist m n"
  then have "\<forall>m \<in> M. \<forall>n \<in> M. sublist m n \<longrightarrow> m = n" unfolding apart_def by (elim conjE)
  then show "m = n" using m by blast
qed

lemma merge_fill: "fill vals (merge_parts acc ps) = acc @ concat (map (\<lambda>p. case p of TextPart c v \<Rightarrow> v | FieldPart c m \<Rightarrow> vals m) ps)"
proof (induction acc ps rule: merge_parts.induct)
  case (3 acc c m ps)
  then show ?case by (cases "merge_parts [] ps") (simp add: fill_def)
qed (simp_all add: fill_def)

lemma merge_text: "fill id (merge_parts [] ps) = parts_text ps"
proof -
  have "(\<lambda>p. case p of TextPart c v \<Rightarrow> v | FieldPart c m \<Rightarrow> id m) = part_text"
    by (rule ext) (simp split: command_part.split)
  then show ?thesis by (simp only: merge_fill parts_text_def append_Nil)
qed

text \<open>The first slots of two such readings of one text agree.\<close>

lemma first_slot:
  assumes eq: "l @ m @ r = l' @ m' @ r'" and ap: "apart M" and mem: "m \<in> M" "m' \<in> M"
    and free: "\<not> sublist m l'" and short: "length l < length l'"
  shows False
proof -
  obtain us where us: "l = l' @ us \<and> us @ m @ r = m' @ r' \<or> l @ us = l' \<and> m @ r = us @ m' @ r'"
    using eq unfolding append_eq_append_conv2 by blast
  then have d: "l @ us = l'" "m @ r = us @ m' @ r'" "us \<noteq> []" using short by auto
  obtain b where "m = us @ b \<and> b @ r = m' @ r' \<or> m @ b = us \<and> r = b @ m' @ r'"
    using d(2) unfolding append_eq_append_conv2 by blast
  moreover have "m @ b \<noteq> us" for b
  proof
    assume "m @ b = us"
    then have "l' = l @ m @ b" using d(1) by simp
    then show False using free by (auto simp: sublist_def)
  qed
  ultimately have b: "m = us @ b" "b @ r = m' @ r'" by auto
  obtain c where c: "b = m' @ c \<and> c @ r = r' \<or> b @ c = m' \<and> r = c @ r'"
    using b(2) unfolding append_eq_append_conv2 by blast
  then show False
  proof
    assume "b = m' @ c \<and> c @ r = r'"
    then have "m = us @ m' @ c" using b(1) by simp
    then have "sublist m' m" by (auto simp: sublist_def)
    moreover have "length m' < length m" using \<open>m = us @ m' @ c\<close> d(3) by (cases us) simp_all
    ultimately show False using ap mem unfolding apart_def by blast
  next
    assume "b @ c = m' \<and> r = c @ r'"
    then have m': "m' = b @ c" by simp
    have "b = []" using ap mem b(1) m' d(3) unfolding apart_def by blast
    then have "m = us" using b(1) by simp
    then have "l' = l @ m @ []" using d(1) by simp
    then show False using free unfolding sublist_def by blast
  qed
qed

lemma slots_text: "fill id (p # ss, t) = fst p @ snd p @ fill id (ss, t)"
  by (simp add: fill_def)

lemma same_start: "a @ x = b @ y \<Longrightarrow> sublist a b \<or> sublist b a"
  by (metis prefixI prefix_same_cases prefix_imp_sublist)

text \<open>A text is read in one way only: as slots of markers that are apart, with no marker in between.\<close>

lemma clean_Cons:
  "clean M (p # ss, t) \<longleftrightarrow> snd p \<in> M \<and> (\<forall>m \<in> M. \<not> sublist m (fst p)) \<and> clean M (ss, t)"
  by (auto simp: clean_def)

lemma no_slot_left:
  assumes "clean M ([], t)" "clean M (q # qs, u)"
  shows "fill id ([], t) \<noteq> fill id (q # qs, u)"
proof
  assume "fill id ([], t) = fill id (q # qs, u)"
  then have "t = fst q @ snd q @ fill id (qs, u)" unfolding slots_text by (simp add: fill_def)
  then have "sublist (snd q) t" unfolding sublist_def by blast
  moreover have "snd q \<in> M" using assms(2) unfolding clean_Cons by blast
  ultimately show False using assms(1) by (simp add: clean_def)
qed

lemma slots_unique:
  assumes ap: "apart M"
  shows "fill id (xs, t) = fill id (ys, u) \<Longrightarrow> clean M (xs, t) \<Longrightarrow> clean M (ys, u) \<Longrightarrow> (xs, t) = (ys, u)"
proof (induction xs arbitrary: ys)
  case Nil
  show ?case
  proof (cases ys)
    case ys: Nil
    then show ?thesis using Nil.prems(1) by (simp add: fill_def)
  next
    case (Cons q qs)
    then show ?thesis
      using no_slot_left [OF Nil.prems(2) Nil.prems(3) [unfolded Cons]] Nil.prems(1) by blast
  qed
next
  case (Cons p xs)
  show ?case
  proof (cases ys)
    case Nil
    then show ?thesis
      using no_slot_left [OF Cons.prems(3) [unfolded Nil] Cons.prems(2)] Cons.prems(1) [symmetric] by blast
  next
    case ys: (Cons q ys')
    have eq: "fst p @ snd p @ fill id (xs, t) = fst q @ snd q @ fill id (ys', u)"
      using Cons.prems(1) unfolding ys slots_text .
    have cp: "snd p \<in> M" "\<forall>m \<in> M. \<not> sublist m (fst p)" "clean M (xs, t)"
      using Cons.prems(2) unfolding clean_Cons by blast+
    have cq: "snd q \<in> M" "\<forall>m \<in> M. \<not> sublist m (fst q)" "clean M (ys', u)"
      using Cons.prems(3) unfolding ys clean_Cons by blast+
    have "\<not> length (fst p) < length (fst q)"
      using first_slot [OF eq ap cp(1) cq(1)] cq(2) cp(1) by blast
    moreover have "\<not> length (fst q) < length (fst p)"
      using first_slot [OF eq [symmetric] ap cq(1) cp(1)] cp(2) cq(1) by blast
    ultimately have len: "length (fst p) = length (fst q)" by linarith
    have both: "fst p = fst q \<and> snd p @ fill id (xs, t) = snd q @ fill id (ys', u)"
      by (rule append_eq_append_conv [THEN iffD1, OF disjI1 [OF len] eq])
    note f = conjunct1 [OF both] and rest = conjunct2 [OF both]
    have s: "snd p = snd q" using same_start [OF rest] apart_same [OF ap] cp(1) cq(1) by metis
    have "fill id (xs, t) = fill id (ys', u)" using rest unfolding s by (simp only: same_append_eq)
    then have "(xs, t) = (ys', u)" by (rule Cons.IH [OF _ cp(3) cq(3)])
    then show ?thesis using f s by (simp add: ys prod_eq_iff)
  qed
qed

section \<open>The commands as slots\<close>

definition setup_slots :: "string \<Rightarrow> slots" where
  "setup_slots gatewayAdd =
     ([(''# 1. Log in to the gateway'' @ [newline] @ gatewayAdd @ [newline, newline] @
          ''# 2. Add the Claude on Vertex AI provider'' @ [newline] @ ''openshell provider create'' @ continued @ ''--name '',
        providerMarker),
       (continued @ ''--type google-vertex-ai'' @ continued @ ''--from-gcloud-adc'' @ continued @
          ''--config VERTEX_AI_PROJECT_ID='' @ [dquote] @ ''$ANTHROPIC_VERTEX_PROJECT_ID'' @ [dquote] @ continued @
          ''--config VERTEX_AI_REGION=global'' @ [newline, newline] @ ''# 3. Select the model'' @ [newline] @
          ''openshell inference set --provider '',
        providerMarker),
       ('' --model '', modelMarker)], [])"

definition sandbox_slots :: slots where
  "sandbox_slots =
     ([(''openshell sandbox create'' @ continued @ ''--name '', sandboxMarker),
       (continued @ ''--env=ANTHROPIC_BASE_URL=https://inference.local'' @ continued @
          ''--env=ANTHROPIC_API_KEY=unused'' @ continued @ ''--no-auto-providers'' @ continued @
          ''-- claude --bare --model '', modelMarker)], [])"

lemma setup_command_slots:
  assumes "keep_truthy (buildGatewayAddCommand gateway) = Some gatewayAdd"
  shows "setup_command gateway vals = Some (fill vals (setup_slots gatewayAdd))"
  using assms
  by (simp add: setup_command_def buildSetupScript_def or_default_def buildProviderCreateCommand_def
      buildInferenceSetCommand_def setup_slots_def fill_def Let_def)

lemma sandbox_command_slots: "sandbox_command vals = fill vals sandbox_slots"
  by (simp add: sandbox_command_def buildSandboxCreateCommand_def sandbox_slots_def fill_def)

lemma markers_apart: "apart (set setupMarkers)" "apart (set sandboxMarkers)"
proof -
  have border: "list_all (\<lambda>m. list_all (\<lambda>n. list_all (\<lambda>k. \<not> prefix (drop k m) n) [1..<length m] \<and> (sublist m n \<longrightarrow> m = n)) M) M \<Longrightarrow>
      [] \<notin> set M \<Longrightarrow> apart (set M)" for M :: "string list"
    unfolding apart_def
  proof (intro conjI ballI allI impI)
    assume l: "list_all (\<lambda>m. list_all (\<lambda>n. list_all (\<lambda>k. \<not> prefix (drop k m) n) [1..<length m] \<and> (sublist m n \<longrightarrow> m = n)) M) M"
    fix m n a b c :: string
    assume m: "m \<in> set M" and n: "n \<in> set M"
    then have k: "\<And>k. 1 \<le> k \<Longrightarrow> k < length m \<Longrightarrow> \<not> prefix (drop k m) n" "sublist m n \<longrightarrow> m = n"
      using l by (auto simp: list_all_iff)
    show "sublist m n \<Longrightarrow> m = n" using k(2) by simp
    assume mn: "m = a @ b" "n = b @ c" "a \<noteq> []"
    show "b = []"
    proof (rule ccontr)
      assume "b \<noteq> []"
      then have "1 \<le> length a" "length a < length m" using mn by (auto simp: Suc_le_eq)
      then have "\<not> prefix (drop (length a) m) n" using k(1) by blast
      then show False using mn by simp
    qed
  qed simp
  show "apart (set setupMarkers)" "apart (set sandboxMarkers)"
    by (rule border; code_simp)+
qed

lemma free_split: "x \<notin> set m \<Longrightarrow> m \<noteq> [] \<Longrightarrow> \<not> sublist m s \<Longrightarrow> \<not> sublist m t \<Longrightarrow> \<not> sublist m (s @ x # t)"
proof
  assume x: "x \<notin> set m" "m \<noteq> []" and no: "\<not> sublist m s" "\<not> sublist m t" and "sublist m (s @ x # t)"
  then obtain xs ys where eq: "s @ x # t = xs @ m @ ys" by (auto simp: sublist_def)
  obtain us where us: "s = xs @ us \<and> us @ x # t = m @ ys \<or> s @ us = xs \<and> x # t = us @ m @ ys"
    using eq unfolding append_eq_append_conv2 by blast
  then show False
  proof
    assume a: "s = xs @ us \<and> us @ x # t = m @ ys"
    then obtain vs where "us = m @ vs \<and> vs @ x # t = ys \<or> us @ vs = m \<and> x # t = vs @ ys"
      unfolding append_eq_append_conv2 by blast
    moreover have "us \<noteq> m @ vs" using no(1) a by (auto simp: sublist_def)
    ultimately have v: "us @ vs = m" "x # t = vs @ ys" by auto
    have "vs = []" using v x(1) by (cases vs) auto
    then have "s = xs @ m @ []" using v(1) a by simp
    then show False using no(1) unfolding sublist_def by blast
  next
    assume a: "s @ us = xs \<and> x # t = us @ m @ ys"
    show False
    proof (cases us)
      case Nil
      then show ?thesis using a x by (cases m) auto
    next
      case (Cons u us')
      then have "t = us' @ m @ ys" using a by simp
      then show ?thesis using no(2) by (auto simp: sublist_def)
    qed
  qed
qed

lemma setup_slots_clean:
  assumes "list_all (\<lambda>m. \<not> sublist m gatewayAdd) setupMarkers"
  shows "clean (set setupMarkers) (setup_slots gatewayAdd)"
proof -
  have const: "list_all (\<lambda>m. m \<noteq> [] \<and> newline \<notin> set m \<and> \<not> sublist m ''# 1. Log in to the gateway'' \<and>
      \<not> sublist m ([newline] @ ''# 2. Add the Claude on Vertex AI provider'' @ [newline] @ ''openshell provider create'' @ continued @ ''--name '') \<and>
      \<not> sublist m (fst (fst (setup_slots []) ! 1)) \<and> \<not> sublist m '' --model '') setupMarkers"
    by code_simp
  have "\<not> sublist m (''# 1. Log in to the gateway'' @ newline # gatewayAdd @ newline # [newline] @
      ''# 2. Add the Claude on Vertex AI provider'' @ [newline] @ ''openshell provider create'' @ continued @ ''--name '')"
    if "m \<in> set setupMarkers" for m
    using const assms that unfolding list_all_iff by (intro free_split) auto
  then show ?thesis
    using const by (auto simp: clean_def setup_slots_def list_all_iff setupMarkers_def)
qed

lemma sandbox_slots_clean: "clean (set sandboxMarkers) sandbox_slots"
proof -
  have "list_all (\<lambda>p. snd p \<in> set sandboxMarkers \<and> list_all (\<lambda>m. \<not> sublist m (fst p)) sandboxMarkers) (fst sandbox_slots) \<and>
      list_all (\<lambda>m. \<not> sublist m (snd sandbox_slots)) sandboxMarkers"
    by code_simp
  then show ?thesis by (simp add: clean_def list_all_iff)
qed

section \<open>What is shown\<close>

definition field_markers :: "command_part list \<Rightarrow> string list" where
  "field_markers parts = concat (map (\<lambda>p. case p of TextPart c v \<Rightarrow> [] | FieldPart c m \<Rightarrow> [m]) parts)"

text \<open>The text of the highlighted command: its text parts, and the text each field holds.\<close>

fun shown_text :: "command_part list \<Rightarrow> string list \<Rightarrow> string" where
  "shown_text [] ts = []"
| "shown_text (TextPart c v # ps) ts = v @ shown_text ps ts"
| "shown_text (FieldPart c m # ps) ts = (case ts of [] \<Rightarrow> shown_text ps [] | t # ts \<Rightarrow> t @ shown_text ps ts)"

lemma shown_fill: "shown_text ps (map vals (field_markers ps) @ rest) = fill vals (merge_parts [] ps)"
  unfolding merge_fill
  by (induction ps) (auto simp: field_markers_def split: command_part.split)

text \<open>The parts of a template are the slots it was built from.\<close>

lemma parts_are_slots:
  assumes parts: "highlightTemplate markers tokens = Some parts"
    and lines: "join [newline] (map (\<lambda>l. concat (map fst l)) tokens) = fill id ss"
    and ap: "apart (set markers)" and un: "unbroken markers parts" and ss: "clean (set markers) ss"
  shows "merge_parts [] parts = ss"
proof -
  have "[] \<notin> set markers" using ap by (simp add: apart_def)
  then have "parts_text parts = fill id ss" using highlight_text [of markers tokens] parts lines by auto
  then have eq: "fill id (merge_parts [] parts) = fill id ss" by (simp only: merge_text)
  obtain xs t ys u where x: "merge_parts [] parts = (xs, t)" and y: "ss = (ys, u)"
    by (cases "merge_parts [] parts"; cases ss)
  have "(xs, t) = (ys, u)"
  proof (rule slots_unique [OF ap])
    show "fill id (xs, t) = fill id (ys, u)" using eq by (simp only: x y)
    show "clean (set markers) (xs, t)" using un by (simp only: unbroken_def x)
    show "clean (set markers) (ys, u)" using ss by (simp only: y)
  qed
  then show ?thesis by (simp only: x y)
qed

text \<open>What a command shows: the copied text while it is plain, then its highlighted template.\<close>

definition shown_command :: "edit_state \<Rightarrow> command_block \<Rightarrow> command_part list \<Rightarrow> string \<Rightarrow> string" where
  "shown_command s w parts copyText =
     (case ed_text s w of None \<Rightarrow> copyText | Some ts \<Rightarrow> shown_text parts ts)"

definition block_marks :: "command_part list \<Rightarrow> command_part list \<Rightarrow> marks" where
  "block_marks setupParts sandboxParts w =
     field_markers (case w of SetupBlock \<Rightarrow> setupParts | SandboxBlock \<Rightarrow> sandboxParts)"

lemma shown_is_filled:
  assumes "fields_agree marks s" "marks w = field_markers parts" "copyText = fill (ed_values s) (merge_parts [] parts)"
  shows "shown_command s w parts copyText = copyText"
proof (cases "ed_text s w")
  case (Some ts)
  then have "ts = map (ed_values s) (field_markers parts)" using assms(1) Some unfolding fields_agree_def assms(2) [symmetric] by blast
  then show ?thesis using shown_fill [of parts "ed_values s" "[]"] by (simp add: shown_command_def Some assms(3))
qed (simp add: shown_command_def)


text \<open>A gateway without sign-on, and a highlighter that makes one token of every line.\<close>

definition open_gateway :: gateway_connection where
  "open_gateway =
     \<lparr>gc_active_sandboxes = None, gc_cluster_id = None, gc_cluster_name = ''c'', gc_console_url = None,
      gc_created_at = None, gc_created_by = None, gc_endpoint = Some ''h'', gc_id = ''i'', gc_name = ''g'',
      gc_oidc_audience = None, gc_oidc_client_id = None, gc_oidc_issuer = None, gc_phase = Some ''Running'',
      gc_status = ''s''\<rparr>"

fun line_tokens :: "string \<Rightarrow> string \<Rightarrow> token list list" where
  "line_tokens line [] = [[(line, None)]]"
| "line_tokens line (c # cs) =
     (if c = newline then [(line, None)] # line_tokens [] cs else line_tokens (line @ [c]) cs)"

declare splitOnMarkers.simps [code]


end
