(* ===== verification/Account_Setup.thy ===== *)
theory Account_Setup
  imports Editable_Command
begin

text \<open>
  \<open>service-accounts/service-account-setup.tsx\<close>: the setup view of a service account, with its copyable
  commands, which are highlighted asynchronously, and the one-time client secret.
\<close>

section \<open>Asynchronous highlighting\<close>

text \<open>
  The effect that highlights a command: every run captures the command, and its result is kept unless the
  effect was cleaned up before, that is, unless the command changed. The runs are numbered; \<open>hl_active\<close> is
  the run whose flag is still set.
\<close>

record highlighting =
  hl_result :: "(command_part list \<times> string) option"
  hl_runs :: "nat \<rightharpoonup> string"
  hl_active :: "nat option"
  hl_next :: nat

definition no_highlighting :: highlighting where
  "no_highlighting = \<lparr>hl_result = None, hl_runs = Map.empty, hl_active = None, hl_next = 0\<rparr>"

text \<open>The effect of a rendering with a new command; there is none without a command.\<close>

definition run_effect :: "string option \<Rightarrow> highlighting \<Rightarrow> highlighting" where
  "run_effect script h =
     (case keep_truthy script of
        None \<Rightarrow> h\<lparr>hl_active := None\<rparr>
      | Some command \<Rightarrow>
          h\<lparr>hl_runs := (hl_runs h)(hl_next h \<mapsto> command), hl_active := Some (hl_next h), hl_next := Suc (hl_next h)\<rparr>)"

text \<open>A run ends with the parts of its command.\<close>

definition end_run :: "(string \<Rightarrow> command_part list option) \<Rightarrow> nat \<Rightarrow> highlighting \<Rightarrow> highlighting" where
  "end_run parts_of n h =
     (case hl_runs h n of
        None \<Rightarrow> h
      | Some command \<Rightarrow>
          (case parts_of command of
             None \<Rightarrow> h
           | Some parts \<Rightarrow>
               let ended = h\<lparr>hl_runs := (hl_runs h)(n := None)\<rparr>
               in if hl_active h = Some n then ended\<lparr>hl_result := Some (parts, command)\<rparr> else ended))"

text \<open>
  The parts kept are those of the command they are tagged with, and the active run is one for the current
  command: still running, or the one whose result is kept.
\<close>

definition highlighting_ok :: "(string \<Rightarrow> command_part list option) \<Rightarrow> string option \<Rightarrow> highlighting \<Rightarrow> bool" where
  "highlighting_ok parts_of script h \<longleftrightarrow>
     (\<forall>parts command. hl_result h = Some (parts, command) \<longrightarrow> parts_of command = Some parts) \<and>
     (\<forall>n \<in> dom (hl_runs h). n < hl_next h) \<and>
     (case keep_truthy script of
        None \<Rightarrow> hl_active h = None
      | Some command \<Rightarrow>
          (\<exists>n. hl_active h = Some n \<and> n < hl_next h \<and>
             (hl_runs h n = Some command \<or> hl_runs h n = None \<and> map_option snd (hl_result h) = Some command)))"

lemma no_highlighting_ok: "highlighting_ok parts_of None no_highlighting"
  by (simp add: highlighting_ok_def no_highlighting_def)

lemma run_effect_ok:
  assumes "highlighting_ok parts_of before h"
  shows "highlighting_ok parts_of script (run_effect script h)"
proof (cases "keep_truthy script")
  case None
  then show ?thesis using assms by (simp add: highlighting_ok_def run_effect_def)
next
  case (Some command)
  have "\<forall>n \<in> dom (hl_runs h). n < Suc (hl_next h)"
    using assms unfolding highlighting_ok_def by (simp add: less_Suc_eq)
  then show ?thesis using assms by (auto simp: highlighting_ok_def run_effect_def Some)
qed

lemma end_run_ok:
  assumes ok: "highlighting_ok parts_of script h"
  shows "highlighting_ok parts_of script (end_run parts_of n h)"
proof (cases "hl_runs h n")
  case None
  then show ?thesis using ok by (simp add: end_run_def)
next
  case run: (Some command)
  show ?thesis
  proof (cases "parts_of command")
    case None
    then show ?thesis using ok by (simp add: end_run_def run)
  next
    case (Some parts)
    show ?thesis
    proof (cases "hl_active h = Some n")
      case True
      then have "keep_truthy script = Some command"
        using ok run by (auto simp: highlighting_ok_def split: option.splits)
      then show ?thesis
        using ok True by (auto simp: highlighting_ok_def end_run_def run Some Let_def)
    next
      case False
      then show ?thesis
        using ok by (auto simp: highlighting_ok_def end_run_def run Some Let_def split: option.splits)
    qed
  qed
qed

section \<open>A copyable command\<close>

record copyable =
  cc_script :: "string option"
  cc_copied :: bool
  cc_copy_failed :: bool
  cc_highlighted :: highlighting
  cc_writing :: nat

datatype copyable_event =
    RenderScript "string option"
  | HighlightEnds nat
  | CopyScript
  | ScriptWritten
  | ScriptWriteFails
  | CopyTooltipHidden

text \<open>Writes to the clipboard\<close>

datatype clipboard = Clipboard string

definition copyable_mounted :: "string option \<Rightarrow> copyable" where
  "copyable_mounted script =
     \<lparr>cc_script = script, cc_copied = False, cc_copy_failed = False,
      cc_highlighted = run_effect script no_highlighting, cc_writing = 0\<rparr>"

definition plain_text :: "command_part list \<Rightarrow> string" where
  "plain_text parts = concat (map (\<lambda>p. case p of TextPart c v \<Rightarrow> v | FieldPart c m \<Rightarrow> []) parts)"

text \<open>The text of the code block; without a command there is a warning in its place.\<close>

definition shown_script :: "copyable \<Rightarrow> string option" where
  "shown_script c =
     map_option (\<lambda>script.
         case hl_result (cc_highlighted c) of
           None \<Rightarrow> script
         | Some (parts, highlightedScript) \<Rightarrow> if highlightedScript = script then plain_text parts else script)
       (keep_truthy (cc_script c))"

definition is_highlighted :: "copyable \<Rightarrow> bool" where
  "is_highlighted c \<longleftrightarrow>
     truthy (cc_script c) \<and> map_option snd (hl_result (cc_highlighted c)) = cc_script c"

definition copyable_enabled :: "unit \<Rightarrow> copyable \<Rightarrow> copyable_event \<Rightarrow> bool" where
  "copyable_enabled u c e =
     (case e of
        HighlightEnds n \<Rightarrow> hl_runs (cc_highlighted c) n \<noteq> None
      | CopyScript \<Rightarrow> truthy (cc_script c)
      | CopyTooltipHidden \<Rightarrow> truthy (cc_script c)
      | ScriptWritten \<Rightarrow> 0 < cc_writing c
      | ScriptWriteFails \<Rightarrow> 0 < cc_writing c
      | RenderScript s \<Rightarrow> True)"

definition copyable_handle ::
    "(string \<Rightarrow> command_part list option) \<Rightarrow> unit \<Rightarrow> copyable_event \<Rightarrow> copyable \<Rightarrow> copyable \<times> clipboard list" where
  "copyable_handle parts_of u e c =
     (case e of
        RenderScript s \<Rightarrow>
          (if s = cc_script c then (c, [])
           else (c\<lparr>cc_script := s, cc_highlighted := run_effect s (cc_highlighted c)\<rparr>, []))
      | HighlightEnds n \<Rightarrow> (c\<lparr>cc_highlighted := end_run parts_of n (cc_highlighted c)\<rparr>, [])
      | CopyScript \<Rightarrow>
          (case keep_truthy (cc_script c) of
             None \<Rightarrow> (c, [])
           | Some script \<Rightarrow> (c\<lparr>cc_writing := Suc (cc_writing c)\<rparr>, [Clipboard script]))
      | ScriptWritten \<Rightarrow> (c\<lparr>cc_writing := cc_writing c - 1, cc_copied := True, cc_copy_failed := False\<rparr>, [])
      | ScriptWriteFails \<Rightarrow> (c\<lparr>cc_writing := cc_writing c - 1, cc_copied := False, cc_copy_failed := True\<rparr>, [])
      | CopyTooltipHidden \<Rightarrow> (c\<lparr>cc_copied := False\<rparr>, []))"

definition is_copy :: "copyable_event \<Rightarrow> bool" where "is_copy e \<longleftrightarrow> e = CopyScript"
definition write_ends :: "copyable_event \<Rightarrow> bool" where
  "write_ends e \<longleftrightarrow> e = ScriptWritten \<or> e = ScriptWriteFails"

text \<open>
  The highlighting is that of the command, and of the writes to the clipboard those not yet answered are
  waited for.
\<close>

definition copyable_inv ::
    "(string \<Rightarrow> command_part list option) \<Rightarrow> (unit \<times> copyable_event) list \<Rightarrow> copyable \<Rightarrow> clipboard list \<Rightarrow> bool" where
  "copyable_inv parts_of evs c l \<longleftrightarrow>
     highlighting_ok parts_of (cc_script c) (cc_highlighted c) \<and> \<not> (cc_copied c \<and> cc_copy_failed c) \<and>
     length l = length (filter (write_ends \<circ> snd) evs) + cc_writing c"

lemma copyable_step:
  assumes inv: "copyable_inv parts_of evs c l" and en: "copyable_enabled g c e"
    and h: "copyable_handle parts_of g e c = (c', xs)"
  shows "copyable_inv parts_of (evs @ [(g, e)]) c' (l @ xs)"
proof (cases e)
  case (RenderScript s)
  then show ?thesis
    using inv h run_effect_ok [of parts_of "cc_script c" "cc_highlighted c" s]
    by (auto simp: copyable_inv_def copyable_handle_def write_ends_def split: if_splits)
next
  case (HighlightEnds n)
  then show ?thesis
    using inv h end_run_ok [of parts_of "cc_script c" "cc_highlighted c" n]
    by (auto simp: copyable_inv_def copyable_handle_def write_ends_def)
qed (use inv en h in \<open>auto simp: copyable_inv_def copyable_handle_def copyable_enabled_def write_ends_def
      split: option.splits\<close>)

interpretation copying: logged_invariant
  copyable_enabled "copyable_handle parts_of" "copyable_mounted script" "copyable_inv parts_of"
  for parts_of script
proof
  show "copyable_inv parts_of [] (copyable_mounted script) []"
    by (simp add: copyable_inv_def copyable_mounted_def run_effect_ok [OF no_highlighting_ok])
qed (rule copyable_step)

section \<open>What is shown is what is copied\<close>

definition noCommandMarkers :: "string list" where "noCommandMarkers = []"

text \<open>The parts of a script; the highlighter's tokens are a parameter.\<close>

definition script_parts :: "(string \<Rightarrow> token list list) \<Rightarrow> string \<Rightarrow> command_part list option" where
  "script_parts highlighter script = highlightTemplate noCommandMarkers (highlighter script)"

definition tokens_text :: "token list list \<Rightarrow> string" where
  "tokens_text tokens = join [newline] (map (\<lambda>l. concat (map fst l)) tokens)"

lemma split_without_markers:
  "splitOnMarkers [] className rest = Some (if rest = [] then [] else [TextPart className rest])"
  by (simp add: splitOnMarkers.simps [of "[]" className rest] earliest_marker_def)

lemma tokens_without_markers: "token_parts [] ts = Some ps \<Longrightarrow> plain_text ps = parts_text ps"
  by (induction "[] :: string list" ts arbitrary: ps rule: token_parts.induct)
    (auto simp: plain_text_def parts_text_def split_without_markers bind_eq_Some_conv split: if_splits)

lemma lines_without_markers: "highlight_lines [] ls = Some ps \<Longrightarrow> plain_text ps = parts_text ps"
proof (induction "[] :: string list" ls arbitrary: ps rule: highlight_lines.induct)
  case (2 l ls)
  then show ?case
    using tokens_without_markers by (fastforce simp: plain_text_def parts_text_def bind_eq_Some_conv)
qed (simp add: plain_text_def parts_text_def)

lemma script_parts_text: "script_parts highlighter script = Some ps \<Longrightarrow> plain_text ps = tokens_text (highlighter script)"
proof -
  assume "script_parts highlighter script = Some ps"
  then have ps: "highlightTemplate [] (highlighter script) = Some ps" by (simp add: script_parts_def noCommandMarkers_def)
  then have "plain_text ps = parts_text ps"
    using tokens_without_markers lines_without_markers
    by (fastforce simp: highlightTemplate_def plain_text_def parts_text_def bind_eq_Some_conv split: list.splits)
  moreover have "parts_text ps = tokens_text (highlighter script)"
    using highlight_text [of "[]" "highlighter script"] ps by (auto simp: tokens_text_def)
  ultimately show ?thesis by simp
qed

text \<open>
  C18. A copyable command shows what it copies: in whatever order the highlightings of its former and
  present commands end, the code block shows the present command and the button writes just that
  command to the clipboard; once no highlighting is running it is the highlighted one. The hypothesis is
  the highlighter's: its tokens are the text of the command.
\<close>
theorem copyable_command_shows_what_it_copies:
  assumes "log_run copyable_enabled (copyable_handle (script_parts highlighter)) (copyable_mounted first) evs = Some (c, l)"
    and "keep_truthy (cc_script c) = Some script" and "tokens_text (highlighter script) = script"
  shows "shown_script c = Some script \<and>
    snd (copyable_handle (script_parts highlighter) u CopyScript c) = [Clipboard script] \<and>
    (dom (hl_runs (cc_highlighted c)) = {} \<longrightarrow> is_highlighted c)"
proof -
  have ok: "highlighting_ok (script_parts highlighter) (cc_script c) (cc_highlighted c)"
    using copying.holds [OF assms(1)] by (simp add: copyable_inv_def)
  have sc: "cc_script c = Some script" "script \<noteq> []" using assms(2) by (simp_all add: keep_truthy_Some)
  have "plain_text parts = script" if "hl_result (cc_highlighted c) = Some (parts, script)" for parts
    using ok that script_parts_text [of highlighter script parts] assms(3) by (simp add: highlighting_ok_def)
  then have "shown_script c = Some script"
    by (auto simp: shown_script_def assms(2) split: option.split)
  moreover have "snd (copyable_handle (script_parts highlighter) u CopyScript c) = [Clipboard script]"
    by (simp add: copyable_handle_def assms(2))
  moreover have "is_highlighted c" if "dom (hl_runs (cc_highlighted c)) = {}"
    using ok that unfolding highlighting_ok_def assms(2) by (auto simp: is_highlighted_def truthy_def sc)
  ultimately show ?thesis by blast
qed

lemma copyable_command_shows_what_it_copies_witness:
  "\<exists>c l. log_run copyable_enabled (copyable_handle (script_parts (line_tokens []))) (copyable_mounted (Some ''a''))
       (map (Pair ()) [RenderScript (Some ''b''), HighlightEnds 1, HighlightEnds 0, CopyScript]) = Some (c, l) \<and>
     shown_script c = Some ''b'' \<and> is_highlighted c"
proof -
  let ?run = "log_run copyable_enabled (copyable_handle (script_parts (line_tokens []))) (copyable_mounted (Some ''a''))
    (map (Pair ()) [RenderScript (Some ''b''), HighlightEnds 1, HighlightEnds 0, CopyScript])"
  have "case ?run of None \<Rightarrow> False | Some (c, l) \<Rightarrow> keep_truthy (cc_script c) = Some ''b''" by code_simp
  then obtain c l where run: "?run = Some (c, l)" and s: "keep_truthy (cc_script c) = Some ''b''"
    by (auto split: option.splits)
  have "case ?run of None \<Rightarrow> False | Some (c, l) \<Rightarrow> is_highlighted c" by code_simp
  then have hl: "is_highlighted c" unfolding run by simp
  have "tokens_text (line_tokens [] ''b'') = ''b''" by code_simp
  from copyable_command_shows_what_it_copies [OF run s this] show ?thesis using run hl by blast
qed

text \<open>
  An editable command keeps its parts without the command they are of: while the highlighting of a new
  template is running, what it shows is the old template, though its button copies the new command.
\<close>

definition editable_parts :: "highlighting \<Rightarrow> command_part list option" where
  "editable_parts h = map_option fst (hl_result h)"

definition template_parts :: "(string \<Rightarrow> token list list) \<Rightarrow> string \<Rightarrow> command_part list option" where
  "template_parts highlighter template = highlightTemplate setupMarkers (highlighter template)"

lemma parts_lag_behind:
  "let moved = open_gateway\<lparr>gc_endpoint := Some ''k''\<rparr>;
       before = end_run (template_parts (line_tokens [])) 0
         (run_effect (setup_template open_gateway) no_highlighting);
       now = run_effect (setup_template moved) before
   in map_option parts_text (editable_parts now) = setup_template open_gateway \<and>
      setup_template moved \<noteq> setup_template open_gateway"
  by code_simp

section \<open>The setup view\<close>

text \<open>The state of the view; \<open>sv_writing\<close> counts the writes of the secret not answered yet.\<close>

record setup_view =
  sv_jwt_expanded :: bool
  sv_openshell_expanded :: bool
  sv_secret_visible :: bool
  sv_secret_copied :: bool
  sv_secret_copy_failed :: bool
  sv_writing :: nat

definition setup_view_init :: setup_view where
  "setup_view_init =
     \<lparr>sv_jwt_expanded = False, sv_openshell_expanded = True, sv_secret_visible = False, sv_secret_copied = False,
      sv_secret_copy_failed = False, sv_writing = 0\<rparr>"

text \<open>The value, the \<open>type\<close> of the input, whether it was copied and whether copying failed\<close>

datatype input_type = TextInput | PasswordInput

record secret_field =
  sf_type :: input_type
  sf_value :: string
  sf_copied :: bool
  sf_copy_failed :: bool

datatype setup_item =
    SecretOnceWarning
  | SecretUnavailableNote
  | ClientIdValue "string option"
  | SecretField secret_field
  | SubjectValue "string option"
  | WorkspaceMembershipNote
  | WorkspaceMembershipSection "string option"
  | OpenShellSection bool "string option"
  | JwtSection bool "string option"
  | SecretSavedBox bool

text \<open>\<open>CopyableValue\<close>: a value to copy, or "not available".\<close>

definition copyableValue :: "string option \<Rightarrow> string option" where "copyableValue = keep_truthy"

definition workspaceMembershipScript :: "account_record \<Rightarrow> string option" where
  "workspaceMembershipScript account =
     (if ac_role account = RoleUser then buildWorkspaceMembershipCommand (ac_subject account) else None)"

definition setup_items ::
    "account_record \<Rightarrow> string option \<Rightarrow> 'z account_connection_scheme \<Rightarrow> bool \<Rightarrow> setup_view \<Rightarrow> setup_item list" where
  "setup_items account clientSecret connection isAcknowledged v =
     [if truthy clientSecret then SecretOnceWarning else SecretUnavailableNote,
      ClientIdValue (copyableValue (Some (cn_client_id connection)))] @
     (case keep_truthy clientSecret of
        None \<Rightarrow> []
      | Some secret \<Rightarrow>
          [SecretField
            \<lparr>sf_type = (if sv_secret_visible v then TextInput else PasswordInput), sf_value = secret,
             sf_copied = sv_secret_copied v, sf_copy_failed = sv_secret_copy_failed v\<rparr>]) @
     [SubjectValue (copyableValue (Some (ac_subject account)))] @
     (if ac_role account = RoleUser
      then [WorkspaceMembershipNote, WorkspaceMembershipSection (workspaceMembershipScript account)] else []) @
     [OpenShellSection (sv_openshell_expanded v) (buildOpenShellServiceAccountScript (ac_name account) connection),
      JwtSection (sv_jwt_expanded v) (buildClientCredentialsScript connection)] @
     (if truthy clientSecret then [SecretSavedBox isAcknowledged] else [])"

datatype setup_event =
    ToggleSecret
  | CopyClientSecret
  | SecretWritten
  | SecretWriteFails
  | SecretTooltipHidden
  | ToggleOpenShell bool
  | ToggleJwt bool
  | AcknowledgeSecret bool

datatype setup_effect = WriteSecret string | AcknowledgedChange bool

text \<open>The secret's buttons and the checkbox are there only with a secret.\<close>

definition setup_enabled :: "string option \<Rightarrow> setup_view \<Rightarrow> setup_event \<Rightarrow> bool" where
  "setup_enabled clientSecret v e =
     (case e of
        ToggleSecret \<Rightarrow> truthy clientSecret
      | CopyClientSecret \<Rightarrow> truthy clientSecret
      | SecretTooltipHidden \<Rightarrow> truthy clientSecret
      | AcknowledgeSecret b \<Rightarrow> truthy clientSecret
      | SecretWritten \<Rightarrow> 0 < sv_writing v
      | SecretWriteFails \<Rightarrow> 0 < sv_writing v
      | ToggleOpenShell b \<Rightarrow> True
      | ToggleJwt b \<Rightarrow> True)"

definition setup_handle :: "string option \<Rightarrow> setup_event \<Rightarrow> setup_view \<Rightarrow> setup_view \<times> setup_effect list" where
  "setup_handle clientSecret e v =
     (case e of
        ToggleSecret \<Rightarrow> (v\<lparr>sv_secret_visible := \<not> sv_secret_visible v\<rparr>, [])
      | CopyClientSecret \<Rightarrow>
          (case keep_truthy clientSecret of
             None \<Rightarrow> (v, [])
           | Some secret \<Rightarrow> (v\<lparr>sv_writing := Suc (sv_writing v)\<rparr>, [WriteSecret secret]))
      | SecretWritten \<Rightarrow>
          (v\<lparr>sv_writing := sv_writing v - 1, sv_secret_copied := True, sv_secret_copy_failed := False\<rparr>, [])
      | SecretWriteFails \<Rightarrow>
          (v\<lparr>sv_writing := sv_writing v - 1, sv_secret_copied := False, sv_secret_copy_failed := True\<rparr>, [])
      | SecretTooltipHidden \<Rightarrow> (v\<lparr>sv_secret_copied := False\<rparr>, [])
      | ToggleOpenShell b \<Rightarrow> (v\<lparr>sv_openshell_expanded := b\<rparr>, [])
      | ToggleJwt b \<Rightarrow> (v\<lparr>sv_jwt_expanded := b\<rparr>, [])
      | AcknowledgeSecret b \<Rightarrow> (v, [AcknowledgedChange b]))"

text \<open>
  The secret is in the clear after an odd number of presses of its button, and a write to the clipboard is
  of a secret the view had, on a press of the copy button.
\<close>

definition is_write :: "setup_effect \<Rightarrow> bool" where
  "is_write x \<longleftrightarrow> (case x of WriteSecret s \<Rightarrow> True | _ \<Rightarrow> False)"

definition setup_inv :: "(string option \<times> setup_event) list \<Rightarrow> setup_view \<Rightarrow> setup_effect list \<Rightarrow> bool" where
  "setup_inv evs v l \<longleftrightarrow>
     sv_secret_visible v = odd (length (filter (\<lambda>e. snd e = ToggleSecret) evs)) \<and>
     filter is_write l = map (WriteSecret \<circ> the \<circ> fst) (filter (\<lambda>e. snd e = CopyClientSecret) evs) \<and>
     \<not> (sv_secret_copied v \<and> sv_secret_copy_failed v)"

lemma setup_step:
  "setup_inv evs v l \<Longrightarrow> setup_enabled g v e \<Longrightarrow> setup_handle g e v = (v', xs) \<Longrightarrow>
     setup_inv (evs @ [(g, e)]) v' (l @ xs)"
  by (cases e) (auto simp: setup_inv_def setup_handle_def setup_enabled_def is_write_def truthy_def keep_truthy_def
      split: option.splits if_splits)

interpretation setting_up: logged_invariant setup_enabled setup_handle setup_view_init setup_inv
proof
  show "setup_inv [] setup_view_init []" by (simp add: setup_inv_def setup_view_init_def)
qed (rule setup_step)

text \<open>
  The secret is in the clear only on demand: after any events of the view the setup view has a field
  with the secret just when it has a secret, its text is readable only after an odd number of presses of
  the show button, it claims a copy only when the last one did not fail, and what was written to the
  clipboard are the secrets the view had when its copy button was pressed.
\<close>
lemma secret_is_shown_on_demand:
  assumes "log_run setup_enabled setup_handle setup_view_init evs = Some (v, l)"
  shows "(SecretField f \<in> set (setup_items account clientSecret connection ack v) \<longleftrightarrow>
      clientSecret = Some (sf_value f) \<and> sf_value f \<noteq> [] \<and>
      (sf_type f = TextInput \<longleftrightarrow> odd (length (filter (\<lambda>e. snd e = ToggleSecret) evs))) \<and>
      sf_copied f = sv_secret_copied v \<and> sf_copy_failed f = sv_secret_copy_failed v) \<and>
    \<not> (sv_secret_copied v \<and> sv_secret_copy_failed v) \<and>
    filter is_write l = map (WriteSecret \<circ> the \<circ> fst) (filter (\<lambda>e. snd e = CopyClientSecret) evs)"
proof -
  have inv: "setup_inv evs v l" by (rule setting_up.holds [OF assms])
  then have visible: "odd (length (filter (\<lambda>e. snd e = ToggleSecret) evs)) = sv_secret_visible v"
    by (simp add: setup_inv_def)
  have "SecretField f \<in> set (setup_items account clientSecret connection ack v) \<longleftrightarrow>
      clientSecret = Some (sf_value f) \<and> sf_value f \<noteq> [] \<and> (sf_type f = TextInput \<longleftrightarrow> sv_secret_visible v) \<and>
      sf_copied f = sv_secret_copied v \<and> sf_copy_failed f = sv_secret_copy_failed v"
    by (cases f; cases "sf_type f") (auto simp: setup_items_def keep_truthy_def truthy_def split: option.splits if_splits)
  then show ?thesis using inv unfolding visible setup_inv_def by blast
qed

lemma secret_is_shown_on_demand_witness:
  "\<exists>v l. log_run setup_enabled setup_handle setup_view_init
       [(Some ''x'', ToggleSecret), (Some ''x'', CopyClientSecret), (Some ''x'', SecretWritten)] = Some (v, l) \<and>
     filter is_write l = [WriteSecret ''x'']"
proof -
  let ?evs = "[(Some ''x'', ToggleSecret), (Some ''x'', CopyClientSecret), (Some ''x'', SecretWritten)]"
  have "log_run setup_enabled setup_handle setup_view_init ?evs \<noteq> None" by code_simp
  then obtain v l where run: "log_run setup_enabled setup_handle setup_view_init ?evs = Some (v, l)" by auto
  have "filter is_write l = map (WriteSecret \<circ> the \<circ> fst) (filter (\<lambda>e. snd e = CopyClientSecret) ?evs)"
    using secret_is_shown_on_demand [OF run] by blast
  then show ?thesis using run by simp
qed

text \<open>
  C19. Nothing but the secret's field depends on the secret: the commands, the identifiers, the sections and
  the notes of the setup view are the same whatever secret the credential holds, so no script to copy, and
  no section, carries it.
\<close>

definition is_secret_field :: "setup_item \<Rightarrow> bool" where
  "is_secret_field i \<longleftrightarrow> (case i of SecretField f \<Rightarrow> True | _ \<Rightarrow> False)"

theorem secret_stays_in_its_field:
  assumes "secret \<noteq> []" "other \<noteq> []"
  shows "filter (\<lambda>i. \<not> is_secret_field i)
      (setup_items account (Some secret) (credential\<lparr>cr_client_secret := secret\<rparr>) ack v) =
    filter (\<lambda>i. \<not> is_secret_field i)
      (setup_items account (Some other) (credential\<lparr>cr_client_secret := other\<rparr>) ack v)"
proof -
  have scripts: "buildOpenShellServiceAccountScript name (credential\<lparr>cr_client_secret := s\<rparr>) =
      buildOpenShellServiceAccountScript name credential"
    "buildClientCredentialsScript (credential\<lparr>cr_client_secret := s\<rparr>) = buildClientCredentialsScript credential"
    for name s
    by (simp_all add: buildOpenShellServiceAccountScript_def buildClientCredentialsScript_def
        hasRequiredConnectionValues_def service_account_add_def)
  have "keep_truthy (Some s) = Some s" "truthy (Some s)" if "s \<noteq> []" for s
    using that by (simp_all add: keep_truthy_def truthy_def)
  then show ?thesis using assms by (simp add: setup_items_def scripts is_secret_field_def)
qed

lemma secret_stays_in_its_field_witness:
  "\<forall>account credential. filter (\<lambda>i. \<not> is_secret_field i)
      (setup_items account (Some ''s'') (credential\<lparr>cr_client_secret := ''s''\<rparr>) False setup_view_init) =
    filter (\<lambda>i. \<not> is_secret_field i)
      (setup_items account (Some ''t'') (credential\<lparr>cr_client_secret := ''t''\<rparr>) False setup_view_init)"
  by (intro allI secret_stays_in_its_field) simp_all

end
