(* ===== verification/Web_Shell.thy ===== *)
theory Web_Shell
  imports Event_Runs Gateway_Data JS_Url
begin

text \<open>
  The shell of the console, \<open>features/shell/\<close>: the links it hands to the pages, its breadcrumb and the
  query behind it (\<open>application-shell.tsx\<close>), the colour scheme (\<open>use-color-scheme.ts\<close>) and the focus
  after a navigation (\<open>route-focus.ts\<close>).
\<close>

section \<open>Percent encoding\<close>

text \<open>
  \<open>encodeURIComponent\<close> of the language. A character is a code unit below 256, so its UTF-8 form has
  one byte or two.
\<close>

definition uri_unreserved :: "char \<Rightarrow> bool" where
  "uri_unreserved c \<longleftrightarrow>
     (let u = code_unit c
      in 48 \<le> u \<and> u \<le> 57 \<or> 65 \<le> u \<and> u \<le> 90 \<or> 97 \<le> u \<and> u \<le> 122 \<or> u \<in> {33, 39, 40, 41, 42, 45, 46, 95, 126})"

definition upper_hex :: "nat \<Rightarrow> char" where
  "upper_hex n = char_of (if n < 10 then 48 + n else 55 + n)"

definition percent :: "nat \<Rightarrow> string" where
  "percent b = [CHR ''%'', upper_hex (b div 16), upper_hex (b mod 16)]"

definition encode_char :: "char \<Rightarrow> string" where
  "encode_char c =
     (let u = code_unit c
      in if uri_unreserved c then [c]
         else if u < 128 then percent u
         else percent (192 + u div 64) @ percent (128 + u mod 64))"

definition encodeURIComponent :: "string \<Rightarrow> string" where
  "encodeURIComponent s = concat (map encode_char s)"

text \<open>Its inverse, as far as the characters of the model go: no result for malformed or larger code points.\<close>

definition upper_hex_value :: "char \<Rightarrow> nat option" where
  "upper_hex_value c =
     (let u = code_unit c
      in if 48 \<le> u \<and> u \<le> 57 then Some (u - 48)
         else if 65 \<le> u \<and> u \<le> 70 then Some (u - 55)
         else if 97 \<le> u \<and> u \<le> 102 then Some (u - 87) else None)"

definition hex_pair :: "char \<Rightarrow> char \<Rightarrow> nat option" where
  "hex_pair a b =
     (case (upper_hex_value a, upper_hex_value b) of (Some x, Some y) \<Rightarrow> Some (16 * x + y) | _ \<Rightarrow> None)"

text \<open>The bytes of a text, then the characters of the bytes.\<close>

fun percent_bytes :: "string \<Rightarrow> (bool \<times> nat) list option" where
  "percent_bytes [] = Some []"
| "percent_bytes (c # s) =
     (if c = CHR ''%'' then
        (case s of a # b # s' \<Rightarrow>
           (case (hex_pair a b, percent_bytes s') of (Some n, Some bs) \<Rightarrow> Some ((True, n) # bs) | _ \<Rightarrow> None)
         | _ \<Rightarrow> None)
      else map_option (\<lambda>bs. (False, code_unit c) # bs) (percent_bytes s))"

fun utf8_chars :: "(bool \<times> nat) list \<Rightarrow> string option" where
  "utf8_chars [] = Some []"
| "utf8_chars ((escaped, n) # bs) =
     (if \<not> escaped \<or> n < 128 then map_option (\<lambda>s. char_of n # s) (utf8_chars bs)
      else if n \<in> {194, 195} then
        (case bs of (True, m) # bs' \<Rightarrow>
           if 128 \<le> m \<and> m < 192 then map_option (\<lambda>s. char_of (64 * (n - 192) + (m - 128)) # s) (utf8_chars bs') else None
         | _ \<Rightarrow> None)
      else None)"

definition decoded_component :: "string \<Rightarrow> string option" where
  "decoded_component s = Option.bind (percent_bytes s) utf8_chars"

lemma code_unit_char_of [simp]: "n < 256 \<Longrightarrow> code_unit (char_of n) = n"
  by (simp add: code_unit_def of_char_of)

lemma code_unit_bound [simp]: "code_unit c < 256"
  by (simp add: code_unit_def)

lemma code_unit_div [simp]: "code_unit c div 16 < 16" "code_unit c div 64 < 4"
  using code_unit_bound [of c] by (auto intro!: less_mult_imp_div_less)

lemma upper_hex_value_hex: "n < 16 \<Longrightarrow> upper_hex_value (upper_hex n) = Some n"
  by (auto simp: upper_hex_value_def upper_hex_def Let_def)

lemma hex_pair_percent: "b < 256 \<Longrightarrow> hex_pair (upper_hex (b div 16)) (upper_hex (b mod 16)) = Some b"
  by (simp add: hex_pair_def upper_hex_value_hex)

definition char_bytes :: "char \<Rightarrow> (bool \<times> nat) list" where
  "char_bytes c =
     (let u = code_unit c
      in if uri_unreserved c then [(False, u)]
         else if u < 128 then [(True, u)] else [(True, 192 + u div 64), (True, 128 + u mod 64)])"

lemma percent_bytes_char: "percent_bytes (encode_char c @ s) = map_option (\<lambda>bs. char_bytes c @ bs) (percent_bytes s)"
proof -
  have u: "code_unit c < 256" by simp
  have "uri_unreserved c \<Longrightarrow> c \<noteq> CHR ''%''" by (auto simp: uri_unreserved_def code_unit_def)
  moreover have "192 + code_unit c div 64 < 256" using code_unit_div(2) [of c] by linarith
  ultimately show ?thesis using u
    by (auto simp: encode_char_def char_bytes_def Let_def percent_def hex_pair_percent option.map_comp comp_def
        split: option.splits)
qed

lemma utf8_chars_char: "utf8_chars (char_bytes c @ bs) = map_option (\<lambda>s. c # s) (utf8_chars bs)"
proof -
  have u: "code_unit c < 256" by simp
  have "192 + code_unit c div 64 = 194 \<or> 192 + code_unit c div 64 = 195" if "\<not> code_unit c < 128"
    using code_unit_div(2) [of c] that by (auto simp: div_less_iff_less_mult not_less le_div_geq) 
  moreover have "64 * (192 + code_unit c div 64 - 192) + (128 + code_unit c mod 64 - 128) = code_unit c" by simp
  ultimately show ?thesis
    by (simp add: char_bytes_def Let_def)
qed

lemma decode_encode: "decoded_component (encodeURIComponent s) = Some s"
proof -
  have "percent_bytes (encodeURIComponent s) = Some (concat (map char_bytes s))"
    by (induction s) (simp_all add: encodeURIComponent_def percent_bytes_char)
  moreover have "utf8_chars (concat (map char_bytes s)) = Some s"
    by (induction s) (simp_all add: utf8_chars_char)
  ultimately show ?thesis by (simp add: decoded_component_def)
qed

lemma encode_char_safe: "set (encode_char c) \<subseteq> {d. uri_unreserved d} \<union> {CHR ''%''}"
proof -
  have hex: "n < 16 \<Longrightarrow> uri_unreserved (upper_hex n)" for n
    by (auto simp: uri_unreserved_def upper_hex_def Let_def)
  have "(192 + code_unit c div 64) div 16 = 12" using code_unit_div(2) [of c] by linarith
  then have b: "code_unit c div 16 < 16" "(192 + code_unit c div 64) div 16 < 16"
    by simp_all
  show ?thesis
    by (auto simp: encode_char_def Let_def percent_def intro!: hex b)
qed

lemma encoded_safe: "set (encodeURIComponent s) \<subseteq> {d. uri_unreserved d} \<union> {CHR ''%''}"
  using encode_char_safe by (fastforce simp: encodeURIComponent_def)

lemma encode_unreserved: "list_all uri_unreserved s \<Longrightarrow> encodeURIComponent s = s"
  by (induction s) (simp_all add: encodeURIComponent_def encode_char_def)

lemma encode_changes: "encodeURIComponent s = s \<longleftrightarrow> list_all uri_unreserved s"
proof
  assume s: "encodeURIComponent s = s"
  show "list_all uri_unreserved s"
  proof (rule ccontr)
    assume "\<not> ?thesis"
    then obtain xs c ys where x: "s = xs @ c # ys" "\<not> uri_unreserved c"
      by (metis in_set_conv_decomp list_all_iff)
    have "length t \<le> length (encodeURIComponent t)" for t
      by (induction t) (auto simp: encodeURIComponent_def encode_char_def percent_def Let_def)
    from this [of xs] this [of ys] x have "length s < length (encodeURIComponent s)"
      by (simp add: encodeURIComponent_def encode_char_def percent_def Let_def)
    with s show False by simp
  qed
qed (rule encode_unreserved)

section \<open>Links, routes and the breadcrumb\<close>

text \<open>The links the shell gives the pages.\<close>

definition collectionHref :: string where "collectionHref = ''/''"

definition createHref :: string where "createHref = ''/gateways/new''"

definition detailHref :: "string \<Rightarrow> string" where
  "detailHref gatewayId = ''/gateways/'' @ encodeURIComponent gatewayId"

text \<open>\<open>pathname.split("/")\<close>\<close>

fun split_slash :: "string \<Rightarrow> string list" where
  "split_slash [] = [[]]"
| "split_slash (c # s) =
     (if c = CHR ''/'' then [] # split_slash s
      else case split_slash s of w # ws \<Rightarrow> (c # w) # ws | [] \<Rightarrow> [[c]])"

definition path_segments :: "string \<Rightarrow> string list" where
  "path_segments pathname = filter (\<lambda>w. w \<noteq> []) (split_slash pathname)"

definition gatewaySegment :: "string \<Rightarrow> string option" where
  "gatewaySegment pathname =
     (case path_segments pathname of a # b # _ \<Rightarrow> if a = ''gateways'' then Some b else None | _ \<Rightarrow> None)"

definition isNewGateway :: "string \<Rightarrow> bool" where
  "isNewGateway pathname \<longleftrightarrow> gatewaySegment pathname = Some ''new''"

definition shellGatewayId :: "string \<Rightarrow> string option" where
  "shellGatewayId pathname = (if isNewGateway pathname then None else gatewaySegment pathname)"

text \<open>The query behind the breadcrumb: whether it is enabled, the gateway it reads and its key.\<close>

definition shell_query :: "string \<Rightarrow> bool \<times> string \<times> key_part list" where
  "shell_query pathname =
     (let gatewayId = shellGatewayId pathname;
          id' = (case gatewayId of None \<Rightarrow> [] | Some g \<Rightarrow> g)
      in (gatewayId \<noteq> None, id', gatewayQueryKey id'))"

datatype crumb = GatewaysCrumb | NamedCrumb string | UnnamedCrumb | ProvisionCrumb

text \<open>The breadcrumb, by the path and the name in the query's data.\<close>

definition shell_breadcrumb :: "string \<Rightarrow> string option \<Rightarrow> crumb list option" where
  "shell_breadcrumb pathname name =
     (if truthy (shellGatewayId pathname) \<or> isNewGateway pathname
      then Some (GatewaysCrumb #
        (if truthy (shellGatewayId pathname) then [case name of Some n \<Rightarrow> NamedCrumb n | None \<Rightarrow> UnnamedCrumb] else []) @
        (if isNewGateway pathname then [ProvisionCrumb] else []))
      else None)"

text \<open>\<open>routes.ts\<close> with \<open>route-contract.json\<close>: the patterns and their modules.\<close>

datatype route_module = LoginModule | HomeModule | GatewayNewModule | GatewayModule | MetricsModule | NotFoundModule

definition routes :: "(string \<times> route_module) list" where
  "routes =
     [(''login'', LoginModule), ('''', HomeModule), (''gateways/new'', GatewayNewModule),
      (''gateways/:gatewayId'', GatewayModule), (''metrics'', MetricsModule), (''*'', NotFoundModule)]"

text \<open>\<open>const {gatewayId = ""} = useParams()\<close>\<close>

definition route_gateway_id :: "(string \<times> string) list \<Rightarrow> string" where
  "route_gateway_id params = (case map_of params ''gatewayId'' of None \<Rightarrow> [] | Some g \<Rightarrow> g)"

text \<open>
  The router, a library, as it is documented: a path without dot segments and without characters to
  escape is visited as it is written, and a dynamic segment matches one segment that no static pattern
  takes, decoded.
\<close>

definition visits_as_written :: "(string \<Rightarrow> string) \<Rightarrow> bool" where
  "visits_as_written visit \<longleftrightarrow>
     (\<forall>a b. b \<noteq> [] \<and> b \<noteq> ''.'' \<and> b \<noteq> ''..'' \<and> list_all (\<lambda>c. uri_unreserved c \<or> c = CHR ''%'') (a @ b) \<longrightarrow>
        visit (''/'' @ a @ ''/'' @ b) = ''/'' @ a @ ''/'' @ b)"

definition matches_dynamic_segments ::
    "((string \<times> route_module) list \<Rightarrow> string \<Rightarrow> (route_module \<times> (string \<times> string) list) option) \<Rightarrow> bool" where
  "matches_dynamic_segments matched \<longleftrightarrow>
     (\<forall>seg value'. seg \<noteq> [] \<and> CHR ''/'' \<notin> set seg \<and> (''gateways/'' @ seg) \<notin> fst ` set routes \<and>
        decoded_component seg = Some value' \<longrightarrow>
        matched routes (''/gateways/'' @ seg) = Some (GatewayModule, [(''gatewayId'', value')]))"

lemma split_slash_word: "CHR ''/'' \<notin> set w \<Longrightarrow> split_slash w = [w]"
  by (induction w) auto

lemma split_slash_append: "CHR ''/'' \<notin> set a \<Longrightarrow> split_slash (a @ CHR ''/'' # s) = a # split_slash s"
  by (induction a) auto

lemma encoded_no_slash: "CHR ''/'' \<notin> set (encodeURIComponent s)"
proof -
  have "\<not> uri_unreserved (CHR ''/'')" by (simp add: uri_unreserved_def code_unit_def)
  then show ?thesis using encoded_safe [of s] by auto
qed

lemma encode_eq: "list_all uri_unreserved t \<Longrightarrow> encodeURIComponent s = t \<longleftrightarrow> s = t"
  using decode_encode [of s] decode_encode [of t] encode_unreserved [of t] by auto

lemma path_of_detail:
  assumes "g \<noteq> []"
  shows "path_segments (detailHref g) = [''gateways'', encodeURIComponent g]"
proof -
  have "split_slash (detailHref g) = [] # ''gateways'' # [encodeURIComponent g]"
    using split_slash_append [of "''gateways''" "encodeURIComponent g"] split_slash_word [OF encoded_no_slash]
    by (simp add: detailHref_def)
  moreover have "encodeURIComponent g \<noteq> []" using assms encode_eq [of "[]" g] by simp
  ultimately show ?thesis by (simp add: path_segments_def)
qed

text \<open>
  The link to a gateway leads to the page of exactly that gateway, whatever characters its
  identifier has, except for the word \<open>new\<close> and the dot segments. The breadcrumb above that page reads
  the gateway from the path without decoding it: it shares the page's query exactly when the identifier
  has unreserved characters only, and otherwise asks for another gateway.
\<close>

lemma detail_link_leads_to_the_gateway:
  assumes "g \<notin> {[], ''new'', ''.'', ''..''}"
    and "visits_as_written visit"
    and "matches_dynamic_segments matched"
  shows "(\<exists>params. matched routes (visit (detailHref g)) = Some (GatewayModule, params) \<and> route_gateway_id params = g) \<and>
    shell_query (visit (detailHref g)) = (True, encodeURIComponent g, gatewayQueryKey (encodeURIComponent g)) \<and>
    (snd (snd (shell_query (visit (detailHref g)))) = gatewayQueryKey g \<longleftrightarrow> list_all uri_unreserved g) \<and>
    shell_breadcrumb (visit (detailHref g)) None = Some [GatewaysCrumb, UnnamedCrumb]"
proof -
  have un: "list_all uri_unreserved ''new''" "list_all uri_unreserved ''.''" "list_all uri_unreserved ''..''"
    "list_all uri_unreserved ''gateways''"
    by (simp_all add: uri_unreserved_def code_unit_def)
  have ne: "encodeURIComponent g \<noteq> []" "encodeURIComponent g \<noteq> ''.''" "encodeURIComponent g \<noteq> ''..''"
    "encodeURIComponent g \<noteq> ''new''"
    using assms(1) encode_eq [of "[]" g] encode_eq [OF un(1)] encode_eq [OF un(2)] encode_eq [OF un(3)] by auto
  have safe: "list_all (\<lambda>c. uri_unreserved c \<or> c = CHR ''%'') (''gateways'' @ encodeURIComponent g)"
    using encoded_safe [of g] un(4) by (auto simp: list_all_iff)
  have visit: "visit (detailHref g) = detailHref g"
    using assms(2) safe ne unfolding visits_as_written_def detailHref_def
    by (drule_tac spec [of _ "''gateways''"]) simp
  have "(''gateways/'' @ encodeURIComponent g) \<notin> fst ` set routes"
  proof -
    have "CHR '':'' \<notin> set (encodeURIComponent g)"
      using encoded_safe [of g] by (auto simp: uri_unreserved_def code_unit_def)
    then show ?thesis using ne by (auto simp: routes_def)
  qed
  with assms(3) ne encoded_no_slash decode_encode [of g]
  have matched: "matched routes (detailHref g) = Some (GatewayModule, [(''gatewayId'', g)])"
    unfolding matches_dynamic_segments_def detailHref_def by blast
  have "g \<noteq> []" using assms(1) by simp
  from path_of_detail [OF this] ne have seg: "shellGatewayId (detailHref g) = Some (encodeURIComponent g)"
    "\<not> isNewGateway (detailHref g)"
    by (simp_all add: shellGatewayId_def isNewGateway_def gatewaySegment_def)
  then show ?thesis
    unfolding visit matched using ne encode_changes [of g]
    by (simp add: shell_query_def shell_breadcrumb_def route_gateway_id_def gatewayQueryKey_def truthy_def Let_def)
qed

lemma detail_link_leads_to_the_gateway_witness:
  "let visit = (\<lambda>p. p);
       matched = (\<lambda>rs p. if take 10 p = ''/gateways/'' \<and> drop 10 p \<noteq> ''new''
         then map_option (\<lambda>i. (GatewayModule, [(''gatewayId'', i)])) (decoded_component (drop 10 p)) else None)
   in (\<exists>params. matched routes (visit (detailHref ''a/b'')) = Some (GatewayModule, params) \<and>
        route_gateway_id params = ''a/b'') \<and>
      snd (snd (shell_query (visit (detailHref ''a/b'')))) \<noteq> gatewayQueryKey ''a/b''"
proof -
  let ?visit = "\<lambda>p :: string. p"
  let ?matched = "\<lambda>(rs :: (string \<times> route_module) list) p. if take 10 p = ''/gateways/'' \<and> drop 10 p \<noteq> ''new''
    then map_option (\<lambda>i. (GatewayModule, [(''gatewayId'', i)])) (decoded_component (drop 10 p)) else None"
  have v: "visits_as_written ?visit" by (simp add: visits_as_written_def)
  have "''new'' \<noteq> seg" if "''gateways/'' @ seg \<notin> fst ` set routes" for seg
    using that by (auto simp: routes_def)
  then have m: "matches_dynamic_segments ?matched" by (auto simp: matches_dynamic_segments_def)
  have "\<not> list_all uri_unreserved ''a/b''" by (simp add: uri_unreserved_def code_unit_def)
  moreover have "''a/b'' \<notin> {[], ''new'', ''.'', ''..''}" by simp
  note detail_link_leads_to_the_gateway [OF this v m]
  ultimately show ?thesis unfolding Let_def by blast
qed

text \<open>The identifiers the link cannot reach are taken by the creation page.\<close>

lemma gateway_named_new: "detailHref ''new'' = createHref \<and> shell_breadcrumb createHref name = Some [GatewaysCrumb, ProvisionCrumb]"
  by code_simp

section \<open>The colour scheme\<close>

datatype color_scheme = LightScheme | DarkScheme

definition scheme_name :: "color_scheme \<Rightarrow> string" where
  "scheme_name s = (case s of LightScheme \<Rightarrow> ''light'' | DarkScheme \<Rightarrow> ''dark'')"

text \<open>
  What the hook and the browser share: the dark class of the document's element, the preference of the
  system, the stored choice, and whether the shell is mounted, so that the hook is subscribed. Whether the
  storage can be read and written now comes with each event.
\<close>

record scheme_state =
  sh_dark :: bool
  sh_system :: bool
  sh_stored :: "string option"
  sh_subscribed :: bool

record storage_access =
  sa_readable :: bool
  sa_writable :: bool

definition getSnapshot :: "scheme_state \<Rightarrow> color_scheme" where
  "getSnapshot s = (if sh_dark s then DarkScheme else LightScheme)"

definition applyScheme :: "color_scheme \<Rightarrow> scheme_state \<Rightarrow> scheme_state" where
  "applyScheme scheme s = s\<lparr>sh_dark := scheme = DarkScheme\<rparr>"

definition system_scheme :: "bool \<Rightarrow> color_scheme" where
  "system_scheme dark = (if dark then DarkScheme else LightScheme)"

definition readPreference :: "storage_access \<Rightarrow> scheme_state \<Rightarrow> color_scheme" where
  "readPreference g s =
     (case if sa_readable g then sh_stored s else None of
        None \<Rightarrow> system_scheme (sh_system s)
      | Some v \<Rightarrow> if v = ''dark'' then DarkScheme else if v = ''light'' then LightScheme
                 else system_scheme (sh_system s))"

definition onSystemChange :: "storage_access \<Rightarrow> scheme_state \<Rightarrow> scheme_state" where
  "onSystemChange g s =
     (if sa_readable g \<and> truthy (sh_stored s) then s else applyScheme (system_scheme (sh_system s)) s)"

definition toggle_scheme :: "storage_access \<Rightarrow> scheme_state \<Rightarrow> scheme_state" where
  "toggle_scheme g s =
     (let next = (if getSnapshot s = DarkScheme then LightScheme else DarkScheme);
          s' = applyScheme next s
      in if sa_writable g then s'\<lparr>sh_stored := Some (scheme_name next)\<rparr> else s')"

datatype scheme_event = PageLoads | ShellMounts | ShellUnmounts | SystemPrefers bool | SchemeToggled | OtherTabStores "string option"

fun scheme_enabled :: "storage_access \<Rightarrow> scheme_state \<Rightarrow> scheme_event \<Rightarrow> bool" where
  "scheme_enabled g s ShellMounts = (\<not> sh_subscribed s)"
| "scheme_enabled g s ShellUnmounts = sh_subscribed s"
| "scheme_enabled g s (SystemPrefers dark) = (dark \<noteq> sh_system s)"
| "scheme_enabled g s SchemeToggled = sh_subscribed s"
| "scheme_enabled g s _ = True"

definition load_scheme :: "storage_access \<Rightarrow> scheme_state \<Rightarrow> scheme_state" where
  "load_scheme g s = applyScheme (readPreference g s) (s\<lparr>sh_dark := False, sh_subscribed := False\<rparr>)"

text \<open>Each event, with what is written to the storage.\<close>

fun scheme_handle :: "storage_access \<Rightarrow> scheme_event \<Rightarrow> scheme_state \<Rightarrow> scheme_state \<times> string list" where
  "scheme_handle g PageLoads s = (load_scheme g s, [])"
| "scheme_handle g ShellMounts s = (s\<lparr>sh_subscribed := True\<rparr>, [])"
| "scheme_handle g ShellUnmounts s = (s\<lparr>sh_subscribed := False\<rparr>, [])"
| "scheme_handle g (SystemPrefers dark) s =
     (let s' = s\<lparr>sh_system := dark\<rparr> in (if sh_subscribed s then onSystemChange g s' else s', []))"
| "scheme_handle g SchemeToggled s =
     (let s' = toggle_scheme g s in (s', if sa_writable g then [scheme_name (getSnapshot s')] else []))"
| "scheme_handle g (OtherTabStores v) s = (s\<lparr>sh_stored := v\<rparr>, [])"

text \<open>The browser before the page loads.\<close>

definition scheme_before :: "bool \<Rightarrow> string option \<Rightarrow> scheme_state" where
  "scheme_before system stored = \<lparr>sh_dark = False, sh_system = system, sh_stored = stored, sh_subscribed = False\<rparr>"

definition scheme_init :: "bool \<Rightarrow> string option \<Rightarrow> scheme_state" where
  "scheme_init system stored = load_scheme \<lparr>sa_readable = True, sa_writable = True\<rparr> (scheme_before system stored)"

text \<open>
  A steady event: the storage is accessible, no other tab writes to it, and the system changes its
  preference only while the shell is mounted.
\<close>

definition steady_event :: "scheme_state \<Rightarrow> storage_access \<times> scheme_event \<Rightarrow> bool" where
  "steady_event s ge \<longleftrightarrow> sa_readable (fst ge) \<and> sa_writable (fst ge) \<and>
     (case snd ge of OtherTabStores _ \<Rightarrow> False | SystemPrefers _ \<Rightarrow> sh_subscribed s | _ \<Rightarrow> True)"

definition steady_enabled :: "storage_access \<Rightarrow> scheme_state \<Rightarrow> scheme_event \<Rightarrow> bool" where
  "steady_enabled g s e \<longleftrightarrow> scheme_enabled g s e \<and> steady_event s (g, e)"

definition chosen_scheme :: "string option \<Rightarrow> color_scheme option" where
  "chosen_scheme v = (if v = Some ''dark'' then Some DarkScheme else if v = Some ''light'' then Some LightScheme else None)"

text \<open>The scheme a stored choice and the preference of the system promise.\<close>

definition promised_scheme :: "string option \<Rightarrow> bool \<Rightarrow> color_scheme" where
  "promised_scheme stored dark = (case chosen_scheme stored of Some c \<Rightarrow> c | None \<Rightarrow> system_scheme dark)"

definition scheme_inv :: "string option \<Rightarrow> (storage_access \<times> scheme_event) list \<Rightarrow> scheme_state \<Rightarrow> string list \<Rightarrow> bool" where
  "scheme_inv stored evs s writes \<longleftrightarrow>
     sh_stored s = (if writes = [] then stored else Some (last writes)) \<and>
     (chosen_scheme stored = None \<longrightarrow> \<not> truthy stored) \<and>
     (\<forall>w \<in> set writes. chosen_scheme (Some w) \<noteq> None) \<and>
     getSnapshot s = promised_scheme (sh_stored s) (sh_system s)"

lemma preference_is_choice:
  "sa_readable g \<Longrightarrow> readPreference g s = promised_scheme (sh_stored s) (sh_system s)"
  by (simp add: promised_scheme_def readPreference_def chosen_scheme_def split: option.split)

lemma snapshot_of_applied: "getSnapshot (applyScheme c s) = c"
  by (cases c) (simp_all add: getSnapshot_def applyScheme_def)

lemma chosen_name: "chosen_scheme (Some (scheme_name c)) = Some c"
  by (cases c) (simp_all add: chosen_scheme_def scheme_name_def)

lemma applied_fields [simp]:
  "sh_stored (applyScheme c s) = sh_stored s" "sh_system (applyScheme c s) = sh_system s"
  "sh_subscribed (applyScheme c s) = sh_subscribed s"
  by (simp_all add: applyScheme_def)

lemma chosen_is_truthy: "chosen_scheme v \<noteq> None \<Longrightarrow> truthy v"
  by (auto simp: chosen_scheme_def truthy_def split: if_splits)

lemma scheme_inv_choice:
  assumes "scheme_inv stored evs s writes"
  shows "chosen_scheme (sh_stored s) = None \<longleftrightarrow> \<not> truthy (sh_stored s)"
proof (cases "writes = []")
  case True
  then show ?thesis using assms chosen_is_truthy [of stored] unfolding scheme_inv_def by metis
next
  case False
  then have "sh_stored s = Some (last writes)" "chosen_scheme (Some (last writes)) \<noteq> None"
    using assms last_in_set [of writes] by (simp_all add: scheme_inv_def)
  then show ?thesis using chosen_is_truthy [of "sh_stored s"] by simp
qed

lemma system_change_shown:
  fixes dark :: bool
  assumes "getSnapshot s = promised_scheme (sh_stored s) (sh_system s)"
    and "chosen_scheme (sh_stored s) = None \<longleftrightarrow> \<not> truthy (sh_stored s)" "sa_readable g"
  defines "s' \<equiv> onSystemChange g (s\<lparr>sh_system := dark\<rparr>)"
  shows "sh_stored s' = sh_stored s"
    "getSnapshot s' = promised_scheme (sh_stored s) (sh_system s')"
proof -
  show "sh_stored s' = sh_stored s" by (simp add: s'_def onSystemChange_def)
  show "getSnapshot s' = promised_scheme (sh_stored s) (sh_system s')"
  proof (cases "chosen_scheme (sh_stored s)")
    case None
    then show ?thesis using assms(2,3) by (simp add: s'_def onSystemChange_def snapshot_of_applied promised_scheme_def)
  next
    case (Some c)
    then have "truthy (sh_stored s)" using assms(2) by (metis option.distinct(1))
    then show ?thesis using assms(1,3) Some by (simp add: s'_def onSystemChange_def getSnapshot_def promised_scheme_def)
  qed
qed

lemma scheme_inv_step:
  assumes "scheme_inv stored evs s writes" "steady_enabled g s e" "scheme_handle g e s = (s', ws)"
  shows "scheme_inv stored (evs @ [(g, e)]) s' (writes @ ws)"
proof (cases e)
  case PageLoads
  then show ?thesis using assms
    by (auto simp: scheme_inv_def steady_enabled_def steady_event_def load_scheme_def snapshot_of_applied preference_is_choice)
next
  case (SystemPrefers dark)
  then have g: "sa_readable g" "sh_subscribed s"
    and s': "s' = onSystemChange g (s\<lparr>sh_system := dark\<rparr>)" "ws = []"
    using assms(2,3) by (auto simp: steady_enabled_def steady_event_def Let_def)
  have "getSnapshot s = promised_scheme (sh_stored s) (sh_system s)"
    using assms(1) by (simp add: scheme_inv_def)
  from system_change_shown [OF this scheme_inv_choice [OF assms(1)] g(1), of dark] assms(1)
  show ?thesis unfolding s' by (simp add: scheme_inv_def)

next
  case SchemeToggled
  then have g: "sa_writable g" using assms(2) by (simp add: steady_enabled_def steady_event_def)
  have "getSnapshot (s\<lparr>sh_stored := v\<rparr>) = getSnapshot s" for v s by (simp add: getSnapshot_def)
  then show ?thesis
    using assms(1,3) SchemeToggled g
    by (auto simp: scheme_inv_def toggle_scheme_def Let_def snapshot_of_applied chosen_name promised_scheme_def)
qed (use assms in \<open>auto simp: scheme_inv_def steady_enabled_def steady_event_def getSnapshot_def\<close>)

lemma scheme_inv_init:
  assumes "chosen_scheme stored = None \<longrightarrow> \<not> truthy stored"
  shows "scheme_inv stored [] (scheme_init system stored) []"
  using assms by (simp add: scheme_inv_def scheme_init_def load_scheme_def scheme_before_def snapshot_of_applied
      preference_is_choice)

text \<open>The steady runs, as instances of the contract.\<close>

interpretation steady: logged_invariant steady_enabled scheme_handle "scheme_init system stored"
    "\<lambda>evs s writes. (chosen_scheme stored = None \<longrightarrow> \<not> truthy stored) \<longrightarrow> scheme_inv stored evs s writes"
  for system stored
proof unfold_locales
  show "(chosen_scheme stored = None \<longrightarrow> \<not> truthy stored) \<longrightarrow> scheme_inv stored [] (scheme_init system stored) []"
    by (rule impI) (erule scheme_inv_init)
qed (rule impI, drule (1) mp, erule (2) scheme_inv_step)

text \<open>
  While the storage is accessible and no other tab writes to it, the console shows the scheme last
  chosen with its button, which is what the storage holds and what a reload shows; until a scheme was
  chosen, it shows what the system prefers, as it changes while the shell is mounted.
\<close>

lemma scheme_follows_choice_or_system:
  assumes "stored \<in> {None, Some [], Some ''dark'', Some ''light''}"
    and "log_run steady_enabled scheme_handle (scheme_init system stored) evs = Some (s, writes)"
  shows "sh_stored s = (if writes = [] then stored else Some (last writes)) \<and>
    getSnapshot s = promised_scheme (sh_stored s) (sh_system s) \<and>
    getSnapshot (load_scheme \<lparr>sa_readable = True, sa_writable = w\<rparr> s) = getSnapshot s"
proof -
  have "chosen_scheme stored = None \<longrightarrow> \<not> truthy stored"
    using assms(1) by (auto simp: chosen_scheme_def truthy_def)
  with steady.holds [OF assms(2)] have "scheme_inv stored evs s writes" by blast
  then show ?thesis
    by (simp add: scheme_inv_def load_scheme_def snapshot_of_applied preference_is_choice)
qed

lemma scheme_follows_choice_or_system_witness:
  "let g = \<lparr>sa_readable = True, sa_writable = True\<rparr>;
       s = fst (the (log_run steady_enabled scheme_handle (scheme_init False None)
         [(g, ShellMounts), (g, SystemPrefers True), (g, SchemeToggled), (g, SystemPrefers False), (g, SystemPrefers True)]))
   in getSnapshot s = LightScheme \<and> sh_stored s = Some ''light'' \<and>
      getSnapshot (load_scheme \<lparr>sa_readable = True, sa_writable = False\<rparr> s) = LightScheme"
proof -
  let ?g = "\<lparr>sa_readable = True, sa_writable = True\<rparr>"
  let ?evs = "[(?g, ShellMounts), (?g, SystemPrefers True), (?g, SchemeToggled), (?g, SystemPrefers False), (?g, SystemPrefers True)]"
  have run: "log_run steady_enabled scheme_handle (scheme_init False None) ?evs =
      Some (\<lparr>sh_dark = False, sh_system = True, sh_stored = Some ''light'', sh_subscribed = True\<rparr>, [''light''])"
    by code_simp
  from scheme_follows_choice_or_system [OF _ this, of False] run show ?thesis
    by (simp add: getSnapshot_def)
qed

text \<open>What the code does less: an unknown stored value stops the system's changes, though it is no choice;
  a change while the shell is away is missed until the page loads again.\<close>

lemma unknown_choice_blocks_the_system:
  "let g = \<lparr>sa_readable = True, sa_writable = True\<rparr>;
       s = fst (the (log_run scheme_enabled scheme_handle (scheme_init False (Some ''blue''))
         [(g, ShellMounts), (g, SystemPrefers True)]))
   in getSnapshot s = LightScheme \<and> readPreference g s = DarkScheme"
  by code_simp

lemma change_missed_while_away:
  "let g = \<lparr>sa_readable = True, sa_writable = True\<rparr>;
       s = fst (the (log_run scheme_enabled scheme_handle (scheme_init False None)
         [(g, SystemPrefers True), (g, ShellMounts)]))
   in getSnapshot s = LightScheme \<and> readPreference g s = DarkScheme"
  by code_simp

text \<open>Without a storage the button still works, for as long as nothing else changes the scheme.\<close>

lemma toggle_without_storage:
  "let s' = toggle_scheme g s in getSnapshot s' \<noteq> getSnapshot s \<and> getSnapshot (toggle_scheme g s') = getSnapshot s"
  by (auto simp: toggle_scheme_def getSnapshot_def applyScheme_def Let_def)

section \<open>Focus after a navigation\<close>

text \<open>
  \<open>useRouteHeadingFocus\<close>: the path of the last effect, the path rendered last and whether an observer waits for
  the heading. Each event comes with what the document holds then: whether there is a heading and whether
  there is a main element.
\<close>

record focus_state =
  fo_previous :: string
  fo_rendered :: string
  fo_observing :: bool

record document_view =
  dv_heading :: bool
  dv_main :: bool

datatype focus_event = RendersPath string | DocumentMutates | FocusUnmounts

definition focus_init :: "string \<Rightarrow> focus_state" where
  "focus_init pathname = \<lparr>fo_previous = pathname, fo_rendered = pathname, fo_observing = False\<rparr>"

text \<open>The effect, with its result: whether the heading was focused. An observer waits only where there is none.\<close>

definition focus_effect :: "document_view \<Rightarrow> string \<Rightarrow> focus_state \<Rightarrow> focus_state \<times> bool" where
  "focus_effect g pathname s =
     (if fo_previous s = pathname then (s, False)
      else let s' = s\<lparr>fo_previous := pathname\<rparr>
           in if dv_heading g then (s', True)
              else if \<not> dv_main g then (s', False)
              else (s'\<lparr>fo_observing := True\<rparr>, False))"

definition focus_cleanup :: "focus_state \<Rightarrow> focus_state" where
  "focus_cleanup s = s\<lparr>fo_observing := False\<rparr>"

text \<open>Each event, with the paths whose heading is focused.\<close>

fun focus_handle :: "document_view \<Rightarrow> focus_event \<Rightarrow> focus_state \<Rightarrow> focus_state \<times> string list" where
  "focus_handle g (RendersPath pathname) s =
     (if pathname = fo_rendered s then (s, [])
      else let (s', focused) = focus_effect g pathname (focus_cleanup (s\<lparr>fo_rendered := pathname\<rparr>))
           in (s', if focused then [pathname] else []))"
| "focus_handle g DocumentMutates s =
     (if dv_heading g then (s\<lparr>fo_observing := False\<rparr>, [fo_rendered s]) else (s, []))"
| "focus_handle g FocusUnmounts s = (focus_cleanup s, [])"

text \<open>A mutation matters while the observer watches.\<close>

definition focus_enabled :: "document_view \<Rightarrow> focus_state \<Rightarrow> focus_event \<Rightarrow> bool" where
  "focus_enabled g s e = (case e of DocumentMutates \<Rightarrow> fo_observing s | _ \<Rightarrow> True)"

text \<open>The paths visited, in order: each rendering with another path than before; and where the visit is now.\<close>

fun visit_step :: "string list \<times> string \<Rightarrow> document_view \<times> focus_event \<Rightarrow> string list \<times> string" where
  "visit_step (ps, cur) (g, RendersPath p) = (if p = cur then (ps, cur) else (ps @ [p], p))"
| "visit_step v _ = v"

definition visited :: "string \<Rightarrow> (document_view \<times> focus_event) list \<Rightarrow> string list" where
  "visited start evs = fst (foldl visit_step ([], start) evs)"

definition focus_inv :: "string \<Rightarrow> (document_view \<times> focus_event) list \<Rightarrow> focus_state \<Rightarrow> string list \<Rightarrow> bool" where
  "focus_inv start evs s focused \<longleftrightarrow>
     fo_previous s = fo_rendered s \<and> snd (foldl visit_step ([], start) evs) = fo_rendered s \<and>
     subseq focused (visited start evs) \<and>
     (fo_observing s \<longrightarrow> (\<exists>ps. visited start evs = ps @ [fo_rendered s] \<and> subseq focused ps))"

lemma focus_step:
  assumes "focus_inv start evs s focused" "focus_enabled g s e" "focus_handle g e s = (s', fs)"
  shows "focus_inv start (evs @ [(g, e)]) s' (focused @ fs)"
proof (cases e)
  case (RendersPath p)
  obtain ps where v: "foldl visit_step ([], start) evs = (ps, fo_rendered s)"
    using assms(1) by (metis focus_inv_def prod.collapse)
  then show ?thesis
    using assms RendersPath
    by (auto simp: focus_inv_def visited_def focus_effect_def focus_cleanup_def Let_def subseq_longer
        split: if_splits intro: list_emb_append_mono)
next
  case DocumentMutates
  then show ?thesis
    using assms by (auto simp: focus_inv_def visited_def focus_enabled_def split: if_splits intro: list_emb_append_mono)
next
  case FocusUnmounts
  then show ?thesis using assms by (auto simp: focus_inv_def visited_def focus_cleanup_def)
qed

interpretation focus: logged_invariant focus_enabled focus_handle "focus_init start" "focus_inv start" for start
  by unfold_locales (simp add: focus_inv_def focus_init_def visited_def, rule focus_step)

text \<open>
  The heading is focused only after a navigation, at most once for each path visited, and in their order; in
  particular never for the first page. A visit is left unfocused only when no heading appears in it or
  there is no main element to watch.
\<close>

lemma focus_follows_visits:
  "log_run focus_enabled focus_handle (focus_init start) evs = Some (s, focused) \<Longrightarrow> subseq focused (visited start evs)"
  by (drule focus.holds) (simp add: focus_inv_def)

lemma visit_is_focused:
  assumes "fo_previous s = fo_rendered s" "p \<noteq> fo_rendered s"
    and "focus_handle g (RendersPath p) s = (s', fs)"
  shows "if dv_heading g then fs = [p] \<and> \<not> fo_observing s'
    else fs = [] \<and> fo_observing s' = dv_main g \<and>
      (dv_main g \<longrightarrow> dv_heading g' \<longrightarrow> focus_enabled g' s' DocumentMutates \<and>
        snd (focus_handle g' DocumentMutates s') = [p] \<and> \<not> fo_observing (fst (focus_handle g' DocumentMutates s')))"
  using assms by (auto simp: focus_effect_def focus_cleanup_def focus_enabled_def Let_def split: if_splits)

end
