(* ===== verification/Web_Session.thy ===== *)
theory Web_Session
  imports Browser_Calls Event_Runs
begin

text \<open>
  Who is signed in: \<open>adapters/session/session-adapter.ts\<close>, which turns the session the client reads into the
  shell's, and \<open>features/shell/user-menu.tsx\<close>, which shows its user.
\<close>

section \<open>The session adapter\<close>

record browser_session_user =
  bu_email :: "js_text option"
  bu_name :: "js_text option"
  bu_preferred :: "js_text option"
  bu_sub :: "js_text option"

record browser_session =
  bs_authenticated :: bool
  bs_expires :: "rat option"
  bs_roles :: "js_text list"
  bs_user :: "browser_session_user option"

definition text_property :: "jvalue \<Rightarrow> string \<Rightarrow> js_text option" where
  "text_property v k = (case own_property v k of Some (VString t) \<Rightarrow> Some t | _ \<Rightarrow> None)"

definition text_items :: "jvalue list \<Rightarrow> js_text list" where
  "text_items vs = List.map_filter (\<lambda>v. case v of VString t \<Rightarrow> Some t | _ \<Rightarrow> None) vs"

definition to_browser_user :: "jvalue \<Rightarrow> browser_session_user" where
  "to_browser_user u =
     \<lparr>bu_email = text_property u ''email'', bu_name = text_property u ''name'',
      bu_preferred = text_property u ''preferred_username'', bu_sub = text_property u ''sub''\<rparr>"

definition to_browser_session :: "jvalue \<Rightarrow> browser_session" where
  "to_browser_session value' =
     \<lparr>bs_authenticated = authenticated value',
      bs_expires = (case own_property value' ''expires_at'' of Some (VNumber q) \<Rightarrow> Some q | _ \<Rightarrow> None),
      bs_roles = (case own_property value' ''roles'' of Some (VArray rs) \<Rightarrow> text_items rs | _ \<Rightarrow> []),
      bs_user = map_option to_browser_user (own_property value' ''user'')\<rparr>"

definition getSession :: "'d platform \<Rightarrow> client_contract \<Rightarrow> js_text \<Rightarrow> browser_session call" where
  "getSession p ct origin =
     act_bind (public_session p ct origin None) (\<lambda>value'. act_return (to_browser_session value'))"

section \<open>The user menu\<close>

text \<open>What the menu's toggle shows: a name of the user, or the account's label; nothing without a session.\<close>

datatype menu_label = UserLabel js_text | AccountLabel

definition displayName :: "browser_session_user option \<Rightarrow> menu_label" where
  "displayName user =
     (case Option.bind user bu_name of Some n \<Rightarrow> UserLabel n | None \<Rightarrow>
      (case Option.bind user bu_preferred of Some n \<Rightarrow> UserLabel n | None \<Rightarrow>
       (case Option.bind user bu_email of Some n \<Rightarrow> UserLabel n | None \<Rightarrow> AccountLabel)))"

datatype user_menu_event = UserMenuToggled | UserMenuItem | UserMenuOpenChange bool

definition user_menu_handle :: "user_menu_event \<Rightarrow> bool \<Rightarrow> bool" where
  "user_menu_handle e isOpen =
     (case e of UserMenuToggled \<Rightarrow> \<not> isOpen | UserMenuItem \<Rightarrow> False | UserMenuOpenChange open' \<Rightarrow> open')"

definition user_menu_items :: "string list" where "user_menu_items = [''/auth/logout'']"

text \<open>The menu: its label, whether it is open and the targets of its items.\<close>

definition user_menu :: "browser_session option \<Rightarrow> bool \<Rightarrow> (menu_label \<times> bool \<times> string list) option" where
  "user_menu data isOpen =
     (case data of None \<Rightarrow> None
      | Some s \<Rightarrow> if bs_authenticated s then Some (displayName (bs_user s), isOpen, user_menu_items) else None)"

section \<open>What reaches the shell\<close>

lemma map_of_without: "k \<noteq> k' \<Longrightarrow> map_of (filter (\<lambda>q. fst q \<noteq> k') ps) k = map_of ps k"
  by (induction ps) auto

lemma inj_units: "inj units"
  unfolding units_def
proof (rule inj_mapI, rule injI)
  fix x y :: char
  assume "unit_of x = unit_of y"
  then have "take_bit 16 (of_char x) = (take_bit 16 (of_char y) :: nat)"
    by (simp add: unit_of_def word_of_nat_eq_iff)
  moreover have "take_bit 16 (of_char c) = (of_char c :: nat)" for c :: char
    by (rule take_bit_nat_eq_self) (rule less_trans [of _ 256], simp_all)
  ultimately show "x = y" by simp
qed

lemma public_property:
  "k \<noteq> ''csrf_token'' \<Longrightarrow>
   own_property (case v of VObject ps \<Rightarrow> VObject (filter (\<lambda>q. fst q \<noteq> units ''csrf_token'') ps) | _ \<Rightarrow> v) k = own_property v k"
  by (cases v) (simp_all add: own_property_def map_of_without inj_eq [OF inj_units] del: units_simps)

lemma text_items_all: "list_all (short_string n) rs \<Longrightarrow> map VString (text_items rs) = rs"
  by (induction rs) (auto simp: text_items_def short_string_def List.map_filter_simps split: jvalue.splits)

text \<open>A user's property as it is: absent, or the text the record holds.\<close>

lemma valid_user_text:
  assumes "valid_user u"
  shows "own_property u k = map_option VString (text_property u k)"
proof (cases u)
  case (VObject ps)
  have "short_string 1024 w" if "map_of ps (units k) = Some w" for w
    using assms map_of_SomeD [OF that] by (auto simp: VObject valid_user_def list_all_iff)
  then show ?thesis
    by (auto simp: VObject own_property_def text_property_def short_string_def split: option.split jvalue.splits)
qed (use assms in \<open>simp_all add: valid_user_def\<close>)

lemma valid_session_parts:
  assumes "valid_session r v"
  shows "\<exists>b. own_property v ''authenticated'' = Some (VBool b)"
    "\<exists>rs. own_property v ''roles'' = Some (VArray rs) \<and> length rs \<le> 64 \<and> list_all (short_string 128) rs"
    "own_property v ''expires_at'' = None \<or> (\<exists>q. own_property v ''expires_at'' = Some (VNumber q))"
    "own_property v ''user'' = Some u \<Longrightarrow> valid_user u"
    "authenticated v \<Longrightarrow> own_property v ''expires_at'' \<noteq> None \<and>
      (\<exists>w s. own_property v ''user'' = Some w \<and> own_property w ''sub'' = Some (VString s) \<and> s \<noteq> [])"
proof -
  note c = conjunct2 [OF assms [unfolded valid_session_def]]
  show "\<exists>b. own_property v ''authenticated'' = Some (VBool b)"
    using conjunct1 [OF c] by (simp split: option.splits jvalue.splits)
  note c = conjunct2 [OF c]
  show "\<exists>rs. own_property v ''roles'' = Some (VArray rs) \<and> length rs \<le> 64 \<and> list_all (short_string 128) rs"
    using conjunct1 [OF c] by (simp split: option.splits jvalue.splits)
  note c = conjunct2 [OF conjunct2 [OF conjunct2 [OF c]]]
  show "own_property v ''expires_at'' = None \<or> (\<exists>q. own_property v ''expires_at'' = Some (VNumber q))"
    using conjunct1 [OF c] by (simp split: option.splits jvalue.splits)
  note c = conjunct2 [OF c]
  show "own_property v ''user'' = Some u \<Longrightarrow> valid_user u"
    using conjunct1 [OF c] by (simp split: option.splits)
  show "authenticated v \<Longrightarrow> own_property v ''expires_at'' \<noteq> None \<and>
      (\<exists>w s. own_property v ''user'' = Some w \<and> own_property w ''sub'' = Some (VString s) \<and> s \<noteq> [])"
    using conjunct2 [OF c] by (simp split: option.splits jvalue.splits)
qed

lemma valid_session_kept:
  assumes "valid_session r v"
  defines "b \<equiv> to_browser_session v"
  shows "own_property v ''authenticated'' = Some (VBool (bs_authenticated b))"
    "own_property v ''roles'' = Some (VArray (map VString (bs_roles b)))" "length (bs_roles b) \<le> 64"
    "own_property v ''expires_at'' = map_option VNumber (bs_expires b)"
    "case bs_user b of None \<Rightarrow> own_property v ''user'' = None
      | Some u \<Rightarrow> \<exists>w. own_property v ''user'' = Some w \<and>
          own_property w ''sub'' = map_option VString (bu_sub u) \<and>
          own_property w ''name'' = map_option VString (bu_name u) \<and>
          own_property w ''preferred_username'' = map_option VString (bu_preferred u) \<and>
          own_property w ''email'' = map_option VString (bu_email u)"
    "bs_authenticated b \<Longrightarrow> bs_expires b \<noteq> None \<and> (\<exists>u s. bs_user b = Some u \<and> bu_sub u = Some s \<and> s \<noteq> [])"
proof -
  show "own_property v ''authenticated'' = Some (VBool (bs_authenticated b))"
    using valid_session_parts(1) [OF assms(1)]
    by (auto simp: b_def to_browser_session_def authenticated_def simp del: units_simps)
  obtain rs where rs: "own_property v ''roles'' = Some (VArray rs)" "length rs \<le> 64" "list_all (short_string 128) rs"
    using valid_session_parts(2) [OF assms(1)] by auto
  then show roles: "own_property v ''roles'' = Some (VArray (map VString (bs_roles b)))"
    by (simp add: b_def to_browser_session_def text_items_all)
  then show "length (bs_roles b) \<le> 64" using rs(1,2) by simp
  show "own_property v ''expires_at'' = map_option VNumber (bs_expires b)"
    using valid_session_parts(3) [OF assms(1)] by (auto simp: b_def to_browser_session_def)
  show "case bs_user b of None \<Rightarrow> own_property v ''user'' = None
      | Some u \<Rightarrow> \<exists>w. own_property v ''user'' = Some w \<and>
          own_property w ''sub'' = map_option VString (bu_sub u) \<and>
          own_property w ''name'' = map_option VString (bu_name u) \<and>
          own_property w ''preferred_username'' = map_option VString (bu_preferred u) \<and>
          own_property w ''email'' = map_option VString (bu_email u)"
    using valid_session_parts(4) [OF assms(1)] valid_user_text
    by (simp add: b_def to_browser_session_def to_browser_user_def split: option.split)
  show "bs_expires b \<noteq> None \<and> (\<exists>u s. bs_user b = Some u \<and> bu_sub u = Some s \<and> s \<noteq> [])" if "bs_authenticated b"
  proof -
    have "authenticated v" using that by (simp add: b_def to_browser_session_def)
    from valid_session_parts(5) [OF assms(1) this] valid_session_parts(3) [OF assms(1)] show ?thesis
      by (auto simp: b_def to_browser_session_def to_browser_user_def text_property_def)
  qed
qed


text \<open>An answer without a user.\<close>

definition signed_out_answer :: outcome where
  "signed_out_answer = Answered \<lparr>rs_status = 200, rs_content_type = Some ''application/json'', rs_etag = None,
     rs_chunks = Some [map (\<lambda>c. of_nat (code_unit c)) ''{\"authenticated\":false,\"roles\":[\"a\"]}''], rs_broken = False\<rparr>"


text \<open>A user whose name is the empty text has an empty menu: only an absent name is passed over.\<close>

lemma empty_name_is_shown:
  "user_menu (Some \<lparr>bs_authenticated = True, bs_expires = e, bs_roles = rs,
     bs_user = Some \<lparr>bu_email = Some m, bu_name = Some [], bu_preferred = Some n, bu_sub = Some i\<rparr>\<rparr>) open' =
   Some (UserLabel [], open', [''/auth/logout''])"
  by (simp add: user_menu_def displayName_def user_menu_items_def)

lemma absent_names_are_passed_over:
  "displayName None = AccountLabel"
  "displayName (Some \<lparr>bu_email = None, bu_name = None, bu_preferred = None, bu_sub = s\<rparr>) = AccountLabel"
  "displayName (Some \<lparr>bu_email = Some m, bu_name = None, bu_preferred = None, bu_sub = s\<rparr>) = UserLabel m"
  by (simp_all add: displayName_def)

lemma menu_closes_on_choice: "\<not> user_menu_handle UserMenuItem isOpen"
  by (simp add: user_menu_handle_def)

end
