(* ===== verification/Web_Routes.thy ===== *)
theory Web_Routes
  imports Gateway_Pages List_State Event_Runs
begin

text \<open>
  The routes of the console around the pages: \<open>routes/gateway.tsx\<close> with its navigation blocker, composed
  with the page of a gateway and the guard of its dialog, and \<open>routes/home.tsx\<close>.
\<close>

section \<open>The blocker of a gateway's route\<close>

text \<open>
  A navigation goes to a tab of the gateway, which is in the URL, or elsewhere. The blocker is a hook
  of the router, a library. As documented, it asks its function at every navigation: the navigation is
  then blocked, until \<open>proceed\<close> completes it or \<open>reset\<close> drops it, or it completes at once.
  \<open>rt_waiting\<close> are the decisions the blocker handed to the guard, by the numbers of the page.
\<close>

datatype place = TabPlace detail_tab | OtherPlace nat

record route_state =
  rt_page :: detail_page
  rt_blocked :: "place option"
  rt_waiting :: "(nat \<times> place) list"
  rt_left :: "nat option"

definition route_init :: route_state where
  "route_init = \<lparr>rt_page = detail_init, rt_blocked = None, rt_waiting = [], rt_left = None\<rparr>"

text \<open>\<open>leaveGuardRef.current?.shouldBlock() ?? false\<close>\<close>

definition guard_blocks :: "detail_page \<Rightarrow> bool" where
  "guard_blocks p = (case dt_dialog p of None \<Rightarrow> False | Some d \<Rightarrow> shouldBlock d)"

text \<open>A navigation that completes; another route unmounts the page.\<close>

definition arrive :: "place \<Rightarrow> route_state \<Rightarrow> route_state" where
  "arrive place s =
     (case place of
        TabPlace tab \<Rightarrow> s\<lparr>rt_page := applyTab tab (rt_page s), rt_blocked := None\<rparr>
      | OtherPlace n \<Rightarrow> s\<lparr>rt_page := (rt_page s)\<lparr>dt_dialog := None\<rparr>, rt_blocked := None, rt_left := Some n\<rparr>)"

text \<open>\<open>blocker.proceed()\<close>, which the router accepts while the navigation is blocked, and \<open>blocker.reset()\<close>.\<close>

definition proceed :: "place \<Rightarrow> route_state \<Rightarrow> route_state" where
  "proceed place s = (if rt_blocked s = Some place then arrive place s else s)"

definition reset_blocker :: "route_state \<Rightarrow> route_state" where
  "reset_blocker s = s\<lparr>rt_blocked := None\<rparr>"

text \<open>A navigation through the blocker, whose function answers \<open>blocks\<close>.\<close>

definition navigate :: "bool \<Rightarrow> place \<Rightarrow> route_state \<Rightarrow> route_state" where
  "navigate blocks place s = (if blocks then s\<lparr>rt_blocked := Some place\<rparr> else arrive place s)"

text \<open>The effect of \<open>GatewayRoute\<close> on a changed blocker, after the views have been rendered.\<close>

definition blocker_effect :: "route_state \<Rightarrow> route_state" where
  "blocker_effect s =
     (case rt_blocked s of
        None \<Rightarrow> s
      | Some place \<Rightarrow>
          (if \<not> guard_blocks (rt_page s) then proceed place s
           else s\<lparr>rt_page := page_apply HostLeaves (rt_page s),
                  rt_waiting := (dt_next (rt_page s), place) # rt_waiting s\<rparr>))"

text \<open>
  \<open>changeTab\<close> of the page with the host's \<open>onTabChange\<close>: a tab that is not deferred is a navigation.
\<close>

definition host_change_tab :: "detail_tab \<Rightarrow> route_state \<Rightarrow> route_state" where
  "host_change_tab tab s =
     (let p = rt_page s
      in if tab \<noteq> dt_tab p \<and> guard_blocks p then s\<lparr>rt_page := change_tab tab p\<rparr>
         else blocker_effect (navigate (guard_blocks p) (TabPlace tab) s))"

text \<open>
  The answer to a decision: of a tab, whose navigation still meets the protection the guard saw before
  the dialog was rendered again (\<open>blocks\<close>), or of the blocker, which proceeds or is reset.
\<close>

definition host_answer :: "bool \<Rightarrow> nat \<times> bool \<Rightarrow> route_state \<Rightarrow> route_state" where
  "host_answer blocks a s =
     (case map_of (dt_decisions (rt_page s)) (fst a) of
        Some tab \<Rightarrow> (if snd a then blocker_effect (navigate blocks (TabPlace tab) s) else s)
      | None \<Rightarrow>
          (case map_of (rt_waiting s) (fst a) of
             Some place \<Rightarrow> (if snd a then proceed place s else reset_blocker s)
           | None \<Rightarrow> s))"

definition answers :: "dialog_event \<Rightarrow> dialog \<Rightarrow> (nat \<times> bool) list" where
  "answers e d = drop (length (dg_resolved d)) (dg_resolved (dialog_apply e d))"

definition host_dialog_event :: "dialog_event \<Rightarrow> dialog \<Rightarrow> route_state \<Rightarrow> route_state" where
  "host_dialog_event e d s =
     (let d' = dialog_apply e d
      in fold (host_answer (shouldBlock d)) (answers e d)
           (s\<lparr>rt_page := (rt_page s)\<lparr>dt_dialog := (if dg_open d' then Some d' else None)\<rparr>\<rparr>))"

text \<open>What happens on the page, and navigations: links, the history, addresses the host opens.\<close>

datatype route_event = PageActs page_event | Navigates place

definition route_enabled :: "route_state \<Rightarrow> route_event \<Rightarrow> bool" where
  "route_enabled s e \<longleftrightarrow>
     rt_left s = None \<and>
     (case e of PageActs HostLeaves \<Rightarrow> False | PageActs ev \<Rightarrow> page_enabled (rt_page s) ev | Navigates _ \<Rightarrow> True)"

fun route_apply :: "route_event \<Rightarrow> route_state \<Rightarrow> route_state" where
  "route_apply (Navigates place) s = blocker_effect (navigate (guard_blocks (rt_page s)) place s)"
| "route_apply (PageActs (SelectTab tab)) s = host_change_tab tab s"
| "route_apply (PageActs (DialogEvent e)) s =
     (case dt_dialog (rt_page s) of None \<Rightarrow> s | Some d \<Rightarrow> host_dialog_event e d s)"
| "route_apply (PageActs e) s = s\<lparr>rt_page := page_apply e (rt_page s)\<rparr>"

fun route_run :: "route_event list \<Rightarrow> route_state \<Rightarrow> route_state option" where
  "route_run [] s = Some s"
| "route_run (e # es) s = (if route_enabled s e then route_run es (route_apply e s) else None)"

section \<open>The route refines the page\<close>

lemma answers_of:
  "answers LeaveSetup d = (case dg_leave d of None \<Rightarrow> [] | Some n \<Rightarrow> [(n, True)])"
  "answers ReturnToSetup d = (case dg_leave d of None \<Rightarrow> [] | Some n \<Rightarrow> [(n, False)])"
  "e \<noteq> LeaveSetup \<Longrightarrow> e \<noteq> ReturnToSetup \<Longrightarrow> answers e d = []"
  by (auto simp: answers_def resolve_def clearAndClose_def split: option.split)
    (cases e; simp add: requestClose_def clearAndClose_def confirmLeave_def)

lemma closed_after_leave: "\<not> dg_open (resolve b (clearAndClose d))"
  by (simp add: resolve_def clearAndClose_def split: option.split)

lemma blocks_none: "dt_dialog p = None \<Longrightarrow> \<not> guard_blocks p"
  by (simp add: guard_blocks_def)

lemma effect_of_navigation:
  "blocker_effect (navigate blocks place s) =
     (if \<not> blocks then blocker_effect (arrive place s)
      else if \<not> guard_blocks (rt_page s) then arrive place s
      else s\<lparr>rt_blocked := Some place, rt_page := page_apply HostLeaves (rt_page s),
             rt_waiting := (dt_next (rt_page s), place) # rt_waiting s\<rparr>)"
  by (auto simp: navigate_def blocker_effect_def proceed_def arrive_def split: place.split)

lemma effect_of_arrival [simp]: "blocker_effect (arrive place s) = arrive place s"
  by (simp add: blocker_effect_def arrive_def split: place.split)

text \<open>A navigation: where the guard blocks, a decision of the dialog; otherwise it completes.\<close>

lemma navigates_apply:
  "route_apply (Navigates place) s =
     (if guard_blocks (rt_page s)
      then s\<lparr>rt_blocked := Some place, rt_page := page_apply HostLeaves (rt_page s),
             rt_waiting := (dt_next (rt_page s), place) # rt_waiting s\<rparr>
      else arrive place s)"
  by (simp add: effect_of_navigation)

text \<open>The events of the page that an event of the route amounts to.\<close>

definition place_events :: "place \<Rightarrow> page_event list" where
  "place_events place = (case place of TabPlace tab \<Rightarrow> [SelectTab tab] | OtherPlace _ \<Rightarrow> [])"

definition page_events :: "route_event \<Rightarrow> route_state \<Rightarrow> page_event list" where
  "page_events e s =
     (case e of
        Navigates place \<Rightarrow> if guard_blocks (rt_page s) then [HostLeaves] else place_events place
      | PageActs (SelectTab tab) \<Rightarrow>
          if guard_blocks (rt_page s) \<and> tab = dt_tab (rt_page s) then [HostLeaves] else [SelectTab tab]
      | PageActs (DialogEvent ev) \<Rightarrow>
          DialogEvent ev #
          (case dt_dialog (rt_page s) of None \<Rightarrow> []
           | Some d \<Rightarrow>
               (case (if ev = LeaveSetup then dg_leave d else None) of None \<Rightarrow> []
                | Some n \<Rightarrow>
                    (case (map_of (dt_decisions (rt_page s)) n, map_of (rt_waiting s) n) of
                       (None, Some place) \<Rightarrow> if rt_blocked s = Some place then place_events place else []
                     | _ \<Rightarrow> [])))
      | PageActs ev \<Rightarrow> [ev])"

lemma arrive_tab: "rt_page (arrive (TabPlace tab) s) = applyTab tab (rt_page s)"
  by (simp add: arrive_def)

lemma arrive_page:
  assumes "rt_left (arrive place s) = None" "\<not> guard_blocks (rt_page s)"
  shows "rt_page (arrive place s) = fold page_apply (place_events place) (rt_page s)"
  using assms by (cases place)
    (auto simp: arrive_def place_events_def change_tab_def guard_blocks_def split: option.splits)

text \<open>A confirmed leave, on the page alone and on the route: the dialog goes, then the decision is carried out.\<close>

lemma page_leave:
  assumes "dt_dialog p = Some d" "dg_leave d = Some n"
  shows "page_apply (DialogEvent LeaveSetup) p =
    (case map_of (dt_decisions p) n of
       Some tab \<Rightarrow> applyTab tab (p\<lparr>dt_dialog := None\<rparr>) | None \<Rightarrow> p\<lparr>dt_dialog := None\<rparr>)"
  using assms answers_of(1) [of d]
  by (simp add: dialog_event_on_def answers_def answer_def closed_after_leave split: option.split)

lemma route_leave:
  assumes "dt_dialog (rt_page s) = Some d" "dg_leave d = Some n"
  defines "s' \<equiv> s\<lparr>rt_page := (rt_page s)\<lparr>dt_dialog := None\<rparr>\<rparr>"
  shows "route_apply (PageActs (DialogEvent LeaveSetup)) s =
    (case map_of (dt_decisions (rt_page s)) n of
       Some tab \<Rightarrow> arrive (TabPlace tab) s'
     | None \<Rightarrow> (case map_of (rt_waiting s) n of Some place \<Rightarrow> proceed place s' | None \<Rightarrow> s'))"
proof -
  have "\<not> guard_blocks (rt_page s')" by (simp add: s'_def blocks_none)
  then have "blocker_effect (navigate b place s') = arrive place s'" for b place
    by (simp add: effect_of_navigation)
  then show ?thesis
    using assms(1,2) answers_of(1) [of d]
    by (simp add: host_dialog_event_def Let_def host_answer_def closed_after_leave s'_def split: option.split)
qed

text \<open>
  Deferring to the URL and the blocker changes nothing for the page: as long as the route is not left,
  each event does to the page what the page does by itself.
\<close>

lemma route_refines_page:
  assumes "rt_left (route_apply e s) = None"
  shows "rt_page (route_apply e s) = fold page_apply (page_events e s) (rt_page s)"
proof (cases e)
  case (Navigates place)
  then show ?thesis
    using assms arrive_page [of place s]
    by (cases "guard_blocks (rt_page s)") (simp_all add: navigates_apply page_events_def del: route_apply.simps)
next
  case (PageActs ev)
  show ?thesis
  proof (cases ev)
    case (SelectTab tab)
    then show ?thesis
      using PageActs by (auto simp: host_change_tab_def effect_of_navigation page_events_def Let_def arrive_tab
          change_tab_def guard_blocks_def split: option.splits)
  next
    case (DialogEvent de)
    show ?thesis
    proof (cases "dt_dialog (rt_page s)")
      case None
      then show ?thesis by (simp add: PageActs DialogEvent page_events_def)
    next
      case (Some d)
      consider (leave) n where "de = LeaveSetup" "dg_leave d = Some n"
        | (return) n where "de = ReturnToSetup" "dg_leave d = Some n" | (silent) "answers de d = []"
        using answers_of by (cases "dg_leave d"; cases "de = LeaveSetup \<or> de = ReturnToSetup") auto
      then show ?thesis
      proof cases
        case leave
        then show ?thesis
          using assms unfolding PageActs DialogEvent
          by (simp add: route_leave [OF Some] page_leave [OF Some] arrive_tab page_events_def Some arrive_page blocks_none
              proceed_def del: route_apply.simps page_apply.simps split: option.splits if_splits)
      next
        case return
        then show ?thesis
          using answers_of(2) [of d]
          by (simp add: PageActs DialogEvent Some page_events_def host_dialog_event_def dialog_event_on_def
              answers_def host_answer_def answer_def reset_blocker_def Let_def split: option.split)
      next
        case silent
        then show ?thesis
          using answers_of(1) [of d] by (cases "de = LeaveSetup")
            (auto simp: PageActs DialogEvent Some page_events_def host_dialog_event_def dialog_event_on_def
              answers_def Let_def split: option.splits)
      qed
    qed
  qed (simp_all add: PageActs page_events_def)
qed

section \<open>What the blocker keeps\<close>

text \<open>The route is left only unguarded, or for the blocked place after the confirmation.\<close>

lemma left_at:
  assumes "rt_left s = None" "rt_left (route_apply e s) = Some n"
  shows "e = Navigates (OtherPlace n) \<and> \<not> guard_blocks (rt_page s) \<or>
    e = PageActs (DialogEvent LeaveSetup) \<and> rt_blocked s = Some (OtherPlace n)"
proof (cases e)
  case (Navigates place)
  then show ?thesis
    using assms by (simp add: navigates_apply arrive_def del: route_apply.simps split: place.splits if_splits)
next
  case (PageActs ev)
  show ?thesis
  proof (cases ev)
    case (SelectTab tab)
    then show ?thesis
      using PageActs assms
      by (simp add: host_change_tab_def effect_of_navigation Let_def split: if_splits)
        (simp_all add: arrive_def)
  next
    case (DialogEvent de)
    then obtain d where d: "dt_dialog (rt_page s) = Some d"
      using assms PageActs by (cases "dt_dialog (rt_page s)") simp_all
    consider (leave) m where "de = LeaveSetup" "dg_leave d = Some m"
      | (return) m where "de = ReturnToSetup" "dg_leave d = Some m" | (silent) "answers de d = []"
      using answers_of by (cases "dg_leave d"; cases "de = LeaveSetup \<or> de = ReturnToSetup") auto
    then show ?thesis
    proof cases
      case leave
      then show ?thesis
        using assms unfolding PageActs DialogEvent route_leave [OF d leave(2)]
        by (auto simp: route_leave [OF d leave(2)] proceed_def arrive_def simp del: route_apply.simps
            split: option.splits if_splits place.splits)
    next
      case return
      then show ?thesis
        using assms answers_of(2) [of d]
        by (auto simp: PageActs DialogEvent d host_dialog_event_def answers_def host_answer_def reset_blocker_def Let_def
            split: option.splits)
    next
      case silent
      then show ?thesis
        using assms by (simp add: PageActs DialogEvent d host_dialog_event_def Let_def)
    qed
  qed (use assms PageActs in simp_all)
qed

lemma mounted_change_tab: "mounted_inv p \<Longrightarrow> mounted_inv (change_tab tab p)"
  using mounted_applyTab [of p tab] one_secret_confirm
  by (auto simp: change_tab_def mounted_inv_def split: option.split) (simp add: confirmLeave_def)

lemma mounted_host_leaves: "mounted_inv p \<Longrightarrow> mounted_inv (page_apply HostLeaves p)"
  using one_secret_confirm by (auto simp: mounted_inv_def split: option.split) (simp add: confirmLeave_def)

lemma mounted_place: "mounted_inv p \<Longrightarrow> mounted_inv (fold page_apply (place_events place) p)"
  by (cases place) (simp_all add: place_events_def mounted_change_tab)

lemma mounted_route:
  assumes "mounted_inv (rt_page s)" "route_enabled s e" "rt_left (route_apply e s) = None"
  shows "mounted_inv (rt_page (route_apply e s))"
proof -
  have "mounted_inv (fold page_apply (page_events e s) (rt_page s))"
  proof (cases e)
    case (Navigates place)
    then show ?thesis
      using mounted_host_leaves [OF assms(1)] mounted_place [OF assms(1)]
      by (simp add: page_events_def del: page_apply.simps)
  next
    case (PageActs ev)
    then have en: "page_enabled (rt_page s) ev" using assms(2)
      by (simp add: route_enabled_def split: page_event.splits)
    note m = mounted_apply [OF assms(1) en]
    show ?thesis
    proof (cases ev)
      case (DialogEvent de)
      then show ?thesis
        using m mounted_place [OF m] by (auto simp: PageActs page_events_def simp del: page_apply.simps split: option.split)
    qed (use m mounted_host_leaves [OF assms(1)] PageActs in \<open>simp_all add: page_events_def del: page_apply.simps\<close>)
  qed
  then show ?thesis using route_refines_page [OF assms(3)] by simp
qed

definition route_staying :: "route_event \<Rightarrow> bool" where
  "route_staying e = (case e of Navigates _ \<Rightarrow> True | PageActs ev \<Rightarrow> page_staying ev)"

lemma secret_is_guarded: "holds_secret r p \<Longrightarrow> guard_blocks p"
  by (auto simp: holds_secret_def guard_blocks_def shouldBlock_def isProtected_def unacknowledged_def split: option.splits)

lemma secret_host_leaves: "holds_secret r p \<Longrightarrow> holds_secret r (page_apply HostLeaves p)"
  by (auto simp: holds_secret_def confirmLeave_def split: option.splits)

lemma secret_route:
  assumes "mounted_inv (rt_page s)" "route_enabled s e" "route_staying e" "holds_secret r (rt_page s)"
  shows "rt_left (route_apply e s) = None \<and> holds_secret r (rt_page (route_apply e s)) \<and>
    mounted_inv (rt_page (route_apply e s))"
proof -
  note g = secret_is_guarded [OF assms(4)]
  have "rt_left s = None" using assms(2) by (simp add: route_enabled_def)
  then have left: "rt_left (route_apply e s) = None"
    using left_at [of s e] g assms(3) by (cases "rt_left (route_apply e s)") (auto simp: route_staying_def page_staying_def)
  have "holds_secret r (fold page_apply (page_events e s) (rt_page s))"
  proof (cases e)
    case (Navigates place)
    then show ?thesis using g secret_host_leaves [OF assms(4)] by (simp add: page_events_def del: page_apply.simps)
  next
    case (PageActs ev)
    then have en: "page_enabled (rt_page s) ev" "page_staying ev" using assms(2,3)
      by (simp_all add: route_enabled_def route_staying_def split: page_event.splits)
    note h = holds_secret_apply [OF assms(1) en assms(4)]
    show ?thesis
    proof (cases ev)
      case (DialogEvent de)
      then have "de \<noteq> LeaveSetup" using en(2) by (simp add: page_staying_def)
      then show ?thesis
        using h by (simp add: DialogEvent PageActs page_events_def del: page_apply.simps split: option.split)
    qed (use h secret_host_leaves [OF assms(4)] PageActs in \<open>simp_all add: page_events_def del: page_apply.simps\<close>)
  qed
  then show ?thesis
    using left mounted_route [OF assms(1,2) left] route_refines_page [OF left] by simp
qed

lemma secret_route_run:
  "mounted_inv (rt_page s) \<Longrightarrow> holds_secret r (rt_page s) \<Longrightarrow> rt_left s = None \<Longrightarrow> list_all route_staying es \<Longrightarrow>
     route_run es s = Some s' \<Longrightarrow> rt_left s' = None \<and> holds_secret r (rt_page s') \<and> mounted_inv (rt_page s')"
proof (induction es arbitrary: s)
  case (Cons e es)
  then have en: "route_enabled s e" "route_run es (route_apply e s) = Some s'" by (auto split: if_splits)
  from secret_route [OF Cons.prems(1) en(1) _ Cons.prems(2)] Cons.prems(4) Cons.IH [OF _ _ _ _ en(2)]
  show ?case by simp
qed simp

lemma left_stays: "route_run es s = Some s' \<Longrightarrow> rt_left s = Some n \<Longrightarrow> es = [] \<and> s' = s"
  by (cases es) (auto simp: route_enabled_def)

lemma mounted_route_run:
  "mounted_inv (rt_page s) \<Longrightarrow> route_run es s = Some s' \<Longrightarrow> rt_left s' = None \<Longrightarrow> mounted_inv (rt_page s')"
proof (induction es arbitrary: s)
  case (Cons e es)
  then have en: "route_enabled s e" "route_run es (route_apply e s) = Some s'" by (auto split: if_splits)
  have left: "rt_left (route_apply e s) = None"
    using left_stays [OF en(2)] Cons.prems(3) by (cases "rt_left (route_apply e s)") auto
  show ?case by (rule Cons.IH [OF mounted_route [OF Cons.prems(1) en(1) left] en(2) Cons.prems(3)])
qed simp


text \<open>The events that bring a secret to the page.\<close>

definition secret_events :: "route_event list" where
  "secret_events = [Navigates (TabPlace ServiceAccountsTab), PageActs OpenCreate, PageActs (DialogEvent Submit),
     PageActs (DialogEvent (RequestReturns sample_result)), PageActs (DialogEvent Settled)]"

lemmas route_simps = route_init_def route_enabled_def guard_blocks_def navigate_def blocker_effect_def arrive_def
  proceed_def reset_blocker_def host_change_tab_def host_answer_def host_dialog_event_def answers_def Let_def


text \<open>The numbers of the decisions of tabs are older than the next one.\<close>

definition numbered :: "detail_page \<Rightarrow> bool" where
  "numbered p \<longleftrightarrow> (\<forall>a \<in> set (dt_decisions p). fst a < dt_next p)"

lemma numbered_applyTab [simp]: "numbered (applyTab tab p) = numbered p"
  by (simp add: numbered_def applyTab_def)

lemma numbered_dialog [simp]: "numbered (p\<lparr>dt_dialog := d\<rparr>) = numbered p"
  by (simp add: numbered_def)

lemma numbered_answers: "numbered p \<Longrightarrow> numbered (fold answer as p)"
  by (induction as arbitrary: p) (simp_all add: answer_def split: option.split bool.split)

lemma numbered_apply: "numbered p \<Longrightarrow> numbered (page_apply e p)"
proof (cases e)
  case (DialogEvent de)
  assume "numbered p"
  then show ?thesis by (simp add: DialogEvent dialog_event_on_def Let_def numbered_answers split: option.split)
qed (auto simp: change_tab_def less_Suc_eq split: option.split, auto simp: numbered_def less_Suc_eq)

lemma numbered_fold: "numbered p \<Longrightarrow> numbered (fold page_apply es p)"
  by (induction es arbitrary: p) (simp_all add: numbered_apply del: page_apply.simps)

lemma numbered_run:
  "numbered (rt_page s) \<Longrightarrow> route_run es s = Some s' \<Longrightarrow> rt_left s' = None \<Longrightarrow> numbered (rt_page s')"
proof (induction es arbitrary: s)
  case (Cons e es)
  then have en: "route_run es (route_apply e s) = Some s'" by (auto split: if_splits)
  then have left: "rt_left (route_apply e s) = None"
    using left_stays [OF en] Cons.prems(3) by (cases "rt_left (route_apply e s)") auto
  have "numbered (rt_page (route_apply e s))"
    unfolding route_refines_page [OF left] using Cons.prems(1) by (rule numbered_fold)
  then show ?case using Cons.IH en Cons.prems(3) by blast
qed simp

lemma fresh_decision: "numbered p \<Longrightarrow> map_of (dt_decisions p) (dt_next p) = None"
  by (auto simp: numbered_def map_of_eq_None_iff)



text \<open>
  A navigation can stay undecided: one that meets a pending request is blocked, and when the request
  then fails and the dialog is closed with its icon, nothing completes or drops the navigation.
\<close>

lemma failed_request_strands_a_navigation:
  "\<exists>s. route_run [Navigates (TabPlace ServiceAccountsTab), PageActs OpenCreate, PageActs (DialogEvent Submit),
       Navigates (OtherPlace n), PageActs (DialogEvent (RequestThrows err)), PageActs (DialogEvent CloseIcon)] route_init = Some s \<and>
     rt_blocked s = Some (OtherPlace n) \<and> dt_dialog (rt_page s) = None \<and> rt_left s = None \<and> \<not> guard_blocks (rt_page s)"
  by (simp add: route_simps page_simps)

text \<open>Where the guard does not block, a navigation completes at once, whatever was left undecided.\<close>

lemma unguarded_navigation_completes:
  "\<not> guard_blocks (rt_page s) \<Longrightarrow> route_apply (Navigates place) s = arrive place s"
  by (simp add: navigates_apply del: route_apply.simps)

section \<open>The home route\<close>

text \<open>An entry of the history: the parameters of its address and the state it was navigated with.\<close>

record home_entry =
  ho_params :: url_params
  ho_state :: json

definition deletedGatewayName :: "json \<Rightarrow> string option" where
  "deletedGatewayName state =
     (case state of
        JObject fs \<Rightarrow> (case map_of fs ''deletedGatewayName'' of Some (JString n) \<Rightarrow> Some n | _ \<Rightarrow> None)
      | _ \<Rightarrow> None)"

text \<open>The properties the route gives the page, by its entry.\<close>

definition home_props :: "home_entry \<Rightarrow> gateways_props" where
  "home_props e =
     \<lparr>gs_collection = Some (parseGatewayListState (ho_params e)),
      gs_deleted_name = deletedGatewayName (ho_state e), gs_gateways = None, gs_hosted = True\<rparr>"

text \<open>A navigation that replaces the current entry of the history, the first one, or is put before it.\<close>

definition visit_entry :: "bool \<Rightarrow> home_entry \<Rightarrow> home_entry list \<Rightarrow> home_entry list" where
  "visit_entry replace e h = (if replace then e # tl h else e # h)"

definition onDismissDeletedGateway :: "home_entry list \<Rightarrow> home_entry list" where
  "onDismissDeletedGateway h = visit_entry True ((hd h)\<lparr>ho_state := JNull\<rparr>) h"

definition onCollectionStateChange :: "gateway_list_request \<Rightarrow> change_reason \<Rightarrow> home_entry list \<Rightarrow> home_entry list" where
  "onCollectionStateChange state reason h =
     visit_entry (reason = FilterReason) \<lparr>ho_params = serializeGatewayListState state, ho_state = JNull\<rparr> h"

text \<open>
  Typing a filter leaves one entry in the history, however long the text; a page, a size or a sorting is
  taken back with Back.
\<close>

lemma filters_replace:
  "h \<noteq> [] \<Longrightarrow> tl (fold (\<lambda>r. onCollectionStateChange r FilterReason) rs h) = tl h"
  by (induction rs arbitrary: h) (simp_all add: onCollectionStateChange_def visit_entry_def)

lemma back_takes_back:
  "reason \<noteq> FilterReason \<Longrightarrow> tl (onCollectionStateChange r reason h) = h"
  by (simp add: onCollectionStateChange_def visit_entry_def)

lemma home_reads_back:
  "valid_list_request r \<Longrightarrow>
     currentCollectionState (home_props (hd (onCollectionStateChange r reason h))) s = r"
  by (simp add: currentCollectionState_def home_props_def onCollectionStateChange_def visit_entry_def read_serialized)

text \<open>The notice of a deletion comes with the entry, and goes when it is dismissed or the list is changed.\<close>

lemma deletion_notice:
  "shown_deleted_name (home_props \<lparr>ho_params = ps, ho_state = JObject [(''deletedGatewayName'', JString n)]\<rparr>) gateways_init = Some n"
  "shown_deleted_name (home_props (hd (onDismissDeletedGateway h))) gateways_init = None"
  "shown_deleted_name (home_props (hd (onCollectionStateChange r reason h))) gateways_init = None"
  by (simp_all add: shown_deleted_name_def home_props_def deletedGatewayName_def gateways_init_def
      onDismissDeletedGateway_def onCollectionStateChange_def visit_entry_def)

section \<open>The error boundary\<close>

text \<open>What the root route shows for an error: a response of the router, by its status, or another value.\<close>

datatype route_error = RouteResponse nat | OtherError

definition isNotFound :: "route_error \<Rightarrow> bool" where
  "isNotFound e = (case e of RouteResponse status \<Rightarrow> status = 404 | OtherError \<Rightarrow> False)"

datatype error_alert = NotFoundAlert | ErrorAlert

definition error_alert :: "route_error \<Rightarrow> error_alert" where
  "error_alert e = (if isNotFound e then NotFoundAlert else ErrorAlert)"

end
