(* ===== verification/Gateway_Composition.thy ===== *)
theory Gateway_Composition
  imports Gateway_Observability Gateway_Trace Control_Plane
begin

text \<open>
  \<open>composition/gateway-composition.ts\<close>: the gateway operations of the console, wired from the control-plane
  adapter, the observability with the trace sink beside its own sinks, and the reader of the trace context.
\<close>

section \<open>The world of the console\<close>

text \<open>
  The publisher's counters, the recent lists, the trace sink's state, and the rest: the clock, the random
  identifiers, the performance entries and the network.
\<close>

type_synonym 'y console_world = "publisher_state \<times> (tracing_state \<times> 'y) obs_world"

definition on_first :: "('a, 'e, 'r) act \<Rightarrow> ('a \<times> 'y, 'e, 'r) act" where
  "on_first m = (\<lambda>(a, y). case m a of (r, a') \<Rightarrow> (r, (a', y)))"

definition on_second :: "('y, 'e, 'r) act \<Rightarrow> ('a \<times> 'y, 'e, 'r) act" where
  "on_second m = (\<lambda>(a, y). case m y of (r, y') \<Rightarrow> (r, (a, y')))"

definition on_other :: "('y \<Rightarrow> 'a \<times> 'y) \<Rightarrow> 'y console_world \<Rightarrow> 'a \<times> 'y console_world" where
  "on_other f = (\<lambda>(st, w). case f (snd (ow_rest w)) of (x, y) \<Rightarrow> (x, (st, w\<lparr>ow_rest := (fst (ow_rest w), y)\<rparr>)))"

definition console_tracing :: "'y console_world \<Rightarrow> tracing_state" where
  "console_tracing sw = fst (ow_rest (snd sw))"

definition console_other :: "'y console_world \<Rightarrow> 'y" where
  "console_other sw = snd (ow_rest (snd sw))"

section \<open>The wiring\<close>

definition console_target :: "'y performance_target \<Rightarrow> ('a \<times> 'y) performance_target" where
  "console_target target =
     \<lparr>pt_clearMarks = (\<lambda>n. on_second (pt_clearMarks target n)), pt_mark = (\<lambda>n p. on_second (pt_mark target n p))\<rparr>"

definition console_sink ::
    "(string \<Rightarrow> js_error option) \<Rightarrow> (nat \<Rightarrow> span_context) \<Rightarrow> (span_context \<Rightarrow> bool) \<Rightarrow>
     (gateway_probe_fields, tracing_state \<times> 'y) probe_sink" where
  "console_sink beginTrace context_of valid =
     (let s = tracingSink beginTrace context_of valid
      in \<lparr>sink_id = sink_id s, sink_publish = (\<lambda>p. on_first (sink_publish s p))\<rparr>)"

text \<open>\<open>createGatewayObservability({additionalSinks: [tracing.sink]})\<close>\<close>

definition console_probes ::
    "(string \<Rightarrow> js_error option) \<Rightarrow> (nat \<Rightarrow> span_context) \<Rightarrow> (span_context \<Rightarrow> bool) \<Rightarrow> 'y performance_target \<Rightarrow>
     'y console_world probe_publisher" where
  "console_probes beginTrace context_of valid target =
     observability_publish (console_target target) [console_sink beginTrace context_of valid]"

definition console_runtime :: "'y workflow_runtime \<Rightarrow> 'y console_world workflow_runtime" where
  "console_runtime rt =
     \<lparr>rt_createCorrelationId = on_other (rt_createCorrelationId rt),
      rt_createTraceId = on_other (rt_createTraceId rt), rt_now = on_other (rt_now rt)\<rparr>"

text \<open>
  The ports of \<open>createGatewayControlPlaneAdapter\<close>: a client is made without effect, a required login is
  the client's, and the context is the trace sink's.
\<close>

definition console_ports ::
    "'y console_world api_client \<Rightarrow> ('y console_world, js_error, unit) act \<Rightarrow> (nat \<Rightarrow> span_context) \<Rightarrow>
     (span_context \<Rightarrow> bool) \<Rightarrow> (string \<Rightarrow> json option) \<Rightarrow> 'y console_world adapter_ports" where
  "console_ports api login context_of valid parse =
     \<lparr>ad_factory = (\<lambda>_. act_return api), ad_onReauthRequired = Some login,
      ad_traceParentFor = Some (\<lambda>correlationId sw.
        (Inr (map_option tc_traceparent
           (traceParentFor context_of valid correlationId (tg_trace (console_tracing sw)))), sw)),
      ad_parse = parse\<rparr>"

definition gatewayOperations ::
    "'y console_world api_client \<Rightarrow> ('y console_world, js_error, unit) act \<Rightarrow> (string \<Rightarrow> js_error option) \<Rightarrow>
     (nat \<Rightarrow> span_context) \<Rightarrow> (span_context \<Rightarrow> bool) \<Rightarrow> (string \<Rightarrow> json option) \<Rightarrow> 'y performance_target \<Rightarrow>
     'y workflow_runtime \<Rightarrow> 'y console_world gateway_operations" where
  "gatewayOperations api login beginTrace context_of valid parse target rt =
     createGatewayOperations (createGatewayControlPlaneAdapter (console_ports api login context_of valid parse))
       (console_probes beginTrace context_of valid target) (console_runtime rt)"

text \<open>
  The reporter of failed exports: until the observability exists (\<open>wired\<close>) it drops them, then it
  reports them to the publisher.
\<close>

definition late_reporter :: "bool \<Rightarrow> delivery_failure \<Rightarrow> 'y console_world \<Rightarrow> 'y console_world" where
  "late_reporter wired failure sw = (if wired then reportDeliveryFailure report_failure failure sw else sw)"

section \<open>The trace state through the publisher\<close>

lemma deliver_tracing:
  "console_tracing (deliver report_failure p s sw) = fst (ow_rest (snd (sink_publish s p (snd sw))))"
  by (cases sw) (simp add: console_tracing_def deliver_def recordFailure_def report_failure_def Let_def
      split: prod.split sum.split)

lemma sink_tracing:
  "fst (ow_rest (snd (sink_publish recentSink p w))) = fst (ow_rest w)"
  "fst (ow_rest (snd (sink_publish (additional_sink (console_sink bt ctx valid)) p w))) =
     snd (tracing_publish bt ctx valid p (fst (ow_rest w)))"
  "fst (ow_rest (snd (sink_publish (performanceSink (console_target target)) p w))) = fst (ow_rest w)"
proof -
  show "fst (ow_rest (snd (sink_publish recentSink p w))) = fst (ow_rest w)"
    by (simp add: recentSink_publish)
  show "fst (ow_rest (snd (sink_publish (additional_sink (console_sink bt ctx valid)) p w))) =
     snd (tracing_publish bt ctx valid p (fst (ow_rest w)))"
    by (cases "ow_rest w") (simp add: additional_sink_def console_sink_def on_rest_def on_first_def tracingSink_def
        Let_def split: prod.split)
  show "fst (ow_rest (snd (sink_publish (performanceSink (console_target target)) p w))) = fst (ow_rest w)"
    by (cases "ow_rest w") (simp add: performanceSink_def console_target_def on_rest_def on_second_def
        act_bind_def split: prod.split sum.split)
qed

lemma publish_tracing:
  "console_tracing (publish report_failure (observability_sinks (console_target target) [console_sink bt ctx valid]) p sw) =
   snd (tracing_publish bt ctx valid p (console_tracing sw))"
  by (simp add: observability_sinks_def deliver_tracing sink_tracing) (simp add: deliver_tracing sink_tracing flip: console_tracing_def)

lemma runtime_tracing:
  "console_tracing (snd (on_other f sw)) = console_tracing sw"
  "fst (on_other f sw) = fst (f (console_other sw))"
  "console_other (snd (on_other f sw)) = snd (f (console_other sw))"
  by (cases sw; simp add: on_other_def console_tracing_def console_other_def split: prod.split)+

text \<open>The publisher of the composition as an instance of the contract the workflows rely on.\<close>

interpretation console: quiet_publisher "console_probes bt ctx valid target"
  "\<lambda>p. publish report_failure (observability_sinks (console_target target) [console_sink bt ctx valid]) p"
  by unfold_locales (simp add: console_probes_def observability_publish_def)

lemma stamped_tracing:
  "console_tracing (console.stamped target bt ctx valid (console_runtime rt) mk sw) =
     snd (tracing_publish bt ctx valid (mk (fst (rt_now rt (console_other sw)))) (console_tracing sw))"
proof -
  obtain n sw' where "on_other (rt_now rt) sw = (n, sw')" using prod.exhaust by blast
  then show ?thesis
    using runtime_tracing [of "rt_now rt" sw] by (simp add: console.stamped_def console_runtime_def publish_tracing)
qed

section \<open>Every request carries its operation's span\<close>

text \<open>The first probe opens the span of the workflow, the second the span of its dependency.\<close>

lemma begun_tracing:
  fixes c :: string and action :: gateway_action and ts :: tracing_state
  assumes "beginTrace t = None"
  defines "started' \<equiv> \<lambda>now. mk_probe action c t None WorkflowStarted now Started None None"
    and "attempted \<equiv> \<lambda>now. mk_probe action c t None DependencyAttempted now Started None (Some c)"
    and "n \<equiv> tr_next (tg_trace ts)"
  shows "let ts' = snd (tracing_publish beginTrace ctx valid (attempted n2) (snd (tracing_publish beginTrace ctx valid (started' n1) ts)))
    in tr_spans (tg_trace ts') c = Some \<lparr>en_workflow = n, en_dependency = Some (Suc n)\<rparr> \<and>
       tr_calls (tg_trace ts') = tr_calls (tg_trace ts) @
         [StartSpan n (''gateway.workflow.'' @ gateway_action_str action) KindInternal
            [(''gateway.action'', gateway_action_str action)] RootContext,
          StartSpan (Suc n) (''gateway.dependency.'' @ gateway_action_str action) KindClient
            [(''gateway.action'', gateway_action_str action)] (ChildOf n)]"
  using assms(1)
  by (simp add: tracing_publish_def probe_starts_def on_trace_def trace_publish_def startWorkflow_def startDependency_def
      startSpan_def emit_signals_def act_simps Let_def started'_def attempted_def mk_probe_def n_def)

text \<open>The text the trace sink renders for a span.\<close>

definition span_header :: "(nat \<Rightarrow> span_context) \<Rightarrow> (span_context \<Rightarrow> bool) \<Rightarrow> nat \<Rightarrow> string option" where
  "span_header context_of valid span =
     (if valid (context_of span)
      then Some (''00-'' @ sc_trace_id (context_of span) @ ''-'' @ sc_span_id (context_of span) @ ''-'' @
        (if sampled (sc_trace_flags (context_of span)) then ''01'' else ''00''))
      else None)"

lemma header_of_entry:
  "tr_spans st c = Some \<lparr>en_workflow = n, en_dependency = Some d\<rparr> \<Longrightarrow>
     map_option tc_traceparent (traceParentFor ctx valid c st) = span_header ctx valid d"
  by (simp add: traceParentFor_def span_header_def Let_def)

text \<open>
  C5. Every request of an operation carries the operation's own span: when the task starts, a span of the
  workflow is open at the root of the operation's trace and a client span below it, and whatever call of
  the API client the adapter makes is given the abort signal and the header of that client span; no
  header if the tracer has no valid context for it.
\<close>

theorem requests_carry_their_operations_span:
  fixes sw :: "'y console_world"
  assumes "rt_createCorrelationId rt (console_other sw) = (c, y1)" and "rt_createTraceId rt y1 = (t, y2)"
    and "beginTrace t = None"
  defines "n \<equiv> tr_next (tg_trace (console_tracing sw))"
  shows "\<exists>sw1. execute_begin (console_probes beginTrace context_of valid target) (console_runtime rt) action sw = (Inr (c, t), sw1) \<and>
    tr_calls (tg_trace (console_tracing sw1)) = tr_calls (tg_trace (console_tracing sw)) @
      [StartSpan n (''gateway.workflow.'' @ gateway_action_str action) KindInternal
         [(''gateway.action'', gateway_action_str action)] RootContext,
       StartSpan (Suc n) (''gateway.dependency.'' @ gateway_action_str action) KindClient
         [(''gateway.action'', gateway_action_str action)] (ChildOf n)] \<and>
    (\<forall>call. api_call (console_ports api login context_of valid parse) \<lparr>ic_correlation_id = c, ic_signal = signal\<rparr> call sw1 =
       call api \<lparr>ro_signal = signal, ro_traceparent = span_header context_of valid (Suc n)\<rparr> sw1)"
proof -
  let ?rt = "console_runtime rt"
  obtain sw' where c: "rt_createCorrelationId ?rt sw = (c, sw')" "console_tracing sw' = console_tracing sw"
      "console_other sw' = y1"
    using runtime_tracing [of "rt_createCorrelationId rt" sw] assms(1)
    by (cases "on_other (rt_createCorrelationId rt) sw" rule: prod.exhaust) (simp add: console_runtime_def)
  obtain sw'' where t: "rt_createTraceId ?rt sw' = (t, sw'')" "console_tracing sw'' = console_tracing sw"
    using runtime_tracing [of "rt_createTraceId rt" sw'] assms(2) c
    by (cases "on_other (rt_createTraceId rt) sw'" rule: prod.exhaust) (simp add: console_runtime_def)
  let ?s1 = "console.stamped target beginTrace context_of valid ?rt (\<lambda>now. mk_probe action c t None WorkflowStarted now Started None None) sw''"
  let ?s2 = "console.stamped target beginTrace context_of valid ?rt (\<lambda>now. mk_probe action c t None DependencyAttempted now Started None (Some c)) ?s1"
  have op: "console.opened target beginTrace context_of valid ?rt action sw = (c, t, ?s2)"
    by (simp add: console.opened_def c(1) t(1))
  note begun = begun_tracing [where beginTrace = beginTrace and t = t and action = action and c = c
      and ctx = context_of and valid = valid and ts = "console_tracing sw", OF assms(3), unfolded Let_def]
  have tracing: "tr_spans (tg_trace (console_tracing ?s2)) c = Some \<lparr>en_workflow = n, en_dependency = Some (Suc n)\<rparr>"
    "tr_calls (tg_trace (console_tracing ?s2)) = tr_calls (tg_trace (console_tracing sw)) @
       [StartSpan n (''gateway.workflow.'' @ gateway_action_str action) KindInternal
         [(''gateway.action'', gateway_action_str action)] RootContext,
        StartSpan (Suc n) (''gateway.dependency.'' @ gateway_action_str action) KindClient
         [(''gateway.action'', gateway_action_str action)] (ChildOf n)]"
    unfolding stamped_tracing t(2) n_def using begun by (blast, blast)
  have "api_call (console_ports api login context_of valid parse) \<lparr>ic_correlation_id = c, ic_signal = signal\<rparr> call ?s2 =
      call api \<lparr>ro_signal = signal, ro_traceparent = span_header context_of valid (Suc n)\<rparr> ?s2" for call
    by (simp add: api_call_def requestOptions_def console_ports_def act_simps header_of_entry [OF tracing(1)])
  with console.execute_begin_quiet [OF op] tracing(2) show ?thesis by blast
qed

lemma requests_carry_their_operations_span_witness:
  "\<exists>sw1. api_call (console_ports (undefined :: nat console_world api_client) (act_return ()) (\<lambda>n. \<lparr>sc_trace_id = ''t'', sc_span_id = replicate n (CHR ''s''),
        sc_trace_flags = 1, sc_trace_state = None\<rparr>) (\<lambda>_. True) (\<lambda>_. None))
      \<lparr>ic_correlation_id = ''c'', ic_signal = Some 5\<rparr> (\<lambda>_ options sw. (Inr (ro_traceparent options), sw)) sw1 =
    (Inr (Some ''00-t-s-01''), sw1)"
proof -
  let ?rt = "\<lparr>rt_createCorrelationId = (\<lambda>k :: nat. (''c'', k)), rt_createTraceId = (\<lambda>k. (''t'', Suc k)), rt_now = (\<lambda>k. (''n'', k))\<rparr>"
  let ?ctx = "\<lambda>n. \<lparr>sc_trace_id = ''t'', sc_span_id = replicate n (CHR ''s''), sc_trace_flags = 1, sc_trace_state = None\<rparr>"
  let ?sw = "(\<lparr>deliveryFailureCount = 0, diagnosticFailureCount = 0, lastFailure = None\<rparr>,
    \<lparr>ow_recent = [], ow_failures = [], ow_rest = (\<lparr>tg_trace = trace_init, tg_signals = []\<rparr>, 0)\<rparr>) :: nat console_world"
  have "rt_createCorrelationId ?rt (console_other ?sw) = (''c'', 0)" "rt_createTraceId ?rt 0 = (''t'', 1)"
    by (simp_all add: console_other_def)
  from requests_carry_their_operations_span [OF this, of "\<lambda>_. None" ?ctx "\<lambda>_. True" _ ListAction undefined "act_return ()" "\<lambda>_. None" "Some 5"]
  obtain sw1 where "\<forall>call :: nat console_world api_client \<Rightarrow> request_options \<Rightarrow> (nat console_world, js_error, string option) act.
      api_call (console_ports undefined (act_return ()) ?ctx (\<lambda>_. True) (\<lambda>_. None)) \<lparr>ic_correlation_id = ''c'', ic_signal = Some 5\<rparr> call sw1 =
      call undefined \<lparr>ro_signal = Some 5,
        ro_traceparent = span_header ?ctx (\<lambda>_. True) (Suc (tr_next (tg_trace (console_tracing ?sw))))\<rparr> sw1" by blast
  then show ?thesis
    by (intro exI [of _ sw1]) (simp add: span_header_def console_tracing_def trace_init_def sampled_def)
qed

text \<open>An operation of the console runs its adapter's once, on the world its opening probes leave, and answers with its result.\<close>

lemma console_operation_result:
  "fst (go_get_gateway (gatewayOperations api login bt ctx valid parse target rt) gatewayId signal sw) =
   (case execute_begin (console_probes bt ctx valid target) (console_runtime rt) GetAction sw of
      (Inl e, _) \<Rightarrow> Inl e
    | (Inr (c, t), sw1) \<Rightarrow> fst (adapter_get_gateway (console_ports api login ctx valid parse) gatewayId
        \<lparr>ic_correlation_id = c, ic_signal = signal\<rparr> sw1))"
  by (cases "console.opened target bt ctx valid (console_runtime rt) GetAction sw" rule: prod_cases3)
    (simp add: gatewayOperations_def createGatewayOperations_def createGatewayControlPlaneAdapter_def
      console.execute_result console.execute_begin_quiet)

text \<open>A failed export is counted and kept once the parts are wired, and dropped before.\<close>

lemma late_reports_count:
  "late_reporter False failure sw = sw"
  "deliveryFailureCount (fst (late_reporter True failure sw)) = Suc (deliveryFailureCount (fst sw)) \<and>
   lastFailure (fst (late_reporter True failure sw)) = Some failure \<and>
   last (ow_failures (snd (late_reporter True failure sw))) = failure \<and>
   console_tracing (late_reporter True failure sw) = console_tracing sw"
  by (cases sw; simp add: late_reporter_def reportDeliveryFailure_def recordFailure_def report_failure_def
      console_tracing_def appendBounded_lastn lastn_def recentFailureLimit_def Let_def)+

end
