(* ===== verification/Account_Form.thy ===== *)
theory Account_Form
  imports Account_Dialog Event_Runs
begin

text \<open>
  The form of \<open>service-accounts/service-account-create-dialog.tsx\<close> as it is shown and used: its fields, menus,
  errors and the previewed expiration, with the clock behind the preview, over the dialog of theory
  \<open>Account_Dialog\<close>.
\<close>

section \<open>The state\<close>

text \<open>
  The dialog is mounted open. \<open>fs_submitted\<close>: the form library has validated the form once, and from then on
  checks the fields as they change. \<open>fs_time\<close> is \<open>currentTime\<close>.
\<close>

record form_state =
  fs_dialog :: dialog
  fs_form :: account_form
  fs_submitted :: bool
  fs_time :: int

definition form_mount :: "account_capabilities \<Rightarrow> int \<Rightarrow> form_state" where
  "form_mount capabilities now =
     \<lparr>fs_dialog = dialog_apply OpenDialog dialog_init, fs_form = default_form capabilities,
      fs_submitted = False, fs_time = now\<rparr>"

text \<open>The form is on the screen, and its fields are not disabled.\<close>

definition shows_form :: "dialog \<Rightarrow> bool" where
  "shows_form d \<longleftrightarrow> dg_open d \<and> \<not> dg_confirming d \<and> dg_handoff d = None"

text \<open>\<open>window.setInterval\<close>: the clock runs while the dialog is open and no secret was handed over.\<close>

definition clock_runs :: "dialog \<Rightarrow> bool" where
  "clock_runs d \<longleftrightarrow> dg_open d \<and> dg_handoff d = None"

definition clock_period :: int where "clock_period = 30000"

section \<open>What the form shows\<close>

text \<open>
  Each field with its value, whether it is disabled and whether it shows an error; a menu with whether it is
  open and its options: an option of the roles with whether it has the administrator's description, one of
  the expirations with its days and value, each with whether it is selected.
\<close>

datatype form_item =
    FailureItem create_alert bool
  | NameItem string bool bool
  | DescriptionItem string bool
  | RoleItem string bool bool bool "(account_role \<times> bool \<times> bool) list"
  | ExpirationItem "int option" bool bool bool "(int \<times> string \<times> bool) list" "int option"

definition name_error :: "form_state \<Rightarrow> bool" where
  "name_error s \<longleftrightarrow> fs_submitted s \<and> trim (af_name (fs_form s)) = []"

definition role_error :: "account_capabilities \<Rightarrow> form_state \<Rightarrow> bool" where
  "role_error capabilities s \<longleftrightarrow>
     fs_submitted s \<and> role_of (cap_allowed_roles capabilities) (af_role (fs_form s)) = None"

definition expiration_error :: "(string \<Rightarrow> js_number) \<Rightarrow> account_capabilities \<Rightarrow> form_state \<Rightarrow> bool" where
  "expiration_error number capabilities s \<longleftrightarrow>
     fs_submitted s \<and> selectedExpirationDays number capabilities (fs_form s) = None"

text \<open>\<open>new Date(currentTime + selectedExpiration * 1000)\<close>, where that is a date.\<close>

definition previewed :: "(string \<Rightarrow> js_number) \<Rightarrow> form_state \<Rightarrow> int option" where
  "previewed number s =
     (case number (af_expiration (fs_form s)) of
        Integral seconds \<Rightarrow> Some (fs_time s + seconds * 1000) | NonIntegral _ \<Rightarrow> None)"

definition form_items :: "(string \<Rightarrow> js_number) \<Rightarrow> account_capabilities \<Rightarrow> form_state \<Rightarrow> form_item list" where
  "form_items number capabilities s =
     (let d = fs_dialog s; f = fs_form s; disabled = is_pending d
      in (case dg_creation d of
            MError e \<Rightarrow> [FailureItem (create_alert e) (uncertainFailure e)] | _ \<Rightarrow> []) @
         [NameItem (af_name f) disabled (name_error s),
          DescriptionItem (af_description f) disabled,
          RoleItem (af_role f) (dg_role_open d) disabled (role_error capabilities s)
            (map (\<lambda>r. (r, r = RoleAdmin, account_role_str r = af_role f)) (cap_allowed_roles capabilities)),
          ExpirationItem (selectedExpirationDays number capabilities f) (dg_expiration_open d) disabled
            (expiration_error number capabilities s)
            (map (\<lambda>(days, seconds). (days, show_int seconds, show_int seconds = af_expiration f))
              (expirationOptions capabilities))
            (previewed number s)])"

definition form_view :: "(string \<Rightarrow> js_number) \<Rightarrow> account_capabilities \<Rightarrow> form_state \<Rightarrow> form_item list option" where
  "form_view number capabilities s =
     (if shows_form (fs_dialog s) then Some (form_items number capabilities s) else None)"

section \<open>Events\<close>

text \<open>
  \<open>FormSubmitted\<close> is the button of the footer or the return key in a field. Each event comes with the time
  it happens; the interval is punctual when no event finds the clock more than a period behind.
\<close>

datatype form_event =
    NameTyped string
  | DescriptionTyped string
  | RolePicked string
  | ExpirationPicked string
  | ClockTicks
  | FormSubmitted
  | DialogHappens dialog_event

datatype form_effect = RequestCreate account_create_input

definition punctual :: "int \<Rightarrow> form_state \<Rightarrow> bool" where
  "punctual now s \<longleftrightarrow> clock_runs (fs_dialog s) \<longrightarrow> fs_time s \<le> now \<and> now \<le> fs_time s + clock_period"

definition form_enabled :: "int \<Rightarrow> form_state \<Rightarrow> form_event \<Rightarrow> bool" where
  "form_enabled now s e \<longleftrightarrow>
     dg_open (fs_dialog s) \<and> punctual now s \<and>
     (let d = fs_dialog s
      in case e of
           NameTyped _ \<Rightarrow> shows_form d \<and> \<not> is_pending d
         | DescriptionTyped _ \<Rightarrow> shows_form d \<and> \<not> is_pending d
         | RolePicked _ \<Rightarrow> shows_form d \<and> dg_role_open d
         | ExpirationPicked _ \<Rightarrow> shows_form d \<and> dg_expiration_open d
         | ClockTicks \<Rightarrow> clock_runs d
         | FormSubmitted \<Rightarrow> shows_form d \<and> \<not> is_pending d
         | DialogHappens ev \<Rightarrow>
             dialog_enabled d ev \<and>
             (case ev of OpenDialog \<Rightarrow> False | Submit \<Rightarrow> False | RoleMenu b \<Rightarrow> b \<longrightarrow> \<not> is_pending d
              | ExpirationMenu b \<Rightarrow> b \<longrightarrow> \<not> is_pending d | _ \<Rightarrow> True))"

definition form_submit ::
    "(string \<Rightarrow> js_number) \<Rightarrow> (int \<Rightarrow> string) \<Rightarrow> account_capabilities \<Rightarrow> int \<Rightarrow> form_state \<Rightarrow>
     form_state \<times> form_effect list" where
  "form_submit number isoString capabilities now s =
     (case parse_form number capabilities (fs_form s) of
        None \<Rightarrow> (s\<lparr>fs_submitted := True\<rparr>, [])
      | Some out \<Rightarrow>
          (s\<lparr>fs_submitted := True, fs_dialog := dialog_apply Submit (fs_dialog s)\<rparr>,
           [RequestCreate (create_input isoString now out)]))"

fun form_handle ::
    "(string \<Rightarrow> js_number) \<Rightarrow> (int \<Rightarrow> string) \<Rightarrow> account_capabilities \<Rightarrow> int \<Rightarrow> form_event \<Rightarrow> form_state \<Rightarrow>
     form_state \<times> form_effect list" where
  "form_handle number isoString capabilities now (NameTyped v) s = (s\<lparr>fs_form := (fs_form s)\<lparr>af_name := v\<rparr>\<rparr>, [])"
| "form_handle number isoString capabilities now (DescriptionTyped v) s =
     (s\<lparr>fs_form := (fs_form s)\<lparr>af_description := v\<rparr>\<rparr>, [])"
| "form_handle number isoString capabilities now (RolePicked v) s =
     (s\<lparr>fs_form := select_role capabilities v (fs_form s), fs_dialog := (fs_dialog s)\<lparr>dg_role_open := False\<rparr>\<rparr>, [])"
| "form_handle number isoString capabilities now (ExpirationPicked v) s =
     (s\<lparr>fs_form := select_expiration capabilities v (fs_form s),
        fs_dialog := (fs_dialog s)\<lparr>dg_expiration_open := False\<rparr>\<rparr>, [])"
| "form_handle number isoString capabilities now ClockTicks s = (s\<lparr>fs_time := now\<rparr>, [])"
| "form_handle number isoString capabilities now FormSubmitted s = form_submit number isoString capabilities now s"
| "form_handle number isoString capabilities now (DialogHappens e) s = (s\<lparr>fs_dialog := dialog_apply e (fs_dialog s)\<rparr>, [])"

section \<open>The menus keep to what is allowed\<close>

text \<open>The role and the expiration of the form, where the capabilities offer any.\<close>

definition offered :: "account_capabilities \<Rightarrow> account_form \<Rightarrow> bool" where
  "offered capabilities f \<longleftrightarrow>
     (cap_allowed_roles capabilities \<noteq> [] \<longrightarrow> role_of (cap_allowed_roles capabilities) (af_role f) \<noteq> None) \<and>
     (expirationOptions capabilities \<noteq> [] \<longrightarrow>
        (\<exists>(days, seconds) \<in> set (expirationOptions capabilities). af_expiration f = show_int seconds))"

text \<open>\<open>Number\<close> reads the printed expirations.\<close>

definition reads_seconds :: "(string \<Rightarrow> js_number) \<Rightarrow> account_capabilities \<Rightarrow> bool" where
  "reads_seconds number capabilities \<longleftrightarrow>
     list_all (\<lambda>(days, seconds). number (show_int seconds) = Integral seconds) (expirationOptions capabilities)"

lemma offered_default: "offered capabilities (default_form capabilities)"
proof -
  have "role_of (cap_allowed_roles capabilities) (af_role (default_form capabilities)) \<noteq> None"
    if "cap_allowed_roles capabilities \<noteq> []"
    using that role_of_str [of RoleUser "cap_allowed_roles capabilities"]
      role_of_str [of "hd (cap_allowed_roles capabilities)" "cap_allowed_roles capabilities"]
    by (auto simp: default_form_def neq_Nil_conv)
  moreover have "\<exists>(days, seconds) \<in> set (expirationOptions capabilities). af_expiration (default_form capabilities) = show_int seconds"
    if some: "expirationOptions capabilities \<noteq> []"
  proof -
    obtain s where s: "defaultExpirationSeconds capabilities = Some s" using default_exists [OF some] by blast
    from default_is_option [OF s] obtain d where "(d, s) \<in> set (expirationOptions capabilities)" by auto
    moreover have "s \<noteq> 0" using option_seconds [OF default_is_option [OF s]] by auto
    ultimately show ?thesis using s by (auto simp: default_form_def intro: bexI [of _ "(d, s)"])
  qed
  ultimately show ?thesis by (simp add: offered_def)
qed

lemma offered_select:
  "offered capabilities f \<Longrightarrow> offered capabilities (select_role capabilities v f)"
  "offered capabilities f \<Longrightarrow> offered capabilities (select_expiration capabilities v f)"
  by (auto simp: offered_def select_role_def select_expiration_def)

lemma offered_typed [simp]:
  "offered capabilities (f\<lparr>af_name := v\<rparr>) = offered capabilities f"
  "offered capabilities (f\<lparr>af_description := v\<rparr>) = offered capabilities f"
  by (simp_all add: offered_def)

definition form_inv :: "account_capabilities \<Rightarrow> (int \<times> form_event) list \<Rightarrow> form_state \<Rightarrow> form_effect list \<Rightarrow> bool" where
  "form_inv capabilities evs s sent \<longleftrightarrow> offered capabilities (fs_form s)"

interpretation form: logged_invariant form_enabled "form_handle number isoString capabilities" "form_mount capabilities now"
    "form_inv capabilities" for number isoString capabilities now
proof unfold_locales
  show "form_inv capabilities [] (form_mount capabilities now) []"
    by (simp add: form_inv_def form_mount_def offered_default)
  fix evs s sent g e s' xs
  assume "form_inv capabilities evs s sent" "form_handle number isoString capabilities g e s = (s', xs)"
  then show "form_inv capabilities (evs @ [(g, e)]) s' (sent @ xs)"
    using offered_select [of capabilities "fs_form s"]
    by (cases e) (auto simp: form_inv_def form_submit_def split: option.splits)
qed

lemma offered_seconds:
  assumes "offered capabilities f" "expirationOptions capabilities \<noteq> []" "reads_seconds number capabilities"
  shows "\<exists>days seconds. (days, seconds) \<in> set (expirationOptions capabilities) \<and>
    af_expiration f = show_int seconds \<and> number (af_expiration f) = Integral seconds"
  using assms by (fastforce simp: offered_def reads_seconds_def list_all_iff)

text \<open>Only a blank name keeps a form of offered choices from being sent.\<close>

lemma only_a_name_is_missing:
  assumes "offered capabilities f" "expirationOptions capabilities \<noteq> []" "cap_allowed_roles capabilities \<noteq> []"
    and "reads_seconds number capabilities"
  shows "parse_form number capabilities f = None \<longleftrightarrow> trim (af_name f) = []"
proof -
  obtain days seconds where "(days, seconds) \<in> set (expirationOptions capabilities)" "number (af_expiration f) = Integral seconds"
    using offered_seconds [OF assms(1,2,4)] by blast
  moreover from this(1) have "seconds \<in> snd ` set (expirationOptions capabilities)" by force
  moreover obtain r where "role_of (cap_allowed_roles capabilities) (af_role f) = Some r"
    using assms(1,3) by (auto simp: offered_def)
  ultimately show ?thesis by (simp add: parse_form_def)
qed

section \<open>What is sent is what was shown\<close>

lemma selected_days:
  assumes "offered capabilities f" "expirationOptions capabilities \<noteq> []" "reads_seconds number capabilities"
  shows "selectedExpirationDays number capabilities f \<noteq> None"
proof -
  obtain days seconds where "(days, seconds) \<in> set (expirationOptions capabilities)" "number (af_expiration f) = Integral seconds"
    using offered_seconds [OF assms] by blast
  then show ?thesis by (auto simp: selectedExpirationDays_def find_None_iff)
qed

lemma submit_outcome:
  assumes off: "offered capabilities (fs_form s)" and "expirationOptions capabilities \<noteq> []"
    and "cap_allowed_roles capabilities \<noteq> []" and "reads_seconds number capabilities"
    and sec: "number (af_expiration (fs_form s)) = Integral seconds"
    and r: "role_of (cap_allowed_roles capabilities) (af_role (fs_form s)) = Some r"
    and time: "fs_time s \<le> now" "now \<le> fs_time s + 30000"
  shows "case form_handle number isoString capabilities now FormSubmitted s of
       (s', []) \<Rightarrow> trim (af_name (fs_form s)) = [] \<and> name_error s' \<and> fs_dialog s' = fs_dialog s
     | (s', [RequestCreate input]) \<Rightarrow>
         aci_name input = trim (af_name (fs_form s)) \<and> aci_name input \<noteq> [] \<and>
         account_role_str (aci_role input) = af_role (fs_form s) \<and>
         (\<exists>t. aci_expires_at input = isoString t \<and> fs_time s + seconds * 1000 \<le> t \<and> t \<le> fs_time s + seconds * 1000 + 30000) \<and>
         is_pending (fs_dialog s') \<and> (\<forall>now'. \<not> form_enabled now' s' FormSubmitted)
     | _ \<Rightarrow> False"
proof (cases "parse_form number capabilities (fs_form s)")
  case None
  then show ?thesis using only_a_name_is_missing [OF assms(1-4)] by (simp add: form_submit_def name_error_def)
next
  case (Some out)
  then have out: "out = \<lparr>ao_description = af_description (fs_form s), ao_expiration = seconds,
      ao_name = trim (af_name (fs_form s)), ao_role = r\<rparr>" "trim (af_name (fs_form s)) \<noteq> []"
    using sec r only_a_name_is_missing [OF assms(1-4)] by (auto simp: parse_form_def split: if_splits)
  then show ?thesis
    using Some time role_of_Some [OF r]
    by (simp add: form_submit_def create_input_def is_pending_def form_enabled_def Let_def)
      (intro exI [of _ "now + seconds * 1000"]; simp)
qed


definition sample_capabilities :: account_capabilities where
  "sample_capabilities =
     \<lparr>cap_allowed_roles = [RoleUser, RoleAdmin], cap_can_create = True, cap_can_manage_all = False,
      cap_expiration_policy = \<lparr>ep_default_seconds = 0, ep_maximum_seconds = 6000000, ep_minimum_seconds = 60\<rparr>\<rparr>"


text \<open>
  The preview follows the clock: while the form is on the screen, the date shown is within half a minute of
  the one that would be sent now.
\<close>

lemma preview_is_fresh:
  "form_enabled now s e \<Longrightarrow> clock_runs (fs_dialog s) \<Longrightarrow> number (af_expiration (fs_form s)) = Integral seconds \<Longrightarrow>
     \<exists>t. previewed number s = Some t \<and> t \<le> now + seconds * 1000 \<and> now + seconds * 1000 \<le> t + clock_period"
  by (simp add: form_enabled_def punctual_def previewed_def)

text \<open>Without an expiration that the policy allows, no form can be sent, and its menu is empty.\<close>

lemma policy_without_options:
  "expirationOptions capabilities = [] \<Longrightarrow>
     parse_form number capabilities f = None \<and> selectedExpirationDays number capabilities f = None"
  by (simp add: parse_form_def selectedExpirationDays_def split: js_number.split)

end
