(* ===== verification/Gateway_Metrics.thy ===== *)
theory Gateway_Metrics
  imports JS_Json
begin

text \<open>
  \<open>metrics/gateway-metrics-data.ts\<close> and \<open>metrics/gateway-metrics-dashboard.tsx\<close>: how many gateways are in
  each phase, read from the server every half minute.
\<close>

section \<open>The counts\<close>

datatype gateway_phase = PhaseRunning | PhaseProvisioning | PhaseDegraded | PhaseFailed

definition phase_name :: "gateway_phase \<Rightarrow> string" where
  "phase_name p = (case p of PhaseRunning \<Rightarrow> ''Running'' | PhaseProvisioning \<Rightarrow> ''Provisioning''
     | PhaseDegraded \<Rightarrow> ''Degraded'' | PhaseFailed \<Rightarrow> ''Failed'')"

definition gatewayPhases :: "gateway_phase list" where
  "gatewayPhases = [PhaseRunning, PhaseProvisioning, PhaseDegraded, PhaseFailed]"

text \<open>The answer to the request: its status, and its body where that is JSON.\<close>

record metrics_response =
  me_status :: nat
  me_body :: "json option"

datatype metrics_failure = FetchFailed nat | UnreadableBody | NoCounts

definition counts_of :: "json \<Rightarrow> json option" where
  "counts_of body = (case body of JObject fs \<Rightarrow> map_of fs ''counts'' | _ \<Rightarrow> None)"

text \<open>\<open>counts.Phase ?? 0\<close>: the property as it is, whatever its type; a missing one or \<open>null\<close> is zero.\<close>

definition phase_count :: "json \<Rightarrow> gateway_phase \<Rightarrow> json" where
  "phase_count counts p =
     (case counts of
        JObject fs \<Rightarrow>
          (case map_of fs (phase_name p) of
             None \<Rightarrow> JNumber (Integral 0) | Some JNull \<Rightarrow> JNumber (Integral 0) | Some v \<Rightarrow> v)
      | _ \<Rightarrow> JNumber (Integral 0))"

definition fetchGatewayMetrics :: "metrics_response \<Rightarrow> metrics_failure + (gateway_phase \<Rightarrow> json)" where
  "fetchGatewayMetrics r =
     (if \<not> (200 \<le> me_status r \<and> me_status r \<le> 299) then Inl (FetchFailed (me_status r))
      else case me_body r of
             None \<Rightarrow> Inl UnreadableBody
           | Some body \<Rightarrow>
               (case counts_of body of
                  None \<Rightarrow> Inl NoCounts | Some JNull \<Rightarrow> Inl NoCounts | Some counts \<Rightarrow> Inr (phase_count counts)))"

section \<open>The dashboard\<close>

text \<open>The query, a library: its last data, whether its last request failed and whether it waits for its first.\<close>

record metrics_query =
  mq_data :: "(gateway_phase \<Rightarrow> json) option"
  mq_error :: bool
  mq_loading :: bool

definition metrics_mount :: metrics_query where
  "metrics_mount = \<lparr>mq_data = None, mq_error = False, mq_loading = True\<rparr>"

definition metrics_settle :: "metrics_response \<Rightarrow> metrics_query \<Rightarrow> metrics_query" where
  "metrics_settle r q =
     (case fetchGatewayMetrics r of
        Inl _ \<Rightarrow> q\<lparr>mq_error := True, mq_loading := False\<rparr>
      | Inr d \<Rightarrow> \<lparr>mq_data = Some d, mq_error = False, mq_loading = False\<rparr>)"

datatype metrics_view = MetricsSpinner | MetricsError | PhaseCards "(gateway_phase \<times> json) list"

definition metrics_view :: "metrics_query \<Rightarrow> metrics_view" where
  "metrics_view q =
     (if mq_loading q then MetricsSpinner
      else case (mq_error q, mq_data q) of
             (False, Some d) \<Rightarrow> PhaseCards (map (\<lambda>p. (p, d p)) gatewayPhases)
           | _ \<Rightarrow> MetricsError)"

lemma gatewayPhases_all: "set gatewayPhases = UNIV \<and> distinct gatewayPhases"
proof -
  have "p \<in> set gatewayPhases" for p by (cases p) (simp_all add: gatewayPhases_def)
  then show ?thesis by (auto simp: gatewayPhases_def)
qed

text \<open>
  The dashboard shows the outcome of the last request alone: each phase once with the count of a readable
  answer, zero where the answer has none, and the error after any failure, even when older counts are known.
\<close>

lemma dashboard_shows_the_last_answer:
  "metrics_view (foldl (\<lambda>q r. metrics_settle r q) metrics_mount (rs @ [r])) =
     (case fetchGatewayMetrics r of
        Inl _ \<Rightarrow> MetricsError | Inr d \<Rightarrow> PhaseCards (map (\<lambda>p. (p, d p)) gatewayPhases))"
  by (simp add: metrics_settle_def metrics_view_def split: sum.split)

lemma shown_counts:
  assumes "200 \<le> me_status r" "me_status r \<le> 299" "me_body r = Some (JObject [(''counts'', JObject fs)])"
  shows "metrics_view (metrics_settle r q) =
    PhaseCards (map (\<lambda>p. (p, case map_of fs (phase_name p) of
      None \<Rightarrow> JNumber (Integral 0) | Some JNull \<Rightarrow> JNumber (Integral 0) | Some v \<Rightarrow> v)) gatewayPhases)"
  using assms by (simp add: metrics_settle_def metrics_view_def fetchGatewayMetrics_def counts_of_def phase_count_def)

text \<open>A body without counts is a failure, not zeros.\<close>

lemma missing_counts_fail:
  "me_body r = Some body \<Longrightarrow> counts_of body = None \<Longrightarrow> metrics_view (metrics_settle r q) = MetricsError"
  by (simp add: metrics_settle_def metrics_view_def fetchGatewayMetrics_def)

lemma no_loading_after_an_answer: "metrics_view (metrics_settle r q) \<noteq> MetricsSpinner"
  by (simp add: metrics_settle_def metrics_view_def split: sum.split option.split bool.split)

end
