(* ===== verification/Gateway_Views.thy ===== *)
theory Gateway_Views
  imports Gateway_Pages
begin

text \<open>
  What the dialogs, the creation page and the page of a gateway put on the screen, as functions of their
  state, and the creation page as a state machine: \<open>gateway-delete-dialog.tsx\<close>, \<open>gateway-rename-dialog.tsx\<close>,
  \<open>gateway-row-actions.tsx\<close>, \<open>gateway-detail-header.tsx\<close>, \<open>gateway-create.tsx\<close> and the tabs of
  \<open>pages/gateway-pages.tsx\<close>.
\<close>

section \<open>The dialogs\<close>

text \<open>
  The parts of a dialog in order. A button comes with whether it is enabled and whether it shows that it is
  working; the close icon is there while nothing is pending.
\<close>

datatype dialog_part =
    DialogTitle string
  | ConfirmationText string
  | SandboxWarning int
  | FailureAlert
  | NameInput string bool bool
  | MainButton bool bool
  | DialogCancel bool
  | CloseIconPart

definition delete_view :: "gateway_connection \<Rightarrow> menu_state \<Rightarrow> dialog_part list option" where
  "delete_view gateway m =
     (if \<not> delete_shown gateway m then None
      else let pending = mutation_pending (dd_deletion (ms_delete m))
           in Some ([DialogTitle (gc_name gateway), ConfirmationText (gc_name gateway)] @
             (case sandbox_warning (gc_active_sandboxes gateway) of Some n \<Rightarrow> [SandboxWarning n] | None \<Rightarrow> []) @
             (if delete_failed (ms_delete m) then [FailureAlert] else []) @
             [MainButton (\<not> pending) pending, DialogCancel (\<not> pending)] @
             (if pending then [] else [CloseIconPart])))"

definition rename_view :: "gateway_connection \<Rightarrow> menu_state \<Rightarrow> dialog_part list option" where
  "rename_view gateway m =
     (case ms_rename m of
        None \<Rightarrow> None
      | Some d \<Rightarrow>
          let pending = mutation_pending (rd_rename d)
          in Some ([DialogTitle (gc_name gateway)] @
            (case rd_rename d of MError _ \<Rightarrow> [FailureAlert] | _ \<Rightarrow> []) @
            [NameInput (rd_name d) pending (rd_show_required d),
             MainButton (rename_enabled (gc_name gateway) d) pending, DialogCancel (\<not> pending)] @
            (if pending then [] else [CloseIconPart])))"

text \<open>The toggle of a menu: disabled, expanded; the items it opens, and the notice of a copy.\<close>

definition row_menu_view :: "gateway_connection \<Rightarrow> menu_state \<Rightarrow> bool \<times> bool \<times> menu_item list \<times> copy_result option" where
  "row_menu_view gateway m =
     (isGatewayDeleting gateway, ms_open m, if menu_shown gateway m then row_items gateway else [], ms_copy m)"

lemma delete_view_buttons:
  assumes "delete_view gateway m = Some parts"
  shows "MainButton True False \<in> set parts \<longleftrightarrow> menu_enabled gateway items m ConfirmDelete"
    and "CloseIconPart \<in> set parts \<longleftrightarrow> menu_enabled gateway items m CloseDelete"
    and "(\<exists>n. SandboxWarning n \<in> set parts) \<longleftrightarrow> (\<exists>n. gc_active_sandboxes gateway = Some n \<and> 0 < n)"
  using assms
  by (auto simp: delete_view_def sandbox_warning_def Let_def split: if_splits option.splits)

lemma rename_view_buttons:
  assumes "rename_view gateway m = Some parts"
  shows "MainButton True False \<in> set parts \<longleftrightarrow> menu_enabled gateway items m SubmitRename"
    and "CloseIconPart \<in> set parts \<longleftrightarrow> menu_enabled gateway items m CloseRename"
    and "(\<exists>v e. NameInput v False e \<in> set parts) \<longleftrightarrow> menu_enabled gateway items m (TypeName w)"
  using assms
  by (auto simp: rename_view_def rename_enabled_def Let_def split: if_splits option.splits mutation.splits)

section \<open>Copying the connection\<close>

text \<open>\<open>GatewayCliCopy\<close>: the command with the state of its copy button, and the endpoint's own control.\<close>

definition cli_copy_view :: "gateway_connection \<Rightarrow> bool \<Rightarrow> (string \<times> bool) option" where
  "cli_copy_view gateway copied =
     (case keep_truthy (buildGatewayAddCommand gateway) of None \<Rightarrow> None | Some c \<Rightarrow> Some (c, copied))"

datatype cli_copy_event = CliCopyPressed | CliTooltipHidden

definition cli_copy_handle :: "gateway_connection \<Rightarrow> cli_copy_event \<Rightarrow> bool \<Rightarrow> bool \<times> ui_effect list" where
  "cli_copy_handle gateway e copied =
     (case e of
        CliCopyPressed \<Rightarrow> (True, copyConnectionCommand gateway)
      | CliTooltipHidden \<Rightarrow> (False, []))"

definition endpoint_copy :: "gateway_connection \<Rightarrow> string option" where
  "endpoint_copy gateway = keep_truthy (gc_endpoint gateway)"

lemma copied_is_shown:
  "cli_copy_view gateway copied = Some (c, copied) \<Longrightarrow>
     cli_copy_handle gateway CliCopyPressed copied = (True, [WriteClipboard c])"
  by (auto simp: cli_copy_view_def cli_copy_handle_def copyConnectionCommand_def split: option.splits)

section \<open>The page of one gateway\<close>

text \<open>The header: the name, the status, the console control and the menu.\<close>

datatype header_part =
    HeaderName string
  | HeaderStatus string
  | HeaderConsole console_control
  | HeaderActions bool bool "menu_item list"

definition detail_header :: "gateway_connection \<Rightarrow> instant option \<Rightarrow> instant \<Rightarrow> menu_state \<Rightarrow> header_part list" where
  "detail_header gateway consoleWaitStartedAt now m =
     [HeaderName (gc_name gateway), HeaderStatus (gc_status gateway)] @
     (case console_control gateway consoleWaitStartedAt now of NoConsole \<Rightarrow> [] | c \<Rightarrow> [HeaderConsole c]) @
     [HeaderActions (isGatewayDeleting gateway) (ms_open m) (if menu_shown gateway m then header_items else [])]"

datatype detail_field = StatusField | ClusterNameField | EndpointField | NamespaceField | ReleaseField

text \<open>The details: the gateway's connection for the first three, the record itself for the rest.\<close>

definition details_fields ::
    "gateway_record \<Rightarrow> gateway_connection \<Rightarrow> gateway_placement query \<Rightarrow> (detail_field \<times> cell) list" where
  "details_fields visibleGateway connection placementQuery =
     [(StatusField, StatusCell (gc_status connection)),
      (ClusterNameField, detail_cluster_name connection placementQuery),
      (EndpointField, case endpoint_copy connection of Some e \<Rightarrow> TextCell e | None \<Rightarrow> NotAvailableCell),
      (NamespaceField, TextCell (gr_namespace visibleGateway)),
      (ReleaseField, TextCell (gr_release_id visibleGateway))]"

text \<open>
  What the selected tab holds: the connection tab with its link to the service accounts and whether it
  works, the service accounts or the status of a gateway that is going away, the details.
\<close>

datatype tab_content =
    ConnectionContent bool
  | AccountsContent
  | DeletingNotice string
  | DetailsContent "(detail_field \<times> cell) list"

definition tab_content ::
    "gateway_record \<Rightarrow> gateway_connection \<Rightarrow> gateway_placement query \<Rightarrow> detail_tab \<Rightarrow> tab_content" where
  "tab_content visibleGateway connection placementQuery tab =
     (case tab of
        ConnectionTab \<Rightarrow> ConnectionContent (\<not> isGatewayDeleting connection)
      | ServiceAccountsTab \<Rightarrow>
          if isGatewayDeleting connection then DeletingNotice (gc_status connection) else AccountsContent
      | DetailsTab \<Rightarrow> DetailsContent (details_fields visibleGateway connection placementQuery))"

text \<open>The page: its header and tab, for a visible gateway; a tab is disabled for a gateway that is going away.\<close>

definition tab_disabled :: "gateway_connection \<Rightarrow> detail_tab \<Rightarrow> bool" where
  "tab_disabled connection tab \<longleftrightarrow> tab = ServiceAccountsTab \<and> isGatewayDeleting connection"

text \<open>\<open>onDeletionAccepted\<close>: the host's handler, or the list with the notice of the deletion.\<close>

datatype deletion_effect = HostDeletion string | NavigateWithNotice string

definition onDeletionAccepted :: "bool \<Rightarrow> gateway_connection \<Rightarrow> deletion_effect" where
  "onDeletionAccepted hosted connection =
     (if hosted then HostDeletion (gc_name connection) else NavigateWithNotice (gc_name connection))"

lemma accounts_only_while_staying:
  "tab_content visibleGateway connection q tab = AccountsContent \<Longrightarrow> \<not> tab_disabled connection tab"
  by (cases tab) (auto simp: tab_content_def tab_disabled_def split: if_splits)

section \<open>The creation page\<close>

text \<open>
  The page with its form. Once submitted, the form library checks a field again as it changes
  (\<open>cg_issues\<close> are the errors shown).
\<close>

record create_state =
  cs_page :: create_page
  cs_form :: gateway_form
  cs_submitted :: bool

definition create_init :: create_state where
  "create_init = \<lparr>cs_page = \<lparr>cg_creation = MIdle, cg_issues = []\<rparr>, cs_form = gateway_form_default, cs_submitted = False\<rparr>"

definition form_issues :: "gateway_form \<Rightarrow> form_field list" where
  "form_issues f = (case parse_gateway_form f of Inl issues \<Rightarrow> issues | Inr _ \<Rightarrow> [])"

definition change_field :: "form_field \<Rightarrow> gateway_form \<Rightarrow> create_state \<Rightarrow> create_state" where
  "change_field field f s =
     s\<lparr>cs_form := f,
       cs_page := (if cs_submitted s
         then (cs_page s)\<lparr>cg_issues := filter (\<lambda>i. i \<noteq> field) (cg_issues (cs_page s)) @
           filter (\<lambda>i. i = field) (form_issues f)\<rparr>
         else cs_page s)\<rparr>"

datatype create_event =
    NameChanged string
  | ClusterChanged "string option"
  | CreateSubmitted
  | ProvisionReturns gateway_record
  | ProvisionThrows js_error
  | ProvisionSettles
  | CreateCancelled

definition create_pending :: "create_state \<Rightarrow> bool" where
  "create_pending s \<longleftrightarrow> mutation_pending (cg_creation (cs_page s))"

definition create_enabled :: "unit \<Rightarrow> create_state \<Rightarrow> create_event \<Rightarrow> bool" where
  "create_enabled g s e =
     (case e of
        ProvisionReturns _ \<Rightarrow> cg_creation (cs_page s) = MPending
      | ProvisionThrows _ \<Rightarrow> cg_creation (cs_page s) = MPending
      | ProvisionSettles \<Rightarrow> cg_creation (cs_page s) = MDelivered
      | _ \<Rightarrow> \<not> create_pending s)"

definition set_creation :: "mutation \<Rightarrow> create_state \<Rightarrow> create_state" where
  "set_creation m s = s\<lparr>cs_page := (cs_page s)\<lparr>cg_creation := m\<rparr>\<rparr>"

fun create_handle :: "bool \<Rightarrow> unit \<Rightarrow> create_event \<Rightarrow> create_state \<Rightarrow> create_state \<times> ui_effect list" where
  "create_handle hosted g (NameChanged v) s = (change_field NameField ((cs_form s)\<lparr>gf_name := v\<rparr>) s, [])"
| "create_handle hosted g (ClusterChanged v) s = (change_field ClusterField ((cs_form s)\<lparr>gf_cluster_id := v\<rparr>) s, [])"
| "create_handle hosted g CreateSubmitted s =
     (let (page, effects) = create_submit (cs_form s) (cs_page s)
      in (s\<lparr>cs_page := page, cs_submitted := True\<rparr>, effects))"
| "create_handle hosted g (ProvisionReturns r) s = (set_creation MDelivered s, create_onSuccess hosted r)"
| "create_handle hosted g (ProvisionThrows e) s = (set_creation (MError e) s, [])"
| "create_handle hosted g ProvisionSettles s = (set_creation MSuccess s, [])"
| "create_handle hosted g CreateCancelled s = (s, [NavigateCollection])"

text \<open>The page: an alert, the fields with their value, disabled or not, and error, and the two buttons.\<close>

datatype create_part =
    ProvisionFailed
  | CreateName string bool bool
  | CreateCluster "string option" bool bool
  | SubmitButton bool bool
  | CancelCreate bool

definition create_view :: "create_state \<Rightarrow> create_part list" where
  "create_view s =
     (case cg_creation (cs_page s) of MError _ \<Rightarrow> [ProvisionFailed] | _ \<Rightarrow> []) @
     [CreateName (gf_name (cs_form s)) (create_pending s) (NameField \<in> set (cg_issues (cs_page s))),
      CreateCluster (gf_cluster_id (cs_form s)) (create_pending s) (ClusterField \<in> set (cg_issues (cs_page s))),
      SubmitButton (\<not> create_pending s) (create_pending s), CancelCreate (\<not> create_pending s)]"

fun is_provision :: "ui_effect \<Rightarrow> bool" where
  "is_provision (RequestProvision _) = True"
| "is_provision _ = False"

fun provision_answer :: "create_event \<Rightarrow> bool" where
  "provision_answer (ProvisionReturns _) = True"
| "provision_answer (ProvisionThrows _) = True"
| "provision_answer _ = False"

definition provision_waiting :: "create_state \<Rightarrow> bool" where
  "provision_waiting s \<longleftrightarrow> cg_creation (cs_page s) = MPending"

definition issues_shown :: "create_state \<Rightarrow> bool" where
  "issues_shown s \<longleftrightarrow> set (cg_issues (cs_page s)) = (if cs_submitted s then set (form_issues (cs_form s)) else {})"

definition create_inv :: "(unit \<times> create_event) list \<Rightarrow> create_state \<Rightarrow> ui_effect list \<Rightarrow> bool" where
  "create_inv evs s log \<longleftrightarrow>
     balanced is_provision provision_answer provision_waiting evs s log \<and> issues_shown s \<and>
     (create_pending s \<longrightarrow> (\<exists>input before. parse_gateway_form (cs_form s) = Inr input \<and>
        filter is_provision log = before @ [RequestProvision input]))"

lemma issues_of_form: "set (form_issues f) =
    (if gf_cluster_id f = None then {ClusterField} else {}) \<union> (if trim (gf_name f) = [] then {NameField} else {})"
  by (auto simp: form_issues_def parse_gateway_form_def Let_def Suc_le_eq split: option.splits)

lemma issues_shown_change:
  assumes "issues_shown s"
  shows "issues_shown (change_field NameField ((cs_form s)\<lparr>gf_name := v\<rparr>) s)"
    "issues_shown (change_field ClusterField ((cs_form s)\<lparr>gf_cluster_id := w\<rparr>) s)"
  using assms by (auto simp: issues_shown_def change_field_def issues_of_form split: if_splits)

lemma change_field_creation [simp]: "cg_creation (cs_page (change_field field f s)) = cg_creation (cs_page s)"
  by (simp add: change_field_def)

lemma issues_shown_kept [simp]: "issues_shown (set_creation m s) = issues_shown s"
  by (simp add: issues_shown_def set_creation_def)

lemma issues_shown_submit: "issues_shown (fst (create_handle hosted g CreateSubmitted s))"
  by (simp add: issues_shown_def create_submit_def form_issues_def split: sum.split)

lemma issues_shown_step:
  assumes "issues_shown s"
  shows "issues_shown (fst (create_handle hosted g e s))"
proof (cases e)
  case CreateSubmitted
  then show ?thesis by (simp only: issues_shown_submit)
qed (use assms in \<open>simp_all add: issues_shown_change\<close>)

lemma success_effects [simp]: "filter is_provision (create_onSuccess hosted r) = []"
  by (simp add: create_onSuccess_def)

lemma create_inv_step:
  assumes "create_inv evs s log" "create_enabled g s e" "create_handle hosted g e s = (s', es)"
  shows "create_inv (evs @ [(g, e)]) s' (log @ es)"
proof -
  have count: "length (filter is_provision es) + (if provision_waiting s then 1 else 0) =
      (if provision_answer e then 1 else 0) + (if provision_waiting s' then 1 else (0::nat))"
    using assms(2,3)
    by (cases e) (auto simp: create_enabled_def create_pending_def mutation_pending_def provision_waiting_def
        set_creation_def create_submit_def split: sum.splits)
  have issues: "issues_shown s'"
    using issues_shown_step [of s hosted g e] assms(1,3) by (simp add: create_inv_def)
  have pending: "\<exists>input before. parse_gateway_form (cs_form s') = Inr input \<and>
        filter is_provision (log @ es) = before @ [RequestProvision input]" if "create_pending s'"
    using assms that
    by (cases e) (auto simp: create_inv_def create_enabled_def create_pending_def mutation_pending_def
        set_creation_def create_submit_def split: sum.splits)
  have "balanced is_provision provision_answer provision_waiting (evs @ [(g, e)]) s' (log @ es)"
    by (rule balanced_step [where request = is_provision and answers = provision_answer and waiting = provision_waiting and s = s, OF _ count]) (use assms(1) in \<open>simp add: create_inv_def\<close>)
  then show ?thesis
    using issues pending unfolding create_inv_def by blast
qed

interpretation creating: logged_invariant create_enabled "create_handle hosted" create_init create_inv for hosted
proof unfold_locales
  show "create_inv [] create_init []"
    by (simp add: create_inv_def balanced_def create_init_def provision_waiting_def issues_shown_def create_pending_def
        mutation_pending_def)
qed (rule create_inv_step)



end
