(* ===== verification/Sdk_Contract.thy ===== *)
theory Sdk_Contract
  imports Browser_Calls
begin

text \<open>
  The contract of the generated API client, as \<open>src/out/tssdk/index.js\<close> carries it: the schemas of its
  models and its operations. Descriptions and defaults, which the client does not read, are left out. With
  it come the facts that look a model up.
\<close>

section \<open>How a schema is written\<close>

definition reference_prefix :: string where "reference_prefix = ''#/components/schemas/''"

definition named :: "(string \<times> 'a) list \<Rightarrow> (js_text \<times> 'a) list" where
  "named xs = map (\<lambda>(k, x). (units k, x)) xs"

definition typed_schema :: "string \<Rightarrow> schema_keywords \<Rightarrow> schema" where
  "typed_schema t k = plain_schema (k\<lparr>sc_type := Some (units t)\<rparr>)"

definition text_schema :: "schema_keywords \<Rightarrow> schema" where "text_schema = typed_schema ''string''"

definition integer_schema :: "schema_keywords \<Rightarrow> schema" where "integer_schema = typed_schema ''integer''"

definition boolean_schema :: "schema_keywords \<Rightarrow> schema" where "boolean_schema = typed_schema ''boolean''"

definition ref_schema :: "string \<Rightarrow> schema" where
  "ref_schema n = plain_schema (no_keywords\<lparr>sc_ref := Some (units (reference_prefix @ n))\<rparr>)"

definition array_schema :: "schema \<Rightarrow> schema" where
  "array_schema s =
     Schema (no_keywords\<lparr>sc_type := Some (units ''array'')\<rparr>) None None None (Some s) None Any_property"

definition all_schema :: "schema list \<Rightarrow> schema" where
  "all_schema ss = Schema no_keywords (Some ss) None None None None Any_property"

definition object_schema :: "schema additional \<Rightarrow> string list \<Rightarrow> (string \<times> schema) list \<Rightarrow> schema" where
  "object_schema extra required ps =
     Schema (no_keywords\<lparr>sc_type := Some (units ''object''), sc_required := Some (map units required)\<rparr>)
       None None None None (Some (named ps)) extra"

definition path_parameter :: "string \<Rightarrow> schema \<Rightarrow> op_parameter" where
  "path_parameter n s = \<lparr>pm_name = units n, pm_place = In_path, pm_required = True, pm_schema = s\<rparr>"

definition query_parameter :: "string \<Rightarrow> schema \<Rightarrow> op_parameter" where
  "query_parameter n s = \<lparr>pm_name = units n, pm_place = In_query, pm_required = False, pm_schema = s\<rparr>"

text \<open>An operation: a body is required where one is described.\<close>

definition sdk_operation ::
    "string \<Rightarrow> string \<Rightarrow> op_parameter list \<Rightarrow> schema option \<Rightarrow> (string \<times> schema option) list \<Rightarrow> operation" where
  "sdk_operation meth path ps body responses =
     \<lparr>op_method = meth, op_path = units path, op_parameters = ps, op_body = body, op_required = body \<noteq> None,
      op_responses = responses\<rparr>"

section \<open>The models\<close>

definition current_user_model :: schema where
  "current_user_model =
     object_schema (Allowed False)
     [''id'', ''kind'', ''href'', ''created_at'', ''updated_at'', ''username'', ''email'', ''name'', ''issuer'', ''subject'', ''expires_at'']
     [(''created_at'', text_schema (no_keywords\<lparr>sc_format := Some (units ''date-time'')\<rparr>)),
      (''email'', text_schema (no_keywords\<lparr>sc_maxLength := Some 320\<rparr>)),
      (''expires_at'', text_schema (no_keywords\<lparr>sc_format := Some (units ''date-time'')\<rparr>)),
      (''href'', text_schema (no_keywords\<lparr>sc_enum := Some (map (VString \<circ> units) [''/api/hypershell/v1/users/me''])\<rparr>)),
      (''id'', text_schema no_keywords),
      (''issuer'', text_schema (no_keywords\<lparr>sc_maxLength := Some 1024, sc_minLength := Some 1\<rparr>)),
      (''kind'', text_schema (no_keywords\<lparr>sc_enum := Some (map (VString \<circ> units) [''User''])\<rparr>)),
      (''name'', text_schema (no_keywords\<lparr>sc_maxLength := Some 255\<rparr>)),
      (''subject'', text_schema (no_keywords\<lparr>sc_maxLength := Some 255, sc_minLength := Some 1\<rparr>)),
      (''updated_at'', text_schema (no_keywords\<lparr>sc_format := Some (units ''date-time'')\<rparr>)),
      (''username'', text_schema (no_keywords\<lparr>sc_maxLength := Some 255, sc_minLength := Some 1\<rparr>))]"

definition error_model :: schema where
  "error_model =
     all_schema [ref_schema ''ObjectReference'',
     object_schema Any_property
     []
     [(''code'', text_schema no_keywords),
      (''operation_id'', text_schema no_keywords),
      (''reason'', text_schema no_keywords)]]"

definition gateway_model :: schema where
  "gateway_model =
     all_schema [ref_schema ''ObjectReference'',
     object_schema Any_property
     [''name'', ''cluster_id'', ''release_id'', ''namespace'']
     [(''active_sandbox_count'', integer_schema (no_keywords\<lparr>sc_format := Some (units ''int32''), sc_readOnly := True\<rparr>)),
      (''cluster_id'', text_schema no_keywords),
      (''console_address'', text_schema (no_keywords\<lparr>sc_readOnly := True\<rparr>)),
      (''created_by'', text_schema (no_keywords\<lparr>sc_readOnly := True\<rparr>)),
      (''credential_driver'', text_schema no_keywords),
      (''external_dns'', text_schema no_keywords),
      (''image'', text_schema no_keywords),
      (''name'', text_schema no_keywords),
      (''namespace'', text_schema (no_keywords\<lparr>sc_readOnly := True\<rparr>)),
      (''oidc'', text_schema (no_keywords\<lparr>sc_readOnly := True\<rparr>)),
      (''phase'', text_schema no_keywords),
      (''release_id'', text_schema no_keywords),
      (''route'', text_schema no_keywords),
      (''route_address'', text_schema (no_keywords\<lparr>sc_readOnly := True\<rparr>)),
      (''server_dns_names'', array_schema (text_schema no_keywords)),
      (''service_type'', text_schema no_keywords),
      (''status'', text_schema no_keywords),
      (''supervisor_image'', text_schema no_keywords),
      (''tls_mode'', text_schema no_keywords)]]"

definition gateway_list_model :: schema where
  "gateway_list_model =
     all_schema [ref_schema ''List'',
     object_schema Any_property
     []
     [(''items'', array_schema (ref_schema ''Gateway''))]]"

definition gateway_network_model :: schema where
  "gateway_network_model =
     all_schema [ref_schema ''ObjectReference'',
     object_schema Any_property
     [''name'']
     [(''hub_gateway_id'', text_schema no_keywords),
      (''name'', text_schema no_keywords),
      (''status'', text_schema no_keywords),
      (''topology'', text_schema no_keywords),
      (''tunnel_mode'', text_schema no_keywords)]]"

definition gateway_network_list_model :: schema where
  "gateway_network_list_model =
     all_schema [ref_schema ''List'',
     object_schema Any_property
     []
     [(''items'', array_schema (ref_schema ''GatewayNetwork''))]]"

definition gateway_network_patch_request_model :: schema where
  "gateway_network_patch_request_model =
     object_schema Any_property
     []
     [(''hub_gateway_id'', text_schema no_keywords),
      (''name'', text_schema no_keywords),
      (''status'', text_schema no_keywords),
      (''topology'', text_schema no_keywords),
      (''tunnel_mode'', text_schema no_keywords)]"

definition gateway_patch_request_model :: schema where
  "gateway_patch_request_model =
     object_schema (Allowed False)
     []
     [(''cluster_id'', text_schema no_keywords),
      (''credential_driver'', text_schema no_keywords),
      (''external_dns'', text_schema no_keywords),
      (''image'', text_schema no_keywords),
      (''name'', text_schema no_keywords),
      (''oidc'', text_schema no_keywords),
      (''phase'', text_schema no_keywords),
      (''release_id'', text_schema no_keywords),
      (''route'', text_schema no_keywords),
      (''server_dns_names'', array_schema (text_schema no_keywords)),
      (''service_type'', text_schema no_keywords),
      (''status'', text_schema no_keywords),
      (''supervisor_image'', text_schema no_keywords),
      (''tls_mode'', text_schema no_keywords)]"

definition gateway_release_model :: schema where
  "gateway_release_model =
     all_schema [ref_schema ''ObjectReference'',
     object_schema Any_property
     [''name'', ''image'']
     [(''canary_duration'', text_schema no_keywords),
      (''canary_percent'', integer_schema (no_keywords\<lparr>sc_format := Some (units ''int32'')\<rparr>)),
      (''image'', text_schema no_keywords),
      (''name'', text_schema no_keywords),
      (''rollout_strategy'', text_schema no_keywords),
      (''status'', text_schema no_keywords)]]"

definition gateway_release_list_model :: schema where
  "gateway_release_list_model =
     all_schema [ref_schema ''List'',
     object_schema Any_property
     []
     [(''items'', array_schema (ref_schema ''GatewayRelease''))]]"

definition gateway_release_patch_request_model :: schema where
  "gateway_release_patch_request_model =
     object_schema Any_property
     []
     [(''canary_duration'', text_schema no_keywords),
      (''canary_percent'', integer_schema (no_keywords\<lparr>sc_format := Some (units ''int32'')\<rparr>)),
      (''image'', text_schema no_keywords),
      (''name'', text_schema no_keywords),
      (''rollout_strategy'', text_schema no_keywords),
      (''status'', text_schema no_keywords)]"

definition list_model :: schema where
  "list_model =
     all_schema [object_schema Any_property
     []
     [(''kind'', text_schema no_keywords),
      (''page'', integer_schema no_keywords),
      (''size'', integer_schema no_keywords),
      (''total'', integer_schema no_keywords)],
     ref_schema ''ObjectReference'']"

definition managed_cluster_model :: schema where
  "managed_cluster_model =
     all_schema [ref_schema ''ObjectReference'',
     object_schema Any_property
     [''name'', ''provider'', ''kubeconfig_secret'']
     [(''api_server_url'', text_schema no_keywords),
      (''kubeconfig_secret'', text_schema no_keywords),
      (''name'', text_schema no_keywords),
      (''provider'', text_schema no_keywords),
      (''region'', text_schema no_keywords),
      (''status'', text_schema no_keywords)]]"

definition managed_cluster_list_model :: schema where
  "managed_cluster_list_model =
     all_schema [ref_schema ''List'',
     object_schema Any_property
     []
     [(''items'', array_schema (ref_schema ''ManagedCluster''))]]"

definition managed_cluster_patch_request_model :: schema where
  "managed_cluster_patch_request_model =
     object_schema Any_property
     []
     [(''api_server_url'', text_schema no_keywords),
      (''kubeconfig_secret'', text_schema no_keywords),
      (''name'', text_schema no_keywords),
      (''provider'', text_schema no_keywords),
      (''region'', text_schema no_keywords),
      (''status'', text_schema no_keywords)]"

definition object_reference_model :: schema where
  "object_reference_model =
     object_schema Any_property
     []
     [(''created_at'', text_schema (no_keywords\<lparr>sc_format := Some (units ''date-time'')\<rparr>)),
      (''href'', text_schema no_keywords),
      (''id'', text_schema no_keywords),
      (''kind'', text_schema no_keywords),
      (''updated_at'', text_schema (no_keywords\<lparr>sc_format := Some (units ''date-time'')\<rparr>))]"

definition service_account_capabilities_model :: schema where
  "service_account_capabilities_model =
     object_schema Any_property
     [''can_create'', ''allowed_roles'', ''can_manage_all'', ''expiration_policy'']
     [(''allowed_roles'', array_schema (ref_schema ''OpenShellGatewayServiceAccountRole'')),
      (''can_create'', boolean_schema no_keywords),
      (''can_manage_all'', boolean_schema no_keywords),
      (''expiration_policy'', ref_schema ''OpenShellGatewayServiceAccountExpirationPolicy'')]"

definition service_account_connection_model :: schema where
  "service_account_connection_model =
     object_schema Any_property
     [''gateway_name'', ''issuer'', ''token_endpoint'', ''grant_type'', ''client_id'', ''audience'', ''access_token_lifetime_seconds'']
     [(''access_token_lifetime_seconds'', integer_schema (no_keywords\<lparr>sc_maximum := Some 900, sc_minimum := Some 1\<rparr>)),
      (''audience'', text_schema no_keywords),
      (''client_id'', text_schema no_keywords),
      (''gateway_endpoint'', text_schema (no_keywords\<lparr>sc_format := Some (units ''uri'')\<rparr>)),
      (''gateway_name'', text_schema no_keywords),
      (''grant_type'', text_schema (no_keywords\<lparr>sc_enum := Some (map (VString \<circ> units) [''client_credentials''])\<rparr>)),
      (''issuer'', text_schema (no_keywords\<lparr>sc_format := Some (units ''uri'')\<rparr>)),
      (''token_endpoint'', text_schema (no_keywords\<lparr>sc_format := Some (units ''uri'')\<rparr>))]"

definition service_account_create_request_model :: schema where
  "service_account_create_request_model =
     object_schema (Allowed False)
     [''name'']
     [(''credential_type'', text_schema (no_keywords\<lparr>sc_enum := Some (map (VString \<circ> units) [''client_secret''])\<rparr>)),
      (''description'', text_schema (no_keywords\<lparr>sc_maxLength := Some 1024, sc_nullable := True\<rparr>)),
      (''expires_at'', text_schema (no_keywords\<lparr>sc_format := Some (units ''date-time'')\<rparr>)),
      (''name'', text_schema (no_keywords\<lparr>sc_maxLength := Some 128, sc_minLength := Some 1\<rparr>)),
      (''role'', ref_schema ''OpenShellGatewayServiceAccountRole'')]"

definition service_account_create_response_model :: schema where
  "service_account_create_response_model =
     all_schema [ref_schema ''OpenShellGatewayServiceAccountListItem'',
     object_schema Any_property
     [''credential'']
     [(''credential'', ref_schema ''OpenShellGatewayServiceAccountCredential'')]]"

definition service_account_credential_model :: schema where
  "service_account_credential_model =
     object_schema Any_property
     [''gateway_name'', ''issuer'', ''token_endpoint'', ''grant_type'', ''client_id'', ''client_secret'', ''audience'', ''access_token_lifetime_seconds'']
     [(''access_token_lifetime_seconds'', integer_schema (no_keywords\<lparr>sc_maximum := Some 900, sc_minimum := Some 1\<rparr>)),
      (''audience'', text_schema no_keywords),
      (''client_id'', text_schema no_keywords),
      (''client_secret'', text_schema (no_keywords\<lparr>sc_format := Some (units ''password''), sc_readOnly := True\<rparr>)),
      (''gateway_endpoint'', text_schema (no_keywords\<lparr>sc_format := Some (units ''uri'')\<rparr>)),
      (''gateway_name'', text_schema no_keywords),
      (''grant_type'', text_schema (no_keywords\<lparr>sc_enum := Some (map (VString \<circ> units) [''client_credentials''])\<rparr>)),
      (''issuer'', text_schema (no_keywords\<lparr>sc_format := Some (units ''uri'')\<rparr>)),
      (''token_endpoint'', text_schema (no_keywords\<lparr>sc_format := Some (units ''uri'')\<rparr>))]"

definition service_account_expiration_policy_model :: schema where
  "service_account_expiration_policy_model =
     object_schema Any_property
     [''default_seconds'', ''minimum_seconds'', ''maximum_seconds'']
     [(''default_seconds'', integer_schema (no_keywords\<lparr>sc_minimum := Some 3600\<rparr>)),
      (''maximum_seconds'', integer_schema (no_keywords\<lparr>sc_maximum := Some 31536000, sc_minimum := Some 3600\<rparr>)),
      (''minimum_seconds'', integer_schema (no_keywords\<lparr>sc_minimum := Some 3600\<rparr>))]"

definition service_account_get_response_model :: schema where
  "service_account_get_response_model =
     all_schema [ref_schema ''OpenShellGatewayServiceAccountListItem'',
     object_schema Any_property
     [''connection'']
     [(''connection'', ref_schema ''OpenShellGatewayServiceAccountConnection'')]]"

definition service_account_list_model :: schema where
  "service_account_list_model =
     object_schema Any_property
     [''page'', ''size'', ''total'', ''capabilities'', ''items'']
     [(''capabilities'', ref_schema ''OpenShellGatewayServiceAccountCapabilities''),
      (''items'', array_schema (ref_schema ''OpenShellGatewayServiceAccountListItem'')),
      (''page'', integer_schema no_keywords),
      (''size'', integer_schema no_keywords),
      (''total'', integer_schema no_keywords)]"

definition service_account_list_item_model :: schema where
  "service_account_list_item_model =
     object_schema Any_property
     [''id'', ''gateway_id'', ''name'', ''credential_type'', ''role'', ''status'', ''created_by_user_id'', ''client_id'', ''subject'', ''expires_at'', ''created_at'', ''updated_at'']
     [(''client_id'', text_schema no_keywords),
      (''created_at'', text_schema (no_keywords\<lparr>sc_format := Some (units ''date-time'')\<rparr>)),
      (''created_by_user_id'', text_schema no_keywords),
      (''credential_type'', text_schema (no_keywords\<lparr>sc_enum := Some (map (VString \<circ> units) [''client_secret''])\<rparr>)),
      (''description'', text_schema (no_keywords\<lparr>sc_nullable := True\<rparr>)),
      (''expires_at'', text_schema (no_keywords\<lparr>sc_format := Some (units ''date-time'')\<rparr>)),
      (''gateway_id'', text_schema no_keywords),
      (''id'', text_schema no_keywords),
      (''last_error'', text_schema (no_keywords\<lparr>sc_nullable := True\<rparr>)),
      (''name'', text_schema no_keywords),
      (''revoked_at'', text_schema (no_keywords\<lparr>sc_format := Some (units ''date-time''), sc_nullable := True\<rparr>)),
      (''role'', ref_schema ''OpenShellGatewayServiceAccountRole''),
      (''status'', ref_schema ''OpenShellGatewayServiceAccountStatus''),
      (''subject'', text_schema no_keywords),
      (''updated_at'', text_schema (no_keywords\<lparr>sc_format := Some (units ''date-time'')\<rparr>))]"

definition service_account_role_model :: schema where
  "service_account_role_model =
     text_schema (no_keywords\<lparr>sc_enum := Some (map (VString \<circ> units) [''openshell-user'', ''openshell-admin''])\<rparr>)"

definition service_account_status_model :: schema where
  "service_account_status_model =
     text_schema (no_keywords\<lparr>sc_enum := Some (map (VString \<circ> units) [''provisioning'', ''ready'', ''degraded'', ''expired'', ''revoking'', ''revoked'', ''deleting'', ''error''])\<rparr>)"

definition role_model :: schema where
  "role_model =
     all_schema [ref_schema ''ObjectReference'',
     object_schema Any_property
     [''name'']
     [(''built_in'', boolean_schema no_keywords),
      (''description'', text_schema no_keywords),
      (''display_name'', text_schema no_keywords),
      (''name'', text_schema no_keywords),
      (''permissions'', object_schema Any_property
     []
     [])]]"

definition role_binding_model :: schema where
  "role_binding_model =
     all_schema [ref_schema ''ObjectReference'',
     object_schema Any_property
     [''role_id'', ''scope'']
     [(''gateway_id'', text_schema no_keywords),
      (''role_id'', text_schema no_keywords),
      (''scope'', text_schema (no_keywords\<lparr>sc_enum := Some (map (VString \<circ> units) [''global'', ''gateway''])\<rparr>)),
      (''user_id'', text_schema no_keywords)]]"

definition role_binding_list_model :: schema where
  "role_binding_list_model =
     all_schema [ref_schema ''List'',
     object_schema Any_property
     []
     [(''items'', array_schema (ref_schema ''RoleBinding''))]]"

definition role_list_model :: schema where
  "role_list_model =
     all_schema [ref_schema ''List'',
     object_schema Any_property
     []
     [(''items'', array_schema (ref_schema ''Role''))]]"

definition gateway_create_request_model :: schema where
  "gateway_create_request_model =
     object_schema (Allowed False)
     [''name'', ''cluster_id'', ''release_id'']
     [(''cluster_id'', text_schema no_keywords),
      (''credential_driver'', text_schema no_keywords),
      (''external_dns'', text_schema no_keywords),
      (''image'', text_schema no_keywords),
      (''name'', text_schema no_keywords),
      (''oidc'', text_schema no_keywords),
      (''phase'', text_schema no_keywords),
      (''release_id'', text_schema no_keywords),
      (''route'', text_schema no_keywords),
      (''server_dns_names'', array_schema (text_schema no_keywords)),
      (''service_type'', text_schema no_keywords),
      (''status'', text_schema no_keywords),
      (''supervisor_image'', text_schema no_keywords),
      (''tls_mode'', text_schema no_keywords)]"

definition sdk_models :: "(string \<times> schema) list" where
  "sdk_models =
     [(''CurrentUser'', current_user_model),
      (''Error'', error_model),
      (''Gateway'', gateway_model),
      (''GatewayList'', gateway_list_model),
      (''GatewayNetwork'', gateway_network_model),
      (''GatewayNetworkList'', gateway_network_list_model),
      (''GatewayNetworkPatchRequest'', gateway_network_patch_request_model),
      (''GatewayPatchRequest'', gateway_patch_request_model),
      (''GatewayRelease'', gateway_release_model),
      (''GatewayReleaseList'', gateway_release_list_model),
      (''GatewayReleasePatchRequest'', gateway_release_patch_request_model),
      (''List'', list_model),
      (''ManagedCluster'', managed_cluster_model),
      (''ManagedClusterList'', managed_cluster_list_model),
      (''ManagedClusterPatchRequest'', managed_cluster_patch_request_model),
      (''ObjectReference'', object_reference_model),
      (''OpenShellGatewayServiceAccountCapabilities'', service_account_capabilities_model),
      (''OpenShellGatewayServiceAccountConnection'', service_account_connection_model),
      (''OpenShellGatewayServiceAccountCreateRequest'', service_account_create_request_model),
      (''OpenShellGatewayServiceAccountCreateResponse'', service_account_create_response_model),
      (''OpenShellGatewayServiceAccountCredential'', service_account_credential_model),
      (''OpenShellGatewayServiceAccountExpirationPolicy'', service_account_expiration_policy_model),
      (''OpenShellGatewayServiceAccountGetResponse'', service_account_get_response_model),
      (''OpenShellGatewayServiceAccountList'', service_account_list_model),
      (''OpenShellGatewayServiceAccountListItem'', service_account_list_item_model),
      (''OpenShellGatewayServiceAccountRole'', service_account_role_model),
      (''OpenShellGatewayServiceAccountStatus'', service_account_status_model),
      (''Role'', role_model),
      (''RoleBinding'', role_binding_model),
      (''RoleBindingList'', role_binding_list_model),
      (''RoleList'', role_list_model),
      (''openapi.gateways_GatewayCreateRequest'', gateway_create_request_model)]"

section \<open>The operations\<close>

definition op_createGateway :: operation where
  "op_createGateway =
     sdk_operation ''POST'' ''/api/hypershell/v1/gateways''
       []
       (Some (ref_schema ''openapi.gateways_GatewayCreateRequest'')) [(''201'', Some (ref_schema ''Gateway''))]"

definition op_createGatewayNetwork :: operation where
  "op_createGatewayNetwork =
     sdk_operation ''POST'' ''/api/hypershell/v1/gateway_networks''
       []
       (Some (ref_schema ''GatewayNetwork'')) [(''201'', Some (ref_schema ''GatewayNetwork''))]"

definition op_createGatewayRelease :: operation where
  "op_createGatewayRelease =
     sdk_operation ''POST'' ''/api/hypershell/v1/gateway_releases''
       []
       (Some (ref_schema ''GatewayRelease'')) [(''201'', Some (ref_schema ''GatewayRelease''))]"

definition op_createGatewayServiceAccount :: operation where
  "op_createGatewayServiceAccount =
     sdk_operation ''POST'' ''/api/hypershell/v1/gateways/{gateway_id}/service_accounts''
       [path_parameter ''gateway_id'' (text_schema no_keywords)]
       (Some (ref_schema ''OpenShellGatewayServiceAccountCreateRequest'')) [(''201'', Some (ref_schema ''OpenShellGatewayServiceAccountCreateResponse''))]"

definition op_createManagedCluster :: operation where
  "op_createManagedCluster =
     sdk_operation ''POST'' ''/api/hypershell/v1/managed_clusters''
       []
       (Some (ref_schema ''ManagedCluster'')) [(''201'', Some (ref_schema ''ManagedCluster''))]"

definition op_createRoleBinding :: operation where
  "op_createRoleBinding =
     sdk_operation ''POST'' ''/api/hypershell/v1/role_bindings''
       []
       (Some (ref_schema ''RoleBinding'')) [(''201'', Some (ref_schema ''RoleBinding''))]"

definition op_deleteGateway :: operation where
  "op_deleteGateway =
     sdk_operation ''DELETE'' ''/api/hypershell/v1/gateways/{id}''
       [path_parameter ''id'' (text_schema no_keywords)]
       None [(''202'', None)]"

definition op_deleteGatewayNetwork :: operation where
  "op_deleteGatewayNetwork =
     sdk_operation ''DELETE'' ''/api/hypershell/v1/gateway_networks/{id}''
       [path_parameter ''id'' (text_schema no_keywords)]
       None [(''204'', None)]"

definition op_deleteGatewayRelease :: operation where
  "op_deleteGatewayRelease =
     sdk_operation ''DELETE'' ''/api/hypershell/v1/gateway_releases/{id}''
       [path_parameter ''id'' (text_schema no_keywords)]
       None [(''204'', None)]"

definition op_deleteGatewayServiceAccount :: operation where
  "op_deleteGatewayServiceAccount =
     sdk_operation ''DELETE'' ''/api/hypershell/v1/gateways/{gateway_id}/service_accounts/{service_account_id}''
       [path_parameter ''gateway_id'' (text_schema no_keywords),
        path_parameter ''service_account_id'' (text_schema no_keywords)]
       None [(''202'', Some (ref_schema ''OpenShellGatewayServiceAccountListItem'')), (''204'', None)]"

definition op_deleteManagedCluster :: operation where
  "op_deleteManagedCluster =
     sdk_operation ''DELETE'' ''/api/hypershell/v1/managed_clusters/{id}''
       [path_parameter ''id'' (text_schema no_keywords)]
       None [(''204'', None)]"

definition op_deleteRoleBinding :: operation where
  "op_deleteRoleBinding =
     sdk_operation ''DELETE'' ''/api/hypershell/v1/role_bindings/{id}''
       [path_parameter ''id'' (text_schema no_keywords)]
       None [(''204'', None)]"

definition op_getCurrentUser :: operation where
  "op_getCurrentUser =
     sdk_operation ''GET'' ''/api/hypershell/v1/users/me''
       []
       None [(''200'', Some (ref_schema ''CurrentUser''))]"

definition op_getGateway :: operation where
  "op_getGateway =
     sdk_operation ''GET'' ''/api/hypershell/v1/gateways/{id}''
       [path_parameter ''id'' (text_schema no_keywords)]
       None [(''200'', Some (ref_schema ''Gateway''))]"

definition op_getGatewayNetwork :: operation where
  "op_getGatewayNetwork =
     sdk_operation ''GET'' ''/api/hypershell/v1/gateway_networks/{id}''
       [path_parameter ''id'' (text_schema no_keywords)]
       None [(''200'', Some (ref_schema ''GatewayNetwork''))]"

definition op_getGatewayRelease :: operation where
  "op_getGatewayRelease =
     sdk_operation ''GET'' ''/api/hypershell/v1/gateway_releases/{id}''
       [path_parameter ''id'' (text_schema no_keywords)]
       None [(''200'', Some (ref_schema ''GatewayRelease''))]"

definition op_getGatewayServiceAccount :: operation where
  "op_getGatewayServiceAccount =
     sdk_operation ''GET'' ''/api/hypershell/v1/gateways/{gateway_id}/service_accounts/{service_account_id}''
       [path_parameter ''gateway_id'' (text_schema no_keywords),
        path_parameter ''service_account_id'' (text_schema no_keywords)]
       None [(''200'', Some (ref_schema ''OpenShellGatewayServiceAccountGetResponse''))]"

definition op_getManagedCluster :: operation where
  "op_getManagedCluster =
     sdk_operation ''GET'' ''/api/hypershell/v1/managed_clusters/{id}''
       [path_parameter ''id'' (text_schema no_keywords)]
       None [(''200'', Some (ref_schema ''ManagedCluster''))]"

definition op_getMetadata :: operation where
  "op_getMetadata =
     sdk_operation ''GET'' ''/api/hypershell/v1/metadata''
       []
       None [(''200'', Some (ref_schema ''ObjectReference''))]"

definition op_getRole :: operation where
  "op_getRole =
     sdk_operation ''GET'' ''/api/hypershell/v1/roles/{id}''
       [path_parameter ''id'' (text_schema no_keywords)]
       None [(''200'', Some (ref_schema ''Role''))]"

definition op_getRoleBinding :: operation where
  "op_getRoleBinding =
     sdk_operation ''GET'' ''/api/hypershell/v1/role_bindings/{id}''
       [path_parameter ''id'' (text_schema no_keywords)]
       None [(''200'', Some (ref_schema ''RoleBinding''))]"

definition op_listGatewayNetworks :: operation where
  "op_listGatewayNetworks =
     sdk_operation ''GET'' ''/api/hypershell/v1/gateway_networks''
       [query_parameter ''fields'' (text_schema no_keywords),
        query_parameter ''orderBy'' (text_schema no_keywords),
        query_parameter ''page'' (integer_schema (no_keywords\<lparr>sc_minimum := Some 1\<rparr>)),
        query_parameter ''search'' (text_schema no_keywords),
        query_parameter ''size'' (integer_schema (no_keywords\<lparr>sc_minimum := Some 0\<rparr>))]
       None [(''200'', Some (ref_schema ''GatewayNetworkList''))]"

definition op_listGatewayReleases :: operation where
  "op_listGatewayReleases =
     sdk_operation ''GET'' ''/api/hypershell/v1/gateway_releases''
       [query_parameter ''fields'' (text_schema no_keywords),
        query_parameter ''orderBy'' (text_schema no_keywords),
        query_parameter ''page'' (integer_schema (no_keywords\<lparr>sc_minimum := Some 1\<rparr>)),
        query_parameter ''search'' (text_schema no_keywords),
        query_parameter ''size'' (integer_schema (no_keywords\<lparr>sc_minimum := Some 0\<rparr>))]
       None [(''200'', Some (ref_schema ''GatewayReleaseList''))]"

definition op_listGatewayServiceAccounts :: operation where
  "op_listGatewayServiceAccounts =
     sdk_operation ''GET'' ''/api/hypershell/v1/gateways/{gateway_id}/service_accounts''
       [path_parameter ''gateway_id'' (text_schema no_keywords),
        query_parameter ''order'' (text_schema (no_keywords\<lparr>sc_enum := Some (map (VString \<circ> units) [''asc'', ''desc''])\<rparr>)),
        query_parameter ''page'' (integer_schema (no_keywords\<lparr>sc_minimum := Some 1\<rparr>)),
        query_parameter ''search'' (text_schema no_keywords),
        query_parameter ''size'' (integer_schema (no_keywords\<lparr>sc_maximum := Some 100, sc_minimum := Some 1\<rparr>)),
        query_parameter ''sort'' (text_schema (no_keywords\<lparr>sc_enum := Some (map (VString \<circ> units) [''name'', ''role'', ''status'', ''expires_at'', ''created_at''])\<rparr>)),
        query_parameter ''status'' (text_schema (no_keywords\<lparr>sc_enum := Some (map (VString \<circ> units) [''provisioning'', ''ready'', ''degraded'', ''expired'', ''revoking'', ''revoked'', ''deleting'', ''error''])\<rparr>))]
       None [(''200'', Some (ref_schema ''OpenShellGatewayServiceAccountList''))]"

definition op_listGateways :: operation where
  "op_listGateways =
     sdk_operation ''GET'' ''/api/hypershell/v1/gateways''
       [query_parameter ''fields'' (text_schema no_keywords),
        query_parameter ''orderBy'' (text_schema no_keywords),
        query_parameter ''page'' (integer_schema (no_keywords\<lparr>sc_minimum := Some 1\<rparr>)),
        query_parameter ''search'' (text_schema no_keywords),
        query_parameter ''size'' (integer_schema (no_keywords\<lparr>sc_minimum := Some 0\<rparr>))]
       None [(''200'', Some (ref_schema ''GatewayList''))]"

definition op_listManagedClusters :: operation where
  "op_listManagedClusters =
     sdk_operation ''GET'' ''/api/hypershell/v1/managed_clusters''
       [query_parameter ''fields'' (text_schema no_keywords),
        query_parameter ''orderBy'' (text_schema no_keywords),
        query_parameter ''page'' (integer_schema (no_keywords\<lparr>sc_minimum := Some 1\<rparr>)),
        query_parameter ''search'' (text_schema no_keywords),
        query_parameter ''size'' (integer_schema (no_keywords\<lparr>sc_minimum := Some 0\<rparr>))]
       None [(''200'', Some (ref_schema ''ManagedClusterList''))]"

definition op_listRoleBindings :: operation where
  "op_listRoleBindings =
     sdk_operation ''GET'' ''/api/hypershell/v1/role_bindings''
       [query_parameter ''fields'' (text_schema no_keywords),
        query_parameter ''orderBy'' (text_schema no_keywords),
        query_parameter ''page'' (integer_schema (no_keywords\<lparr>sc_minimum := Some 1\<rparr>)),
        query_parameter ''search'' (text_schema no_keywords),
        query_parameter ''size'' (integer_schema (no_keywords\<lparr>sc_minimum := Some 0\<rparr>))]
       None [(''200'', Some (ref_schema ''RoleBindingList''))]"

definition op_listRoles :: operation where
  "op_listRoles =
     sdk_operation ''GET'' ''/api/hypershell/v1/roles''
       [query_parameter ''fields'' (text_schema no_keywords),
        query_parameter ''orderBy'' (text_schema no_keywords),
        query_parameter ''page'' (integer_schema (no_keywords\<lparr>sc_minimum := Some 1\<rparr>)),
        query_parameter ''search'' (text_schema no_keywords),
        query_parameter ''size'' (integer_schema (no_keywords\<lparr>sc_minimum := Some 0\<rparr>))]
       None [(''200'', Some (ref_schema ''RoleList''))]"

definition op_revokeGatewayServiceAccount :: operation where
  "op_revokeGatewayServiceAccount =
     sdk_operation ''POST'' ''/api/hypershell/v1/gateways/{gateway_id}/service_accounts/{service_account_id}/revoke''
       [path_parameter ''gateway_id'' (text_schema no_keywords),
        path_parameter ''service_account_id'' (text_schema no_keywords)]
       None [(''200'', Some (ref_schema ''OpenShellGatewayServiceAccountListItem'')), (''202'', Some (ref_schema ''OpenShellGatewayServiceAccountListItem''))]"

definition op_updateGateway :: operation where
  "op_updateGateway =
     sdk_operation ''PATCH'' ''/api/hypershell/v1/gateways/{id}''
       [path_parameter ''id'' (text_schema no_keywords)]
       (Some (ref_schema ''GatewayPatchRequest'')) [(''200'', Some (ref_schema ''Gateway''))]"

definition op_updateGatewayNetwork :: operation where
  "op_updateGatewayNetwork =
     sdk_operation ''PATCH'' ''/api/hypershell/v1/gateway_networks/{id}''
       [path_parameter ''id'' (text_schema no_keywords)]
       (Some (ref_schema ''GatewayNetworkPatchRequest'')) [(''200'', Some (ref_schema ''GatewayNetwork''))]"

definition op_updateGatewayRelease :: operation where
  "op_updateGatewayRelease =
     sdk_operation ''PATCH'' ''/api/hypershell/v1/gateway_releases/{id}''
       [path_parameter ''id'' (text_schema no_keywords)]
       (Some (ref_schema ''GatewayReleasePatchRequest'')) [(''200'', Some (ref_schema ''GatewayRelease''))]"

definition op_updateManagedCluster :: operation where
  "op_updateManagedCluster =
     sdk_operation ''PATCH'' ''/api/hypershell/v1/managed_clusters/{id}''
       [path_parameter ''id'' (text_schema no_keywords)]
       (Some (ref_schema ''ManagedClusterPatchRequest'')) [(''200'', Some (ref_schema ''ManagedCluster''))]"

definition sdk_operations :: "(string \<times> operation) list" where
  "sdk_operations =
     [(''createGateway'', op_createGateway),
      (''createGatewayNetwork'', op_createGatewayNetwork),
      (''createGatewayRelease'', op_createGatewayRelease),
      (''createGatewayServiceAccount'', op_createGatewayServiceAccount),
      (''createManagedCluster'', op_createManagedCluster),
      (''createRoleBinding'', op_createRoleBinding),
      (''deleteGateway'', op_deleteGateway),
      (''deleteGatewayNetwork'', op_deleteGatewayNetwork),
      (''deleteGatewayRelease'', op_deleteGatewayRelease),
      (''deleteGatewayServiceAccount'', op_deleteGatewayServiceAccount),
      (''deleteManagedCluster'', op_deleteManagedCluster),
      (''deleteRoleBinding'', op_deleteRoleBinding),
      (''getCurrentUser'', op_getCurrentUser),
      (''getGateway'', op_getGateway),
      (''getGatewayNetwork'', op_getGatewayNetwork),
      (''getGatewayRelease'', op_getGatewayRelease),
      (''getGatewayServiceAccount'', op_getGatewayServiceAccount),
      (''getManagedCluster'', op_getManagedCluster),
      (''getMetadata'', op_getMetadata),
      (''getRole'', op_getRole),
      (''getRoleBinding'', op_getRoleBinding),
      (''listGatewayNetworks'', op_listGatewayNetworks),
      (''listGatewayReleases'', op_listGatewayReleases),
      (''listGatewayServiceAccounts'', op_listGatewayServiceAccounts),
      (''listGateways'', op_listGateways),
      (''listManagedClusters'', op_listManagedClusters),
      (''listRoleBindings'', op_listRoleBindings),
      (''listRoles'', op_listRoles),
      (''revokeGatewayServiceAccount'', op_revokeGatewayServiceAccount),
      (''updateGateway'', op_updateGateway),
      (''updateGatewayNetwork'', op_updateGatewayNetwork),
      (''updateGatewayRelease'', op_updateGatewayRelease),
      (''updateManagedCluster'', op_updateManagedCluster)]"

text \<open>The client's contract; how \<open>JSON.stringify\<close> writes a fraction and which text is a URL are the platform's.\<close>

definition sdk_contract :: "(rat \<Rightarrow> js_text) \<Rightarrow> (js_text \<Rightarrow> bool) \<Rightarrow> client_contract" where
  "sdk_contract show_fraction is_url =
     \<lparr>models = named sdk_models, fraction_text = show_fraction, parses_url = is_url,
      error_codes = [units ''service_account_name_exists''], api_prefix = None\<rparr>"

definition sdk_schemas :: "(rat \<Rightarrow> js_text) \<Rightarrow> (js_text \<Rightarrow> bool) \<Rightarrow> contract" where
  "sdk_schemas show_fraction is_url = contract.truncate (sdk_contract show_fraction is_url)"

section \<open>Looking up a name\<close>

lemma units_eq_iff: "units a = units b \<longleftrightarrow> a = b"
proof -
  have "unit_of c = unit_of d \<longleftrightarrow> c = d" for c d
    by (metis char_of_char code_unit_def unat_unit_of)
  then have "inj unit_of" by (auto simp: inj_def)
  then show ?thesis unfolding units_def by (simp add: inj_map_eq_map)
qed

lemma map_of_named: "map_of (named xs) (units k) = map_of xs k"
  by (induction xs) (auto simp: named_def units_eq_iff simp del: units_simps)

lemma model_of_sdk:
  "model_of (sdk_schemas f u) (units (reference_prefix @ n)) = map_of sdk_models n"
  by (simp add: model_of_def sdk_schemas_def sdk_contract_def contract.truncate_def reference_prefix_def map_of_named
      del: units_simps(2)) (simp add: units_def flip: units_def map_of_named)

end
