(* ===== verification/Sdk_Views.thy ===== *)
theory Sdk_Views
  imports Sdk_Contract Control_Plane "HOL-Library.Monad_Syntax"
begin

text \<open>
  What an answer of the generated client is to the code that reads it. The client hands on the parsed body
  as it is; the adapter reads its properties at the types the client declares. A view is that reading: the
  properties of a value at their declared types, if it has them. The lemmas show that every answer the
  client's validator accepts against the contract has them, whatever the budget of the validation.
\<close>

section \<open>What acceptance says\<close>

definition accepts :: "nat \<Rightarrow> contract \<Rightarrow> direction \<Rightarrow> schema option \<Rightarrow> jvalue \<Rightarrow> bool" where
  "accepts k c d s v \<longleftrightarrow> (\<exists>b b'. validate k c d s v b = (Inr True, b'))"

lemma validates_accepts: "validates c d s (Some v) = Inr True \<Longrightarrow> accepts 49 c d s v"
  unfolding accepts_def validates_def option.case by (metis fst_conv prod.collapse)

lemma accepts_0 [simp]: "\<not> accepts 0 c d s v"
  by (simp add: accepts_def act_return_def)

lemma accepts_None [simp]: "\<not> accepts k c d None v"
  by (cases k) (simp_all add: accepts_def act_return_def)

lemma accepts_ref:
  "ref_of s = Some r \<Longrightarrow> accepts (Suc k) c d (Some s) v \<Longrightarrow> accepts k c d (model_of c r) v"
  by (auto simp: accepts_def act_and_True_iff)

lemma accepts_parts:
  assumes "ref_of s = None" "accepts (Suc k) c d (Some s) v"
  shows "\<exists>b b'. check_combinations (validate k c d) s v b = (Inr True, b')"
    and "in_enum c s v"
    and "\<exists>b b'. check_type (validate k c d) c d s v b = (Inr True, b')"
proof -
  obtain b b1 b' where b: "check_combinations (validate k c d) s v b = (Inr True, b1)"
    "(if in_enum c s v then check_type (validate k c d) c d s v else act_return False) b1 = (Inr True, b')"
    using assms by (auto simp: accepts_def act_and_True_iff)
  then show "\<exists>b b'. check_combinations (validate k c d) s v b = (Inr True, b')" by blast
  show "in_enum c s v" using b(2) by (auto simp: act_return_def split: if_splits)
  then show "\<exists>b b'. check_type (validate k c d) c d s v b = (Inr True, b')" using b(2) by auto
qed

lemma accepts_all_schema:
  assumes "accepts (Suc k) c d (Some (all_schema ss)) v" "s \<in> set ss"
  shows "accepts k c d (Some s) v"
proof -
  have "ref_of (all_schema ss) = None" "all_of (all_schema ss) = Some ss"
    by (simp_all add: all_schema_def ref_of_def no_keywords_def)
  from accepts_parts(1) [OF this(1) assms(1)] this(2) obtain b b1 where
    "act_every (\<lambda>x. validate k c d (Some x) v) ss b = (Inr True, b1)"
    by (auto simp: check_combinations_def act_and_True_iff)
  from act_every_True [OF this assms(2)] show ?thesis by (auto simp: accepts_def)
qed

text \<open>A schema of one type accepts values of that type, and \<open>null\<close> where it may.\<close>

lemma type_names:
  "units ''integer'' \<noteq> units ''string''" "units ''boolean'' \<noteq> units ''string''"
  "units ''boolean'' \<noteq> units ''number''" "units ''boolean'' \<noteq> units ''integer''"
  "units ''array'' \<noteq> units ''string''" "units ''array'' \<noteq> units ''number''"
  "units ''array'' \<noteq> units ''integer''" "units ''array'' \<noteq> units ''boolean''"
  "units ''object'' \<noteq> units ''string''" "units ''object'' \<noteq> units ''number''"
  "units ''object'' \<noteq> units ''integer''" "units ''object'' \<noteq> units ''boolean''"
  "units ''object'' \<noteq> units ''array''"
  by (simp_all only: units_eq_iff) simp_all

lemma typed_schema_parts:
  assumes "sc_ref k = None"
  shows "ref_of (typed_schema t k) = None" "sc_type (keys_of (typed_schema t k)) = Some (units t)"
    "keys_of (typed_schema t k) = k\<lparr>sc_type := Some (units t)\<rparr>"
  using assms by (simp_all add: typed_schema_def plain_schema_def ref_of_def del: units_simps)

lemma accepts_text:
  assumes "accepts (Suc n) c d (Some (text_schema k)) v" "sc_ref k = None"
  shows "v = VNull \<and> sc_nullable k \<or>
    (\<exists>t. v = VString t \<and> unicode t \<and> in_limits (sc_minLength k) (sc_maxLength k) (length (code_points t)))"
proof -
  note p = typed_schema_parts [OF assms(2), of "''string''"]
  from accepts_parts(3) [OF p(1) assms(1) [unfolded text_schema_def]] show ?thesis
    by (auto simp: check_type_def check_string_def act_and_True_iff act_return_def p(2,3) Let_def
        simp del: units_simps split: if_splits jvalue.splits)
qed

lemma accepts_integer:
  assumes "accepts (Suc n) c d (Some (integer_schema k)) v" "sc_ref k = None" "\<not> sc_nullable k"
  shows "\<exists>q. v = VNumber q \<and> is_safe_int q"
proof -
  note p = typed_schema_parts [OF assms(2), of "''integer''"]
  from accepts_parts(3) [OF p(1) assms(1) [unfolded integer_schema_def]] assms(3) show ?thesis
    by (auto simp: check_type_def check_number_def act_return_def p(2,3) Let_def type_names
        simp del: units_simps split: if_splits jvalue.splits)
qed

lemma accepts_boolean:
  assumes "accepts (Suc n) c d (Some (boolean_schema k)) v" "sc_ref k = None" "\<not> sc_nullable k"
  shows "\<exists>b. v = VBool b"
proof -
  note p = typed_schema_parts [OF assms(2), of "''boolean''"]
  from accepts_parts(3) [OF p(1) assms(1) [unfolded boolean_schema_def]] assms(3) show ?thesis
    by (auto simp: check_type_def act_return_def p(2,3) Let_def type_names
        simp del: units_simps split: if_splits jvalue.splits)
qed

lemma accepts_array:
  assumes "accepts (Suc n) c d (Some (array_schema s)) v"
  shows "\<exists>vs. v = VArray vs \<and> (\<forall>x \<in> set vs. accepts n c d (Some s) x)"
proof -
  have p: "ref_of (array_schema s) = None" "items_of (array_schema s) = Some s"
    "keys_of (array_schema s) = no_keywords\<lparr>sc_type := Some (units ''array'')\<rparr>"
    by (simp_all add: array_schema_def ref_of_def no_keywords_def del: units_simps)
  from accepts_parts(3) [OF p(1) assms] obtain b b' where
    "check_type (validate n c d) c d (array_schema s) v b = (Inr True, b')" by blast
  then obtain vs where vs: "v = VArray vs" "act_every (validate n c d (Some s)) vs b = (Inr True, b')"
    by (auto simp: check_type_def check_array_def act_return_def p(2,3) no_keywords_def Let_def type_names
        simp del: units_simps split: if_splits jvalue.splits)
  then show ?thesis using act_every_True by (fastforce simp: accepts_def)
qed

text \<open>An object schema accepts objects with its required properties, each described one accepted itself.\<close>

lemma accepts_object:
  assumes "accepts (Suc n) c d (Some (object_schema extra req ps)) v"
  shows "\<exists>vs. v = VObject vs \<and>
    (\<forall>r \<in> set req. required_conforms c d (object_schema extra req ps) vs (units r)) \<and>
    (\<forall>k x p. map_of ps k = Some p \<longrightarrow> (units k, x) \<in> set vs \<longrightarrow> accepts n c d (resolved c (Some p)) x)"
proof -
  let ?s = "object_schema extra req ps"
  have p: "ref_of ?s = None" "props_of ?s = named ps" "sc_required (keys_of ?s) = Some (map units req)"
    "sc_type (keys_of ?s) = Some (units ''object'')" "\<not> sc_nullable (keys_of ?s)"
    by (simp_all add: object_schema_def ref_of_def props_of_def no_keywords_def del: units_simps)
  from accepts_parts(3) [OF p(1) assms] obtain b b' where
    "check_type (validate n c d) c d ?s v b = (Inr True, b')" by blast
  then obtain vs b1 where vs: "v = VObject vs"
      "act_every (check_required c d ?s vs) (map units req) b = (Inr True, b1)"
      "act_every (check_property (validate n c d) c d ?s) vs b1 = (Inr True, b')"
    by (auto simp: check_type_def check_object_def act_return_def act_and_True_iff p(3-5) Let_def type_names
        simp del: units_simps split: if_splits jvalue.splits)
  have "required_conforms c d ?s vs (units r)" if "r \<in> set req" for r
    using act_every_True [OF vs(2)] check_required_True that by fastforce
  moreover have "accepts n c d (resolved c (Some q)) x" if "map_of ps k = Some q" "(units k, x) \<in> set vs" for k x q
  proof -
    from act_every_True [OF vs(3) that(2)] obtain e e' where
      "check_property (validate n c d) c d ?s (units k, x) e = (Inr True, e')" by blast
    then show ?thesis using that(1)
      by (auto simp: check_property_def find_field_def p(2) map_of_named resolved_def act_simps accepts_def
          simp del: units_simps split: option.splits if_splits)
  qed
  ultimately show ?thesis using vs(1) by blast
qed

section \<open>Reading a property at its type\<close>

text \<open>Text is read as characters, which stand for the code units below 256; \<open>latin\<close> values hold no other text.\<close>

definition char_text :: "js_text \<Rightarrow> string option" where
  "char_text t = (if list_all (\<lambda>u. u < 256) t then Some (map (\<lambda>u. char_of (unat u)) t) else None)"

fun latin :: "jvalue \<Rightarrow> bool" where
  "latin (VString t) = list_all (\<lambda>u. u < 256) t"
| "latin (VArray vs) = list_all latin vs"
| "latin (VObject ps) = list_all (\<lambda>p. latin (snd p)) ps"
| "latin _ = True"

definition text_at :: "jvalue \<Rightarrow> string \<Rightarrow> string option" where
  "text_at v k = (case own_property v k of Some (VString t) \<Rightarrow> char_text t | _ \<Rightarrow> None)"

text \<open>An optional property: absent and \<open>null\<close> read alike.\<close>

definition text_if_at :: "jvalue \<Rightarrow> string \<Rightarrow> string option option" where
  "text_if_at v k =
     (case own_property v k of
        None \<Rightarrow> Some None | Some VNull \<Rightarrow> Some None
      | Some (VString t) \<Rightarrow> map_option Some (char_text t) | _ \<Rightarrow> None)"

definition int_of_value :: "jvalue \<Rightarrow> int option" where
  "int_of_value v = (case v of VNumber q \<Rightarrow> if is_integer q then Some \<lfloor>q\<rfloor> else None | _ \<Rightarrow> None)"

definition int_at :: "jvalue \<Rightarrow> string \<Rightarrow> int option" where
  "int_at v k = Option.bind (own_property v k) int_of_value"

definition int_if_at :: "jvalue \<Rightarrow> string \<Rightarrow> int option option" where
  "int_if_at v k =
     (case own_property v k of None \<Rightarrow> Some None | Some VNull \<Rightarrow> Some None
      | Some x \<Rightarrow> map_option Some (int_of_value x))"

definition bool_at :: "jvalue \<Rightarrow> string \<Rightarrow> bool option" where
  "bool_at v k = (case own_property v k of Some (VBool b) \<Rightarrow> Some b | _ \<Rightarrow> None)"

definition items_of_value :: "(jvalue \<Rightarrow> 'a option) \<Rightarrow> jvalue \<Rightarrow> 'a list option" where
  "items_of_value view v = (case v of VArray vs \<Rightarrow> those (map view vs) | _ \<Rightarrow> None)"

definition items_at :: "(jvalue \<Rightarrow> 'a option) \<Rightarrow> jvalue \<Rightarrow> string \<Rightarrow> 'a list option" where
  "items_at view v k = Option.bind (own_property v k) (items_of_value view)"

definition items_if_at :: "(jvalue \<Rightarrow> 'a option) \<Rightarrow> jvalue \<Rightarrow> string \<Rightarrow> 'a list option option" where
  "items_if_at view v k =
     (case own_property v k of None \<Rightarrow> Some None | Some VNull \<Rightarrow> Some None
      | Some x \<Rightarrow> map_option Some (items_of_value view x))"

definition part_at :: "(jvalue \<Rightarrow> 'a option) \<Rightarrow> jvalue \<Rightarrow> string \<Rightarrow> 'a option" where
  "part_at view v k = Option.bind (own_property v k) view"

lemma latin_property: "latin v \<Longrightarrow> own_property v k = Some x \<Longrightarrow> latin x"
  by (cases v) (fastforce simp: own_property_def list_all_iff simp del: units_simps dest: map_of_SomeD)+

lemma latin_text: "latin (VString t) \<Longrightarrow> char_text t \<noteq> None"
  by (simp add: char_text_def)

lemma those_None: "those xs = None \<longleftrightarrow> None \<in> set xs"
  by (induction xs) (auto split: option.split)

lemma items_read:
  "items_of_value view (VArray vs) \<noteq> None \<longleftrightarrow> (\<forall>x \<in> set vs. view x \<noteq> None)"
  by (auto simp: items_of_value_def those_None image_iff) (metis not_None_eq)

section \<open>Reading accepted values\<close>

named_theorems reads \<open>an accepted value has the property at its type\<close>

text \<open>The kinds of property schema, by what they let a value be\<close>

definition readable :: "(schema_keywords \<Rightarrow> schema) \<Rightarrow> (string \<times> schema) list \<Rightarrow> string \<Rightarrow> bool" where
  "readable kind ps k \<longleftrightarrow>
     (case map_of ps k of None \<Rightarrow> False
      | Some s \<Rightarrow> (let K = keys_of s
          in s = kind K \<and> sc_ref K = None \<and> \<not> sc_nullable K \<and> \<not> sc_writeOnly K))"

definition optional_text :: "(string \<times> schema) list \<Rightarrow> string \<Rightarrow> bool" where
  "optional_text ps k \<longleftrightarrow>
     (case map_of ps k of None \<Rightarrow> False | Some s \<Rightarrow> s = text_schema (keys_of s) \<and> sc_ref (keys_of s) = None)"

lemma keys_of_kinds [simp]:
  "keys_of (text_schema k) = k\<lparr>sc_type := Some (units ''string'')\<rparr>"
  "keys_of (integer_schema k) = k\<lparr>sc_type := Some (units ''integer'')\<rparr>"
  "keys_of (boolean_schema k) = k\<lparr>sc_type := Some (units ''boolean'')\<rparr>"
  by (simp_all add: text_schema_def integer_schema_def boolean_schema_def typed_schema_def plain_schema_def del: units_simps)

lemma kinds_again [simp]:
  "text_schema (k\<lparr>sc_type := t\<rparr>) = text_schema k"
  "integer_schema (k\<lparr>sc_type := t\<rparr>) = integer_schema k"
  "boolean_schema (k\<lparr>sc_type := t\<rparr>) = boolean_schema k"
  by (simp_all add: text_schema_def integer_schema_def boolean_schema_def typed_schema_def del: units_simps)

lemma resolved_self: "ref_of s = None \<Longrightarrow> resolved c (Some s) = Some s"
  by (simp add: resolved_def annotation_def)

lemma resolved_kinds:
  "sc_ref k = None \<Longrightarrow> resolved c (Some (text_schema k)) = Some (text_schema k)"
  "sc_ref k = None \<Longrightarrow> resolved c (Some (integer_schema k)) = Some (integer_schema k)"
  "sc_ref k = None \<Longrightarrow> resolved c (Some (boolean_schema k)) = Some (boolean_schema k)"
  "resolved c (Some (array_schema s)) = Some (array_schema s)"
  by (simp_all add: resolved_self ref_of_def array_schema_def no_keywords_def del: units_simps)

lemma property_accepts:
  assumes "accepts (Suc n) c d (Some (object_schema extra req ps)) v" "map_of ps k = Some p" "own_property v k = Some x"
  shows "accepts n c d (resolved c (Some p)) x"
proof -
  obtain vs where vs: "v = VObject vs"
    "\<And>k x p. map_of ps k = Some p \<Longrightarrow> (units k, x) \<in> set vs \<Longrightarrow> accepts n c d (resolved c (Some p)) x"
    using accepts_object [OF assms(1)] by blast
  then have "(units k, x) \<in> set vs" using assms(3) by (simp add: own_property_def map_of_SomeD del: units_simps)
  then show ?thesis by (rule vs(2) [OF assms(2)])
qed

lemma property_required:
  assumes "accepts (Suc n) c Response (Some (object_schema extra req ps)) v" "k \<in> set req" "map_of ps k = Some p"
    and "resolved c (Some p) = Some f" "\<not> sc_writeOnly (keys_of f)"
  shows "\<exists>x. own_property v k = Some x \<and> accepts n c Response (Some f) x"
proof -
  have props: "props_of (object_schema extra req ps) = named ps" by (simp add: props_of_def object_schema_def)
  obtain vs where vs: "v = VObject vs" "required_conforms c Response (object_schema extra req ps) vs (units k)"
    using accepts_object [OF assms(1)] assms(2) by blast
  then have "units k \<in> set (map fst vs)"
    using assms(3-5) by (simp add: required_conforms_def props map_of_named hidden_def del: units_simps)
  then obtain x where "own_property v k = Some x"
    by (auto simp: vs(1) own_property_def dest: weak_map_of_SomeI simp del: units_simps)
  then show ?thesis using property_accepts [OF assms(1,3)] assms(4) by auto
qed

lemma text_at_read [reads]:
  assumes "accepts (Suc (Suc n)) c Response (Some (object_schema extra req ps)) v" "latin v"
    and "k \<in> set req" "readable text_schema ps k"
  shows "text_at v k \<noteq> None"
proof -
  obtain K where K: "map_of ps k = Some (text_schema K)" "sc_ref K = None" "\<not> sc_nullable K" "\<not> sc_writeOnly K"
    using assms(4) by (auto simp: readable_def Let_def split: option.splits)
  from property_required [OF assms(1,3) K(1) resolved_kinds(1) [OF K(2)]] K(4)
  obtain x where x: "own_property v k = Some x" "accepts (Suc n) c Response (Some (text_schema K)) x" by auto
  from accepts_text [OF x(2) K(2)] K(3) latin_property [OF assms(2) x(1)] show ?thesis
    by (auto simp: text_at_def x(1) char_text_def)
qed

lemma text_if_at_read [reads]:
  assumes "accepts (Suc (Suc n)) c d (Some (object_schema extra req ps)) v" "latin v" "optional_text ps k"
  shows "text_if_at v k \<noteq> None"
proof (cases "own_property v k")
  case (Some x)
  obtain K where K: "map_of ps k = Some (text_schema K)" "sc_ref K = None"
    using assms(3) by (auto simp: optional_text_def split: option.splits)
  from accepts_text [OF property_accepts [OF assms(1) K(1) Some, unfolded resolved_kinds(1) [OF K(2)]] K(2)]
    latin_property [OF assms(2) Some]
  show ?thesis by (auto simp: text_if_at_def Some char_text_def)
qed (simp add: text_if_at_def)

lemma safe_is_integer: "is_safe_int q \<Longrightarrow> is_integer q"
  by (simp add: is_safe_int_def)

lemma int_at_read [reads]:
  assumes "accepts (Suc (Suc n)) c Response (Some (object_schema extra req ps)) v"
    and "k \<in> set req" "readable integer_schema ps k"
  shows "int_at v k \<noteq> None"
proof -
  obtain K where K: "map_of ps k = Some (integer_schema K)" "sc_ref K = None" "\<not> sc_nullable K" "\<not> sc_writeOnly K"
    using assms(3) by (auto simp: readable_def Let_def split: option.splits)
  from property_required [OF assms(1,2) K(1) resolved_kinds(2) [OF K(2)]] K(4)
  obtain x where x: "own_property v k = Some x" "accepts (Suc n) c Response (Some (integer_schema K)) x" by auto
  from accepts_integer [OF x(2) K(2,3)] show ?thesis
    by (auto simp: int_at_def x(1) int_of_value_def safe_is_integer)
qed

lemma int_if_at_read [reads]:
  assumes "accepts (Suc (Suc n)) c d (Some (object_schema extra req ps)) v" "readable integer_schema ps k"
  shows "int_if_at v k \<noteq> None"
proof (cases "own_property v k")
  case (Some x)
  obtain K where K: "map_of ps k = Some (integer_schema K)" "sc_ref K = None" "\<not> sc_nullable K"
    using assms(2) by (auto simp: readable_def Let_def split: option.splits)
  from accepts_integer [OF property_accepts [OF assms(1) K(1) Some, unfolded resolved_kinds(2) [OF K(2)]] K(2,3)]
  show ?thesis by (auto simp: int_if_at_def Some int_of_value_def safe_is_integer)
qed (simp add: int_if_at_def)

lemma bool_at_read [reads]:
  assumes "accepts (Suc (Suc n)) c Response (Some (object_schema extra req ps)) v"
    and "k \<in> set req" "readable boolean_schema ps k"
  shows "bool_at v k \<noteq> None"
proof -
  obtain K where K: "map_of ps k = Some (boolean_schema K)" "sc_ref K = None" "\<not> sc_nullable K" "\<not> sc_writeOnly K"
    using assms(3) by (auto simp: readable_def Let_def split: option.splits)
  from property_required [OF assms(1,2) K(1) resolved_kinds(3) [OF K(2)]] K(4)
  obtain x where x: "own_property v k = Some x" "accepts (Suc n) c Response (Some (boolean_schema K)) x" by auto
  from accepts_boolean [OF x(2) K(2,3)] show ?thesis by (auto simp: bool_at_def x(1))
qed

section \<open>The views\<close>

definition role_of_text :: "string \<Rightarrow> account_role option" where
  "role_of_text s = find (\<lambda>r. account_role_str r = s) [RoleAdmin, RoleUser]"

definition status_of_text :: "string \<Rightarrow> account_status option" where
  "status_of_text s = find (\<lambda>r. account_status_str r = s)
     [StDegraded, StDeleting, StError, StExpired, StProvisioning, StReady, StRevoked, StRevoking]"

definition role_of_value :: "jvalue \<Rightarrow> account_role option" where
  "role_of_value v = (case v of VString t \<Rightarrow> Option.bind (char_text t) role_of_text | _ \<Rightarrow> None)"

definition status_of_value :: "jvalue \<Rightarrow> account_status option" where
  "status_of_value v = (case v of VString t \<Rightarrow> Option.bind (char_text t) status_of_text | _ \<Rightarrow> None)"

definition gateway_view :: "jvalue \<Rightarrow> api_gateway option" where
  "gateway_view v = do {
     sandboxes \<leftarrow> int_if_at v ''active_sandbox_count'';
     cluster \<leftarrow> text_at v ''cluster_id'';
     console \<leftarrow> text_if_at v ''console_address'';
     created_at \<leftarrow> text_if_at v ''created_at'';
     created_by \<leftarrow> text_if_at v ''created_by'';
     dns \<leftarrow> text_if_at v ''external_dns'';
     gid \<leftarrow> text_if_at v ''id'';
     name \<leftarrow> text_at v ''name'';
     namespace \<leftarrow> text_at v ''namespace'';
     oidc \<leftarrow> text_if_at v ''oidc'';
     phase \<leftarrow> text_if_at v ''phase'';
     release \<leftarrow> text_at v ''release_id'';
     address \<leftarrow> text_if_at v ''route_address'';
     status \<leftarrow> text_if_at v ''status'';
     Some \<lparr>ag_active_sandbox_count = sandboxes, ag_cluster_id = cluster, ag_console_address = console,
       ag_created_at = created_at, ag_created_by = created_by, ag_external_dns = dns, ag_id = gid, ag_name = name,
       ag_namespace = namespace, ag_oidc = oidc, ag_phase = phase, ag_release_id = release,
       ag_route_address = address, ag_status = status\<rparr>}"

definition cluster_view :: "jvalue \<Rightarrow> api_cluster option" where
  "cluster_view v = do {
     cid \<leftarrow> text_if_at v ''id'';
     name \<leftarrow> text_at v ''name'';
     provider \<leftarrow> text_at v ''provider'';
     region \<leftarrow> text_if_at v ''region'';
     status \<leftarrow> text_if_at v ''status'';
     Some \<lparr>mc_id = cid, mc_name = name, mc_provider = provider, mc_region = region, mc_status = status\<rparr>}"

definition account_view :: "jvalue \<Rightarrow> api_account option" where
  "account_view v = do {
     client \<leftarrow> text_at v ''client_id'';
     created_at \<leftarrow> text_at v ''created_at'';
     created_by \<leftarrow> text_at v ''created_by_user_id'';
     description \<leftarrow> text_if_at v ''description'';
     expires \<leftarrow> text_at v ''expires_at'';
     gateway \<leftarrow> text_at v ''gateway_id'';
     aid \<leftarrow> text_at v ''id'';
     error \<leftarrow> text_if_at v ''last_error'';
     name \<leftarrow> text_at v ''name'';
     revoked \<leftarrow> text_if_at v ''revoked_at'';
     role \<leftarrow> part_at role_of_value v ''role'';
     status \<leftarrow> part_at status_of_value v ''status'';
     subject \<leftarrow> text_at v ''subject'';
     updated \<leftarrow> text_at v ''updated_at'';
     Some \<lparr>aa_client_id = client, aa_created_at = created_at, aa_created_by_user_id = created_by,
       aa_description = description, aa_expires_at = expires, aa_gateway_id = gateway, aa_id = aid,
       aa_last_error = error, aa_name = name, aa_revoked_at = revoked, aa_role = role, aa_status = status,
       aa_subject = subject, aa_updated_at = updated\<rparr>}"

definition connection_view :: "jvalue \<Rightarrow> api_connection option" where
  "connection_view v = do {
     lifetime \<leftarrow> int_at v ''access_token_lifetime_seconds'';
     audience \<leftarrow> text_at v ''audience'';
     client \<leftarrow> text_at v ''client_id'';
     endpoint \<leftarrow> text_if_at v ''gateway_endpoint'';
     name \<leftarrow> text_at v ''gateway_name'';
     issuer \<leftarrow> text_at v ''issuer'';
     token_endpoint \<leftarrow> text_at v ''token_endpoint'';
     Some \<lparr>an_lifetime = lifetime, an_audience = audience, an_client_id = client, an_gateway_endpoint = endpoint,
       an_gateway_name = name, an_issuer = issuer, an_token_endpoint = token_endpoint\<rparr>}"

definition credential_view :: "jvalue \<Rightarrow> api_credential option" where
  "credential_view v = do {
     connection \<leftarrow> connection_view v;
     secret \<leftarrow> text_at v ''client_secret'';
     Some (api_connection.extend connection \<lparr>an_client_secret = secret\<rparr>)}"

definition policy_view :: "jvalue \<Rightarrow> (int \<times> int \<times> int) option" where
  "policy_view v = do {
     usual \<leftarrow> int_at v ''default_seconds'';
     most \<leftarrow> int_at v ''maximum_seconds'';
     least \<leftarrow> int_at v ''minimum_seconds'';
     Some (usual, most, least)}"

definition capabilities_view :: "jvalue \<Rightarrow> api_capabilities option" where
  "capabilities_view v = do {
     roles \<leftarrow> items_at role_of_value v ''allowed_roles'';
     create \<leftarrow> bool_at v ''can_create'';
     manage \<leftarrow> bool_at v ''can_manage_all'';
     (usual, most, least) \<leftarrow> part_at policy_view v ''expiration_policy'';
     Some \<lparr>ak_allowed_roles = roles, ak_can_create = create, ak_can_manage_all = manage,
       ak_default_seconds = usual, ak_maximum_seconds = most, ak_minimum_seconds = least\<rparr>}"

definition page_view :: "(jvalue \<Rightarrow> 'a option) \<Rightarrow> jvalue \<Rightarrow> 'a api_list option" where
  "page_view view v = do {
     page \<leftarrow> int_if_at v ''page'';
     total \<leftarrow> int_if_at v ''total'';
     items \<leftarrow> items_if_at view v ''items'';
     Some \<lparr>al_page = map_option Integral page, al_total = map_option Integral total, al_items = items\<rparr>}"

definition accounts_view :: "jvalue \<Rightarrow> api_account_list option" where
  "accounts_view v = do {
     page \<leftarrow> page_view account_view v;
     capabilities \<leftarrow> part_at capabilities_view v ''capabilities'';
     count \<leftarrow> int_at v ''size'';
     Some (api_list.extend page \<lparr>al_capabilities = capabilities, al_size = count\<rparr>)}"

definition created_view :: "jvalue \<Rightarrow> (api_account \<times> api_credential) option" where
  "created_view v = do {
     account \<leftarrow> account_view v;
     credential \<leftarrow> part_at credential_view v ''credential'';
     Some (account, credential)}"

definition account_detail_view :: "jvalue \<Rightarrow> (api_account \<times> api_connection) option" where
  "account_detail_view v = do {
     account \<leftarrow> account_view v;
     connection \<leftarrow> part_at connection_view v ''connection'';
     Some (account, connection)}"

section \<open>The models of the contract\<close>

lemma sdk_models [simp]:
  "map_of sdk_models ''Gateway'' = Some gateway_model"
  "map_of sdk_models ''GatewayList'' = Some gateway_list_model"
  "map_of sdk_models ''List'' = Some list_model"
  "map_of sdk_models ''ObjectReference'' = Some object_reference_model"
  "map_of sdk_models ''ManagedCluster'' = Some managed_cluster_model"
  "map_of sdk_models ''ManagedClusterList'' = Some managed_cluster_list_model"
  "map_of sdk_models ''OpenShellGatewayServiceAccountRole'' = Some service_account_role_model"
  "map_of sdk_models ''OpenShellGatewayServiceAccountStatus'' = Some service_account_status_model"
  "map_of sdk_models ''OpenShellGatewayServiceAccountListItem'' = Some service_account_list_item_model"
  "map_of sdk_models ''OpenShellGatewayServiceAccountCredential'' = Some service_account_credential_model"
  "map_of sdk_models ''OpenShellGatewayServiceAccountConnection'' = Some service_account_connection_model"
  "map_of sdk_models ''OpenShellGatewayServiceAccountCapabilities'' = Some service_account_capabilities_model"
  "map_of sdk_models ''OpenShellGatewayServiceAccountExpirationPolicy'' = Some service_account_expiration_policy_model"
  "map_of sdk_models ''OpenShellGatewayServiceAccountCreateResponse'' = Some service_account_create_response_model"
  "map_of sdk_models ''OpenShellGatewayServiceAccountGetResponse'' = Some service_account_get_response_model"
  "map_of sdk_models ''OpenShellGatewayServiceAccountList'' = Some service_account_list_model"
  "map_of sdk_models ''OpenShellGatewayServiceAccountCreateRequest'' = Some service_account_create_request_model"
  by (simp_all add: sdk_models_def)

lemma ref_of_ref_schema: "ref_of (ref_schema n) = Some (units (reference_prefix @ n))"
  by (simp add: ref_of_def ref_schema_def plain_schema_def reference_prefix_def)

lemma accepts_sdk_ref:
  assumes "accepts (Suc k) (sdk_schemas f u) d (Some (ref_schema n)) v"
  shows "accepts k (sdk_schemas f u) d (map_of sdk_models n) v"
  using accepts_ref [OF ref_of_ref_schema assms] by (simp only: model_of_sdk)

lemma resolved_ref:
  assumes "map_of sdk_models n = Some m" "ref_of m = None"
  shows "resolved (sdk_schemas f u) (Some (ref_schema n)) = Some m"
  using assms by (simp add: resolved_def annotation_def ref_of_ref_schema model_of_sdk del: units_simps)
    (cases "length (contract.models (sdk_schemas f u))"; simp add: follow.simps)

lemma no_ref [simp]:
  "ref_of (object_schema extra req ps) = None" "ref_of (all_schema ss) = None"
  "sc_ref k = None \<Longrightarrow> ref_of (text_schema k) = None"
  by (simp_all add: object_schema_def all_schema_def text_schema_def typed_schema_def plain_schema_def ref_of_def
      no_keywords_def del: units_simps)

lemma no_keywords_simps [simp]:
  "sc_ref no_keywords = None" "\<not> sc_nullable no_keywords" "\<not> sc_writeOnly no_keywords"
  "\<not> sc_writeOnly (keys_of (object_schema extra req ps))"
  by (simp_all add: no_keywords_def object_schema_def)

lemma property_part:
  assumes "accepts (Suc n) (sdk_schemas f u) Response (Some (object_schema extra req ps)) v"
    and "k \<in> set req" "map_of ps k = Some (ref_schema r)" "map_of sdk_models r = Some m" "ref_of m = None"
    and "\<not> sc_writeOnly (keys_of m)"
  shows "\<exists>x. own_property v k = Some x \<and> accepts n (sdk_schemas f u) Response (Some m) x"
  using property_required [OF assms(1-3) resolved_ref [OF assms(4,5)] assms(6)] .

section \<open>Enumerations\<close>

lemma unit_of_small: "unit_of c < 256"
  by (simp add: word_less_nat_alt unat_unit_of code_unit_def)

lemma char_text_units [simp]: "char_text (units s) = Some s"
  by (simp add: char_text_def units_def list_all_iff unit_of_small unat_unit_of code_unit_def comp_def)

lemma unicode_small: "list_all (\<lambda>u. u < 256) t \<Longrightarrow> unicode t"
  by (induction t) (auto simp: is_high_def is_low_def word_less_nat_alt word_le_nat_alt)

lemma unicode_units: "unicode (units s)"
  by (rule unicode_small) (simp add: units_def list_all_iff unit_of_small)

lemma quoted_inj:
  assumes "unicode s" "unicode t" "quoted s = quoted t"
  shows "s = t"
  using parse_quoted [OF assms(1), of "[]"] parse_quoted [OF assms(2), of "[]"] unfolding assms(3) by simp

lemma accepts_enum:
  assumes "accepts (Suc n) c d (Some (text_schema (k\<lparr>sc_enum := Some (map (VString \<circ> units) es)\<rparr>))) v"
    and "sc_ref k = None" "\<not> sc_nullable k"
  shows "\<exists>e \<in> set es. v = VString (units e)"
proof -
  let ?s = "text_schema (k\<lparr>sc_enum := Some (map (VString \<circ> units) es)\<rparr>)"
  obtain t where t: "v = VString t" "unicode t" using accepts_text [OF assms(1)] assms(2,3) by auto
  have "in_enum c ?s v" by (rule accepts_parts(2) [OF _ assms(1)]) (simp add: assms(2))
  then obtain e where "e \<in> set es" "quoted (units e) = quoted t"
    by (auto simp: in_enum_def t(1) list_ex_iff simp del: units_simps)
  then show ?thesis using t quoted_inj [OF unicode_units t(2)] by blast
qed

lemma role_read:
  assumes "accepts (Suc n) c d (Some service_account_role_model) v"
  shows "role_of_value v \<noteq> None"
  using accepts_enum [OF assms [unfolded service_account_role_model_def]]
  by (auto simp: role_of_value_def role_of_text_def simp del: units_simps)

lemma status_read:
  assumes "accepts (Suc n) c d (Some service_account_status_model) v"
  shows "status_of_value v \<noteq> None"
  using accepts_enum [OF assms [unfolded service_account_status_model_def]]
  by (auto simp: status_of_value_def status_of_text_def simp del: units_simps)

section \<open>Every accepted answer has its view\<close>

lemma part_at_read:
  assumes "accepts (Suc n) (sdk_schemas f u) Response (Some (object_schema extra req ps)) v" "latin v"
    and "\<And>x. accepts n (sdk_schemas f u) Response (Some m) x \<Longrightarrow> latin x \<Longrightarrow> view x \<noteq> None"
    and "map_of sdk_models r = Some m" "ref_of m = None" "\<not> sc_writeOnly (keys_of m)"
    and "k \<in> set req" "map_of ps k = Some (ref_schema r)"
  shows "part_at view v k \<noteq> None"
  using property_part [OF assms(1,7,8,4,5,6)] assms(2,3) latin_property [of v k]
  by (auto simp: part_at_def)

lemma reference_read:
  assumes "accepts (Suc n) (sdk_schemas f u) d (Some (ref_schema ''ObjectReference'')) v"
  obtains req ps where "accepts n (sdk_schemas f u) d (Some (object_schema Any_property req ps)) v"
    "optional_text ps ''id''" "optional_text ps ''created_at''"
  using accepts_sdk_ref [OF assms]
  by (simp add: object_reference_model_def optional_text_def)

lemmas view_simps = bind_eq_None_conv readable_def optional_text_def

lemma gateway_read:
  assumes "accepts (Suc (Suc (Suc (Suc n)))) (sdk_schemas f u) Response (Some gateway_model) v" "latin v"
  shows "gateway_view v \<noteq> None"
proof -
  note parts = accepts_all_schema [OF assms(1) [unfolded gateway_model_def]]
  obtain req ps where r: "accepts (Suc (Suc n)) (sdk_schemas f u) Response (Some (object_schema Any_property req ps)) v"
    "optional_text ps ''id''" "optional_text ps ''created_at''"
    by (rule reference_read [OF parts]) simp_all
  note own = parts [OF list.set_intros(2) [OF list.set_intros(1)]]
  show ?thesis
    unfolding gateway_view_def
    by (simp del: not_None_eq add: text_if_at_read [OF r(1) assms(2) r(2)] text_if_at_read [OF r(1) assms(2) r(3)]
        text_at_read [OF own assms(2)] text_if_at_read [OF own assms(2)] int_if_at_read [OF own] view_simps)
qed

lemma cluster_read:
  assumes "accepts (Suc (Suc (Suc (Suc n)))) (sdk_schemas f u) Response (Some managed_cluster_model) v" "latin v"
  shows "cluster_view v \<noteq> None"
proof -
  note parts = accepts_all_schema [OF assms(1) [unfolded managed_cluster_model_def]]
  obtain req ps where r: "accepts (Suc (Suc n)) (sdk_schemas f u) Response (Some (object_schema Any_property req ps)) v"
    "optional_text ps ''id''" by (rule reference_read [OF parts]) simp_all
  note own = parts [OF list.set_intros(2) [OF list.set_intros(1)]]
  show ?thesis
    unfolding cluster_view_def
    by (simp del: not_None_eq add: text_if_at_read [OF r(1) assms(2) r(2)]
        text_at_read [OF own assms(2)] text_if_at_read [OF own assms(2)] view_simps)
qed

lemma account_read:
  assumes "accepts (Suc (Suc n)) (sdk_schemas f u) Response (Some service_account_list_item_model) v" "latin v"
  shows "account_view v \<noteq> None"
proof -
  note own = assms(1) [unfolded service_account_list_item_model_def]
  have "part_at role_of_value v ''role'' \<noteq> None"
    by (rule part_at_read [where r = "''OpenShellGatewayServiceAccountRole''", OF own assms(2) role_read], assumption)
      (simp_all add: service_account_role_model_def)
  moreover have "part_at status_of_value v ''status'' \<noteq> None"
    by (rule part_at_read [where r = "''OpenShellGatewayServiceAccountStatus''", OF own assms(2) status_read], assumption)
      (simp_all add: service_account_status_model_def)
  ultimately show ?thesis
    unfolding account_view_def
    by (simp del: not_None_eq add: text_at_read [OF own assms(2)] text_if_at_read [OF own assms(2)] view_simps)
qed

lemma connection_read:
  assumes "accepts (Suc (Suc n)) (sdk_schemas f u) Response (Some m) v" "latin v"
    and "m = service_account_connection_model \<or> m = service_account_credential_model"
  shows "connection_view v \<noteq> None"
  using assms(3)
proof
  assume m: "m = service_account_connection_model"
  note own = assms(1) [unfolded m service_account_connection_model_def]
  show ?thesis unfolding connection_view_def
    by (simp del: not_None_eq add: text_at_read [OF own assms(2)] text_if_at_read [OF own assms(2)]
        int_at_read [OF own] view_simps)
next
  assume m: "m = service_account_credential_model"
  note own = assms(1) [unfolded m service_account_credential_model_def]
  show ?thesis unfolding connection_view_def
    by (simp del: not_None_eq add: text_at_read [OF own assms(2)] text_if_at_read [OF own assms(2)]
        int_at_read [OF own] view_simps)
qed

lemma credential_read:
  assumes "accepts (Suc (Suc n)) (sdk_schemas f u) Response (Some service_account_credential_model) v" "latin v"
  shows "credential_view v \<noteq> None"
proof -
  note own = assms(1) [unfolded service_account_credential_model_def]
  show ?thesis unfolding credential_view_def
    by (simp del: not_None_eq add: connection_read [OF assms] text_at_read [OF own assms(2)] view_simps)
qed

lemma policy_read:
  assumes "accepts (Suc (Suc n)) (sdk_schemas f u) Response (Some service_account_expiration_policy_model) v"
  shows "policy_view v \<noteq> None"
proof -
  note own = assms [unfolded service_account_expiration_policy_model_def]
  show ?thesis unfolding policy_view_def
    by (simp del: not_None_eq add: int_at_read [OF own] view_simps)
qed

lemma roles_read:
  assumes "accepts (Suc (Suc (Suc n))) (sdk_schemas f u) d
    (Some (array_schema (ref_schema ''OpenShellGatewayServiceAccountRole''))) v"
  shows "items_of_value role_of_value v \<noteq> None"
proof -
  obtain vs where vs: "v = VArray vs"
    "\<And>x. x \<in> set vs \<Longrightarrow> accepts (Suc (Suc n)) (sdk_schemas f u) d (Some (ref_schema ''OpenShellGatewayServiceAccountRole'')) x"
    using accepts_array [OF assms] by blast
  have "role_of_value x \<noteq> None" if "x \<in> set vs" for x
    using accepts_sdk_ref [OF vs(2) [OF that]] by (intro role_read) simp
  then show ?thesis unfolding vs(1) items_read by blast
qed

lemma items_at_read:
  assumes "accepts (Suc n) (sdk_schemas f u) Response (Some (object_schema extra req ps)) v"
    and "\<And>x. accepts n (sdk_schemas f u) Response (Some (array_schema s)) x \<Longrightarrow> items_of_value view x \<noteq> None"
    and "k \<in> set req" "map_of ps k = Some (array_schema s)"
  shows "items_at view v k \<noteq> None"
  using property_required [OF assms(1,3,4) resolved_kinds(4)] assms(2)
  by (auto simp: items_at_def array_schema_def no_keywords_def)

lemma capabilities_read:
  assumes "accepts (Suc (Suc (Suc (Suc n)))) (sdk_schemas f u) Response (Some service_account_capabilities_model) v" "latin v"
  shows "capabilities_view v \<noteq> None"
proof -
  note own = assms(1) [unfolded service_account_capabilities_model_def]
  have "items_at role_of_value v ''allowed_roles'' \<noteq> None"
    by (rule items_at_read [OF own roles_read]) simp_all
  moreover have "part_at policy_view v ''expiration_policy'' \<noteq> None"
    by (rule part_at_read [where r = "''OpenShellGatewayServiceAccountExpirationPolicy''", OF own assms(2) policy_read], assumption)
      (simp_all add: service_account_expiration_policy_model_def)
  ultimately show ?thesis unfolding capabilities_view_def
    by (simp del: not_None_eq add: bool_at_read [OF own] view_simps split: prod.split)
qed

lemma items_if_at_read:
  assumes "accepts (Suc n) (sdk_schemas f u) d (Some (object_schema extra req ps)) v"
    and "\<And>x. own_property v k = Some x \<Longrightarrow> accepts n (sdk_schemas f u) d (Some (array_schema s)) x \<Longrightarrow>
      items_of_value view x \<noteq> None"
    and "map_of ps k = Some (array_schema s)"
  shows "items_if_at view v k \<noteq> None"
proof (cases "own_property v k")
  case (Some x)
  from property_accepts [OF assms(1,3) Some, unfolded resolved_kinds(4)] assms(2) [OF Some]
  show ?thesis by (auto simp: items_if_at_def Some split: jvalue.split)
qed (simp add: items_if_at_def)

text \<open>An array of references to a model whose values have a view\<close>

lemma array_read:
  assumes "accepts (Suc (Suc n)) (sdk_schemas f u) d (Some (array_schema (ref_schema r))) v" "latin v"
    and "map_of sdk_models r = Some m"
    and "\<And>x. accepts n (sdk_schemas f u) d (Some m) x \<Longrightarrow> latin x \<Longrightarrow> view x \<noteq> None"
  shows "items_of_value view v \<noteq> None"
proof -
  obtain vs where vs: "v = VArray vs" "\<And>x. x \<in> set vs \<Longrightarrow> accepts (Suc n) (sdk_schemas f u) d (Some (ref_schema r)) x"
    using accepts_array [OF assms(1)] by blast
  have "view x \<noteq> None" if "x \<in> set vs" for x
    using accepts_sdk_ref [OF vs(2) [OF that]] that assms(2,3)
    by (intro assms(4)) (simp_all add: vs(1) list_all_iff)
  then show ?thesis unfolding vs(1) items_read by blast
qed

lemma list_read:
  assumes "accepts (Suc (Suc (Suc (Suc (Suc n))))) (sdk_schemas f u) d
    (Some (all_schema [ref_schema ''List'', object_schema Any_property [] [(''items'', array_schema (ref_schema r))]])) v"
    and "latin v" "map_of sdk_models r = Some m"
    and "\<And>x. accepts (Suc n) (sdk_schemas f u) d (Some m) x \<Longrightarrow> latin x \<Longrightarrow> view x \<noteq> None"
  shows "page_view view v \<noteq> None"
proof -
  note parts = accepts_all_schema [OF assms(1)]
  have "accepts (Suc (Suc (Suc (Suc n)))) (sdk_schemas f u) d (Some (ref_schema ''List'')) v" by (rule parts) simp
  from accepts_sdk_ref [OF this] have "accepts (Suc (Suc (Suc n))) (sdk_schemas f u) d (Some list_model) v" by simp
  note page = accepts_all_schema [OF this [unfolded list_model_def] list.set_intros(1)]
  note own = parts [OF list.set_intros(2) [OF list.set_intros(1)]]
  have "items_if_at view v ''items'' \<noteq> None"
    by (rule items_if_at_read [OF own], rule array_read [OF _ _ assms(3,4)])
      (simp_all add: latin_property [OF assms(2)])
  then show ?thesis unfolding page_view_def
    by (simp del: not_None_eq add: int_if_at_read [OF page] view_simps)
qed

lemma accounts_read:
  assumes "accepts (Suc (Suc (Suc (Suc (Suc n))))) (sdk_schemas f u) Response (Some service_account_list_model) v"
    and "latin v"
  shows "accounts_view v \<noteq> None"
proof -
  note own = assms(1) [unfolded service_account_list_model_def]
  have "items_if_at account_view v ''items'' \<noteq> None"
    by (rule items_if_at_read [OF own], rule array_read [OF _ _ sdk_models(9) account_read])
      (simp_all add: latin_property [OF assms(2)])
  then have "page_view account_view v \<noteq> None" unfolding page_view_def
    by (simp del: not_None_eq add: int_if_at_read [OF own] view_simps)
  moreover have "part_at capabilities_view v ''capabilities'' \<noteq> None"
    by (rule part_at_read [where r = "''OpenShellGatewayServiceAccountCapabilities''", OF own assms(2) capabilities_read],
        assumption) (simp_all add: service_account_capabilities_model_def)
  ultimately show ?thesis unfolding accounts_view_def
    by (simp del: not_None_eq add: int_at_read [OF own] view_simps)
qed

text \<open>An account with a further part, as the answers to its creation and to its reading are\<close>

lemma account_with_part:
  assumes "accepts (Suc (Suc (Suc (Suc n)))) (sdk_schemas f u) Response
    (Some (all_schema [ref_schema ''OpenShellGatewayServiceAccountListItem'',
      object_schema Any_property [k] [(k, ref_schema r)]])) v" "latin v"
    and "map_of sdk_models r = Some m" "ref_of m = None" "\<not> sc_writeOnly (keys_of m)"
    and "\<And>x. accepts (Suc (Suc n)) (sdk_schemas f u) Response (Some m) x \<Longrightarrow> latin x \<Longrightarrow> view x \<noteq> None"
  shows "account_view v \<noteq> None" "part_at view v k \<noteq> None"
proof -
  note parts = accepts_all_schema [OF assms(1)]
  have "accepts (Suc (Suc (Suc n))) (sdk_schemas f u) Response
      (Some (ref_schema ''OpenShellGatewayServiceAccountListItem'')) v" by (rule parts) simp
  from accepts_sdk_ref [OF this] show "account_view v \<noteq> None" by (intro account_read [OF _ assms(2)]) simp
  show "part_at view v k \<noteq> None"
    by (rule part_at_read [OF parts [OF list.set_intros(2) [OF list.set_intros(1)]] assms(2,6,3,4,5)]) simp_all
qed

lemma created_read:
  assumes "accepts (Suc (Suc (Suc (Suc n)))) (sdk_schemas f u) Response
    (Some service_account_create_response_model) v" "latin v"
  shows "created_view v \<noteq> None"
proof -
  note parts = account_with_part [OF assms(1) [unfolded service_account_create_response_model_def] assms(2)
      sdk_models(10) _ _ credential_read]
  have "ref_of service_account_credential_model = None" "\<not> sc_writeOnly (keys_of service_account_credential_model)"
    by (simp_all add: service_account_credential_model_def)
  with parts show ?thesis unfolding created_view_def by (simp del: not_None_eq add: view_simps)
qed

lemma account_detail_read:
  assumes "accepts (Suc (Suc (Suc (Suc n)))) (sdk_schemas f u) Response
    (Some service_account_get_response_model) v" "latin v"
  shows "account_detail_view v \<noteq> None"
proof -
  note parts = account_with_part [OF assms(1) [unfolded service_account_get_response_model_def] assms(2)
      sdk_models(11) _ _ connection_read]
  have "ref_of service_account_connection_model = None" "\<not> sc_writeOnly (keys_of service_account_connection_model)"
    by (simp_all add: service_account_connection_model_def)
  with parts show ?thesis unfolding account_detail_view_def by (simp del: not_None_eq add: view_simps)
qed

section \<open>The answers of the operations\<close>

text \<open>The body of an operation's result at the type the client declares for it\<close>

definition typed_reply :: "string \<Rightarrow> jvalue option \<Rightarrow> bool" where
  "typed_reply name body =
     (case body of
        None \<Rightarrow> name \<in> {''deleteGateway'', ''deleteGatewayServiceAccount''}
      | Some v \<Rightarrow>
          (name \<in> {''createGateway'', ''getGateway'', ''updateGateway''} \<longrightarrow> gateway_view v \<noteq> None) \<and>
          (name = ''listGateways'' \<longrightarrow> page_view gateway_view v \<noteq> None) \<and>
          (name = ''getManagedCluster'' \<longrightarrow> cluster_view v \<noteq> None) \<and>
          (name = ''listManagedClusters'' \<longrightarrow> page_view cluster_view v \<noteq> None) \<and>
          (name = ''createGatewayServiceAccount'' \<longrightarrow> created_view v \<noteq> None) \<and>
          (name = ''getGatewayServiceAccount'' \<longrightarrow> account_detail_view v \<noteq> None) \<and>
          (name = ''listGatewayServiceAccounts'' \<longrightarrow> accounts_view v \<noteq> None) \<and>
          (name \<in> {''revokeGatewayServiceAccount'', ''deleteGatewayServiceAccount''} \<longrightarrow> account_view v \<noteq> None))"

text \<open>The operations the adapter calls\<close>

definition console_operations :: "string list" where
  "console_operations =
     [''createGateway'', ''deleteGateway'', ''getGateway'', ''listGateways'', ''updateGateway'',
      ''getManagedCluster'', ''listManagedClusters'', ''createGatewayServiceAccount'',
      ''deleteGatewayServiceAccount'', ''getGatewayServiceAccount'', ''listGatewayServiceAccounts'',
      ''revokeGatewayServiceAccount'']"

lemma reply_accepted:
  assumes "check_reply (sdk_contract f u) op r = Inr r"
  shows "\<exists>status s. (status, s) \<in> set (op_responses op) \<and>
    (case s of None \<Rightarrow> rp_body r = None
     | Some s \<Rightarrow> \<exists>v. rp_body r = Some v \<and> accepts 49 (sdk_schemas f u) Response (Some s) v)"
proof -
  obtain s where s: "map_of (op_responses op) (show_int (int (rp_status r))) = Some s"
    "case s of None \<Rightarrow> rp_body r = None
     | Some s \<Rightarrow> validates (sdk_schemas f u) Response (Some s) (rp_body r) = Inr True"
    using assms by (auto simp: check_reply_def sdk_schemas_def split: option.splits sum.splits if_splits bool.splits)
  have "case s of None \<Rightarrow> rp_body r = None
     | Some s \<Rightarrow> \<exists>v. rp_body r = Some v \<and> accepts 49 (sdk_schemas f u) Response (Some s) v"
    using s(2)
    by (cases "rp_body r") (auto simp: validates_def [of _ _ _ None] intro: validates_accepts split: option.splits)
  then show ?thesis using map_of_SomeD [OF s(1)] by blast
qed

lemma sdk_ops [simp]:
  "map_of sdk_operations ''createGateway'' = Some op_createGateway"
  "map_of sdk_operations ''deleteGateway'' = Some op_deleteGateway"
  "map_of sdk_operations ''getGateway'' = Some op_getGateway"
  "map_of sdk_operations ''listGateways'' = Some op_listGateways"
  "map_of sdk_operations ''updateGateway'' = Some op_updateGateway"
  "map_of sdk_operations ''getManagedCluster'' = Some op_getManagedCluster"
  "map_of sdk_operations ''listManagedClusters'' = Some op_listManagedClusters"
  "map_of sdk_operations ''createGatewayServiceAccount'' = Some op_createGatewayServiceAccount"
  "map_of sdk_operations ''deleteGatewayServiceAccount'' = Some op_deleteGatewayServiceAccount"
  "map_of sdk_operations ''getGatewayServiceAccount'' = Some op_getGatewayServiceAccount"
  "map_of sdk_operations ''listGatewayServiceAccounts'' = Some op_listGatewayServiceAccounts"
  "map_of sdk_operations ''revokeGatewayServiceAccount'' = Some op_revokeGatewayServiceAccount"
  by (simp_all add: sdk_operations_def)

text \<open>The schemas of the answers, whatever their status\<close>

lemma console_responses:
  "snd ` set (op_responses op_createGateway) = {Some (ref_schema ''Gateway'')}"
  "snd ` set (op_responses op_deleteGateway) = {None}"
  "snd ` set (op_responses op_getGateway) = {Some (ref_schema ''Gateway'')}"
  "snd ` set (op_responses op_listGateways) = {Some (ref_schema ''GatewayList'')}"
  "snd ` set (op_responses op_updateGateway) = {Some (ref_schema ''Gateway'')}"
  "snd ` set (op_responses op_getManagedCluster) = {Some (ref_schema ''ManagedCluster'')}"
  "snd ` set (op_responses op_listManagedClusters) = {Some (ref_schema ''ManagedClusterList'')}"
  "snd ` set (op_responses op_createGatewayServiceAccount) =
     {Some (ref_schema ''OpenShellGatewayServiceAccountCreateResponse'')}"
  "snd ` set (op_responses op_deleteGatewayServiceAccount) =
     {Some (ref_schema ''OpenShellGatewayServiceAccountListItem''), None}"
  "snd ` set (op_responses op_getGatewayServiceAccount) =
     {Some (ref_schema ''OpenShellGatewayServiceAccountGetResponse'')}"
  "snd ` set (op_responses op_listGatewayServiceAccounts) =
     {Some (ref_schema ''OpenShellGatewayServiceAccountList'')}"
  "snd ` set (op_responses op_revokeGatewayServiceAccount) =
     {Some (ref_schema ''OpenShellGatewayServiceAccountListItem'')}"
  by (simp_all add: op_createGateway_def op_deleteGateway_def op_getGateway_def op_listGateways_def
      op_updateGateway_def op_getManagedCluster_def op_listManagedClusters_def op_createGatewayServiceAccount_def
      op_deleteGatewayServiceAccount_def op_getGatewayServiceAccount_def op_listGatewayServiceAccounts_def
      op_revokeGatewayServiceAccount_def sdk_operation_def)

text \<open>A model that an answer refers to, its view, and the answers with such a body\<close>

definition has_view :: "schema \<Rightarrow> (jvalue \<Rightarrow> 'a option) \<Rightarrow> bool" where
  "has_view m view \<longleftrightarrow>
     (\<forall>f u v. accepts 48 (sdk_schemas f u) Response (Some m) v \<longrightarrow> latin v \<longrightarrow> view v \<noteq> None)"

lemma accepted_reference:
  assumes "check_reply (sdk_contract f u) op r = Inr r" "\<And>v. rp_body r = Some v \<Longrightarrow> latin v"
    and "snd ` set (op_responses op) \<subseteq> {Some (ref_schema n), None}" "map_of sdk_models n = Some m"
    and "has_view m view"
  shows "case rp_body r of None \<Rightarrow> None \<in> snd ` set (op_responses op) | Some v \<Rightarrow> view v \<noteq> None"
proof -
  obtain status s where s: "(status, s) \<in> set (op_responses op)"
    "case s of None \<Rightarrow> rp_body r = None
     | Some s \<Rightarrow> \<exists>v. rp_body r = Some v \<and> accepts 49 (sdk_schemas f u) Response (Some s) v"
    using reply_accepted [OF assms(1)] by blast
  have "s \<in> snd ` set (op_responses op)" using s(1) by (metis image_eqI snd_conv)
  then have "s \<in> {Some (ref_schema n), None}" by (rule subsetD [OF assms(3)])
  then consider "s = Some (ref_schema n)" | "s = None" by auto
  then show ?thesis
  proof cases
    case 1
    then obtain v where v: "rp_body r = Some v" "accepts 49 (sdk_schemas f u) Response (Some (ref_schema n)) v"
      using s(2) by auto
    have "accepts 48 (sdk_schemas f u) Response (Some m) v"
      using accepts_sdk_ref [of 48 f u Response n v] v(2) assms(4) by simp
    with assms(2) [OF v(1)] assms(5) have "view v \<noteq> None" unfolding has_view_def by blast
    then show ?thesis unfolding v(1) option.case .
  next
    case 2
    then show ?thesis using s(2) \<open>s \<in> snd ` set (op_responses op)\<close> by simp
  qed
qed

lemma suc_depth: "(48 :: nat) = Suc (Suc (Suc (Suc (Suc (Suc (Suc (Suc 40)))))))" by simp

lemmas list_views_read =
  list_read [OF _ _ sdk_models(1) gateway_read, folded gateway_list_model_def]
  list_read [OF _ _ sdk_models(5) cluster_read, folded managed_cluster_list_model_def]

lemma views_read:
  "has_view gateway_model gateway_view" "has_view gateway_list_model (page_view gateway_view)"
  "has_view managed_cluster_model cluster_view" "has_view managed_cluster_list_model (page_view cluster_view)"
  "has_view service_account_list_item_model account_view"
  "has_view service_account_create_response_model created_view"
  "has_view service_account_get_response_model account_detail_view"
  "has_view service_account_list_model accounts_view"
  unfolding has_view_def suc_depth
  subgoal by (intro allI impI) (rule gateway_read)
  subgoal by (intro allI impI) (rule list_views_read(1))
  subgoal by (intro allI impI) (rule cluster_read)
  subgoal by (intro allI impI) (rule list_views_read(2))
  subgoal by (intro allI impI) (rule account_read)
  subgoal by (intro allI impI) (rule created_read)
  subgoal by (intro allI impI) (rule account_detail_read)
  subgoal by (intro allI impI) (rule accounts_read)
  done

text \<open>The reply of each operation of the console, once the client has checked it\<close>

lemma checked_reply_typed:
  assumes "check_reply (sdk_contract f u) op r = Inr r" "\<And>v. rp_body r = Some v \<Longrightarrow> latin v"
  shows "op = op_createGateway \<Longrightarrow> typed_reply ''createGateway'' (rp_body r)"
    and "op = op_deleteGateway \<Longrightarrow> typed_reply ''deleteGateway'' (rp_body r)"
    and "op = op_getGateway \<Longrightarrow> typed_reply ''getGateway'' (rp_body r)"
    and "op = op_listGateways \<Longrightarrow> typed_reply ''listGateways'' (rp_body r)"
    and "op = op_updateGateway \<Longrightarrow> typed_reply ''updateGateway'' (rp_body r)"
    and "op = op_getManagedCluster \<Longrightarrow> typed_reply ''getManagedCluster'' (rp_body r)"
    and "op = op_listManagedClusters \<Longrightarrow> typed_reply ''listManagedClusters'' (rp_body r)"
    and "op = op_createGatewayServiceAccount \<Longrightarrow> typed_reply ''createGatewayServiceAccount'' (rp_body r)"
    and "op = op_deleteGatewayServiceAccount \<Longrightarrow> typed_reply ''deleteGatewayServiceAccount'' (rp_body r)"
    and "op = op_getGatewayServiceAccount \<Longrightarrow> typed_reply ''getGatewayServiceAccount'' (rp_body r)"
    and "op = op_listGatewayServiceAccounts \<Longrightarrow> typed_reply ''listGatewayServiceAccounts'' (rp_body r)"
    and "op = op_revokeGatewayServiceAccount \<Longrightarrow> typed_reply ''revokeGatewayServiceAccount'' (rp_body r)"
  subgoal using accepted_reference [OF assms _ sdk_models(1) views_read(1)]
    by (simp add: typed_reply_def console_responses split: option.splits)
  subgoal using accepted_reference [OF assms _ sdk_models(1) views_read(1)] reply_accepted [OF assms(1)]
    by (auto simp: typed_reply_def op_deleteGateway_def sdk_operation_def split: option.splits)
  subgoal using accepted_reference [OF assms _ sdk_models(1) views_read(1)]
    by (simp add: typed_reply_def console_responses split: option.splits)
  subgoal using accepted_reference [OF assms _ sdk_models(2) views_read(2)]
    by (simp add: typed_reply_def console_responses split: option.splits)
  subgoal using accepted_reference [OF assms _ sdk_models(1) views_read(1)]
    by (simp add: typed_reply_def console_responses split: option.splits)
  subgoal using accepted_reference [OF assms _ sdk_models(5) views_read(3)]
    by (simp add: typed_reply_def console_responses split: option.splits)
  subgoal using accepted_reference [OF assms _ sdk_models(6) views_read(4)]
    by (simp add: typed_reply_def console_responses split: option.splits)
  subgoal using accepted_reference [OF assms _ sdk_models(14) views_read(6)]
    by (simp add: typed_reply_def console_responses split: option.splits)
  subgoal using accepted_reference [OF assms _ sdk_models(9) views_read(5)]
    by (simp add: typed_reply_def console_responses split: option.splits)
  subgoal using accepted_reference [OF assms _ sdk_models(15) views_read(7)]
    by (simp add: typed_reply_def console_responses split: option.splits)
  subgoal using accepted_reference [OF assms _ sdk_models(16) views_read(8)]
    by (simp add: typed_reply_def console_responses split: option.splits)
  subgoal using accepted_reference [OF assms _ sdk_models(9) views_read(5)]
    by (simp add: typed_reply_def console_responses split: option.splits)
  done


lemma act_and_return: "act_and m (act_return True) = m"
  by (rule ext) (auto simp: act_and_def act_bind_def act_return_def split: sum.split prod.split)

section \<open>An answer at work\<close>

text \<open>The steps of the validator on the contract's schemas, for values of the right kind\<close>

lemma validate_ref:
  "validate (Suc k) (sdk_schemas f u) d (Some (ref_schema n)) v =
     act_and spend_node (validate k (sdk_schemas f u) d (map_of sdk_models n) v)"
  unfolding validate.simps option.case ref_of_ref_schema model_of_sdk ..

lemma validate_all:
  "v \<noteq> VNull \<Longrightarrow> validate (Suc k) c d (Some (all_schema ss)) v =
     act_and spend_node (act_every (\<lambda>s. validate k c d (Some s) v) ss)"
  by (simp add: all_schema_def ref_of_def no_keywords_def check_combinations_def in_enum_def check_type_def Let_def
      act_and_return del: units_simps)

lemma validate_object:
  "validate (Suc k) c d (Some (object_schema extra req ps)) (VObject vs) =
     act_and spend_node
       (act_and (act_every (check_required c d (object_schema extra req ps) vs) (map units req))
         (act_every (check_property (validate k c d) c d (object_schema extra req ps)) vs))"
  by (simp add: object_schema_def ref_of_def no_keywords_def check_combinations_def in_enum_def check_type_def Let_def
      type_names check_object_def in_limits_def del: units_simps)

lemma validate_text:
  "unicode t \<Longrightarrow> validate (Suc k) c d (Some (text_schema no_keywords)) (VString t) =
     act_and spend_node (spend_chars (length (code_points t)))"
  by (simp add: text_schema_def typed_schema_def plain_schema_def ref_of_def no_keywords_def check_combinations_def
      in_enum_def check_type_def Let_def check_string_def in_limits_def format_is_def act_and_return del: units_simps)

lemma annotation_plain:
  "ref_of s = None \<Longrightarrow> annotation c (Some s) = Some (Some s)" "annotation c None = Some None"
  by (simp_all add: annotation_def follow_None)

lemma object_schema_parts:
  "props_of (object_schema extra req ps) = named ps" "additional_of (object_schema extra req ps) = extra"
  by (simp_all add: object_schema_def props_of_def)

definition sample_cluster :: jvalue where
  "sample_cluster = VObject [(units ''name'', VString (units ''a'')), (units ''provider'', VString (units ''b'')),
     (units ''kubeconfig_secret'', VString (units ''c''))]"

lemma sample_cluster_valid:
  "validates (sdk_schemas f u) Response (Some (ref_schema ''ManagedCluster'')) (Some sample_cluster) = Inr True"
proof -
  have unit: "unicode (units [x])" "code_points (units [x]) = [code_unit x]" for x
    by (rule unicode_units) (simp add: unat_unit_of)
  note steps = validate_ref validate_all validate_object validate_text
  have "fst (validate (Suc (Suc (Suc (Suc (Suc (Suc k)))))) (sdk_schemas f u) Response
      (Some (ref_schema ''ManagedCluster'')) sample_cluster start_budget) = Inr True" for k
    by (simp add: steps sample_cluster_def managed_cluster_model_def object_reference_model_def check_required_def
        check_property_def find_field_def annotation_plain object_schema_parts act_simps map_of_named unit
        start_budget_def spend_node_def Let_def hidden_def act_and_def units_eq_iff del: units_simps validate.simps)
  from this [of 43] show ?thesis by (simp add: validates_def del: validate.simps)
qed

definition sample_answer :: outcome where
  "sample_answer = Answered \<lparr>rs_status = 200, rs_content_type = Some ''application/json'', rs_etag = None,
     rs_chunks = Some [map (of_nat \<circ> code_unit)
       (''{'' @ dquote # ''name'' @ dquote # '':'' @ dquote # ''a'' @ dquote # '','' @
        dquote # ''provider'' @ dquote # '':'' @ dquote # ''b'' @ dquote # '','' @
        dquote # ''kubeconfig_secret'' @ dquote # '':'' @ dquote # ''c'' @ dquote # ''}'')],
     rs_broken = False\<rparr>"

definition sample_reply :: reply where
  "sample_reply = \<lparr>rp_status = 200, rp_body = Some sample_cluster, rp_etag = None\<rparr>"

definition sample_contract :: client_contract where
  "sample_contract = sdk_contract (\<lambda>_. []) (\<lambda>_. True)"

lemma sample_run:
  "run_operation simple_platform sample_contract (units ''h'') op_getManagedCluster
     (IObject True [(units ''id'', IString (units ''7''))]) None \<lparr>sent = [], outcomes = [sample_answer]\<rparr> =
   (Inr sample_reply, \<lparr>sent = [\<lparr>rq_method = ''GET'', rq_href = units ''h/api/hypershell/v1/managed_clusters/7'',
      rq_accept = ''application/json'', rq_traceparent = None, rq_content_type = None, rq_csrf = None, rq_body = None\<rparr>],
      outcomes = []\<rparr>)"
proof -
  have input: "input_members op_getManagedCluster (IObject True [(units ''id'', IString (units ''7''))]) =
      Inr [(units ''id'', VString (units ''7''))]" by code_simp
  have path: "fill_parameters simple_platform sample_contract [(units ''id'', VString (units ''7''))]
      (op_parameters op_getManagedCluster) (op_path op_getManagedCluster) [] =
      Inr (units ''/api/hypershell/v1/managed_clusters/7'', [])" by code_simp
  have body: "check_body sample_contract op_getManagedCluster [(units ''id'', VString (units ''7''))] = Inr None"
    by code_simp
  have sent: "request simple_platform sample_contract (units ''h'') ''GET'' (units ''/api/hypershell/v1/managed_clusters/7'')
      None None None \<lparr>sent = [], outcomes = [sample_answer]\<rparr> =
    (Inr sample_reply, \<lparr>sent = [\<lparr>rq_method = ''GET'', rq_href = units ''h/api/hypershell/v1/managed_clusters/7'',
      rq_accept = ''application/json'', rq_traceparent = None, rq_content_type = None, rq_csrf = None, rq_body = None\<rparr>],
      outcomes = []\<rparr>)" by code_simp
  have reply: "check_reply sample_contract op_getManagedCluster sample_reply = Inr sample_reply"
  proof -
    have code: "show_int (int 200) = ''200''" by code_simp
    show ?thesis
      by (simp only: check_reply_def op_getManagedCluster_def sdk_operation_def sample_reply_def sample_contract_def
          operation.simps reply.simps code map_of.simps fun_upd_same fst_conv snd_conv if_True option.case sdk_schemas_def [symmetric]
          sample_cluster_valid sum.case bool.case simp_thms)
  qed
  have url: "encode_query simple_platform [] = []"
    "parse_url simple_platform t h = Some \<lparr>url_origin = h, url_pathname = t, url_search = [],
       url_href = h @ t, url_username = [], url_password = [], url_hash = []\<rparr>" for t h
    by (simp_all add: simple_platform_def)
  have "op_method op_getManagedCluster = ''GET''" by (simp add: op_getManagedCluster_def sdk_operation_def)
  then show ?thesis
    by (simp add: run_operation_def act_simps input path body sent reply fresh_token_def mutating_def url Let_def
        del: units_simps(2,3))
qed


end
