(* ===== verification/Sdk_Client.thy ===== *)
theory Sdk_Client
  imports Sdk_Views Account_Dialog
begin

text \<open>
  The adapter over the real client: the operations of \<open>createBrowserClient\<close> for the contract of
  \<open>src/out/tssdk/index.js\<close>, as the client the adapter of \<open>adapters/api/gateway-operations.ts\<close> is given by
  \<open>adapters/api/api.client.ts\<close>. A call checks its options, runs its operation on the network and hands the
  body on at its type. Calls are taken one at a time; how calls in flight are counted is the matter of
  \<open>Browser_Calls\<close>.
\<close>

section \<open>The client\<close>

text \<open>
  The page a client runs on: the platform, how a fraction is written and which text is a URL, the page's
  origin, whether a signal is aborted when a call begins, and whether the timer or the signal ended a call
  that the network failed.
\<close>

record 'd page_setting =
  pg_platform :: "'d platform"
  pg_fraction :: "rat \<Rightarrow> js_text"
  pg_is_url :: "js_text \<Rightarrow> bool"
  pg_origin :: js_text
  pg_aborted :: "nat \<Rightarrow> bool"
  pg_timed_out :: bool
  pg_cancelled :: bool

definition page_contract :: "'d page_setting \<Rightarrow> client_contract" where
  "page_contract pg = sdk_contract (pg_fraction pg) (pg_is_url pg)"

definition sdk_options :: "'d page_setting \<Rightarrow> request_options \<Rightarrow> call_options" where
  "sdk_options pg ro = Options
     ((''signal'', case ro_signal ro of None \<Rightarrow> Option_undefined | Some i \<Rightarrow> Option_signal (pg_aborted pg i)) #
      (case ro_traceparent ro of None \<Rightarrow> [] | Some t \<Rightarrow> [(''traceparent'', Option_text t)]))"

definition sdk_error_of :: "sdk_failure \<Rightarrow> js_error" where
  "sdk_error_of e = SdkFailure
     \<lparr>se_code = sdk_code e, se_status = int (sdk_status e), se_api_code = Option.bind (sdk_api_code e) char_text\<rparr>"

text \<open>
  A body that does not have its view: by \<open>client_answers_have_their_types\<close> only one whose text is not made
  of the characters of this model, for which the model says nothing.
\<close>

definition outside_model :: js_error where "outside_model = ErrorNamed ''text outside the model''"

definition client_call ::
    "'d page_setting \<Rightarrow> operation \<Rightarrow> js_input \<Rightarrow> (jvalue option \<Rightarrow> 'a option) \<Rightarrow> request_options \<Rightarrow>
     (network, js_error, 'a) act" where
  "client_call pg op input view ro = (\<lambda>n.
     case check_options (sdk_options pg ro) of
       Inl e \<Rightarrow> (Inl (sdk_error_of e), n)
     | Inr traceparent \<Rightarrow>
         (case run_operation (pg_platform pg) (page_contract pg) (pg_origin pg) op input traceparent n of
            (res, n') \<Rightarrow>
              (case settle (pg_timed_out pg) (pg_cancelled pg) res of
                 Inl e \<Rightarrow> (Inl (sdk_error_of e), n')
               | Inr r \<Rightarrow>
                   (case view (rp_body r) of None \<Rightarrow> (Inl outside_model, n') | Some x \<Rightarrow> (Inr x, n')))))"

definition input_object :: "(string \<times> js_input) list \<Rightarrow> js_input" where
  "input_object ps = IObject True (named ps)"

definition input_text :: "string \<Rightarrow> js_input" where "input_text s = IString (units s)"

definition input_int :: "int \<Rightarrow> js_input" where "input_int i = INumber (Some (of_int i))"

definition input_if :: "string \<Rightarrow> string option \<Rightarrow> (string \<times> js_input) list" where
  "input_if k v = (case v of None \<Rightarrow> [] | Some s \<Rightarrow> [(k, input_text s)])"

definition list_input :: "list_query \<Rightarrow> js_input" where
  "list_input q = input_object
     ([(''orderBy'', input_text (lq_orderBy q)), (''page'', input_int (lq_page q))] @
      input_if ''search'' (lq_search q) @ [(''size'', input_int (lq_size q))])"

definition accounts_input :: "string \<Rightarrow> account_list_request \<Rightarrow> js_input" where
  "accounts_input g q = input_object
     ([(''gateway_id'', input_text g), (''order'', input_text (sort_direction_str (alr_order q))),
       (''page'', input_int (alr_page q)), (''search'', input_text (alr_search q)),
       (''size'', input_int (alr_size q)), (''sort'', input_text (account_sort_field_str (alr_sort q)))] @
      input_if ''status'' (map_option account_status_str (alr_status q)))"

definition account_input :: "string \<Rightarrow> create_account_body \<Rightarrow> js_input" where
  "account_input g b = input_object
     [(''gateway_id'', input_text g),
      (''body'', input_object
        (input_if ''description'' (cb_description b) @
         [(''expires_at'', input_text (cb_expires_at b)), (''name'', input_text (cb_name b)),
          (''role'', input_text (account_role_str (cb_role b)))]))]"

definition gateway_input :: "create_gateway_body \<Rightarrow> js_input" where
  "gateway_input b = input_object
     [(''body'', input_object
        [(''cluster_id'', input_text (gb_cluster_id b)), (''name'', input_text (gb_name b)),
         (''release_id'', input_text (gb_release_id b)), (''route'', input_text (gb_route b))])]"

definition one_account :: "string \<Rightarrow> string \<Rightarrow> js_input" where
  "one_account g a = input_object [(''gateway_id'', input_text g), (''service_account_id'', input_text a)]"

definition body_at :: "(jvalue \<Rightarrow> 'a option) \<Rightarrow> jvalue option \<Rightarrow> 'a option" where
  "body_at view body = Option.bind body view"

text \<open>A deletion's answer is not read.\<close>

definition body_unread :: "jvalue option \<Rightarrow> unit option" where "body_unread body = Some ()"

definition sdk_client :: "'d page_setting \<Rightarrow> network api_client" where
  "sdk_client pg =
     \<lparr>api_createGateway = (\<lambda>b. client_call pg op_createGateway (gateway_input b) (body_at gateway_view)),
      api_deleteGateway = (\<lambda>g. client_call pg op_deleteGateway (input_object [(''id'', input_text g)]) body_unread),
      api_getGateway = (\<lambda>g. client_call pg op_getGateway (input_object [(''id'', input_text g)]) (body_at gateway_view)),
      api_listGateways = (\<lambda>q. client_call pg op_listGateways (list_input q) (body_at (page_view gateway_view))),
      api_updateGateway = (\<lambda>g name. client_call pg op_updateGateway
        (input_object [(''id'', input_text g), (''body'', input_object [(''name'', input_text name)])])
        (body_at gateway_view)),
      api_getManagedCluster = (\<lambda>c. client_call pg op_getManagedCluster
        (input_object [(''id'', input_text c)]) (body_at cluster_view)),
      api_listManagedClusters = (\<lambda>q. client_call pg op_listManagedClusters
        (list_input q) (body_at (page_view cluster_view))),
      api_createAccount = (\<lambda>g b. client_call pg op_createGatewayServiceAccount
        (account_input g b) (body_at created_view)),
      api_deleteAccount = (\<lambda>g a. client_call pg op_deleteGatewayServiceAccount (one_account g a) body_unread),
      api_getAccount = (\<lambda>g a. client_call pg op_getGatewayServiceAccount
        (one_account g a) (body_at account_detail_view)),
      api_listAccounts = (\<lambda>g q. client_call pg op_listGatewayServiceAccounts
        (accounts_input g q) (body_at accounts_view)),
      api_revokeAccount = (\<lambda>g a. client_call pg op_revokeGatewayServiceAccount
        (one_account g a) (body_at account_view))\<rparr>"

text \<open>What the adapter is given: the client, what a lost session calls, and the reader of the trace context.\<close>

definition sdk_ports ::
    "'d page_setting \<Rightarrow> (network, js_error, unit) act \<Rightarrow> (string \<Rightarrow> string option) \<Rightarrow> (string \<Rightarrow> json option) \<Rightarrow>
     network adapter_ports" where
  "sdk_ports pg login trace parse =
     \<lparr>ad_factory = (\<lambda>_. act_return (sdk_client pg)), ad_onReauthRequired = Some login,
      ad_traceParentFor = Some (\<lambda>c. act_return (trace c)), ad_parse = parse\<rparr>"

section \<open>Inputs as the client reads them\<close>

lemma input_values [simp]:
  "input_value (input_object ps) = VObject (map (\<lambda>(k, x). (units k, input_value x)) ps)"
  "input_value (input_text s) = VString (units s)"
  by (simp_all add: input_object_def input_text_def named_def comp_def case_prod_beta del: units_simps)

lemma input_members_values:
  assumes "input_members op (input_object ps) = Inr vs"
  shows "vs = map (\<lambda>(k, x). (units k, input_value x)) ps"
  using assms by (auto simp: input_members_def simp del: units_simps split: if_splits)

definition refusal :: "failure \<Rightarrow> bool" where "refusal e \<longleftrightarrow> e = invalid_input \<or> e = Exception"

lemma refusals: "input_members op i = Inl e \<Longrightarrow> refusal e" "check_body ct op vs = Inl e' \<Longrightarrow> refusal e'"
  by (auto simp: input_members_def check_body_def refusal_def split: if_splits option.splits sum.splits bool.splits
      jvalue.splits)

lemma fill_refusal: "fill_parameters p ct vs pms path query = Inl e \<Longrightarrow> refusal e"
  by (induction p ct vs pms path query rule: fill_parameters.induct)
    (auto simp: refusal_def Let_def split: option.splits if_splits sum.splits bool.splits parameter_place.splits)

text \<open>An input whose body the contract does not accept is refused before anything is sent.\<close>

lemma refused_unsent:
  assumes "\<And>vs. input_members op i = Inr vs \<Longrightarrow> \<exists>e. check_body ct op vs = Inl e"
  shows "\<exists>e. run_operation p ct origin op i tp n = (Inl e, n) \<and> refusal e"
proof (cases "input_members op i")
  case (Inl e)
  then show ?thesis using refusals(1) [OF Inl] by (auto simp: run_operation_def act_simps)
next
  case (Inr vs)
  show ?thesis
  proof (cases "fill_parameters p ct vs (op_parameters op) (op_path op) []")
    case fill: (Inl e)
    then show ?thesis using fill_refusal [OF fill] by (auto simp: run_operation_def act_simps Inr)
  next
    case (Inr q)
    obtain e where "check_body ct op vs = Inl e" using assms \<open>input_members op i = Inr vs\<close> by blast
    then show ?thesis using refusals(2) [of ct op vs e] Inr \<open>input_members op i = Inr vs\<close>
      by (auto simp: run_operation_def act_simps split: prod.split)
  qed
qed

lemma refused_call:
  assumes "\<And>tp. \<exists>e. run_operation (pg_platform pg) (page_contract pg) (pg_origin pg) op i tp n = (Inl e, n) \<and> refusal e"
  shows "\<exists>e. client_call pg op i view ro n = (Inl (SdkFailure e), n) \<and> se_status e = 0 \<and>
    se_code e \<noteq> ''reauth_required'' \<and> se_api_code e = None"
proof (cases "check_options (sdk_options pg ro)")
  case (Inl e)
  then have "e \<in> {client_error ''invalid_input'', client_error ''cancelled''}"
    by (auto simp: check_options_def sdk_options_def split: if_splits option.splits sum.splits call_option.splits)
  then show ?thesis by (auto simp: client_call_def Inl sdk_error_of_def client_error_def)
next
  case (Inr tp)
  obtain e where "run_operation (pg_platform pg) (page_contract pg) (pg_origin pg) op i tp n = (Inl e, n)" "refusal e"
    using assms by blast
  then show ?thesis
    by (auto simp: client_call_def Inr refusal_def settle_def sdk_error_of_def client_error_def sdk_fail_def)
qed

section \<open>Names the contract refuses\<close>

lemma code_points_units: "length (code_points (units s)) = length s"
proof -
  have "\<not> is_high (unit_of c)" for c
    using unit_of_small [of c] by (simp add: is_high_def word_less_nat_alt word_le_nat_alt)
  then show ?thesis by (induction s rule: induct_list012) auto
qed

lemma text_limits:
  assumes "accepts (Suc (Suc n)) c d (Some (object_schema extra req ps)) (VObject vs)" "map_of ps k = Some (text_schema K)"
    and "sc_ref K = None" "(units k, VString (units s)) \<in> set vs"
  shows "in_limits (sc_minLength K) (sc_maxLength K) (length s)"
proof -
  obtain vs' where "VObject vs = VObject vs'" "\<And>k x p. map_of ps k = Some p \<Longrightarrow> (units k, x) \<in> set vs' \<Longrightarrow>
      accepts (Suc n) c d (resolved c (Some p)) x"
    using accepts_object [OF assms(1)] by blast
  then have "accepts (Suc n) c d (resolved c (Some (text_schema K))) (VString (units s))"
    using assms(2,4) by blast
  from accepts_text [OF this [unfolded resolved_kinds(1) [OF assms(3)]] assms(3)]
  show ?thesis by (simp add: code_points_units del: units_simps)
qed

lemma create_request_limits:
  assumes "accepts (Suc (Suc n)) (sdk_schemas f u) Request (Some service_account_create_request_model) (VObject vs)"
  shows "(units ''name'', VString (units s)) \<in> set vs \<Longrightarrow> length s \<le> 128"
    and "(units ''description'', VString (units s)) \<in> set vs \<Longrightarrow> length s \<le> 1024"
  using text_limits [OF assms [unfolded service_account_create_request_model_def], of "''name''" "no_keywords\<lparr>sc_maxLength := Some 128, sc_minLength := Some 1\<rparr>" s]
    text_limits [OF assms [unfolded service_account_create_request_model_def], of "''description''" "no_keywords\<lparr>sc_maxLength := Some 1024, sc_nullable := True\<rparr>" s]
  by (simp_all add: in_limits_def no_keywords_def del: units_simps)

lemma account_input_values:
  "input_value (account_input g b) = VObject
     [(units ''gateway_id'', VString (units g)),
      (units ''body'', VObject ((case cb_description b of None \<Rightarrow> [] | Some s \<Rightarrow> [(units ''description'', VString (units s))]) @
        [(units ''expires_at'', VString (units (cb_expires_at b))), (units ''name'', VString (units (cb_name b))),
         (units ''role'', VString (units (account_role_str (cb_role b))))]))]"
  by (simp add: account_input_def input_if_def del: units_simps split: option.split)

lemma overlong_body_refused:
  assumes "128 < length (cb_name b) \<or> (\<exists>s. cb_description b = Some s \<and> 1024 < length s)"
    and "input_members op_createGatewayServiceAccount (account_input g b) = Inr vs"
  shows "\<exists>e. check_body (sdk_contract f u) op_createGatewayServiceAccount vs = Inl e"
proof -
  let ?body = "(case cb_description b of None \<Rightarrow> [] | Some s \<Rightarrow> [(units ''description'', VString (units s))]) @
        [(units ''expires_at'', VString (units (cb_expires_at b))), (units ''name'', VString (units (cb_name b))),
         (units ''role'', VString (units (account_role_str (cb_role b))))]"
  have vs: "vs = [(units ''gateway_id'', VString (units g)), (units ''body'', VObject ?body)]"
    using assms(2) account_input_values [of g b]
    by (auto simp: input_members_def simp del: units_simps split: if_splits)
  have op: "op_body op_createGatewayServiceAccount = Some (ref_schema ''OpenShellGatewayServiceAccountCreateRequest'')"
    by (simp add: op_createGatewayServiceAccount_def sdk_operation_def)
  have "validates (sdk_schemas f u) Request (Some (ref_schema ''OpenShellGatewayServiceAccountCreateRequest''))
      (Some (VObject ?body)) \<noteq> Inr True"
  proof
    assume "validates (sdk_schemas f u) Request (Some (ref_schema ''OpenShellGatewayServiceAccountCreateRequest''))
      (Some (VObject ?body)) = Inr True"
    from accepts_sdk_ref [of 48, simplified, OF validates_accepts [OF this]]
    have "accepts (Suc (Suc 46)) (sdk_schemas f u) Request (Some service_account_create_request_model) (VObject ?body)"
      by simp
    note limits = create_request_limits [OF this]
    from assms(1) show False using limits(1) [of "cb_name b"] limits(2)
      by (auto simp: units_eq_iff simp del: units_simps)
  qed
  moreover have "map_of vs (units ''body'') = Some (VObject ?body)"
    unfolding vs by (simp add: units_eq_iff del: units_simps)
  ultimately show ?thesis
    by (auto simp: check_body_def op sdk_schemas_def simp del: units_simps split: sum.split bool.split)
qed

lemma overlong_call:
  assumes "128 < length (cb_name b) \<or> (\<exists>s. cb_description b = Some s \<and> 1024 < length s)"
  shows "\<exists>e. api_createAccount (sdk_client pg) g b ro n = (Inl (SdkFailure e), n) \<and> se_status e = 0 \<and>
    se_code e \<noteq> ''reauth_required'' \<and> se_api_code e = None"
proof -
  have "\<exists>e. check_body (page_contract pg) op_createGatewayServiceAccount vs = Inl e"
    if "input_members op_createGatewayServiceAccount (account_input g b) = Inr vs" for vs
    using overlong_body_refused [OF assms that] unfolding page_contract_def by blast
  from refused_call [OF refused_unsent [OF this]] show ?thesis by (simp add: sdk_client_def)
qed

text \<open>
  C9. What the form lets through and the contract does not. The form of a service account only asks for a
  name that is not blank; a name of more than 128 characters, or a description of more than 1024, is
  refused by the client before anything is sent, and comes back to the dialog as a failure of unknown
  outcome: the user is told that the account may have been created.
\<close>

theorem overlong_account_is_refused_unsent:
  assumes "parse_form number capabilities f = Some out"
    and "128 < length (ao_name out) \<or> 1024 < length (trim (ao_description out))"
  shows "\<exists>failure. cp_create_account (createGatewayControlPlaneAdapter (sdk_ports pg login trace parse)) gatewayId
      (create_input isoString now out) ctx n = (Inl failure, n) \<and>
    create_alert failure = CreateUncertain"
proof -
  let ?input = "create_input isoString now out"
  let ?body = "\<lparr>cb_description = aci_description ?input, cb_expires_at = aci_expires_at ?input,
    cb_name = aci_name ?input, cb_role = aci_role ?input\<rparr>"
  have "128 < length (cb_name ?body) \<or> (\<exists>s. cb_description ?body = Some s \<and> 1024 < length s)"
    using assms(2) by (auto simp: create_input_def)
  from overlong_call [OF this, of pg gatewayId "\<lparr>ro_signal = ic_signal ctx, ro_traceparent = trace (ic_correlation_id ctx)\<rparr>" n]
  obtain e where e: "api_createAccount (sdk_client pg) gatewayId ?body
      \<lparr>ro_signal = ic_signal ctx, ro_traceparent = trace (ic_correlation_id ctx)\<rparr> n = (Inl (SdkFailure e), n)"
    "se_status e = 0" "se_code e \<noteq> ''reauth_required''" "se_api_code e = None" by blast
  have "adapter_create_account (sdk_ports pg login trace parse) gatewayId ?input ctx n = (Inl (operation_failure Unknown), n)"
    using e by (simp add: adapter_create_account_def mapFailure_def mapSDKFailure_def api_call_def requestOptions_def
        sdk_ports_def act_simps sdk_failure_of_def operation_failure_def gatewayFailureKind_def gatewayFailureCode_def)
  then show ?thesis
    by (simp add: createGatewayControlPlaneAdapter_def create_alert_def uncertainFailure_def operation_failure_def)
qed

definition sample_page :: "unit page_setting" where
  "sample_page =
     \<lparr>pg_platform = simple_platform, pg_fraction = (\<lambda>_. []), pg_is_url = (\<lambda>_. True), pg_origin = units ''h'',
      pg_aborted = (\<lambda>_. False), pg_timed_out = False, pg_cancelled = False\<rparr>"

definition long_form :: account_form where
  "long_form = \<lparr>af_description = [], af_expiration = ''2592000'', af_name = replicate 129 (CHR ''n''),
     af_role = ''openshell-user''\<rparr>"

definition user_capabilities :: account_capabilities where
  "user_capabilities =
     \<lparr>cap_allowed_roles = [RoleUser], cap_can_create = True, cap_can_manage_all = False,
      cap_expiration_policy = \<lparr>ep_default_seconds = 2592000, ep_maximum_seconds = 6000000, ep_minimum_seconds = 3600\<rparr>\<rparr>"

lemma overlong_account_is_refused_unsent_witness:
  "\<exists>out failure. parse_form (\<lambda>_. Integral 2592000) user_capabilities long_form = Some out \<and>
    cp_create_account (createGatewayControlPlaneAdapter (sdk_ports sample_page (act_return ()) (\<lambda>_. None) (\<lambda>_. None)))
      ''g'' (create_input show_int 0 out) \<lparr>ic_correlation_id = ''c'', ic_signal = None\<rparr> \<lparr>sent = [], outcomes = []\<rparr> =
      (Inl failure, \<lparr>sent = [], outcomes = []\<rparr>) \<and>
    create_alert failure = CreateUncertain"
proof -
  let ?out = "\<lparr>ao_description = [], ao_expiration = 2592000, ao_name = replicate 129 (CHR ''n''), ao_role = RoleUser\<rparr>"
  have form: "parse_form (\<lambda>_. Integral 2592000) user_capabilities long_form = Some ?out" by code_simp
  have "128 < length (ao_name ?out) \<or> 1024 < length (trim (ao_description ?out))" by simp
  from overlong_account_is_refused_unsent [OF form this] form show ?thesis by blast
qed

section \<open>What a deletion sends\<close>

lemma replace_units_skip: "replace_units (length s) m r s = []"
  by (induction s) simp_all

lemma path_filled:
  assumes "u_lbrace \<notin> set a"
  shows "replace_units 0 (marker name) r (a @ marker name) = a @ r"
  using assms
proof (induction a)
  case Nil
  have "replace_units (length (name @ [u_rbrace])) (marker name) r (name @ [u_rbrace]) = []" by (rule replace_units_skip)
  then show ?case by (simp add: marker_def)
next
  case (Cons c a)
  then show ?case by (auto simp: marker_def)
qed

lemma run_operation_success:
  assumes "run_operation p ct origin op i tp n = (Inr r, n')"
  obtains vs path query body csrf n1 where "input_members op i = Inr vs"
    "fill_parameters p ct vs (op_parameters op) (op_path op) [] = Inr (path, query)" "check_body ct op vs = Inr body"
    "fresh_token p ct origin (op_method op) tp n = (Inr csrf, n1)"
    "request p ct origin (op_method op) (if encode_query p query = [] then path else path @ units ''?'' @ encode_query p query)
       (map_option (stringify (fraction_text ct)) body) csrf tp n1 = (Inr r, n')"
proof -
  obtain vs where vs: "input_members op i = Inr vs"
    using assms by (cases "input_members op i") (auto simp: run_operation_def act_simps)
  obtain path query where q: "fill_parameters p ct vs (op_parameters op) (op_path op) [] = Inr (path, query)"
    using assms by (cases "fill_parameters p ct vs (op_parameters op) (op_path op) []")
      (auto simp: run_operation_def act_simps vs)
  obtain body where b: "check_body ct op vs = Inr body"
    using assms by (cases "check_body ct op vs") (auto simp: run_operation_def act_simps vs q)
  let ?path = "if encode_query p query = [] then path else path @ units ''?'' @ encode_query p query"
  obtain csrf n1 where t: "fresh_token p ct origin (op_method op) tp n = (Inr csrf, n1)"
    and "act_bind (request p ct origin (op_method op) ?path (map_option (stringify (fraction_text ct)) body) csrf tp)
        (\<lambda>r. act_lift (check_reply ct op r)) n1 = (Inr r, n')"
    using assms
    by (auto simp: run_operation_def act_bind_lift vs q b act_throw_def Let_def act_bind_Inr simp del: units_simps
        split: option.splits if_splits)
  then obtain r' where "request p ct origin (op_method op) ?path (map_option (stringify (fraction_text ct)) body) csrf tp n1
      = (Inr r', n')" "check_reply ct op r' = Inr r"
    by (auto simp: act_bind_Inr act_lift_def)
  moreover from this(2) have "r' = r"
    by (auto simp: check_reply_def split: option.splits sum.splits if_splits bool.splits)
  ultimately show ?thesis using vs q b t that by blast
qed

lemma request_success:
  assumes "request p ct origin meth path body csrf tp n = (Inr r, n')"
  shows "\<exists>u rq. parse_url p path origin = Some u \<and> target_allowed origin u \<and> sent n' = sent n @ [rq] \<and>
    rq_method rq = meth \<and> rq_href rq = url_href u \<and> rq_csrf rq = csrf \<and> rq_traceparent rq = tp \<and> rq_body rq = body"
  using assms
  by (auto simp: request_def act_throw_def act_bind_Inr act_lift_def simp del: units_simps
      split: option.splits if_splits dest!: send_sent)

lemma options_passed:
  "check_options (sdk_options pg ro) = Inr tp \<Longrightarrow> tp = ro_traceparent ro"
  by (auto simp: check_options_def sdk_options_def split: if_splits option.splits sum.splits call_option.splits)

lemma client_call_success:
  assumes "client_call pg op i view ro n = (Inr x, n')"
  shows "\<exists>r. run_operation (pg_platform pg) (page_contract pg) (pg_origin pg) op i (ro_traceparent ro) n = (Inr r, n') \<and>
    view (rp_body r) = Some x"
proof -
  obtain tp where tp: "check_options (sdk_options pg ro) = Inr tp"
    using assms by (cases "check_options (sdk_options pg ro)") (auto simp: client_call_def)
  obtain res n1 where run: "run_operation (pg_platform pg) (page_contract pg) (pg_origin pg) op i tp n = (res, n1)"
    by (cases "run_operation (pg_platform pg) (page_contract pg) (pg_origin pg) op i tp n")
  then obtain r where "settle (pg_timed_out pg) (pg_cancelled pg) res = Inr r" "view (rp_body r) = Some x" "n' = n1"
    using assms by (auto simp: client_call_def tp split: sum.splits option.splits)
  moreover from this(1) have "res = Inr r" by (auto simp: settle_def split: sum.splits failure.splits)
  ultimately show ?thesis using run options_passed [OF tp] by blast
qed

text \<open>The part of a call through the adapter that can return\<close>

lemma adapter_success:
  "mapFailure (sdk_ports pg login trace parse) (api_call (sdk_ports pg login trace parse) ctx call) n = (Inr x, n') \<Longrightarrow>
   call (sdk_client pg) \<lparr>ro_signal = ic_signal ctx, ro_traceparent = trace (ic_correlation_id ctx)\<rparr> n = (Inr x, n')"
  by (auto simp: mapFailure_def mapSDKFailure_def api_call_def requestOptions_def sdk_ports_def act_simps
      split: prod.splits sum.splits thrown.splits if_splits)

lemma deletion_parameters:
  assumes "fill_parameters p ct [(units ''id'', VString t)] (op_parameters op_deleteGateway) (op_path op_deleteGateway) [] =
    Inr (path, query)"
  shows "path = units ''/api/hypershell/v1/gateways/'' @ encode_component p t \<and> query = []"
proof -
  have parameters: "op_parameters op_deleteGateway = [path_parameter ''id'' (text_schema no_keywords)]"
    by (simp add: op_deleteGateway_def sdk_operation_def)
  have template: "op_path op_deleteGateway = units ''/api/hypershell/v1/gateways/'' @ marker (units ''id'')"
    by (simp only: op_deleteGateway_def sdk_operation_def operation.simps) code_simp
  have "u_lbrace \<notin> set (units ''/api/hypershell/v1/gateways/'')" by code_simp
  note filled = path_filled [OF this, of "units ''id''"]
  show ?thesis using assms
    by (auto simp: parameters template path_parameter_def filled Let_def simp del: units_simps
        split: if_splits sum.splits bool.splits)
qed

text \<open>
  C6. A gateway reported as deleted is one that was asked to be: when the removal of a gateway returns, two
  requests were sent: the session's, and then one DELETE of the path of that very gateway on the page's own
  origin, without a body, with the token of the authenticated session just answered and the trace context
  of the operation.
\<close>

theorem deletion_reaches_the_named_gateway:
  assumes "encode_query (pg_platform pg) [] = []"
    and "cp_remove (createGatewayControlPlaneAdapter (sdk_ports pg login trace parse)) gatewayId ctx n = (Inr (), n')"
  shows "\<exists>s rq u v. sent n' = sent n @ [s, rq] \<and>
    answered_session (pg_platform pg) (page_contract pg) (outcomes n) = Some v \<and> authenticated v \<and>
    rq_csrf rq \<noteq> None \<and> rq_csrf rq = session_token v \<and> rq_method rq = ''DELETE'' \<and> rq_body rq = None \<and>
    rq_traceparent rq = trace (ic_correlation_id ctx) \<and>
    parse_url (pg_platform pg) (units ''/api/hypershell/v1/gateways/'' @
      encode_component (pg_platform pg) (units gatewayId)) (pg_origin pg) = Some u \<and>
    rq_href rq = url_href u \<and> url_origin u = pg_origin pg"
proof -
  let ?p = "pg_platform pg" and ?i = "input_object [(''id'', input_text gatewayId)]"
  let ?ro = "\<lparr>ro_signal = ic_signal ctx, ro_traceparent = trace (ic_correlation_id ctx)\<rparr>"
  have "client_call pg op_deleteGateway ?i body_unread ?ro n = (Inr (), n')"
    using adapter_success [of pg login trace parse ctx] assms(2)
    by (force simp: createGatewayControlPlaneAdapter_def adapter_remove_def sdk_client_def)
  from client_call_success [OF this] obtain r where
    run: "run_operation ?p (page_contract pg) (pg_origin pg) op_deleteGateway ?i (trace (ic_correlation_id ctx)) n = (Inr r, n')"
    by auto
  have op: "op_method op_deleteGateway = ''DELETE''" "op_body op_deleteGateway = None"
    by (simp_all add: op_deleteGateway_def sdk_operation_def)
  from run obtain vs path query body csrf n1 where parts: "input_members op_deleteGateway ?i = Inr vs"
    "fill_parameters ?p (page_contract pg) vs (op_parameters op_deleteGateway) (op_path op_deleteGateway) [] = Inr (path, query)"
    "check_body (page_contract pg) op_deleteGateway vs = Inr body"
    "fresh_token ?p (page_contract pg) (pg_origin pg) ''DELETE'' (trace (ic_correlation_id ctx)) n = (Inr csrf, n1)"
    and rq: "request ?p (page_contract pg) (pg_origin pg) ''DELETE''
      (if encode_query ?p query = [] then path else path @ units ''?'' @ encode_query ?p query)
      (map_option (stringify (fraction_text (page_contract pg))) body) csrf (trace (ic_correlation_id ctx)) n1 = (Inr r, n')"
    by (rule run_operation_success [unfolded op]) (use op in auto)
  have "vs = [(units ''id'', VString (units gatewayId))]"
    using input_members_values [OF parts(1)] by (simp del: units_simps)
  with parts(2) have path: "path = units ''/api/hypershell/v1/gateways/'' @ encode_component ?p (units gatewayId)" "query = []"
    using deletion_parameters by blast+
  have body: "body = None" using parts(3) by (auto simp: check_body_def op split: option.splits if_splits)
  have "mutating ''DELETE''" by (simp add: mutating_def)
  with fresh_token_sent [OF parts(4)] obtain s v where
    "sent n1 = sent n @ [s]" "answered_session ?p (page_contract pg) (outcomes n) = Some v" "authenticated v"
    "csrf \<noteq> None" "csrf = session_token v" by auto
  moreover from request_success [OF rq] obtain u d where
    "parse_url ?p path (pg_origin pg) = Some u" "target_allowed (pg_origin pg) u" "sent n' = sent n1 @ [d]"
    "rq_method d = ''DELETE''" "rq_href d = url_href u" "rq_csrf d = csrf" "rq_body d = None"
    "rq_traceparent d = trace (ic_correlation_id ctx)"
    by (auto simp: path(2) assms(1) body)
  ultimately show ?thesis unfolding path target_allowed_def by (intro exI conjI) (assumption | simp)+
qed

section \<open>A deletion at work\<close>

definition session_value :: jvalue where
  "session_value = VObject
     [(units ''authenticated'', VBool True), (units ''roles'', VArray []),
      (units ''user'', VObject [(units ''sub'', VString (units ''u''))]), (units ''expires_at'', VNumber 0),
      (units ''csrf_token'', VString (units (replicate 43 (CHR ''t''))))]"

definition session_answer :: outcome where
  "session_answer = Answered \<lparr>rs_status = 200, rs_content_type = Some ''application/json'', rs_etag = None,
     rs_chunks = Some [map ucast (stringify (\<lambda>_. []) session_value)], rs_broken = False\<rparr>"

definition accepted_answer :: outcome where
  "accepted_answer = Answered \<lparr>rs_status = 202, rs_content_type = None, rs_etag = None, rs_chunks = None, rs_broken = False\<rparr>"

definition sample_network :: network where
  "sample_network = \<lparr>sent = [], outcomes = [session_answer, accepted_answer]\<rparr>"

text \<open>Plain text is printed as it is, and every unit below 256 is a byte.\<close>

lemma byte_unit:
  assumes "unat (u :: 16 word) < 256"
  shows "ucast (ucast u :: 8 word) = u"
proof -
  have "unat (ucast (ucast u :: 8 word) :: 16 word) = unat u"
    using assms by (simp add: unsigned_ucast_eq unsigned_take_bit_eq take_bit_nat_eq_self)
  then show ?thesis by (simp only: word_unat_eq_iff)
qed
lemma byte_units: "list_all (\<lambda>u. unat u < 256) t \<Longrightarrow> map ucast (map ucast t :: 8 word list) = (t :: js_text)"
  by (induction t) (auto simp: byte_unit)
definition plain_unit :: "16 word \<Rightarrow> bool" where
  "plain_unit c \<longleftrightarrow> 32 \<le> unat c \<and> unat c < 256 \<and> c \<noteq> u_quote \<and> c \<noteq> u_backslash"
lemma plain_char: "plain_unit (unit_of c) \<longleftrightarrow> 32 \<le> code_unit c \<and> code_unit c \<noteq> 34 \<and> code_unit c \<noteq> 92"
proof -
  have "unat (unit_of c) < 256" by (simp add: unat_unit_of code_unit_def)
  then show ?thesis by (simp add: plain_unit_def word_unat_eq_iff unat_unit_of)
qed
lemma escape_plain: "list_all plain_unit s \<Longrightarrow> escape s = s"
proof (induction s rule: escape.induct)
  have one: "escape_unit c = [c] \<and> \<not> is_high c \<and> \<not> is_low c" if "plain_unit c" for c
    using that by (auto simp: plain_unit_def escape_unit_def is_high_def is_low_def word_le_nat_alt word_less_nat_alt)
  {
    case (2 c)
    then show ?case using one [of c] by simp
  next
    case (3 c d s)
    then show ?case using one [of c] one [of d] by simp
  }
qed simp

abbreviation byte_text :: "js_text \<Rightarrow> bool" where "byte_text t \<equiv> list_all (\<lambda>u. unat u < 256) t"

lemma byte_text_units: "byte_text (units s)"
  by (simp add: units_def list_all_iff unat_unit_of code_unit_def)

lemma byte_text_quoted: "list_all plain_unit s \<Longrightarrow> byte_text (quoted s)"
  by (auto simp: quoted_def escape_plain plain_unit_def list_all_iff)

definition session_texts :: "string list" where
  "session_texts = [''authenticated'', ''roles'', ''user'', ''sub'', ''u'', ''expires_at'', ''csrf_token'', replicate 43 (CHR ''t'')]"

lemma session_quoted:
  "list_all (\<lambda>s. quoted (units s) = u_quote # units s @ [u_quote] \<and> byte_text (quoted (units s))) session_texts"
proof -
  have "list_all (\<lambda>s. list_all plain_unit (units s)) session_texts"
    unfolding session_texts_def by (simp add: units_def plain_char code_unit_def list_all_iff)
  then show ?thesis by (auto simp: list_all_iff quoted_def escape_plain plain_unit_def)
qed

lemmas session_quotes = session_quoted [unfolded session_texts_def list.pred_inject simp_thms]

lemma session_printed:
  "byte_text (stringify (\<lambda>_. []) session_value)" "length (stringify (\<lambda>_. []) session_value) \<le> max_response"
  "stringify (\<lambda>_. []) session_value \<noteq> []"
proof -
  have zero: "number_text (\<lambda>_. []) 0 = units ''0''" by code_simp
  show "byte_text (stringify (\<lambda>_. []) session_value)"
    by (simp add: session_value_def zero session_quotes byte_text_units del: units_simps)
  show "length (stringify (\<lambda>_. []) session_value) \<le> max_response"
    by (simp add: session_value_def zero session_quotes max_response_def del: units_simps(2,3))
  show "stringify (\<lambda>_. []) session_value \<noteq> []" by (simp add: session_value_def del: units_simps)
qed

lemma session_encoded:
  "well_formed session_value" "fits 33 session_value" "nodes session_value \<le> 10000" "prints_all (\<lambda>_. []) session_value"
proof -
  have rank: "property_rank (units ''authenticated'') = property_rank (units ''user'')"
    "property_rank (units ''roles'') = property_rank (units ''user'')"
    "property_rank (units ''expires_at'') = property_rank (units ''user'')"
    "property_rank (units ''csrf_token'') = property_rank (units ''user'')" by code_simp+
  have zero: "is_integer 0" "is_safe_int 0" by code_simp+
  show "well_formed session_value"
    by (simp add: session_value_def unicode_units canonical_def units_eq_iff rank zero del: units_simps)
  show "fits 33 session_value" by (simp add: session_value_def eval_nat_numeral del: units_simps)
  show "nodes session_value \<le> 10000" by (simp add: session_value_def del: units_simps)
  show "prints_all (\<lambda>_. []) session_value" by (simp add: session_value_def prints_number_def zero del: units_simps)
qed

lemma session_valid:
  "valid_session \<lparr>rp_status = 200, rp_body = Some session_value, rp_etag = None\<rparr> session_value"
  "authenticated session_value" "session_token session_value = Some (units (replicate 43 (CHR ''t'')))"
proof -
  have zero: "is_safe_int 0" by code_simp
  have user: "length (units ''u'') = 1" "units ''u'' \<noteq> []" by simp_all
  have "token_unit (unit_of (CHR ''t''))" by code_simp
  then have token: "is_token (units (replicate 43 (CHR ''t'')))"
    by (simp add: is_token_def units_def list_all_iff)
  show auth: "authenticated session_value" and tok: "session_token session_value = Some (units (replicate 43 (CHR ''t'')))"
    by (simp_all add: authenticated_def session_token_def session_value_def own_property_def units_eq_iff del: units_simps replicate.simps)
  show "valid_session \<lparr>rp_status = 200, rp_body = Some session_value, rp_etag = None\<rparr> session_value"
    unfolding valid_session_def auth tok
    by (simp add: session_value_def own_property_def units_eq_iff session_keys_def valid_user_def user_keys_def short_string_def
        token zero user del: units_simps replicate.simps)
qed


lemma session_answered:
  "session simple_platform ct (units ''h'') None sample_network =
     (Inr session_value, \<lparr>sent = [\<lparr>rq_method = ''GET'', rq_href = units ''h/auth/session'', rq_accept = ''application/json'',
        rq_traceparent = None, rq_content_type = None, rq_csrf = None, rq_body = None\<rparr>], outcomes = [accepted_answer]\<rparr>)"
proof -
  let ?rs = "\<lparr>rs_status = 200, rs_content_type = Some ''application/json'', rs_etag = None,
     rs_chunks = Some [map ucast (stringify (\<lambda>_. []) session_value)], rs_broken = False\<rparr>"
  let ?rp = "\<lparr>rp_status = 200, rp_body = Some session_value, rp_etag = None\<rparr>"
  let ?rq = "\<lparr>rq_method = ''GET'', rq_href = units ''h/auth/session'', rq_accept = ''application/json'',
        rq_traceparent = None, rq_content_type = None, rq_csrf = None, rq_body = None\<rparr>"
  note parsed = encoded_value_reads_back [OF session_encoded]
  have chunks: "read_chunks simple_platform 0 [] () False [map ucast (stringify (\<lambda>_. []) session_value)] =
      Inr (stringify (\<lambda>_. []) session_value)"
    using session_printed(2) byte_units [OF session_printed(1)] by (simp add: simple_platform_def ascii_text_def)
  have "is_json ?rs" unfolding is_json_def http_response.simps option.case by code_simp
  then have reply: "read_reply ct ?rs (stringify (\<lambda>_. []) session_value) = Inr ?rp"
    unfolding read_reply_def parsed by (simp add: response_ok_def session_printed(3))
  have url: "parse_url simple_platform t h = Some \<lparr>url_origin = h, url_pathname = t, url_search = [],
       url_href = h @ t, url_username = [], url_password = [], url_hash = []\<rparr>" "decoder simple_platform = ()" for t h
    by (simp_all add: simple_platform_def)
  have href: "units ''h'' @ units ''/auth/session'' = units ''h/auth/session''" by simp
  have "request simple_platform ct (units ''h'') ''GET'' (units ''/auth/session'') None None None sample_network =
      (Inr ?rp, \<lparr>sent = [?rq], outcomes = [accepted_answer]\<rparr>)"
    unfolding request_def url option.case
    by (simp add: target_allowed_def href units_def send_def sample_network_def session_answer_def act_simps chunks reply
        del: units_simps read_chunks.simps)
  then show ?thesis by (simp add: session_run session_valid del: units_simps)
qed

text \<open>The deletion of the gateway \<open>7\<close>, on a page whose session is answered and whose deletion is accepted\<close>

definition sample_session_request :: http_request where
  "sample_session_request = \<lparr>rq_method = ''GET'', rq_href = units ''h/auth/session'', rq_accept = ''application/json'',
     rq_traceparent = None, rq_content_type = None, rq_csrf = None, rq_body = None\<rparr>"

definition sample_deletion_request :: http_request where
  "sample_deletion_request = \<lparr>rq_method = ''DELETE'', rq_href = units ''h/api/hypershell/v1/gateways/7'',
     rq_accept = ''application/json'', rq_traceparent = None, rq_content_type = None,
     rq_csrf = Some (units (replicate 43 (CHR ''t''))), rq_body = None\<rparr>"

definition after_deletion :: network where
  "after_deletion = \<lparr>sent = [sample_session_request, sample_deletion_request], outcomes = []\<rparr>"

lemma deletion_runs:
  "run_operation simple_platform (page_contract sample_page) (units ''h'') op_deleteGateway
     (input_object [(''id'', input_text ''7'')]) None sample_network =
   (Inr \<lparr>rp_status = 202, rp_body = None, rp_etag = None\<rparr>, after_deletion)"
proof -
  let ?ct = "page_contract sample_page"
  have input: "input_members op_deleteGateway (input_object [(''id'', input_text ''7'')]) =
      Inr [(units ''id'', VString (units ''7''))]" by code_simp
  have path: "fill_parameters simple_platform ?ct [(units ''id'', VString (units ''7''))]
      (op_parameters op_deleteGateway) (op_path op_deleteGateway) [] =
      Inr (units ''/api/hypershell/v1/gateways/7'', [])" by code_simp
  have body: "check_body ?ct op_deleteGateway [(units ''id'', VString (units ''7''))] = Inr None" by code_simp
  have url: "encode_query simple_platform [] = []"
    "parse_url simple_platform t h = Some \<lparr>url_origin = h, url_pathname = t, url_search = [],
       url_href = h @ t, url_username = [], url_password = [], url_hash = []\<rparr>" for t h
    by (simp_all add: simple_platform_def)
  have op: "op_method op_deleteGateway = ''DELETE''" "op_responses op_deleteGateway = [(''202'', None)]"
    by (simp_all add: op_deleteGateway_def sdk_operation_def)
  have token: "fresh_token simple_platform ?ct (units ''h'') ''DELETE'' None sample_network =
      (Inr (Some (units (replicate 43 (CHR ''t'')))), \<lparr>sent = [sample_session_request], outcomes = [accepted_answer]\<rparr>)"
    by (simp add: fresh_token_def mutating_def act_simps session_answered session_valid sample_session_request_def
        del: units_simps replicate.simps)
  have href: "units ''h'' @ units ''/api/hypershell/v1/gateways/7'' = units ''h/api/hypershell/v1/gateways/7''" by simp
  have sent: "request simple_platform ?ct (units ''h'') ''DELETE'' (units ''/api/hypershell/v1/gateways/7'') None
      (Some (units (replicate 43 (CHR ''t'')))) None \<lparr>sent = [sample_session_request], outcomes = [accepted_answer]\<rparr> =
      (Inr \<lparr>rp_status = 202, rp_body = None, rp_etag = None\<rparr>, after_deletion)"
    unfolding request_def url option.case
    by (simp add: target_allowed_def href send_def accepted_answer_def act_simps read_reply_def response_ok_def
        after_deletion_def sample_deletion_request_def del: units_simps(2,3) replicate.simps)
  have code: "show_int (int 202) = ''202''" by code_simp
  have "check_reply ?ct op_deleteGateway \<lparr>rp_status = 202, rp_body = None, rp_etag = None\<rparr> =
      Inr \<lparr>rp_status = 202, rp_body = None, rp_etag = None\<rparr>"
    by (simp add: check_reply_def op code [simplified])
  then show ?thesis
    by (simp add: run_operation_def act_simps input path body sent url Let_def op token del: units_simps(2,3) replicate.simps)
qed

lemma removal_returns:
  "cp_remove (createGatewayControlPlaneAdapter (sdk_ports sample_page (act_return ()) (\<lambda>_. None) (\<lambda>_. None))) ''7''
     \<lparr>ic_correlation_id = ''c'', ic_signal = None\<rparr> sample_network = (Inr (), after_deletion)"
proof -
  have "check_options (sdk_options sample_page \<lparr>ro_signal = None, ro_traceparent = None\<rparr>) = Inr None" by code_simp
  then have "api_deleteGateway (sdk_client sample_page) ''7'' \<lparr>ro_signal = None, ro_traceparent = None\<rparr> sample_network =
      (Inr (), after_deletion)"
    using deletion_runs
    by (simp add: sdk_client_def client_call_def settle_def body_unread_def sample_page_def del: units_simps)
  then show ?thesis
    by (simp add: createGatewayControlPlaneAdapter_def adapter_remove_def mapFailure_def mapSDKFailure_def api_call_def
        requestOptions_def sdk_ports_def act_simps)
qed

lemma deletion_reaches_the_named_gateway_witness:
  "\<exists>s rq. sent after_deletion = [s, rq] \<and> rq_method rq = ''DELETE'' \<and>
     rq_href rq = units ''h/api/hypershell/v1/gateways/7'' \<and> rq_csrf rq = Some (units (replicate 43 (CHR ''t'')))"
proof -
  have "encode_query (pg_platform sample_page) [] = []" by (simp add: sample_page_def simple_platform_def)
  from deletion_reaches_the_named_gateway [OF this removal_returns]
  obtain s rq where "sent after_deletion = sent sample_network @ [s, rq]" by blast
  then show ?thesis
    by (auto simp: sample_network_def after_deletion_def sample_deletion_request_def simp del: units_simps)
qed

end
