(* ===== verification/Gateway_Messages.thy ===== *)
theory Gateway_Messages
  imports Account_Pages Placement_Select Gateway_Metrics "HOL-Library.List_Lexorder" "HOL-Library.Char_ord"
begin

text \<open>
  What the console says: the messages the code declares (\<open>messages.ts\<close> of the package, \<open>i18n/messages.ts\<close>
  of the console, and those of the metrics dashboard), the catalog \<open>locales/en.json\<close> the console loads for
  them (\<open>i18n/catalog.ts\<close>), and the calls that give a message its arguments. Descriptions, which are
  for translators and which no code reads, are left out. The library that looks a message up and fills
  in its arguments is a parameter.
\<close>

section \<open>Messages\<close>

text \<open>A message by its identifier and its default text, as \<open>defineMessages\<close> is given it\<close>

datatype message = Message (ms_id: string) (ms_text: string)

definition gateway_messages_1 :: "(string \<times> message) list" where
  "gateway_messages_1 =
     [(''actions'', Message ''app.table.column.actions'' ''Actions''),
      (''activeSandboxes'', Message ''app.gateway.column.activeSandboxes'' ''Active sandboxes''),
      (''cancel'', Message ''app.action.cancel'' ''Cancel''),
      (''clearClusterSearch'', Message ''app.gateway.cluster.clearSearch'' ''Clear cluster search''),
      (''clearFilters'', Message ''app.table.clearFilters'' ''Clear filters''),
      (''cliConnection'', Message ''app.gateway.cliConnection'' ''CLI connection''),
      (''cliConnectionCommandCopied'', Message ''app.gateway.cliConnectionCommandCopied'' ''CLI connection command for {gatewayName} copied''),
      (''cliConnectionCommandCopyFailed'', Message ''app.gateway.cliConnectionCommandCopyFailed'' ''CLI connection command for {gatewayName} could not be copied''),
      (''close'', Message ''app.action.close'' ''Close''),
      (''cluster'', Message ''app.gateway.cluster'' ''Cluster''),
      (''clusterLoadError'', Message ''app.gateway.cluster.loadError.title'' ''Managed clusters could not be loaded''),
      (''clusterLoadErrorBody'', Message ''app.gateway.cluster.loadError.body'' ''You can provision on Hub cluster (default), or try loading managed clusters again.''),
      (''clusterProvider'', Message ''app.gateway.cluster.provider'' ''Provider: {provider}''),
      (''clusterProviderAndRegion'', Message ''app.gateway.cluster.providerAndRegion'' ''Provider: {provider}; region: {region}''),
      (''clusterRegion'', Message ''app.gateway.cluster.region'' ''Region: {region}''),
      (''connectionInstallLink'', Message ''app.gateway.connection.installLink'' ''Install the OpenShell CLI''),
      (''connectionInstallLinkNewTab'', Message ''app.gateway.connection.installLinkNewTab'' ''Install the OpenShell CLI (opens in a new tab)''),
      (''connectionInstallPrereq'', Message ''app.gateway.connection.installPrereq'' ''The OpenShell CLI must be installed before running the commands below.''),
      (''connectionInstallPrereqTitle'', Message ''app.gateway.connection.installPrereqTitle'' ''Prerequisite''),
      (''connectionLoginUnavailable'', Message ''app.gateway.connection.login.unavailable'' ''This gateway is still provisioning. Its connection command becomes available once the gateway is running.''),
      (''connectionSandboxDescription'', Message ''app.gateway.connection.sandbox.description'' ''Once setup is done, run this whenever you want a fresh sandbox running Claude through this gateway.''),
      (''connectionSandboxTitle'', Message ''app.gateway.connection.sandbox.title'' ''Create a sandbox''),
      (''connectionSetupDescription'', Message ''app.gateway.connection.setup.description'' ''Run these once to log in, add the Claude on Vertex AI provider, and select the model.''),
      (''connectionSetupTitle'', Message ''app.gateway.connection.setup.title'' ''One-time setup''),
      (''connectionTab'', Message ''app.gateway.connection.tab'' ''Connection''),
      (''connectionTabsLabel'', Message ''app.gateway.connection.tabsLabel'' ''Gateway connection, service accounts, and details''),
      (''copied'', Message ''app.clipboard.copied'' ''Copied'')]"

definition gateway_messages_2 :: "(string \<times> message) list" where
  "gateway_messages_2 =
     [(''copy'', Message ''app.clipboard.copy'' ''Copy''),
      (''copyCliConnectionCommand'', Message ''app.gateway.copyCliConnectionCommand'' ''Copy CLI connection command''),
      (''copyConnectionCommand'', Message ''app.gateway.copyConnectionCommand'' ''Copy connection command for {gatewayName}''),
      (''copyGatewayEndpoint'', Message ''app.gateway.copyEndpoint'' ''Copy gateway endpoint for {gatewayName}''),
      (''copySandboxCommand'', Message ''app.gateway.connection.copySandboxCommand'' ''Copy the create-sandbox command''),
      (''copySetupCommand'', Message ''app.gateway.connection.copySetupCommand'' ''Copy the one-time setup commands''),
      (''created'', Message ''app.table.column.created'' ''Created''),
      (''deleteGateway'', Message ''app.gateway.delete'' ''Delete gateway''),
      (''deleteGatewayActiveSandboxWarning'', Message ''app.gateway.delete.activeSandboxWarning'' ''This gateway has {count, plural, one {# active sandbox} other {# active sandboxes}} that will be disrupted by deletion.''),
      (''deleteGatewayConfirmation'', Message ''app.gateway.delete.confirmation'' ''Deleting {gatewayName} starts permanent cleanup. New service accounts are blocked. The gateway stays visible until cleanup is complete.''),
      (''deleteGatewayTitle'', Message ''app.gateway.delete.title'' ''Delete {gatewayName}?''),
      (''deletingGateway'', Message ''app.gateway.delete.pending'' ''Sending deletion request''),
      (''detailsTab'', Message ''app.gateway.detailsTab'' ''Details''),
      (''editModel'', Message ''app.gateway.connection.editModel'' ''Model (editable)''),
      (''editProviderName'', Message ''app.gateway.connection.editProviderName'' ''Provider name (editable)''),
      (''editSandboxName'', Message ''app.gateway.connection.editSandboxName'' ''Sandbox name (editable)''),
      (''error'', Message ''app.status.error'' ''Error:''),
      (''filterGateways'', Message ''app.page.gateways.filter'' ''Filter by name, cluster, status, or endpoint''),
      (''gateway'', Message ''app.gateway.singular'' ''Gateway''),
      (''gatewayDeleted'', Message ''app.gateway.deleted'' ''Deletion requested for gateway {gatewayName}''),
      (''gatewayDeleteError'', Message ''app.gateway.delete.error.title'' ''Deletion request failed''),
      (''gatewayDeleteErrorBody'', Message ''app.gateway.delete.error.body'' ''Refresh the gateway to check its state. You can send the request again.''),
      (''gatewayDescription'', Message ''app.page.gateway.description'' ''Connect to this gateway and review its configuration.''),
      (''gatewayDetailsTitle'', Message ''app.page.gatewayDetails.title'' ''Gateway details''),
      (''gatewayEndpoint'', Message ''app.gateway.endpoint'' ''Gateway endpoint''),
      (''gatewayLoadError'', Message ''app.gateway.load.error.title'' ''Gateways could not be loaded''),
      (''gatewayLoadErrorBody'', Message ''app.gateway.load.error.body'' ''Refresh the page to try again.''),
      (''gatewayName'', Message ''app.gateway.name'' ''Gateway name'')]"

definition gateway_messages_3 :: "(string \<times> message) list" where
  "gateway_messages_3 =
     [(''gatewayProvisionError'', Message ''app.page.gatewayProvision.error.title'' ''Gateway could not be provisioned''),
      (''gatewayProvisionErrorBody'', Message ''app.page.gatewayProvision.error.body'' ''Check the values and try again.''),
      (''gatewayReleaseId'', Message ''app.gateway.releaseId'' ''Gateway release ID''),
      (''gatewayRenamed'', Message ''app.gateway.renamed'' ''Gateway renamed to {gatewayName}''),
      (''gatewayRenameError'', Message ''app.gateway.rename.error.title'' ''Gateway could not be renamed''),
      (''gatewayRenameErrorBody'', Message ''app.gateway.rename.error.body'' ''No changes were made. Choose a different name or try again.''),
      (''gatewayRowActions'', Message ''app.gateway.rowActions'' ''Actions for {gatewayName}''),
      (''gateways'', Message ''app.nav.gateways'' ''OpenShell Gateways''),
      (''gatewaysDescription'', Message ''app.page.gateways.description'' ''HyperShell gateways.''),
      (''gatewaysEmptyBody'', Message ''app.page.gateways.empty.body'' ''Provisioned gateways will appear here.''),
      (''gatewaysEmptyTitle'', Message ''app.page.gateways.empty.title'' ''No gateways''),
      (''hubCluster'', Message ''app.gateway.cluster.hub'' ''Hub cluster''),
      (''hubClusterDefault'', Message ''app.gateway.cluster.hubDefault'' ''Hub cluster (default)''),
      (''loadingClusterName'', Message ''app.gateway.cluster.loadingName'' ''Loading cluster name''),
      (''loadingClusters'', Message ''app.gateway.cluster.loading'' ''Loading managed clusters''),
      (''loadingGateways'', Message ''app.gateway.loading'' ''Loading gateways''),
      (''moreClustersAvailable'', Message ''app.gateway.cluster.moreResults'' ''More clusters are available. Refine your search to find a specific cluster.''),
      (''namespace'', Message ''app.gateway.namespace'' ''Namespace''),
      (''noMatchingClusters'', Message ''app.gateway.cluster.noResults'' ''No matching clusters''),
      (''noMatchingGateways'', Message ''app.page.gateways.noResults.title'' ''No matching gateways''),
      (''noMatchingGatewaysBody'', Message ''app.page.gateways.noResults.body'' ''Adjust or clear the filter to see gateways.''),
      (''notAvailable'', Message ''app.value.notAvailable'' ''Not available''),
      (''notifications'', Message ''app.notifications'' ''Notifications''),
      (''openGatewayConsole'', Message ''app.gateway.openConsole'' ''Open gateway console''),
      (''openGatewayConsoleFor'', Message ''app.gateway.openConsoleFor'' ''Open console for {gatewayName} in a new tab''),
      (''owner'', Message ''app.gateway.column.owner'' ''Created by''),
      (''provisionGateway'', Message ''app.page.gatewayProvision.title'' ''Provision gateway''),
      (''provisionGatewayDescription'', Message ''app.page.gatewayProvision.description'' ''Configure a new OpenShell gateway.'')]"

definition gateway_messages_4 :: "(string \<times> message) list" where
  "gateway_messages_4 =
     [(''provisioningGateway'', Message ''app.page.gatewayProvision.pending'' ''Provisioning gateway''),
      (''provisioningGatewayConsole'', Message ''app.gateway.provisioningConsole'' ''Provisioning console...''),
      (''refreshGateways'', Message ''app.gateways.refresh'' ''Refresh gateways''),
      (''renameGateway'', Message ''app.gateway.rename'' ''Rename gateway''),
      (''renameGatewayTitle'', Message ''app.gateway.rename.title'' ''Rename {gatewayName}''),
      (''renamingGateway'', Message ''app.gateway.rename.pending'' ''Renaming gateway''),
      (''requiredField'', Message ''app.form.requiredField'' ''This field is required.''),
      (''results'', Message ''app.table.results'' ''results''),
      (''retry'', Message ''app.action.retry'' ''Retry''),
      (''selectCluster'', Message ''app.gateway.cluster.select'' ''Select a cluster''),
      (''status'', Message ''app.table.column.status'' ''Status''),
      (''serviceAccountsTab'', Message ''app.gateway.serviceAccounts.tab'' ''Service accounts''),
      (''serviceAccountsHeading'', Message ''app.gateway.serviceAccounts.heading'' ''Service accounts''),
      (''serviceAccountsDescription'', Message ''app.gateway.serviceAccounts.description'' ''Use service accounts for automation. Each account exchanges client credentials for short-lived JWTs that work only with this gateway.''),
      (''manageServiceAccounts'', Message ''app.gateway.serviceAccounts.manage'' ''Create or manage service accounts''),
      (''createServiceAccount'', Message ''app.gateway.serviceAccounts.create'' ''Create service account''),
      (''creatingServiceAccount'', Message ''app.gateway.serviceAccounts.creating'' ''Creating service account''),
      (''refreshServiceAccounts'', Message ''app.gateway.serviceAccounts.refresh'' ''Refresh service accounts''),
      (''filterServiceAccounts'', Message ''app.gateway.serviceAccounts.filter'' ''Filter by name or client ID''),
      (''serviceAccountRole'', Message ''app.gateway.serviceAccounts.role'' ''OpenShell role''),
      (''serviceAccountStatusProvisioning'', Message ''app.gateway.serviceAccounts.status.provisioning'' ''Provisioning''),
      (''serviceAccountStatusReady'', Message ''app.gateway.serviceAccounts.status.ready'' ''Ready''),
      (''serviceAccountStatusExpired'', Message ''app.gateway.serviceAccounts.status.expired'' ''Expired''),
      (''serviceAccountStatusRevoking'', Message ''app.gateway.serviceAccounts.status.revoking'' ''Revoking''),
      (''serviceAccountStatusRevoked'', Message ''app.gateway.serviceAccounts.status.revoked'' ''Revoked''),
      (''serviceAccountStatusDeleting'', Message ''app.gateway.serviceAccounts.status.deleting'' ''Deleting''),
      (''serviceAccountStatusError'', Message ''app.gateway.serviceAccounts.status.error'' ''Error''),
      (''serviceAccountStatusDegraded'', Message ''app.gateway.serviceAccounts.status.degraded'' ''Degraded''),
      (''expiration'', Message ''app.gateway.serviceAccounts.expiration'' ''Expiration'')]"

definition gateway_messages_5 :: "(string \<times> message) list" where
  "gateway_messages_5 =
     [(''serviceAccountsEmptyTitle'', Message ''app.gateway.serviceAccounts.empty.title'' ''No service accounts''),
      (''serviceAccountsEmptyBody'', Message ''app.gateway.serviceAccounts.empty.body'' ''Create a service account when automation needs this gateway.''),
      (''noMatchingServiceAccounts'', Message ''app.gateway.serviceAccounts.noResults.title'' ''No matching service accounts''),
      (''noMatchingServiceAccountsBody'', Message ''app.gateway.serviceAccounts.noResults.body'' ''Clear the search and status filter to see all accounts.''),
      (''serviceAccountsLoadError'', Message ''app.gateway.serviceAccounts.loadError.title'' ''Service accounts could not be loaded''),
      (''serviceAccountsLoadErrorBody'', Message ''app.gateway.serviceAccounts.loadError.body'' ''Your filters are unchanged. Try loading this page again.''),
      (''serviceAccountOwnScope'', Message ''app.gateway.serviceAccounts.ownScope'' ''This list contains only service accounts that you created.''),
      (''serviceAccountCreateDenied'', Message ''app.gateway.serviceAccounts.createDenied'' ''You do not have permission to create a service account for this gateway.''),
      (''viewServiceAccountDetails'', Message ''app.gateway.serviceAccounts.viewDetails'' ''View account details''),
      (''serviceAccountDescription'', Message ''app.gateway.serviceAccounts.field.description'' ''Description (optional)''),
      (''clientId'', Message ''app.gateway.serviceAccounts.clientId'' ''Client ID''),
      (''clientSecret'', Message ''app.gateway.serviceAccounts.clientSecret'' ''Client secret''),
      (''subject'', Message ''app.gateway.serviceAccounts.subject'' ''Service account subject''),
      (''subjectHelp'', Message ''app.gateway.serviceAccounts.subjectHelp'' ''This stable ID is the JWT subject (sub). Gateway administrators use it to grant workspace access.''),
      (''serviceAccountName'', Message ''app.gateway.serviceAccounts.name'' ''Service account name''),
      (''optional'', Message ''app.form.optional'' ''Optional''),
      (''openshellUserRoleDescription'', Message ''app.gateway.serviceAccounts.role.user.description'' ''Can authenticate as openshell-user. A gateway administrator must separately add its subject to each workspace it needs.''),
      (''openshellAdminRoleDescription'', Message ''app.gateway.serviceAccounts.role.admin.description'' ''Can perform OpenShell administrative operations on this gateway.''),
      (''serviceAccountExpirationOption'', Message ''app.gateway.serviceAccounts.expiration.option'' ''{days, plural, one {# day} other {# days}}''),
      (''serviceAccountExpiresPreview'', Message ''app.gateway.serviceAccounts.expiration.preview'' ''Expires {expiration}.''),
      (''serviceAccountTokenLifetimeNote'', Message ''app.gateway.serviceAccounts.expiration.tokenNote'' ''Account expiration stops future token grants. Each access token has a separate short lifetime.''),
      (''serviceAccountCreateError'', Message ''app.gateway.serviceAccounts.createError.title'' ''Service account could not be created''),
      (''serviceAccountCreateErrorBody'', Message ''app.gateway.serviceAccounts.createError.body'' ''Review the values and try again.''),
      (''serviceAccountNameExists'', Message ''app.gateway.serviceAccounts.nameExists.title'' ''A service account with this name already exists''),
      (''serviceAccountNameExistsBody'', Message ''app.gateway.serviceAccounts.nameExists.body'' ''Choose a different name, or delete the active service account before reusing this name.''),
      (''serviceAccountCreateUncertain'', Message ''app.gateway.serviceAccounts.createUncertain.title'' ''The create result is uncertain''),
      (''serviceAccountCreateUncertainBody'', Message ''app.gateway.serviceAccounts.createUncertain.body'' ''Refresh the list. If the account exists, delete it and create a replacement. Retrying this request cannot recover its client secret.''),
      (''serviceAccountSetupTitle'', Message ''app.gateway.serviceAccounts.setup.title'' ''Set up {serviceAccountName}'')]"

definition gateway_messages_6 :: "(string \<times> message) list" where
  "gateway_messages_6 =
     [(''serviceAccountSecretOnce'', Message ''app.gateway.serviceAccounts.secretOnce'' ''Save this client secret now. HyperShell cannot show it again.''),
      (''serviceAccountSecretUnavailable'', Message ''app.gateway.serviceAccounts.secretUnavailable'' ''The client secret is no longer available. Use the secret you saved, or create a replacement service account.''),
      (''showClientSecret'', Message ''app.gateway.serviceAccounts.secret.show'' ''Show client secret''),
      (''hideClientSecret'', Message ''app.gateway.serviceAccounts.secret.hide'' ''Hide client secret''),
      (''copyClientSecret'', Message ''app.gateway.serviceAccounts.secret.copy'' ''Copy client secret''),
      (''serviceAccountCopyFailed'', Message ''app.gateway.serviceAccounts.copyFailed'' ''Could not copy to the clipboard. Copy the value manually or try again.''),
      (''openShellCliSetup'', Message ''app.gateway.serviceAccounts.setup.openshell'' ''Use with the OpenShell CLI''),
      (''exchangeCredentialsForJwt'', Message ''app.gateway.serviceAccounts.setup.jwt'' ''Exchange credentials for a JWT''),
      (''copyOpenShellServiceAccountCommands'', Message ''app.gateway.serviceAccounts.setup.copyOpenShell'' ''Copy OpenShell CLI setup commands''),
      (''copyJwtExchangeCommands'', Message ''app.gateway.serviceAccounts.setup.copyJwt'' ''Copy JWT exchange commands''),
      (''serviceAccountCommandsUnavailable'', Message ''app.gateway.serviceAccounts.setup.unavailable'' ''Setup commands are unavailable because required connection metadata is missing.''),
      (''workspaceMembershipNote'', Message ''app.gateway.serviceAccounts.workspaceMembership'' ''This service account does not inherit your workspace access. Give the service account subject above to a gateway administrator. The administrator must add it to each required workspace.''),
      (''grantWorkspaceAccess'', Message ''app.gateway.serviceAccounts.workspaceGrant.title'' ''Grant workspace access''),
      (''workspaceGrantInstructions'', Message ''app.gateway.serviceAccounts.workspaceGrant.instructions'' ''After selecting this gateway, a gateway administrator can replace the workspace name and run:''),
      (''copyWorkspaceGrantCommand'', Message ''app.gateway.serviceAccounts.workspaceGrant.copy'' ''Copy workspace access command''),
      (''acknowledgeSecretSaved'', Message ''app.gateway.serviceAccounts.secret.acknowledge'' ''I saved the client secret in a secure secret manager.''),
      (''finishSetup'', Message ''app.gateway.serviceAccounts.setup.finish'' ''Finish setup''),
      (''closeSetup'', Message ''app.gateway.serviceAccounts.setup.close'' ''Close setup instructions''),
      (''leaveWithoutSecretTitle'', Message ''app.gateway.serviceAccounts.secret.leave.title'' ''Leave without saving the client secret?''),
      (''leaveWithoutSecretBody'', Message ''app.gateway.serviceAccounts.secret.leave.body'' ''HyperShell cannot recover this secret. You must delete this service account and create a replacement.''),
      (''leaveSetup'', Message ''app.gateway.serviceAccounts.secret.leave'' ''Leave setup''),
      (''returnToSetup'', Message ''app.gateway.serviceAccounts.secret.return'' ''Return to setup''),
      (''serviceAccountRowActions'', Message ''app.gateway.serviceAccounts.rowActions'' ''Actions for service account {serviceAccountName}''),
      (''viewSetupInstructions'', Message ''app.gateway.serviceAccounts.viewSetup'' ''View setup instructions''),
      (''revokeServiceAccount'', Message ''app.gateway.serviceAccounts.revoke'' ''Revoke service account''),
      (''deleteServiceAccount'', Message ''app.gateway.serviceAccounts.delete'' ''Delete service account''),
      (''revokeServiceAccountTitle'', Message ''app.gateway.serviceAccounts.revoke.title'' ''Revoke {serviceAccountName}?''),
      (''revokeServiceAccountBody'', Message ''app.gateway.serviceAccounts.revoke.body'' ''Keycloak will permanently stop issuing new access tokens. Tokens already issued can work until they expire. The account will remain here for audit and later deletion.'')]"

definition gateway_messages_7 :: "(string \<times> message) list" where
  "gateway_messages_7 =
     [(''deleteServiceAccountTitle'', Message ''app.gateway.serviceAccounts.delete.title'' ''Delete {serviceAccountName}?''),
      (''deleteServiceAccountBody'', Message ''app.gateway.serviceAccounts.delete.body'' ''This removes the Keycloak identity and the visible service account. A ready account is revoked first. Tokens already issued can work until they expire.''),
      (''revokingServiceAccount'', Message ''app.gateway.serviceAccounts.revoking'' ''Revoking service account''),
      (''deletingServiceAccount'', Message ''app.gateway.serviceAccounts.deleting'' ''Deleting service account''),
      (''serviceAccountActionError'', Message ''app.gateway.serviceAccounts.actionError.title'' ''The service account could not be updated''),
      (''serviceAccountActionErrorBody'', Message ''app.gateway.serviceAccounts.actionError.body'' ''No confirmed change was reported. Try again or refresh the list.''),
      (''loadingServiceAccount'', Message ''app.gateway.serviceAccounts.loadingOne'' ''Loading service account''),
      (''unavailableGatewayConsole'', Message ''app.gateway.unavailableConsole'' ''Console unavailable for this gateway'')]"

definition gateway_messages :: "(string \<times> message) list" where
  "gateway_messages = gateway_messages_1 @
     gateway_messages_2 @
     gateway_messages_3 @
     gateway_messages_4 @
     gateway_messages_5 @
     gateway_messages_6 @
     gateway_messages_7"

definition web_messages :: "(string \<times> message) list" where
  "web_messages =
     [(''account'', Message ''app.account'' ''Account''),
      (''breadcrumbLabel'', Message ''app.breadcrumb.ariaLabel'' ''Breadcrumb''),
      (''errorBody'', Message ''app.error.body'' ''Refresh the page to try again.''),
      (''errorTitle'', Message ''app.error.title'' ''The page could not be loaded''),
      (''helloDescription'', Message ''app.hello.description'' ''The HyperShell web console is ready for development.''),
      (''helloTitle'', Message ''app.hello.title'' ''Hello world''),
      (''logout'', Message ''app.logout'' ''Log out''),
      (''notFoundBody'', Message ''app.notFound.body'' ''Check the address and try again.''),
      (''notFoundTitle'', Message ''app.notFound.title'' ''Page not found''),
      (''productName'', Message ''app.productName'' ''HyperShell''),
      (''skipToContent'', Message ''app.skipToContent'' ''Skip to content''),
      (''switchToDarkMode'', Message ''app.toggleDarkMode.off'' ''Switch to dark mode''),
      (''switchToLightMode'', Message ''app.toggleDarkMode.on'' ''Switch to light mode''),
      (''metricsNavLabel'', Message ''app.nav.metrics'' ''Metrics''),
      (''metricsPageDescription'', Message ''app.page.metrics.description'' ''Gateway phase metrics dashboard showing running, provisioning, degraded, and failed gateway counts.'')]"

definition metrics_messages :: "(string \<times> message) list" where
  "metrics_messages =
     [(''dashboardTitle'', Message ''app.metrics.dashboard.title'' ''Gateway metrics''),
      (''loadError'', Message ''app.metrics.dashboard.loadError'' ''Metrics could not be loaded''),
      (''loadErrorBody'', Message ''app.metrics.dashboard.loadErrorBody'' ''Check that Prometheus is running and reachable, then refresh.''),
      (''loadingAriaLabel'', Message ''app.metrics.dashboard.loading'' ''Loading metrics''),
      (''phaseRunning'', Message ''app.metrics.phase.running'' ''Running''),
      (''phaseProvisioning'', Message ''app.metrics.phase.provisioning'' ''Provisioning''),
      (''phaseDegraded'', Message ''app.metrics.phase.degraded'' ''Degraded''),
      (''phaseFailed'', Message ''app.metrics.phase.failed'' ''Failed''),
      (''gateways'', Message ''app.metrics.phase.gateways'' ''{count, plural, one {# gateway} other {# gateways}}'')]"

definition console_messages :: "(string \<times> message) list" where
  "console_messages = gateway_messages @ web_messages @ metrics_messages"

section \<open>The catalog\<close>

text \<open>\<open>locales/en.json\<close>: the identifiers and their texts\<close>

definition english_catalog_1 :: "(string \<times> string) list" where
  "english_catalog_1 =
     [(''app.account'', ''Account''),
      (''app.action.cancel'', ''Cancel''),
      (''app.action.close'', ''Close''),
      (''app.action.retry'', ''Retry''),
      (''app.breadcrumb.ariaLabel'', ''Breadcrumb''),
      (''app.clipboard.copied'', ''Copied''),
      (''app.clipboard.copy'', ''Copy''),
      (''app.error.body'', ''Refresh the page to try again.''),
      (''app.error.title'', ''The page could not be loaded''),
      (''app.form.optional'', ''Optional''),
      (''app.form.requiredField'', ''This field is required.''),
      (''app.gateway.cliConnection'', ''CLI connection''),
      (''app.gateway.cliConnectionCommandCopied'', ''CLI connection command for {gatewayName} copied''),
      (''app.gateway.cliConnectionCommandCopyFailed'', ''CLI connection command for {gatewayName} could not be copied''),
      (''app.gateway.cluster'', ''Cluster''),
      (''app.gateway.cluster.clearSearch'', ''Clear cluster search''),
      (''app.gateway.cluster.hub'', ''Hub cluster''),
      (''app.gateway.cluster.hubDefault'', ''Hub cluster (default)''),
      (''app.gateway.cluster.loadError.body'', ''You can provision on Hub cluster (default), or try loading managed clusters again.''),
      (''app.gateway.cluster.loadError.title'', ''Managed clusters could not be loaded''),
      (''app.gateway.cluster.loading'', ''Loading managed clusters''),
      (''app.gateway.cluster.loadingName'', ''Loading cluster name''),
      (''app.gateway.cluster.moreResults'', ''More clusters are available. Refine your search to find a specific cluster.''),
      (''app.gateway.cluster.noResults'', ''No matching clusters''),
      (''app.gateway.cluster.provider'', ''Provider: {provider}''),
      (''app.gateway.cluster.providerAndRegion'', ''Provider: {provider}; region: {region}''),
      (''app.gateway.cluster.region'', ''Region: {region}''),
      (''app.gateway.cluster.select'', ''Select a cluster''),
      (''app.gateway.column.activeSandboxes'', ''Active sandboxes''),
      (''app.gateway.column.owner'', ''Created by''),
      (''app.gateway.connection.copySandboxCommand'', ''Copy the create-sandbox command''),
      (''app.gateway.connection.copySetupCommand'', ''Copy the one-time setup commands''),
      (''app.gateway.connection.editModel'', ''Model (editable)''),
      (''app.gateway.connection.editProviderName'', ''Provider name (editable)''),
      (''app.gateway.connection.editSandboxName'', ''Sandbox name (editable)''),
      (''app.gateway.connection.installLink'', ''Install the OpenShell CLI''),
      (''app.gateway.connection.installLinkNewTab'', ''Install the OpenShell CLI (opens in a new tab)'')]"

definition english_catalog_2 :: "(string \<times> string) list" where
  "english_catalog_2 =
     [(''app.gateway.connection.installPrereq'', ''The OpenShell CLI must be installed before running the commands below.''),
      (''app.gateway.connection.installPrereqTitle'', ''Prerequisite''),
      (''app.gateway.connection.login.unavailable'', ''This gateway is still provisioning. Its connection command becomes available once the gateway is running.''),
      (''app.gateway.connection.sandbox.description'', ''Once setup is done, run this whenever you want a fresh sandbox running Claude through this gateway.''),
      (''app.gateway.connection.sandbox.title'', ''Create a sandbox''),
      (''app.gateway.connection.setup.description'', ''Run these once to log in, add the Claude on Vertex AI provider, and select the model.''),
      (''app.gateway.connection.setup.title'', ''One-time setup''),
      (''app.gateway.connection.tab'', ''Connection''),
      (''app.gateway.connection.tabsLabel'', ''Gateway connection, service accounts, and details''),
      (''app.gateway.copyCliConnectionCommand'', ''Copy CLI connection command''),
      (''app.gateway.copyConnectionCommand'', ''Copy connection command for {gatewayName}''),
      (''app.gateway.copyEndpoint'', ''Copy gateway endpoint for {gatewayName}''),
      (''app.gateway.delete'', ''Delete gateway''),
      (''app.gateway.delete.activeSandboxWarning'', ''This gateway has {count, plural, one {# active sandbox} other {# active sandboxes}} that will be disrupted by deletion.''),
      (''app.gateway.delete.confirmation'', ''Deleting {gatewayName} will permanently remove the gateway. This action cannot be undone.''),
      (''app.gateway.delete.error.body'', ''No changes were made. Try again.''),
      (''app.gateway.delete.error.title'', ''Gateway could not be deleted''),
      (''app.gateway.delete.pending'', ''Deleting gateway''),
      (''app.gateway.delete.title'', ''Delete {gatewayName}?''),
      (''app.gateway.deleted'', ''Gateway {gatewayName} deleted''),
      (''app.gateway.detailsTab'', ''Details''),
      (''app.gateway.endpoint'', ''Gateway endpoint''),
      (''app.gateway.load.error.body'', ''Refresh the page to try again.''),
      (''app.gateway.load.error.title'', ''Gateways could not be loaded''),
      (''app.gateway.loading'', ''Loading gateways''),
      (''app.gateway.managedDatabaseId'', ''Managed database ID''),
      (''app.gateway.name'', ''Gateway name''),
      (''app.gateway.namespace'', ''Namespace''),
      (''app.gateway.openConsole'', ''Open gateway console''),
      (''app.gateway.openConsoleFor'', ''Open console for {gatewayName} in a new tab''),
      (''app.gateway.provisioningConsole'', ''Provisioning console...''),
      (''app.gateway.releaseId'', ''Gateway release ID''),
      (''app.gateway.rename'', ''Rename gateway''),
      (''app.gateway.rename.error.body'', ''No changes were made. Choose a different name or try again.''),
      (''app.gateway.rename.error.title'', ''Gateway could not be renamed''),
      (''app.gateway.rename.pending'', ''Renaming gateway''),
      (''app.gateway.rename.title'', ''Rename {gatewayName}'')]"

definition english_catalog_3 :: "(string \<times> string) list" where
  "english_catalog_3 =
     [(''app.gateway.renamed'', ''Gateway renamed to {gatewayName}''),
      (''app.gateway.rowActions'', ''Actions for {gatewayName}''),
      (''app.gateway.serviceAccounts.actionError.body'', ''No confirmed change was reported. Try again or refresh the list.''),
      (''app.gateway.serviceAccounts.actionError.title'', ''The service account could not be updated''),
      (''app.gateway.serviceAccounts.clientId'', ''Client ID''),
      (''app.gateway.serviceAccounts.clientSecret'', ''Client secret''),
      (''app.gateway.serviceAccounts.copyFailed'', ''Could not copy to the clipboard. Copy the value manually or try again.''),
      (''app.gateway.serviceAccounts.create'', ''Create service account''),
      (''app.gateway.serviceAccounts.createDenied'', ''You do not have permission to create a service account for this gateway.''),
      (''app.gateway.serviceAccounts.createError.body'', ''Review the values and try again.''),
      (''app.gateway.serviceAccounts.createError.title'', ''Service account could not be created''),
      (''app.gateway.serviceAccounts.createUncertain.body'', ''Refresh the list. If the account exists, delete it and create a replacement. Retrying this request cannot recover its client secret.''),
      (''app.gateway.serviceAccounts.createUncertain.title'', ''The create result is uncertain''),
      (''app.gateway.serviceAccounts.creating'', ''Creating service account''),
      (''app.gateway.serviceAccounts.delete'', ''Delete service account''),
      (''app.gateway.serviceAccounts.delete.body'', ''This removes the Keycloak identity and the visible service account. A ready account is revoked first. Tokens already issued can work until they expire.''),
      (''app.gateway.serviceAccounts.delete.title'', ''Delete {serviceAccountName}?''),
      (''app.gateway.serviceAccounts.deleting'', ''Deleting service account''),
      (''app.gateway.serviceAccounts.description'', ''Use service accounts for automation. Each account exchanges client credentials for short-lived JWTs that work only with this gateway.''),
      (''app.gateway.serviceAccounts.empty.body'', ''Create a service account when automation needs this gateway.''),
      (''app.gateway.serviceAccounts.empty.title'', ''No service accounts''),
      (''app.gateway.serviceAccounts.expiration'', ''Expiration''),
      (''app.gateway.serviceAccounts.expiration.option'', ''{days, plural, one {# day} other {# days}}''),
      (''app.gateway.serviceAccounts.expiration.preview'', ''Expires {expiration}.''),
      (''app.gateway.serviceAccounts.expiration.tokenNote'', ''Account expiration stops future token grants. Each access token has a separate short lifetime.''),
      (''app.gateway.serviceAccounts.field.description'', ''Description (optional)''),
      (''app.gateway.serviceAccounts.filter'', ''Filter by name or client ID''),
      (''app.gateway.serviceAccounts.heading'', ''Service accounts''),
      (''app.gateway.serviceAccounts.loadError.body'', ''Your filters are unchanged. Try loading this page again.''),
      (''app.gateway.serviceAccounts.loadError.title'', ''Service accounts could not be loaded''),
      (''app.gateway.serviceAccounts.loadingOne'', ''Loading service account''),
      (''app.gateway.serviceAccounts.manage'', ''Create or manage service accounts''),
      (''app.gateway.serviceAccounts.name'', ''Service account name''),
      (''app.gateway.serviceAccounts.nameExists.body'', ''Choose a different name, or delete the active service account before reusing this name.''),
      (''app.gateway.serviceAccounts.nameExists.title'', ''A service account with this name already exists''),
      (''app.gateway.serviceAccounts.noResults.body'', ''Clear the search and status filter to see all accounts.''),
      (''app.gateway.serviceAccounts.noResults.title'', ''No matching service accounts'')]"

definition english_catalog_4 :: "(string \<times> string) list" where
  "english_catalog_4 =
     [(''app.gateway.serviceAccounts.ownScope'', ''This list contains only service accounts that you created.''),
      (''app.gateway.serviceAccounts.refresh'', ''Refresh service accounts''),
      (''app.gateway.serviceAccounts.revoke'', ''Revoke service account''),
      (''app.gateway.serviceAccounts.revoke.body'', ''Keycloak will permanently stop issuing new access tokens. Tokens already issued can work until they expire. The account will remain here for audit and later deletion.''),
      (''app.gateway.serviceAccounts.revoke.title'', ''Revoke {serviceAccountName}?''),
      (''app.gateway.serviceAccounts.revoking'', ''Revoking service account''),
      (''app.gateway.serviceAccounts.role'', ''OpenShell role''),
      (''app.gateway.serviceAccounts.role.admin.description'', ''Can perform OpenShell administrative operations on this gateway.''),
      (''app.gateway.serviceAccounts.role.user.description'', ''Can authenticate as openshell-user. A gateway administrator must separately add its subject to each workspace it needs.''),
      (''app.gateway.serviceAccounts.rowActions'', ''Actions for service account {serviceAccountName}''),
      (''app.gateway.serviceAccounts.secret.acknowledge'', ''I saved the client secret in a secure secret manager.''),
      (''app.gateway.serviceAccounts.secret.copy'', ''Copy client secret''),
      (''app.gateway.serviceAccounts.secret.hide'', ''Hide client secret''),
      (''app.gateway.serviceAccounts.secret.leave'', ''Leave setup''),
      (''app.gateway.serviceAccounts.secret.leave.body'', ''HyperShell cannot recover this secret. You must delete this service account and create a replacement.''),
      (''app.gateway.serviceAccounts.secret.leave.title'', ''Leave without saving the client secret?''),
      (''app.gateway.serviceAccounts.secret.return'', ''Return to setup''),
      (''app.gateway.serviceAccounts.secret.show'', ''Show client secret''),
      (''app.gateway.serviceAccounts.secretOnce'', ''Save this client secret now. HyperShell cannot show it again.''),
      (''app.gateway.serviceAccounts.secretUnavailable'', ''The client secret is no longer available. Use the secret you saved, or create a replacement service account.''),
      (''app.gateway.serviceAccounts.setup.close'', ''Close setup instructions''),
      (''app.gateway.serviceAccounts.setup.copyJwt'', ''Copy JWT exchange commands''),
      (''app.gateway.serviceAccounts.setup.copyOpenShell'', ''Copy OpenShell CLI setup commands''),
      (''app.gateway.serviceAccounts.setup.finish'', ''Finish setup''),
      (''app.gateway.serviceAccounts.setup.jwt'', ''Exchange credentials for a JWT''),
      (''app.gateway.serviceAccounts.setup.openshell'', ''Use with the OpenShell CLI''),
      (''app.gateway.serviceAccounts.setup.title'', ''Set up {serviceAccountName}''),
      (''app.gateway.serviceAccounts.setup.unavailable'', ''Setup commands are unavailable because required connection metadata is missing.''),
      (''app.gateway.serviceAccounts.status.degraded'', ''Degraded''),
      (''app.gateway.serviceAccounts.status.deleting'', ''Deleting''),
      (''app.gateway.serviceAccounts.status.error'', ''Error''),
      (''app.gateway.serviceAccounts.status.expired'', ''Expired''),
      (''app.gateway.serviceAccounts.status.provisioning'', ''Provisioning''),
      (''app.gateway.serviceAccounts.status.ready'', ''Ready''),
      (''app.gateway.serviceAccounts.status.revoked'', ''Revoked''),
      (''app.gateway.serviceAccounts.status.revoking'', ''Revoking''),
      (''app.gateway.serviceAccounts.subject'', ''Service account subject'')]"

definition english_catalog_5 :: "(string \<times> string) list" where
  "english_catalog_5 =
     [(''app.gateway.serviceAccounts.subjectHelp'', ''This stable ID is the JWT subject (sub). Gateway administrators use it to grant workspace access.''),
      (''app.gateway.serviceAccounts.tab'', ''Service accounts''),
      (''app.gateway.serviceAccounts.viewDetails'', ''View account details''),
      (''app.gateway.serviceAccounts.viewSetup'', ''View setup instructions''),
      (''app.gateway.serviceAccounts.workspaceGrant.copy'', ''Copy workspace access command''),
      (''app.gateway.serviceAccounts.workspaceGrant.instructions'', ''After selecting this gateway, a gateway administrator can replace the workspace name and run:''),
      (''app.gateway.serviceAccounts.workspaceGrant.title'', ''Grant workspace access''),
      (''app.gateway.serviceAccounts.workspaceMembership'', ''This service account does not inherit your workspace access. Give the service account subject above to a gateway administrator. The administrator must add it to each required workspace.''),
      (''app.gateway.singular'', ''Gateway''),
      (''app.gateway.unavailableConsole'', ''Console unavailable for this gateway''),
      (''app.gateways.refresh'', ''Refresh gateways''),
      (''app.hello.description'', ''The HyperShell web console is ready for development.''),
      (''app.hello.title'', ''Hello world''),
      (''app.logout'', ''Log out''),
      (''app.metrics.dashboard.loadError'', ''Metrics could not be loaded''),
      (''app.metrics.dashboard.loadErrorBody'', ''Check that Prometheus is running and reachable, then refresh.''),
      (''app.metrics.dashboard.loading'', ''Loading metrics''),
      (''app.metrics.dashboard.title'', ''Gateway metrics''),
      (''app.metrics.phase.degraded'', ''Degraded''),
      (''app.metrics.phase.failed'', ''Failed''),
      (''app.metrics.phase.gateways'', ''{count, plural, one {# gateway} other {# gateways}}''),
      (''app.metrics.phase.provisioning'', ''Provisioning''),
      (''app.metrics.phase.running'', ''Running''),
      (''app.nav.gateways'', ''OpenShell Gateways''),
      (''app.nav.metrics'', ''Metrics''),
      (''app.notFound.body'', ''Check the address and try again.''),
      (''app.notFound.title'', ''Page not found''),
      (''app.notifications'', ''Notifications''),
      (''app.page.gateway.description'', ''Connect to this gateway and review its configuration.''),
      (''app.page.gatewayDetails.title'', ''Gateway details''),
      (''app.page.gatewayProvision.description'', ''Configure a new OpenShell gateway.''),
      (''app.page.gatewayProvision.error.body'', ''Check the values and try again.''),
      (''app.page.gatewayProvision.error.title'', ''Gateway could not be provisioned''),
      (''app.page.gatewayProvision.pending'', ''Provisioning gateway''),
      (''app.page.gatewayProvision.title'', ''Provision gateway''),
      (''app.page.gateways.description'', ''HyperShell gateways.''),
      (''app.page.gateways.empty.body'', ''Provisioned gateways will appear here.'')]"

definition english_catalog_6 :: "(string \<times> string) list" where
  "english_catalog_6 =
     [(''app.page.gateways.empty.title'', ''No gateways''),
      (''app.page.gateways.filter'', ''Filter by name, cluster, status, or endpoint''),
      (''app.page.gateways.noResults.body'', ''Adjust or clear the filter to see gateways.''),
      (''app.page.gateways.noResults.title'', ''No matching gateways''),
      (''app.page.metrics.description'', ''Gateway phase metrics dashboard showing running, provisioning, degraded, and failed gateway counts.''),
      (''app.productName'', ''HyperShell''),
      (''app.skipToContent'', ''Skip to content''),
      (''app.status.error'', ''Error:''),
      (''app.table.clearFilters'', ''Clear filters''),
      (''app.table.column.actions'', ''Actions''),
      (''app.table.column.created'', ''Created''),
      (''app.table.column.status'', ''Status''),
      (''app.table.results'', ''results''),
      (''app.toggleDarkMode.off'', ''Switch to dark mode''),
      (''app.toggleDarkMode.on'', ''Switch to light mode''),
      (''app.value.notAvailable'', ''Not available'')]"

definition english_catalog :: "(string \<times> string) list" where
  "english_catalog = english_catalog_1 @
     english_catalog_2 @
     english_catalog_3 @
     english_catalog_4 @
     english_catalog_5 @
     english_catalog_6"

text \<open>\<open>Object.fromEntries\<close>: the last entry of a key stays.\<close>

definition from_entries :: "(string \<times> 'a) list \<Rightarrow> string \<Rightarrow> 'a option" where
  "from_entries es = map_of (rev es)"

definition englishMessages :: "string \<Rightarrow> string option" where
  "englishMessages = from_entries (map (\<lambda>(i, t). (i, t)) english_catalog)"

section \<open>Every message is in the catalog\<close>

text \<open>The identifiers of the catalog are in order, so none occurs twice.\<close>

lemmas english_catalog_defs = english_catalog_1_def english_catalog_2_def english_catalog_3_def english_catalog_4_def english_catalog_5_def english_catalog_6_def

lemma catalog_sorted: "sorted_wrt (<) (map fst english_catalog)"
  by (simp add: english_catalog_def english_catalog_defs sorted_wrt1 sorted_wrt2 del: sorted_wrt.simps(2))

lemma catalog_distinct: "distinct (map fst english_catalog)"
  using catalog_sorted strict_sorted_iff by blast

lemma english_catalog_entry:
  assumes "(i, t) \<in> set english_catalog"
  shows "englishMessages i = Some t"
proof -
  have "distinct (map fst (rev english_catalog))" using catalog_distinct by (simp add: rev_map [symmetric])
  then show ?thesis using assms by (simp add: englishMessages_def from_entries_def)
qed

lemma part_entries: "set es \<subseteq> set english_catalog \<Longrightarrow> list_all (\<lambda>e. englishMessages (fst e) = Some (snd e)) es"
  using english_catalog_entry by (fastforce simp: list_all_iff)

lemma catalog_parts:
  "set english_catalog_1 \<subseteq> set english_catalog"
  "set english_catalog_2 \<subseteq> set english_catalog"
  "set english_catalog_3 \<subseteq> set english_catalog"
  "set english_catalog_4 \<subseteq> set english_catalog"
  "set english_catalog_5 \<subseteq> set english_catalog"
  "set english_catalog_6 \<subseteq> set english_catalog"
  by (auto simp: english_catalog_def)

text \<open>What the catalog has for each of its identifiers\<close>

lemmas catalog_entries = catalog_parts [THEN part_entries, unfolded english_catalog_defs list.pred_inject fst_conv snd_conv simp_thms]

text \<open>The messages whose text in the catalog is not the one the code declares\<close>

definition stale_ids :: "string list" where
  "stale_ids = [''app.gateway.delete.confirmation'', ''app.gateway.delete.pending'', ''app.gateway.deleted'', ''app.gateway.delete.error.title'', ''app.gateway.delete.error.body'']"

definition kept :: "message \<Rightarrow> bool" where
  "kept d \<longleftrightarrow> englishMessages (ms_id d) \<noteq> None \<and>
     (englishMessages (ms_id d) = Some (ms_text d) \<longleftrightarrow> ms_id d \<notin> set stale_ids)"

lemma kept_gateway_messages_1: "list_all (\<lambda>(k, d). kept d) gateway_messages_1"
  by (simp add: gateway_messages_1_def kept_def catalog_entries stale_ids_def)

lemma kept_gateway_messages_2: "list_all (\<lambda>(k, d). kept d) gateway_messages_2"
  by (simp add: gateway_messages_2_def kept_def catalog_entries stale_ids_def)

lemma kept_gateway_messages_3: "list_all (\<lambda>(k, d). kept d) gateway_messages_3"
  by (simp add: gateway_messages_3_def kept_def catalog_entries stale_ids_def)

lemma kept_gateway_messages_4: "list_all (\<lambda>(k, d). kept d) gateway_messages_4"
  by (simp add: gateway_messages_4_def kept_def catalog_entries stale_ids_def)

lemma kept_gateway_messages_5: "list_all (\<lambda>(k, d). kept d) gateway_messages_5"
  by (simp add: gateway_messages_5_def kept_def catalog_entries stale_ids_def)

lemma kept_gateway_messages_6: "list_all (\<lambda>(k, d). kept d) gateway_messages_6"
  by (simp add: gateway_messages_6_def kept_def catalog_entries stale_ids_def)

lemma kept_gateway_messages_7: "list_all (\<lambda>(k, d). kept d) gateway_messages_7"
  by (simp add: gateway_messages_7_def kept_def catalog_entries stale_ids_def)

lemma kept_web_messages: "list_all (\<lambda>(k, d). kept d) web_messages"
  by (simp add: web_messages_def kept_def catalog_entries stale_ids_def)

lemma kept_metrics_messages: "list_all (\<lambda>(k, d). kept d) metrics_messages"
  by (simp add: metrics_messages_def kept_def catalog_entries stale_ids_def)

lemmas kept_blocks = kept_gateway_messages_1 kept_gateway_messages_2 kept_gateway_messages_3 kept_gateway_messages_4 kept_gateway_messages_5 kept_gateway_messages_6 kept_gateway_messages_7 kept_web_messages kept_metrics_messages

section \<open>What is shown for a message\<close>

lemma message_kept: "(k, d) \<in> set console_messages \<Longrightarrow> kept d"
  using kept_blocks by (auto simp: console_messages_def gateway_messages_def list_all_iff)

text \<open>
  C39. The console shows the words its code declares, with five exceptions. Its catalog has every message,
  and the text it has for one is the message's own exactly if the message is not one of five, all of them
  about the deletion of a gateway; those are shown with other words than the code gives them. The library
  is only taken to show the catalog's text where the catalog has one.
\<close>

theorem texts_are_shown_as_written:
  assumes "\<And>catalog d t. catalog (ms_id d) = Some t \<Longrightarrow> translate catalog d = t"
    and "(k, d) \<in> set console_messages"
  shows "translate englishMessages d = ms_text d \<longleftrightarrow> ms_id d \<notin> set stale_ids"
proof -
  from message_kept [OF assms(2)] obtain t where t: "englishMessages (ms_id d) = Some t"
    and stale: "t = ms_text d \<longleftrightarrow> ms_id d \<notin> set stale_ids" by (auto simp: kept_def)
  from assms(1) [of englishMessages d t, OF t] stale show ?thesis by simp
qed

text \<open>The library's lookup, for one\<close>

definition catalog_text :: "(string \<Rightarrow> string option) \<Rightarrow> message \<Rightarrow> string" where
  "catalog_text catalog d = (case catalog (ms_id d) of None \<Rightarrow> ms_text d | Some t \<Rightarrow> t)"

lemma texts_are_shown_as_written_witness:
  "catalog_text englishMessages (Message ''app.gateway.deleted'' ''Deletion requested for gateway {gatewayName}'') \<noteq>
     ''Deletion requested for gateway {gatewayName}''"
proof -
  have "(''gatewayDeleted'', Message ''app.gateway.deleted'' ''Deletion requested for gateway {gatewayName}'') \<in> set console_messages"
    by (simp add: console_messages_def gateway_messages_def gateway_messages_2_def)
  then have "catalog_text englishMessages (Message ''app.gateway.deleted'' ''Deletion requested for gateway {gatewayName}'') =
      ms_text (Message ''app.gateway.deleted'' ''Deletion requested for gateway {gatewayName}'') \<longleftrightarrow>
      ms_id (Message ''app.gateway.deleted'' ''Deletion requested for gateway {gatewayName}'') \<notin> set stale_ids"
    by (rule texts_are_shown_as_written [rotated]) (simp add: catalog_text_def)
  then show ?thesis by (simp add: stale_ids_def)
qed

section \<open>The words of the views\<close>

text \<open>\<open>phaseMessageKey\<close>: the message a phase is named with\<close>

fun phase_message :: "gateway_phase \<Rightarrow> string" where
  "phase_message PhaseRunning = ''phaseRunning''"
| "phase_message PhaseProvisioning = ''phaseProvisioning''"
| "phase_message PhaseDegraded = ''phaseDegraded''"
| "phase_message PhaseFailed = ''phaseFailed''"

text \<open>The text shown for a key of a set of messages\<close>

definition told :: "(string \<times> message) list \<Rightarrow> string \<Rightarrow> string option" where
  "told ms key = Option.bind (map_of ms key) (\<lambda>m. englishMessages (ms_id m))"

lemma distinct_told_apart: "distinct (map (f \<circ> g) xs) \<Longrightarrow> x \<in> set xs \<Longrightarrow> y \<in> set xs \<Longrightarrow> f (g x) = f (g y) \<Longrightarrow> x = y"
  by (simp add: distinct_map inj_on_def)

text \<open>No two phases of a gateway are shown with the same words.\<close>

lemma phases_shown:
  "map (told metrics_messages \<circ> phase_message) [PhaseRunning, PhaseProvisioning, PhaseDegraded, PhaseFailed] =
   map Some [''Running'', ''Provisioning'', ''Degraded'', ''Failed'']"
  by (simp add: told_def catalog_entries metrics_messages_def)

lemma phases_are_told_apart:
  assumes "told metrics_messages (phase_message p) = told metrics_messages (phase_message q)"
  shows "p = q"
proof -
  let ?all = "[PhaseRunning, PhaseProvisioning, PhaseDegraded, PhaseFailed]"
  have all: "u \<in> set ?all" for u by (cases u) simp_all
  have "distinct (map (told metrics_messages \<circ> phase_message) ?all)" unfolding phases_shown by simp
  from distinct_told_apart [OF this all all assms] show ?thesis .
qed

text \<open>A call of the formatter: the key of the message, and the arguments by name\<close>

datatype argument = Text_argument string | Number_argument int

type_synonym text_call = "string \<times> (string \<times> argument) list"

definition gateway_call :: "string \<Rightarrow> string \<Rightarrow> text_call" where
  "gateway_call key gatewayName = (key, [(''gatewayName'', Text_argument gatewayName)])"

definition delete_title_call :: "string \<Rightarrow> text_call" where
  "delete_title_call = gateway_call ''deleteGatewayTitle''"

definition delete_confirmation_call :: "string \<Rightarrow> text_call" where
  "delete_confirmation_call = gateway_call ''deleteGatewayConfirmation''"

definition sandbox_warning_call :: "int option \<Rightarrow> text_call option" where
  "sandbox_warning_call activeSandboxCount =
     map_option (\<lambda>n. (''deleteGatewayActiveSandboxWarning'', [(''count'', Number_argument n)]))
       (sandbox_warning activeSandboxCount)"

definition copy_command_call :: "string \<Rightarrow> text_call" where
  "copy_command_call = gateway_call ''copyConnectionCommand''"

definition copy_endpoint_call :: "string \<Rightarrow> text_call" where
  "copy_endpoint_call = gateway_call ''copyGatewayEndpoint''"

definition open_console_call :: "string \<Rightarrow> text_call" where
  "open_console_call = gateway_call ''openGatewayConsoleFor''"

definition placement_call :: "gateway_placement \<Rightarrow> text_call option" where
  "placement_call placement =
     map_option (\<lambda>described. case described of
         ProviderAndRegion provider region \<Rightarrow>
           (''clusterProviderAndRegion'', [(''provider'', Text_argument provider), (''region'', Text_argument region)])
       | ProviderOnly provider \<Rightarrow> (''clusterProvider'', [(''provider'', Text_argument provider)])
       | RegionOnly region \<Rightarrow> (''clusterRegion'', [(''region'', Text_argument region)]))
       (placementDescription placement)"

definition rename_title_call :: "string \<Rightarrow> text_call" where
  "rename_title_call = gateway_call ''renameGatewayTitle''"

definition row_actions_call :: "string \<Rightarrow> text_call" where
  "row_actions_call = gateway_call ''gatewayRowActions''"

definition copy_notice_call :: "copy_result \<Rightarrow> string \<Rightarrow> text_call" where
  "copy_notice_call copyResult =
     gateway_call (if copyResult = CopySuccess then ''cliConnectionCommandCopied'' else ''cliConnectionCommandCopyFailed'')"

definition renamed_call :: "string \<Rightarrow> text_call" where
  "renamed_call = gateway_call ''gatewayRenamed''"

definition deleted_call :: "string \<Rightarrow> text_call" where
  "deleted_call = gateway_call ''gatewayDeleted''"

definition account_call :: "string \<Rightarrow> string \<Rightarrow> text_call" where
  "account_call key accountName = (key, [(''serviceAccountName'', Text_argument accountName)])"

definition dialog_title_call :: "dialog \<Rightarrow> text_call" where
  "dialog_title_call d =
     (if dg_confirming d then ''leaveWithoutSecretTitle''
      else if dg_handoff d \<noteq> None then ''serviceAccountSetupTitle'' else ''createServiceAccount'',
      case dg_handoff d of None \<Rightarrow> []
      | Some handoff \<Rightarrow> [(''serviceAccountName'', Text_argument (ac_name (acr_account handoff)))])"

definition expiration_option_call :: "int \<Rightarrow> text_call" where
  "expiration_option_call days = (''serviceAccountExpirationOption'', [(''days'', Number_argument days)])"

definition expires_call :: "string \<Rightarrow> text_call" where
  "expires_call expiration = (''serviceAccountExpiresPreview'', [(''expiration'', Text_argument expiration)])"

definition lifecycle_title_call :: "lifecycle_action \<Rightarrow> string \<Rightarrow> text_call" where
  "lifecycle_title_call action =
     account_call (if action = RevokeAccount then ''revokeServiceAccountTitle'' else ''deleteServiceAccountTitle'')"

definition account_setup_call :: "string \<Rightarrow> text_call" where
  "account_setup_call = account_call ''serviceAccountSetupTitle''"

definition account_actions_call :: "string \<Rightarrow> text_call" where
  "account_actions_call = account_call ''serviceAccountRowActions''"

definition list_of_option :: "'a option \<Rightarrow> 'a list" where
  "list_of_option x = (case x of None \<Rightarrow> [] | Some y \<Rightarrow> [y])"

text \<open>The calls for a gateway and an account, with all that is shown of them\<close>

definition gateway_calls :: "string \<Rightarrow> int option \<Rightarrow> gateway_placement \<Rightarrow> copy_result \<Rightarrow> text_call list" where
  "gateway_calls gatewayName activeSandboxCount placement copied =
     [delete_title_call gatewayName, delete_confirmation_call gatewayName, copy_command_call gatewayName,
      copy_endpoint_call gatewayName, open_console_call gatewayName, rename_title_call gatewayName,
      row_actions_call gatewayName, copy_notice_call copied gatewayName, renamed_call gatewayName,
      deleted_call gatewayName] @
     list_of_option (sandbox_warning_call activeSandboxCount) @ list_of_option (placement_call placement)"

definition account_calls :: "string \<Rightarrow> dialog \<Rightarrow> int \<Rightarrow> string \<Rightarrow> lifecycle_action \<Rightarrow> text_call list" where
  "account_calls accountName d days expiration action =
     [dialog_title_call d, expiration_option_call days, expires_call expiration, lifecycle_title_call action accountName,
      account_setup_call accountName, account_actions_call accountName]"

section \<open>Every argument is given\<close>

text \<open>
  The arguments a text asks for, as the library's syntax has them: a name after an opening brace, up to
  its end or a comma; the braces inside an argument open a message of their own, whose braces open
  arguments again.
\<close>

fun slots :: "nat \<Rightarrow> string \<Rightarrow> string list" where
  "slots depth [] = []"
| "slots depth (c # s) =
     (if c = CHR ''{'' then
        (if even depth then [takeWhile (\<lambda>x. x \<noteq> CHR ''}'' \<and> x \<noteq> CHR '','') s] else []) @ slots (Suc depth) s
      else if c = CHR ''}'' then slots (depth - 1) s
      else slots depth s)"

text \<open>The names the calls give, by the key of the message; a message without a call here is shown without any.\<close>

definition given_names :: "(string \<times> string list) list" where
  "given_names =
     map (\<lambda>k. (k, [''gatewayName'']))
       [''deleteGatewayTitle'', ''deleteGatewayConfirmation'', ''copyConnectionCommand'', ''copyGatewayEndpoint'',
        ''openGatewayConsoleFor'', ''renameGatewayTitle'', ''gatewayRowActions'', ''cliConnectionCommandCopied'',
        ''cliConnectionCommandCopyFailed'', ''gatewayRenamed'', ''gatewayDeleted''] @
     [(''deleteGatewayActiveSandboxWarning'', [''count'']), (''clusterProviderAndRegion'', [''provider'', ''region'']),
      (''clusterProvider'', [''provider'']), (''clusterRegion'', [''region'']),
      (''serviceAccountExpirationOption'', [''days'']), (''serviceAccountExpiresPreview'', [''expiration'']),
      (''serviceAccountSetupTitle'', [''serviceAccountName'']), (''revokeServiceAccountTitle'', [''serviceAccountName'']),
      (''deleteServiceAccountTitle'', [''serviceAccountName'']), (''serviceAccountRowActions'', [''serviceAccountName''])]"

definition given :: "string \<Rightarrow> string list" where
  "given k = (case map_of given_names k of None \<Rightarrow> [] | Some ns \<Rightarrow> ns)"

definition served :: "string \<Rightarrow> message \<Rightarrow> bool" where
  "served k d \<longleftrightarrow> (\<forall>t. englishMessages (ms_id d) = Some t \<longrightarrow> list_all (\<lambda>n. n \<in> set (given k)) (slots 0 t))"

lemma slots_none: "list_all (\<lambda>c. c \<noteq> CHR ''{'' \<and> c \<noteq> CHR ''}'') t \<Longrightarrow> slots n t = []"
  by (induction t) auto

lemma served_gateway_messages_1: "list_all (\<lambda>(k, d). served k d) gateway_messages_1"
  by (simp add: gateway_messages_1_def served_def catalog_entries given_def given_names_def)

lemma served_gateway_messages_2: "list_all (\<lambda>(k, d). served k d) gateway_messages_2"
  by (simp add: gateway_messages_2_def served_def catalog_entries given_def given_names_def)

lemma served_gateway_messages_3: "list_all (\<lambda>(k, d). served k d) gateway_messages_3"
  by (simp add: gateway_messages_3_def served_def catalog_entries given_def given_names_def)

lemma served_gateway_messages_4: "list_all (\<lambda>(k, d). served k d) gateway_messages_4"
  by (simp add: gateway_messages_4_def served_def catalog_entries given_def given_names_def)

lemma served_gateway_messages_5: "list_all (\<lambda>(k, d). served k d) gateway_messages_5"
  by (simp add: gateway_messages_5_def served_def catalog_entries given_def given_names_def)

lemma served_gateway_messages_6: "list_all (\<lambda>(k, d). served k d) gateway_messages_6"
  by (simp add: gateway_messages_6_def served_def catalog_entries given_def given_names_def)

lemma served_gateway_messages_7: "list_all (\<lambda>(k, d). served k d) gateway_messages_7"
  by (simp add: gateway_messages_7_def served_def catalog_entries given_def given_names_def)

lemmas served_blocks = served_gateway_messages_1 served_gateway_messages_2 served_gateway_messages_3 served_gateway_messages_4 served_gateway_messages_5 served_gateway_messages_6 served_gateway_messages_7

lemma message_served: "(k, d) \<in> set gateway_messages \<Longrightarrow> served k d"
  using served_blocks by (auto simp: gateway_messages_def list_all_iff)

definition well_given :: "text_call \<Rightarrow> bool" where
  "well_given call \<longleftrightarrow> list_all (\<lambda>n. n \<in> fst ` set (snd call)) (given (fst call))"

lemma gateway_call_given:
  "k \<in> {''deleteGatewayTitle'', ''deleteGatewayConfirmation'', ''copyConnectionCommand'', ''copyGatewayEndpoint'',
     ''openGatewayConsoleFor'', ''renameGatewayTitle'', ''gatewayRowActions'', ''cliConnectionCommandCopied'',
     ''cliConnectionCommandCopyFailed'', ''gatewayRenamed'', ''gatewayDeleted''} \<Longrightarrow> well_given (gateway_call k g)"
  by (elim insertE emptyE) (simp_all add: well_given_def gateway_call_def given_def given_names_def)

lemma account_call_given:
  "k \<in> {''serviceAccountSetupTitle'', ''revokeServiceAccountTitle'', ''deleteServiceAccountTitle'',
     ''serviceAccountRowActions''} \<Longrightarrow> well_given (account_call k a)"
  by (elim insertE emptyE) (simp_all add: well_given_def account_call_def given_def given_names_def)

lemma placement_call_given: "list_all well_given (list_of_option (placement_call p))"
proof (cases "placementDescription p")
  case (Some q)
  then show ?thesis
    by (cases q) (simp_all add: placement_call_def list_of_option_def well_given_def given_def given_names_def)
qed (simp add: placement_call_def list_of_option_def)

lemma warning_call_given: "list_all well_given (list_of_option (sandbox_warning_call n))"
  by (cases "sandbox_warning n")
    (simp_all add: sandbox_warning_call_def list_of_option_def well_given_def given_def given_names_def)

lemma title_call_given: "well_given (dialog_title_call d)"
  by (cases "dg_handoff d") (simp_all add: dialog_title_call_def well_given_def given_def given_names_def)

lemma expiration_calls_given: "well_given (expiration_option_call days)" "well_given (expires_call expiration)"
  by (simp_all add: expiration_option_call_def expires_call_def well_given_def given_def given_names_def)

lemma calls_given:
  "list_all well_given (gateway_calls g n p c)" "list_all well_given (account_calls a d days e action)"
  by (simp_all add: gateway_calls_def account_calls_def delete_title_call_def delete_confirmation_call_def
      copy_command_call_def copy_endpoint_call_def open_console_call_def rename_title_call_def row_actions_call_def
      copy_notice_call_def renamed_call_def deleted_call_def lifecycle_title_call_def account_setup_call_def
      account_actions_call_def gateway_call_given account_call_given placement_call_given warning_call_given
      title_call_given expiration_calls_given)

lemma calls_give:
  assumes "call \<in> set (gateway_calls g n p c) \<union> set (account_calls a d days e action)"
  shows "set (given (fst call)) \<subseteq> fst ` set (snd call)"
proof -
  have "well_given call"
    using assms calls_given(1) [of g n p c] calls_given(2) [of a d days e action] by (auto simp only: list_all_iff Un_iff)
  then show ?thesis by (auto simp: well_given_def list_all_iff)
qed

text \<open>
  C40. Every text the package shows of a gateway or an account has all it asks for: whichever message a
  call names, each argument the shown text has is one the call gives a value; the texts that differ from
  the code's have no others.
\<close>

theorem every_argument_is_given:
  assumes "\<And>catalog d t. catalog (ms_id d) = Some t \<Longrightarrow> translate catalog d = t"
    and "call \<in> set (gateway_calls gatewayName count placement copied) \<union>
      set (account_calls accountName dialog days expiration action)"
    and "(fst call, d) \<in> set gateway_messages"
  shows "set (slots 0 (translate englishMessages d)) \<subseteq> fst ` set (snd call)"
proof -
  have "(fst call, d) \<in> set console_messages" using assms(3) by (simp add: console_messages_def)
  from message_kept [OF this] obtain t where t: "englishMessages (ms_id d) = Some t" by (auto simp: kept_def)
  with message_served [OF assms(3)] have "set (slots 0 t) \<subseteq> set (given (fst call))" by (auto simp: served_def list_all_iff)
  with calls_give [OF assms(2)] show ?thesis by (auto simp: assms(1) [of englishMessages d t, OF t])
qed

lemma every_argument_is_given_witness:
  "set (slots 0 (catalog_text englishMessages (Message ''app.gateway.rename.title'' ''Rename {gatewayName}''))) \<subseteq> {''gatewayName''}"
proof -
  let ?call = "rename_title_call ''g''"
  have call: "?call \<in> set (gateway_calls ''g'' None \<lparr>pl_id = ''c'', pl_name = ''n'', pl_provider = [], pl_region = None, pl_status = None\<rparr> CopyError) \<union>
      set (account_calls ''a'' dialog_init 7 ''e'' RevokeAccount)"
    by (simp add: gateway_calls_def)
  have message: "(fst ?call, Message ''app.gateway.rename.title'' ''Rename {gatewayName}'') \<in> set gateway_messages"
    by (simp add: rename_title_call_def gateway_call_def gateway_messages_def gateway_messages_4_def)
  have "set (slots 0 (catalog_text englishMessages (Message ''app.gateway.rename.title'' ''Rename {gatewayName}''))) \<subseteq> fst ` set (snd ?call)"
    by (rule every_argument_is_given [OF _ call message]) (simp add: catalog_text_def)
  then show ?thesis by (simp add: rename_title_call_def gateway_call_def)
qed

section \<open>What the console says of a deletion\<close>

text \<open>The alert of the deletion dialog: its title and its body\<close>

definition delete_alert :: "delete_dialog \<Rightarrow> (string \<times> string) option" where
  "delete_alert d = (if delete_failed d then Some (''gatewayDeleteError'', ''gatewayDeleteErrorBody'') else None)"

text \<open>
  A deletion that failed in any way, also one that the server took and whose answer was lost, is
  reported as one that changed nothing; one that the server took up is reported as done.
\<close>

lemma failed_deletion_claims_no_change:
  assumes "delete_alert d = Some (title, body)"
  shows "\<exists>m. (body, m) \<in> set gateway_messages \<and> englishMessages (ms_id m) = Some ''No changes were made. Try again.'' \<and>
    ms_text m = ''Refresh the gateway to check its state. You can send the request again.''"
proof -
  have "body = ''gatewayDeleteErrorBody''" using assms by (auto simp: delete_alert_def split: if_splits)
  then show ?thesis
    by (intro exI [of _ "Message ''app.gateway.delete.error.body'' ''Refresh the gateway to check its state. You can send the request again.''"])
      (simp add: gateway_messages_def gateway_messages_2_def catalog_entries)
qed

lemma accepted_deletion_is_called_done:
  "\<exists>m. (fst (deleted_call g), m) \<in> set gateway_messages \<and> englishMessages (ms_id m) = Some ''Gateway {gatewayName} deleted'' \<and>
     ms_text m = ''Deletion requested for gateway {gatewayName}''"
  by (intro exI [of _ "Message ''app.gateway.deleted'' ''Deletion requested for gateway {gatewayName}''"])
    (simp add: deleted_call_def gateway_call_def gateway_messages_def gateway_messages_2_def catalog_entries)

end
