(* ===== verification/Gateway_Provider.thy ===== *)
theory Gateway_Provider
  imports JS_Prelude
begin

text \<open>
  What the package's views share: \<open>gateway-ui-provider.tsx\<close>, which hands them their services and makes
  links of the console's addresses, and the refresh button of \<open>shared/resource-refresh-button.tsx\<close>.
\<close>

section \<open>The services\<close>

text \<open>\<open>useGatewayUi\<close>: the services of the provider around a view, of type \<open>'s\<close>; without one it throws.\<close>

definition missing_provider :: string where
  "missing_provider = ''Gateway UI must be rendered within GatewayUiProvider''"

definition useGatewayUi :: "'s option \<Rightarrow> string + 's" where
  "useGatewayUi services = (case services of None \<Rightarrow> Inl missing_provider | Some s \<Rightarrow> Inr s)"

section \<open>Links\<close>

text \<open>The mouse event of a click, and what a handler does with it\<close>

record click =
  cl_prevented :: bool
  cl_button :: int
  cl_meta :: bool
  cl_ctrl :: bool
  cl_shift :: bool
  cl_alt :: bool

datatype link_effect = PreventDefault | NavigateTo string

definition link_onClick :: "string \<Rightarrow> click \<Rightarrow> link_effect list" where
  "link_onClick href event =
     (if cl_prevented event \<or> cl_button event \<noteq> 0 \<or> cl_meta event \<or> cl_ctrl event \<or> cl_shift event \<or> cl_alt event
      then [] else [PreventDefault, NavigateTo href])"

text \<open>The browser follows the link itself unless the click's default was prevented, before or by the handler.\<close>

definition browser_follows :: "click \<Rightarrow> link_effect list \<Rightarrow> bool" where
  "browser_follows event effects \<longleftrightarrow> \<not> cl_prevented event \<and> PreventDefault \<notin> set effects"

lemma click_is_followed_once:
  assumes "\<not> cl_prevented event"
  shows "browser_follows event (link_onClick href event) \<longleftrightarrow> NavigateTo href \<notin> set (link_onClick href event)"
    and "count_list (link_onClick href event) (NavigateTo href) \<le> 1"
  using assms by (auto simp: browser_follows_def link_onClick_def)

lemma prevented_click_is_left_alone:
  "cl_prevented event \<Longrightarrow> link_onClick href event = [] \<and> \<not> browser_follows event (link_onClick href event)"
  by (simp add: browser_follows_def link_onClick_def)

lemma modified_click_is_the_browsers:
  "\<not> cl_prevented event \<Longrightarrow> cl_meta event \<or> cl_ctrl event \<or> cl_shift event \<or> cl_alt event \<or> cl_button event \<noteq> 0 \<Longrightarrow>
   browser_follows event (link_onClick href event) \<and> link_onClick href event = []"
  by (auto simp: browser_follows_def link_onClick_def)

section \<open>The refresh button\<close>

record refresh_button =
  rb_disabled :: bool
  rb_loading :: bool

definition refresh_button :: "bool option \<Rightarrow> refresh_button" where
  "refresh_button isRefreshing =
     (let refreshing = (case isRefreshing of None \<Rightarrow> False | Some b \<Rightarrow> b)
      in \<lparr>rb_disabled = refreshing, rb_loading = refreshing\<rparr>)"

text \<open>What clicks on it ask for: a disabled button takes none.\<close>

definition refresh_click :: "bool option \<Rightarrow> nat \<Rightarrow> nat" where
  "refresh_click isRefreshing requests = (if rb_disabled (refresh_button isRefreshing) then requests else Suc requests)"

lemma refresh_waits: "refresh_click isRefreshing n = n \<longleftrightarrow> isRefreshing = Some True"
  by (auto simp: refresh_click_def refresh_button_def split: option.split)

end
