(* ===== verification/Spec2Isabelle.thy ===== *)
theory Spec2Isabelle
  imports Gateway_Observability Gateway_Trace Control_Plane Gateway_Workflows Gateway_Commands Command_Highlight
    List_State Placement_Select Gateway_Dialogs Gateway_Pages Account_Pages Browser_Calls Browser_Telemetry Account_Setup
    Web_Shell Web_Session Web_Routes Gateway_Composition Account_Form Gateway_Metrics Gateway_Views
    Sdk_Client Gateway_Messages Gateway_Provider
begin

text \<open>
  The Hypershell web console, verified: the gateway application of the package
  \<open>packages/gateway-management-ui\<close>, the adapters, routes and shell of \<open>components/web-console\<close>, the
  probe library \<open>components/web-console/domain-probes\<close>, and the clients the browser runs:
  \<open>sessionclient\<close>, which calls the API for the signed-in user, and \<open>browsertelemetry\<close>. The console manages gateways and their
  service accounts through a generated API client; every operation is published as domain probes to
  logs, metrics and traces.

  How the parts interact. A page (\<open>pages/gateway-pages.tsx\<close>, \<open>service-accounts/service-accounts-page.tsx\<close>)
  calls the driving port \<open>GatewayOperations\<close>. \<open>application/gateway-operations.ts\<close> implements it: each
  operation draws identifiers, publishes two opening probes, runs the control-plane port once and
  publishes two closing probes. The control-plane port is \<open>adapters/api/gateway-operations.ts\<close> over the
  generated client. The probes go through the fan-out publisher of \<open>domain-probes\<close> to the sinks that
  \<open>adapters/observability\<close> builds: a log, counters, bounded histories and the trace sink, whose open
  spans give the adapter the trace context of a request. A request leaves through the browser client,
  which checks its input against the contract, bounds and prints it, adds the session's token, and
  parses and checks the answer. Telemetry leaves through bounded exporters under the same session.

  The theories, in the order of their imports.

  \<^item> \<open>JS_Prelude\<close>, \<open>JS_Json\<close>, \<open>JS_Url\<close>: strings and their methods, thrown values, actions that change
    a world and return or throw, JSON values, decimal numerals, URL parameters. \<open>Event_Runs\<close>: runs of
    a view with an invariant over their history, as a locale.
  \<^item> \<open>Gateway_Types\<close>: the records, enumerations and ports of \<open>gateway-types.ts\<close> and
    \<open>gateway-probes.ts\<close>, and the normalisation of placement identifiers.
  \<^item> \<open>Domain_Probes\<close>: \<open>fan-out-domain-probe-publisher.ts\<close>, the publisher as a state machine over its
    sinks and counters; \<open>Gateway_Workflows\<close>: classification of errors, \<open>execute\<close> and the thirteen
    operations; \<open>Gateway_Observability\<close>: the sinks and histories, and the publisher as an instance of
    the contract the workflows rely on; \<open>Gateway_Trace\<close>: the trace sink, its open spans and signals.
  \<^item> \<open>Control_Plane\<close>: the adapter, every operation with its request, the validation of the answer, the
    search expressions and the mapping of failures.
  \<^item> \<open>Gateway_Data\<close>: \<open>gateway-data.ts\<close> and \<open>console-wait-tracker.ts\<close>, polling and the console
    deadline; \<open>Gateway_Commands\<close>, \<open>Command_Highlight\<close>: the shell commands the console offers.
  \<^item> \<open>List_State\<close>: \<open>gateway-list-state.ts\<close> and the collection state of \<open>routes/gateway.tsx\<close> in the URL.
  \<^item> \<open>Placement_Select\<close>, \<open>Resource_Table\<close>, \<open>Account_Dialog\<close>, \<open>Gateway_Dialogs\<close>, \<open>Gateway_Pages\<close>,
    \<open>Account_Pages\<close>: the views as state machines, a handler for each event, the condition under which
    the view lets it happen, and what is shown as a function of the state. \<open>Account_Form\<close>,
    \<open>Gateway_Views\<close>: the forms and dialogs part by part, with their values, errors and buttons;
    \<open>Gateway_Metrics\<close>: the counts per phase and the dashboard that polls them.
  \<^item> \<open>Editable_Command\<close>, \<open>Account_Setup\<close>: the commands a user may edit before copying them, their
    asynchronous highlighting, and the view that shows an account's one-time secret.
  \<^item> \<open>Gateway_Messages\<close>: the messages the code declares, the catalog the console loads for them, and the
    calls that give them arguments; \<open>Gateway_Provider\<close>: the services' context, links and the refresh
    button.
  \<^item> \<open>Browser_Text\<close>, \<open>JS_Double\<close>, \<open>Browser_Json\<close>, \<open>Browser_Encode\<close>, \<open>Browser_Schema\<close>, \<open>Browser_Input\<close>,
    \<open>Browser_Client\<close>, \<open>Browser_Calls\<close>: the session client, from the decoding of UTF-8 and the rounding of
    numbers to its parser, printer, schema validator, input bounds, requests, calls in flight and login.
  \<^item> \<open>Sdk_Contract\<close>, \<open>Sdk_Views\<close>, \<open>Sdk_Client\<close>: the generated API client, which is that program with the
    contract of \<open>out/tssdk/index.js\<close>: its models and operations, the declared types of its answers as
    views of parsed values, and the client as the adapter is given it.
  \<^item> \<open>Browser_Meter\<close>, \<open>Browser_Telemetry\<close>: the telemetry client, its bounded meter and logger, its
    identifiers, exporters, settings, and the life of its clients.
  \<^item> \<open>Web_Shell\<close>, \<open>Web_Session\<close>, \<open>Web_Routes\<close>: the shell's links, routes, breadcrumb and colour scheme, the
    session adapter and the user menu, and the gateway's route, whose blocker stands between the router
    and the page's dialogs. \<open>Gateway_Composition\<close>: the operations wired with the adapter, the sinks and
    the trace sink, as \<open>gateway-composition.ts\<close> wires them.
  \<^item> This theory: what needs several components at once.

  How the code corresponds. A function keeps its name; a component function becomes a record of its
  state, an initial state, one definition per handler and one per thing shown. A call that may throw
  is an action on an explicit world (\<open>act\<close>): changes made before a throw stay. An optional property is an
  \<open>option\<close>; a number is an integer where the code only counts or compares safe integers, and otherwise
  a \<open>js_number\<close> or an \<open>instant\<close>, which may be \<open>NaN\<close>. A character stands for a code unit below 256.
  A hook's state that is read in the same event is the state before the event, as in the code.

  What the lemmas show. Publishing never changes the result of an operation and loses no probe
  (\<open>Gateway_Workflows\<close>, \<open>Domain_Probes\<close>, \<open>Gateway_Observability\<close>); spans are opened and closed in
  pairs under any order of probes (\<open>Gateway_Trace\<close>); the adapter lets no error of the client through,
  answers only with what was asked for, and its search expressions read back as their terms
  (\<open>Control_Plane\<close>); the tracker holds the start of the current wait and polling is bounded
  (\<open>Gateway_Data\<close>, \<open>Gateway_Pages\<close>); commands read back from the shell as the values they quote
  (\<open>Gateway_Commands\<close>); list states survive the URL (\<open>List_State\<close>, here); a one-time secret is not
  lost by closing, by changing tabs or by leaving (\<open>Account_Dialog\<close>, \<open>Gateway_Pages\<close>); requests that
  destroy need a choice and a confirmation (\<open>Gateway_Dialogs\<close>, \<open>Account_Pages\<close>); a command is copied
  as it is shown, and a secret is shown on demand (\<open>Editable_Command\<close>, \<open>Account_Setup\<close>); the session
  client's parser and printer are inverse on accepted values, its validator decides conformance to the
  contract, no change is sent without a fresh token and at most sixteen calls overlap (\<open>Browser_Json\<close>
  to \<open>Browser_Calls\<close>); the generated client's answers have their declared types, a deletion reaches the
  gateway it names, and an account the contract has no room for is refused unsent (\<open>Sdk_Views\<close>,
  \<open>Sdk_Client\<close>); telemetry is bounded, needs a session and is shut down once (\<open>Browser_Meter\<close>,
  \<open>Browser_Telemetry\<close>); a form sends what it shows, once (\<open>Account_Form\<close>, \<open>Gateway_Views\<close>); a link opens
  the gateway it names and a navigation is held until the user decides (\<open>Web_Shell\<close>, \<open>Web_Routes\<close>); a
  request carries the span of its own operation (\<open>Gateway_Composition\<close>); every text is shown as it is
  declared, but for five of the deletion, and finds its arguments (\<open>Gateway_Messages\<close>). Where the code does
  less than it means to, a lemma shows that too (\<open>stale_leave_decision\<close>, \<open>deletion_discards_a_secret\<close>,
  \<open>default_account_sort_marks_the_names\<close>, \<open>operation_outcome_follows_the_status\<close>,
  \<open>failed_request_strands_a_navigation\<close>, \<open>overlong_account_is_refused_unsent\<close>,
  \<open>texts_are_shown_as_written\<close>, \<open>failed_deletion_claims_no_change\<close>).

  Loops and bounds. The loops of the code are structural recursions, except two, which are partial
  functions shown to return: \<open>splitOnMarkers\<close>, for non-empty markers, as its callers give them
  (\<open>split_on_markers_ends\<close>), and the search for the next enabled option (\<open>next_enabled_ends\<close>). The
  parser of the session client has the length of its text as fuel, which never runs out (\<open>parse_never_starves\<close>); the search for a
  model's annotation follows references with one step more of fuel than the contract has models, which
  is enough for every chain without a cycle (\<open>reference_chains_are_followed\<close>). The
  readers of search expressions in \<open>Control_Plane\<close> are specifications, with a bound on the terms they
  read. Histories are bounded by the code's limits.

  Parameters. The adapter and the workflows take the generated API client as an argument, which
  \<open>Sdk_Client\<close> then supplies from the contract, on a page whose platform, origin and signals are
  arguments. The query library's results, the clock, the random identifiers, \<open>JSON.parse\<close>, \<open>Number\<close>
  of a string, \<open>Date\<close>, \<open>fetch\<close>, \<open>URL\<close>, the contract of the session client in the theories before
  \<open>Sdk_Contract\<close>, the highlighter, the library that looks messages up, OpenTelemetry's providers and
  the tracer are arguments of the definitions that use them; where a lemma needs documented behaviour of one, it is a named hypothesis
  with a witness, or the assumptions of a locale that is interpreted on the model's own definitions.

  Time. A form's clock ticks every half minute; \<open>Account_Form\<close> takes no event to find it later than
  that, and a form's asynchronous validation is one step with the submission that starts it.

  The generated client. \<open>Sdk_Client\<close> takes calls one at a time, and hands on only text of code units
  below 256, the characters of the adapter's model; for an answer with other text it says nothing.

  Not modelled: layout, icons, and the labels of fields and buttons beyond the messages
  themselves; the helpers that bundle and style the patched dashboard; the build and lint configuration; the acceptance workflows, which drive a deployed
  system; the Go services behind the generated client. The manifest lists each with its reason.
\<close>

section \<open>Across the adapter and the workflow\<close>

lemma sdk_failure_outcome:
  "failureOutcome (sdk_failure_of e) =
     (if se_status e = 401 \<or> se_status e = 403 then ODenied
      else if se_status e = 409 then Conflicted else Failed)"
  by (simp add: failureOutcome_def failureKind_def sdk_failure_of_def gatewayFailureKind_def Let_def)


text \<open>A runtime whose identifiers and clock are fixed, for use at concrete inputs.\<close>

definition fixed_runtime :: "unit workflow_runtime" where
  "fixed_runtime =
     \<lparr>rt_createCorrelationId = (\<lambda>s. (''c'', s)), rt_createTraceId = (\<lambda>s. (''t'', s)), rt_now = (\<lambda>s. (''n'', s))\<rparr>"


section \<open>Across the table and the URL\<close>

text \<open>The tab of a gateway's page is in the URL too.\<close>

lemma tab_reads_back:
  "toGatewayDetailTab (param_get (changeTab (detail_tab_str tab) previous) ''tab'') = tab"
  by (cases tab) (simp_all add: changeTab_def param_get_def param_delete_get param_set_get toGatewayDetailTab_def
      gatewayDetailTabs_def keep_truthy_def)

text \<open>The events the gateways' table lets happen: offered page sizes, pages that exist, shown controls.\<close>

fun gateways_event_ok :: "(gateway_connection, cell) table_props \<Rightarrow> table_event \<Rightarrow> bool" where
  "gateways_event_ok p (SetPage n) = (1 \<le> n \<and> n \<le> max_safe_integer)"
| "gateways_event_ok p (SetPageSize n) = (n \<in> set (tp_page_sizes p))"
| "gateways_event_ok p (SortColumn i d) = (i < length (tp_columns p) \<and> column_sort p i \<noteq> None)"
| "gateways_event_ok p _ = True"

lemma table_state_next_valid:
  "ts_sort_column t \<in> range gateway_sort_field_str \<Longrightarrow> gateways_table_state (next_collection_state t) = t"
  by (elim rangeE, rule table_state_next) (simp add: sort_field_of_str)

text \<open>
  C15. Whatever is done in the table of a host that keeps the list in its URL: the next request is valid,
  the URL gives it back, and the table read from it is in exactly the state the table asked for.
\<close>

theorem table_event_survives_the_url:
  assumes "valid_list_request r"
    and "columns = gateways_columns toHref parseDate formatDate showNumber l names"
    and "gateways_event_ok (gateways_table columns r page) ev"
    and "table_handle (gateways_table columns r page) ev = StateChange t reason"
  shows "case changeTableState p t reason s of
      (_, Some (r', _)) \<Rightarrow> gs_hosted p \<and> valid_list_request r' \<and>
        parseGatewayListState (serializeGatewayListState r') = r' \<and>
        gateways_table_state (parseGatewayListState (serializeGatewayListState r')) = t
    | (s', None) \<Rightarrow> \<not> gs_hosted p \<and> gateways_table_state (gs_local s') = t"
proof -
  have st: "tp_state (gateways_table columns r page) = gateways_table_state r"
    "tp_columns (gateways_table columns r page) = columns"
    "tp_page_sizes (gateways_table columns r page) = gatewayListPageSizes"
    by (simp_all add: gateways_table_def)
  have t: "ts_sort_column t \<in> range gateway_sort_field_str \<and> 1 \<le> ts_page t \<and> ts_page t \<le> max_safe_integer \<and>
      ts_page_size t \<in> set gatewayListPageSizes"
  proof (cases ev)
    case (SortColumn i d)
    then have i: "i < length columns" "tc_sortable (columns ! i) \<noteq> Some False"
      using assms(3) by (auto simp: st column_sort_def split: if_splits)
    from sortable_column [OF nth_mem [OF i(1) [unfolded assms(2)]] i(2) [unfolded assms(2)]]
    obtain f where "gateway_sort_field_str f = tc_id (columns ! i)" using sort_field_str_of assms(2) by blast
    then have "tc_id (columns ! i) \<in> range gateway_sort_field_str" by (metis rangeI)
    then show ?thesis
      using assms(1,4) i(1) by (auto simp: SortColumn st onSort_def valid_list_request_def gateways_table_state_def
          max_safe_integer_def)
  qed (use assms(1,3,4) in \<open>auto simp: st clearFilter_def gateways_table_def valid_list_request_def
      gateways_table_state_def max_safe_integer_def split: if_splits\<close>)
  then have valid: "valid_list_request (next_collection_state t)"
    by (simp add: valid_list_request_def next_collection_state_def)
  from t table_state_next_valid have "gateways_table_state (next_collection_state t) = t" by blast
  with valid show ?thesis
    by (simp add: changeTableState_def read_serialized)
qed

lemma table_event_survives_the_url_witness:
  "let r = defaultGatewayListRequest;
       columns = gateways_columns (\<lambda>i. i) (\<lambda>s. NaN) (\<lambda>t. []) show_int False Map.empty;
       p = \<lparr>gs_collection = Some r, gs_deleted_name = None, gs_gateways = None, gs_hosted = True\<rparr>
   in \<exists>t. table_handle (gateways_table columns r None) (SortColumn 5 Desc) = StateChange t SortReason \<and>
        gateways_table_state (parseGatewayListState (serializeGatewayListState (next_collection_state t))) = t"
proof -
  let ?r = "defaultGatewayListRequest"
  let ?columns = "gateways_columns (\<lambda>i. i) (\<lambda>s. NaN) (\<lambda>t. []) show_int False Map.empty"
  let ?p = "\<lparr>gs_collection = Some ?r, gs_deleted_name = None, gs_gateways = None, gs_hosted = True\<rparr>"
  let ?t = "(gateways_table_state ?r)\<lparr>ts_page := 1, ts_sort_column := ''owner'', ts_sort_direction := Desc\<rparr>"
  have valid: "valid_list_request ?r"
    by (simp add: valid_list_request_def defaultGatewayListRequest_def gatewayListPageSizes_def max_safe_integer_def)
  have ok: "gateways_event_ok (gateways_table ?columns ?r None) (SortColumn 5 Desc)"
    by (simp add: gateways_table_def gateways_columns_def column_sort_def)
  have change: "table_handle (gateways_table ?columns ?r None) (SortColumn 5 Desc) = StateChange ?t SortReason"
    by (simp add: gateways_table_def gateways_columns_def onSort_def)
  note result = table_event_survives_the_url [OF valid refl ok change, of ?p gateways_init,
    unfolded changeTableState_def gateways_props.simps if_True prod.case option.case]
  with change show ?thesis unfolding Let_def by blast
qed

section \<open>Across the cluster field and the creation form\<close>


section \<open>Across the trace sink and the browser client\<close>

lemma traceparent_parts:
  assumes "length tid = 32" "length sid = 16" "flags \<in> {''00'', ''01''}"
  defines "t \<equiv> ''00-'' @ tid @ ''-'' @ sid @ ''-'' @ flags"
  shows "length t = 55" "take 3 t = ''00-''" "take 32 (drop 3 t) = tid" "take 1 (drop 35 t) = ''-''"
    "take 16 (drop 36 t) = sid" "drop 52 t = ''-'' @ flags"
  using assms by (auto simp: t_def numeral_eq_Suc)

text \<open>
  The trace context the console propagates is one the client accepts: with identifiers as the
  tracer makes them (lower-case hexadecimal of the full length, not all zeros), the header the trace
  sink renders passes the client's check, so tracing never turns a request into an invalid input.
\<close>

lemma propagated_context_is_accepted:
  assumes "traceParentFor context_of valid c st = Some tc"
    and "\<And>sc. valid sc \<Longrightarrow> length (sc_trace_id sc) = 32 \<and> length (sc_span_id sc) = 16 \<and>
      list_all lower_hex (sc_trace_id sc @ sc_span_id sc) \<and>
      sc_trace_id sc \<noteq> replicate 32 (CHR ''0'') \<and> sc_span_id sc \<noteq> replicate 16 (CHR ''0'')"
  shows "check_options (Options [(''traceparent'', Option_text (tc_traceparent tc))]) = Inr (Some (tc_traceparent tc))"
proof -
  obtain e span where v: "valid (context_of span)"
    and t: "tc_traceparent tc = ''00-'' @ sc_trace_id (context_of span) @ ''-'' @ sc_span_id (context_of span) @ ''-'' @
       (if sampled (sc_trace_flags (context_of span)) then ''01'' else ''00'')"
    by (rule traceParentFor_Some [OF assms(1)]) blast
  let ?flags = "if sampled (sc_trace_flags (context_of span)) then ''01'' else ''00''"
  have "?flags \<in> {''00'', ''01''}" by simp
  from traceparent_parts [OF _ _ this, of "sc_trace_id (context_of span)" "sc_span_id (context_of span)"] assms(2) [OF v]
  have "valid_traceparent (tc_traceparent tc)"
    unfolding valid_traceparent_def t by auto
  then show ?thesis by (simp add: check_options_def)
qed

lemma propagated_context_is_accepted_witness:
  "check_options (Options [(''traceparent'', Option_text (''00-'' @ replicate 32 (CHR ''a'') @ ''-'' @ replicate 16 (CHR ''b'') @ ''-01''))])
     = Inr (Some (''00-'' @ replicate 32 (CHR ''a'') @ ''-'' @ replicate 16 (CHR ''b'') @ ''-01''))"
proof -
  let ?sc = "\<lparr>sc_trace_id = replicate 32 (CHR ''a''), sc_span_id = replicate 16 (CHR ''b''),
    sc_trace_flags = 1, sc_trace_state = None\<rparr>"
  let ?st = "trace_init\<lparr>tr_spans := [''c'' \<mapsto> \<lparr>en_workflow = 0, en_dependency = None\<rparr>]\<rparr>"
  let ?tc = "\<lparr>tc_traceparent = ''00-'' @ replicate 32 (CHR ''a'') @ ''-'' @ replicate 16 (CHR ''b'') @ ''-01'',
    tc_tracestate = None\<rparr>"
  have "traceParentFor (\<lambda>n. ?sc) (\<lambda>sc. sc = ?sc) ''c'' ?st = Some ?tc"
    by (simp add: traceParentFor_def sampled_def)
  from propagated_context_is_accepted [OF this] show ?thesis
    by (auto simp: lower_hex_def is_digit_def code_unit_def numeral_eq_Suc)
qed

end
